(* ===== verification/Prelude.thy ===== *)
theory Prelude
  imports Main "HOL-Library.AList" "HOL-Library.Sublist"
begin

text \<open>
  What the components share: Rust's \<open>Result\<close> and its combinators, \<open>HashMap\<close>s,
  and the operations of the Rust standard library on strings.

  A Rust \<open>Result<T, E>\<close> is \<open>'e + 'a\<close> with \<open>Inl\<close> the error.  A \<open>HashMap\<close> is the list
  of its entries in iteration order (the order is arbitrary, so every statement holds for
  every order); a lookup is \<open>map_of\<close>, an insertion is \<open>AList.update\<close>.  A Rust string
  is the list of its UTF-8 bytes.
\<close>

section \<open>Collections of facts\<close>

named_theorems result_simps \<open>inversion of \<open>rbind\<close>, \<open>ok_or\<close>, \<open>map_err\<close> and \<open>rmapM\<close>\<close>
named_theorems codec_simps \<open>decoders applied to encoded values\<close>
named_theorems sql_simps \<open>the SQL operations on the tables of a database\<close>

section \<open>Results\<close>

definition rbind :: "'e + 'a \<Rightarrow> ('a \<Rightarrow> 'e + 'b) \<Rightarrow> 'e + 'b" where
  "rbind m f = (case m of Inl e \<Rightarrow> Inl e | Inr a \<Rightarrow> f a)"

definition ok_or :: "'e \<Rightarrow> 'a option \<Rightarrow> 'e + 'a" where
  "ok_or e x = (case x of None \<Rightarrow> Inl e | Some a \<Rightarrow> Inr a)"

definition map_err :: "('e \<Rightarrow> 'f) \<Rightarrow> 'e + 'a \<Rightarrow> 'f + 'a" where
  "map_err f m = (case m of Inl e \<Rightarrow> Inl (f e) | Inr a \<Rightarrow> Inr a)"

definition is_ok :: "'e + 'a \<Rightarrow> bool" where
  "is_ok m = (case m of Inl _ \<Rightarrow> False | Inr _ \<Rightarrow> True)"

text \<open>\<open>iter().map(f).collect::<Result<Vec<_>, _>>()\<close>: the first error, or all the results.\<close>

fun rmapM :: "('a \<Rightarrow> 'e + 'b) \<Rightarrow> 'a list \<Rightarrow> 'e + 'b list" where
  "rmapM f [] = Inr []"
| "rmapM f (x # xs) = rbind (f x) (\<lambda>y. rbind (rmapM f xs) (\<lambda>ys. Inr (y # ys)))"

lemma rbind_simps [simp]:
  "rbind (Inl e) f = Inl e"
  "rbind (Inr a) f = f a"
  by (simp_all add: rbind_def)

lemma ok_or_simps [simp]:
  "ok_or e None = Inl e"
  "ok_or e (Some a) = Inr a"
  by (simp_all add: ok_or_def)

lemma map_err_simps [simp]:
  "map_err f (Inl e) = Inl (f e)"
  "map_err f (Inr a) = Inr a"
  by (simp_all add: map_err_def)

lemma is_ok_simps [simp]:
  "\<not> is_ok (Inl e)"
  "is_ok (Inr a)"
  by (simp_all add: is_ok_def)

lemma is_ok_iff: "is_ok m \<longleftrightarrow> (\<exists>a. m = Inr a)"
  by (cases m) auto

lemma rbind_eq_Inr [result_simps]: "rbind m f = Inr b \<longleftrightarrow> (\<exists>a. m = Inr a \<and> f a = Inr b)"
  by (cases m) auto

lemma rbind_eq_Inl [result_simps]:
  "rbind m f = Inl e \<longleftrightarrow> m = Inl e \<or> (\<exists>a. m = Inr a \<and> f a = Inl e)"
  by (cases m) auto

lemma ok_or_eq_Inr [result_simps]: "ok_or e x = Inr a \<longleftrightarrow> x = Some a"
  by (cases x) auto

lemma ok_or_eq_Inl [result_simps]: "ok_or e x = Inl e' \<longleftrightarrow> x = None \<and> e' = e"
  by (cases x) auto

lemma map_err_eq_Inr [result_simps]: "map_err f m = Inr a \<longleftrightarrow> m = Inr a"
  by (cases m) auto

lemma map_err_eq_Inl [result_simps]: "map_err f m = Inl e \<longleftrightarrow> (\<exists>d. m = Inl d \<and> e = f d)"
  by (cases m) auto

lemma rbind_cong [fundef_cong]:
  "m = m' \<Longrightarrow> (\<And>a. m' = Inr a \<Longrightarrow> f a = g a) \<Longrightarrow> rbind m f = rbind m' g"
  by (cases m') auto

lemma rmapM_eq_Inr [result_simps]: "rmapM f xs = Inr ys \<longleftrightarrow> map f xs = map Inr ys"
proof (induction xs arbitrary: ys)
  case (Cons x xs)
  then show ?case
    by (cases ys) (auto simp: rbind_eq_Inr)
qed auto

lemma rmapM_map: "(\<And>x. x \<in> set xs \<Longrightarrow> f x = Inr (g x)) \<Longrightarrow> rmapM f xs = Inr (map g xs)"
  by (simp add: rmapM_eq_Inr)

lemma rmapM_eq_Inl [result_simps]:
  "rmapM f xs = Inl e \<longleftrightarrow>
     (\<exists>ys x zs. xs = ys @ x # zs \<and> (\<forall>y \<in> set ys. is_ok (f y)) \<and> f x = Inl e)"
proof (induction xs)
  case (Cons a xs)
  show ?case (is "_ \<longleftrightarrow> ?rhs")
  proof (cases "f a")
    case (Inl d)
    have "?rhs \<longleftrightarrow> d = e"
    proof
      assume ?rhs
      then obtain ys x zs where "a # xs = ys @ x # zs" "\<forall>y \<in> set ys. is_ok (f y)" "f x = Inl e"
        by blast
      then show "d = e" using Inl by (cases ys) auto
    next
      assume "d = e"
      then have "a # xs = [] @ a # xs \<and> (\<forall>y \<in> set []. is_ok (f y)) \<and> f a = Inl e"
        using Inl by simp
      then show ?rhs by blast
    qed
    then show ?thesis using Inl by simp
  next
    case (Inr b)
    have "?rhs \<longleftrightarrow> (\<exists>ys x zs. xs = ys @ x # zs \<and> (\<forall>y \<in> set ys. is_ok (f y)) \<and> f x = Inl e)"
      (is "_ \<longleftrightarrow> ?tail")
    proof
      assume ?rhs
      then obtain ys x zs where s: "a # xs = ys @ x # zs" "\<forall>y \<in> set ys. is_ok (f y)" "f x = Inl e"
        by blast
      then obtain ys' where "ys = a # ys'" using Inr by (cases ys) auto
      with s show ?tail by auto
    next
      assume ?tail
      then obtain ys x zs where "xs = ys @ x # zs" "\<forall>y \<in> set ys. is_ok (f y)" "f x = Inl e"
        by blast
      then have "a # xs = (a # ys) @ x # zs \<and> (\<forall>y \<in> set (a # ys). is_ok (f y)) \<and> f x = Inl e"
        using Inr by simp
      then show ?rhs by blast
    qed
    then show ?thesis using Inr Cons by (simp add: rbind_eq_Inl)
  qed
qed simp

lemma is_ok_rbind_Inr [simp]: "is_ok (rbind m (\<lambda>x. Inr (g x))) = is_ok m"
  by (cases m) simp_all

lemma is_ok_ok_or [simp]: "is_ok (ok_or e x) \<longleftrightarrow> x \<noteq> None"
  by (cases x) simp_all

lemma is_ok_map_err [simp]: "is_ok (map_err f m) = is_ok m"
  by (cases m) simp_all

lemma is_ok_rmapM [simp]: "is_ok (rmapM f xs) \<longleftrightarrow> (\<forall>x \<in> set xs. is_ok (f x))"
proof (induction xs)
  case (Cons x xs)
  then show ?case by (cases "f x") simp_all
qed simp

section \<open>Results with state\<close>

text \<open>
  A computation that reads and changes a state and may fail; what it changed before failing stays
  changed.  \<open>sbind\<close> is sequencing with \<open>?\<close>, \<open>slift\<close> a computation that leaves the state alone.
\<close>

definition sbind :: "('s \<Rightarrow> ('e + 'a) \<times> 's) \<Rightarrow> ('a \<Rightarrow> 's \<Rightarrow> ('e + 'b) \<times> 's) \<Rightarrow> 's \<Rightarrow> ('e + 'b) \<times> 's" where
  "sbind m f s = (case m s of (Inl e, s') \<Rightarrow> (Inl e, s') | (Inr a, s') \<Rightarrow> f a s')"

definition slift :: "('s \<Rightarrow> 'e + 'a) \<Rightarrow> 's \<Rightarrow> ('e + 'a) \<times> 's" where
  "slift f s = (f s, s)"

definition smap_err :: "('e \<Rightarrow> 'f) \<Rightarrow> ('s \<Rightarrow> ('e + 'a) \<times> 's) \<Rightarrow> 's \<Rightarrow> ('f + 'a) \<times> 's" where
  "smap_err f m s = (case m s of (r, s') \<Rightarrow> (map_err f r, s'))"

lemma sbind_Pair:
  "m s = (Inl e, s') \<Longrightarrow> sbind m f s = (Inl e, s')"
  "m s = (Inr a, s') \<Longrightarrow> sbind m f s = f a s'"
  by (simp_all add: sbind_def)

lemma sbind_slift:
  "sbind (slift g) f s = (case g s of Inl e \<Rightarrow> (Inl e, s) | Inr a \<Rightarrow> f a s)"
  by (simp add: sbind_def slift_def split: sum.splits)

lemma sbind_eq_Inr [result_simps]:
  "sbind m f s = (Inr b, s'') \<longleftrightarrow> (\<exists>a s'. m s = (Inr a, s') \<and> f a s' = (Inr b, s''))"
  by (auto simp: sbind_def split: prod.splits sum.splits)

lemma sbind_eq_Inl [result_simps]:
  "sbind m f s = (Inl e, s'') \<longleftrightarrow>
     m s = (Inl e, s'') \<or> (\<exists>a s'. m s = (Inr a, s') \<and> f a s' = (Inl e, s''))"
  by (auto simp: sbind_def split: prod.splits sum.splits)

lemma slift_eq [result_simps]: "slift f s = (r, s') \<longleftrightarrow> f s = r \<and> s' = s"
  by (auto simp: slift_def)

lemma smap_err_eq_Inr [result_simps]: "smap_err f m s = (Inr a, s') \<longleftrightarrow> m s = (Inr a, s')"
  by (auto simp: smap_err_def result_simps split: prod.splits)

lemma smap_err_eq_Inl [result_simps]: "smap_err f m s = (Inl e, s') \<longleftrightarrow> (\<exists>d. m s = (Inl d, s') \<and> e = f d)"
  by (auto simp: smap_err_def result_simps split: prod.splits)

text \<open>What every step keeps, the sequence keeps.\<close>

lemma snd_sbind_keeps:
  "P (snd (m s)) \<Longrightarrow> (\<And>a s'. m s = (Inr a, s') \<Longrightarrow> P (snd (f a s'))) \<Longrightarrow> P (snd (sbind m f s))"
  by (auto simp: sbind_def split: prod.splits sum.splits)

lemma snd_slift [simp]: "snd (slift f s) = s"
  by (simp add: slift_def)

lemma snd_smap_err [simp]: "snd (smap_err f m s) = snd (m s)"
  by (simp add: smap_err_def split: prod.splits)

section \<open>Lists\<close>

lemma find_first: "(\<forall>y \<in> set pre. \<not> p y) \<Longrightarrow> p x \<Longrightarrow> find p (pre @ x # post) = Some x"
  by (induction pre) auto

lemma find_Some_split:
  "find p xs = Some x \<longleftrightarrow> (\<exists>pre post. xs = pre @ x # post \<and> (\<forall>y \<in> set pre. \<not> p y) \<and> p x)"
proof
  assume f: "find p xs = Some x"
  then have "\<exists>y \<in> set xs. p y" by (auto simp: find_Some_iff)
  then obtain pre y post where s: "xs = pre @ y # post" "p y" "\<forall>z \<in> set pre. \<not> p z"
    using split_list_first_prop by metis
  with f have "y = x" using find_first [of pre p y post] by simp
  with s show "\<exists>pre post. xs = pre @ x # post \<and> (\<forall>y \<in> set pre. \<not> p y) \<and> p x" by blast
qed (auto intro: find_first)

section \<open>Hash maps\<close>

type_synonym 'v hmap = "(string \<times> 'v) list"

abbreviation hget :: "'v hmap \<Rightarrow> string \<Rightarrow> 'v option" where
  "hget m k \<equiv> map_of m k"

abbreviation hinsert :: "string \<Rightarrow> 'v \<Rightarrow> 'v hmap \<Rightarrow> 'v hmap" where
  "hinsert k v m \<equiv> AList.update k v m"

abbreviation hremove :: "string \<Rightarrow> 'v hmap \<Rightarrow> 'v hmap" where
  "hremove k m \<equiv> AList.delete k m"

definition contains_key :: "'v hmap \<Rightarrow> string \<Rightarrow> bool" where
  "contains_key m k = (map_of m k \<noteq> None)"

lemma contains_key_iff: "contains_key m k \<longleftrightarrow> k \<in> fst ` set m"
  by (simp add: contains_key_def map_of_eq_None_iff)

lemma hget_hinsert [simp]: "hget (hinsert k v m) k' = (if k' = k then Some v else hget m k')"
  by (simp add: update_conv')

lemma hget_hremove [simp]: "hget (hremove k m) k' = (if k' = k then None else hget m k')"
  by (simp add: delete_conv')

text \<open>Inserting all the entries of a list, in order (\<open>extend\<close>, or a loop of \<open>insert\<close>s).\<close>

definition hextend :: "'v hmap \<Rightarrow> 'v hmap \<Rightarrow> 'v hmap" where
  "hextend m es = fold (\<lambda>(k, v). hinsert k v) es m"

lemma hextend_simps [simp]:
  "hextend m [] = m"
  "hextend m (e # es) = hextend (hinsert (fst e) (snd e) m) es"
  by (simp_all add: hextend_def split: prod.splits)

lemma hget_hextend_notin: "k \<notin> fst ` set es \<Longrightarrow> hget (hextend m es) k = hget m k"
  by (induction es arbitrary: m) auto

lemma hget_hextend:
  "distinct (map fst es) \<Longrightarrow>
   hget (hextend m es) k = (case map_of es k of None \<Rightarrow> hget m k | Some v \<Rightarrow> Some v)"
proof (induction es arbitrary: m)
  case (Cons e es)
  show ?case
  proof (cases "fst e = k")
    case True
    with Cons.prems have "k \<notin> fst ` set es" by auto
    then show ?thesis using True by (cases e) (simp add: hget_hextend_notin)
  next
    case False
    with Cons show ?thesis by (cases e) (auto split: option.splits)
  qed
qed simp

lemma hinsert_new: "k \<notin> fst ` set m \<Longrightarrow> hinsert k v m = m @ [(k, v)]"
  by (induction m) auto

lemma hextend_new: "distinct (map fst (m @ es)) \<Longrightarrow> hextend m es = m @ es"
proof (induction es arbitrary: m)
  case (Cons e es)
  then show ?case
    using Cons.IH [of "m @ [e]"] by (cases e) (simp add: hinsert_new)
qed simp

lemma hextend_distinct: "distinct (map fst es) \<Longrightarrow> hextend [] es = es"
  by (simp add: hextend_new)

lemma hremove_absent: "k \<notin> fst ` set m \<Longrightarrow> hremove k m = m"
  by (induction m) auto

end
