(* ===== verification/Rust_Strings.thy ===== *)
theory Rust_Strings
  imports Prelude
begin

text \<open>
  The string operations of the Rust standard library that the program uses, on strings
  as lists of UTF-8 bytes: \<open>strip_prefix\<close>, \<open>split\<close>, \<open>join\<close>, \<open>trim\<close> (the Unicode
  White\_Space property, each character as its encoding), \<open>from_utf8\<close>,
  \<open>eq_ignore_ascii_case\<close> and the decimal formatting of integers.
\<close>

section \<open>Formatting\<close>

definition quoted :: "string \<Rightarrow> string" where
  "quoted s = CHR 0x27 # s @ [CHR 0x27]"

definition digit_char :: "nat \<Rightarrow> char" where
  "digit_char d = char_of (48 + d)"

fun show_nat :: "nat \<Rightarrow> string" where
  "show_nat n = (if n < 10 then [digit_char n] else show_nat (n div 10) @ [digit_char (n mod 10)])"

declare show_nat.simps [simp del]

definition show_int :: "int \<Rightarrow> string" where
  "show_int i = (if i < 0 then CHR ''-'' # show_nat (nat (- i)) else show_nat (nat i))"

section \<open>Prefixes, splitting and joining\<close>

definition strip_prefix :: "string \<Rightarrow> string \<Rightarrow> string option" where
  "strip_prefix p s = (if prefix p s then Some (drop (length p) s) else None)"

lemma strip_prefix_append [simp]: "strip_prefix p (p @ s) = Some s"
  by (simp add: strip_prefix_def)

lemma strip_prefix_eq_Some: "strip_prefix p s = Some t \<longleftrightarrow> s = p @ t"
  by (auto simp: strip_prefix_def prefix_def)

text \<open>\<open>s.split(c)\<close>: the pieces between the occurrences of \<open>c\<close> (one piece when there is none).\<close>

fun split_at :: "char \<Rightarrow> string \<Rightarrow> string list" where
  "split_at c [] = [[]]"
| "split_at c (x # xs) =
     (if x = c then [] # split_at c xs
      else case split_at c xs of [] \<Rightarrow> [[x]] | p # ps \<Rightarrow> (x # p) # ps)"

fun join_with :: "string \<Rightarrow> string list \<Rightarrow> string" where
  "join_with sep [] = []"
| "join_with sep [p] = p"
| "join_with sep (p # q # ps) = p @ sep @ join_with sep (q # ps)"

lemma split_at_nonempty [simp]: "split_at c s \<noteq> []"
  by (induction s) (auto split: list.splits)

lemma split_at_append:
  "c \<notin> set p \<Longrightarrow> split_at c (p @ c # s) = p # split_at c s"
  by (induction p) (auto split: list.splits)

lemma split_at_none: "c \<notin> set p \<Longrightarrow> split_at c p = [p]"
  by (induction p) auto

lemma split_at_join_with:
  "ps \<noteq> [] \<Longrightarrow> (\<forall>p \<in> set ps. c \<notin> set p) \<Longrightarrow> split_at c (join_with [c] ps) = ps"
proof (induction ps)
  case (Cons p ps)
  then show ?case
    by (cases ps) (simp_all add: split_at_none split_at_append)
qed simp

lemma join_with_split_at: "join_with [c] (split_at c s) = s"
proof (induction s)
  case (Cons x s)
  obtain p ps where "split_at c s = p # ps"
    by (cases "split_at c s") simp_all
  with Cons show ?case by (cases ps) auto
qed simp

section \<open>ASCII case\<close>

definition ascii_lower :: "char \<Rightarrow> char" where
  "ascii_lower c =
     (let n = of_char c :: nat in if 65 \<le> n \<and> n \<le> 90 then char_of (n + 32) else c)"

definition to_ascii_lowercase :: "string \<Rightarrow> string" where
  "to_ascii_lowercase s = map ascii_lower s"

definition eq_ignore_ascii_case :: "string \<Rightarrow> string \<Rightarrow> bool" where
  "eq_ignore_ascii_case s t = (to_ascii_lowercase s = to_ascii_lowercase t)"

text \<open>\<open>HeaderValue::to_str\<close> succeeds on visible ASCII and horizontal tabs only.\<close>

definition visible_ascii :: "char \<Rightarrow> bool" where
  "visible_ascii c = (let n = of_char c :: nat in n = 9 \<or> (32 \<le> n \<and> n < 127))"

definition header_to_str :: "string \<Rightarrow> string option" where
  "header_to_str v = (if list_all visible_ascii v then Some v else None)"

section \<open>Trimming white space\<close>

text \<open>The UTF-8 encodings of the 25 characters with the Unicode property White\_Space.\<close>

definition white_space :: "string list" where
  "white_space =
    [[CHR 0x09], [CHR 0x0A], [CHR 0x0B], [CHR 0x0C], [CHR 0x0D], [CHR 0x20],
     [CHR 0xC2, CHR 0x85], [CHR 0xC2, CHR 0xA0], [CHR 0xE1, CHR 0x9A, CHR 0x80],
     [CHR 0xE2, CHR 0x80, CHR 0x80], [CHR 0xE2, CHR 0x80, CHR 0x81],
     [CHR 0xE2, CHR 0x80, CHR 0x82], [CHR 0xE2, CHR 0x80, CHR 0x83],
     [CHR 0xE2, CHR 0x80, CHR 0x84], [CHR 0xE2, CHR 0x80, CHR 0x85],
     [CHR 0xE2, CHR 0x80, CHR 0x86], [CHR 0xE2, CHR 0x80, CHR 0x87],
     [CHR 0xE2, CHR 0x80, CHR 0x88], [CHR 0xE2, CHR 0x80, CHR 0x89],
     [CHR 0xE2, CHR 0x80, CHR 0x8A], [CHR 0xE2, CHR 0x80, CHR 0xA8],
     [CHR 0xE2, CHR 0x80, CHR 0xA9], [CHR 0xE2, CHR 0x80, CHR 0xAF],
     [CHR 0xE2, CHR 0x81, CHR 0x9F], [CHR 0xE3, CHR 0x80, CHR 0x80]]"

function strip_any :: "string list \<Rightarrow> string \<Rightarrow> string" where
  "strip_any ws s =
     (case find (\<lambda>w. w \<noteq> [] \<and> prefix w s) ws of
        None \<Rightarrow> s
      | Some w \<Rightarrow> strip_any ws (drop (length w) s))"
  by pat_completeness auto
termination
  by (relation "measure (\<lambda>(ws, s). length s)") (auto simp: find_Some_iff prefix_def)

declare strip_any.simps [simp del]

definition trim_start :: "string \<Rightarrow> string" where
  "trim_start s = strip_any white_space s"

definition trim_end :: "string \<Rightarrow> string" where
  "trim_end s = rev (strip_any (map rev white_space) (rev s))"

definition trim :: "string \<Rightarrow> string" where
  "trim s = trim_end (trim_start s)"

text \<open>A blank string is a sequence of white-space characters.\<close>

definition blank :: "string \<Rightarrow> bool" where
  "blank s \<longleftrightarrow> (\<exists>ws. set ws \<subseteq> set white_space \<and> s = concat ws)"

lemma strip_any_suffix: "\<exists>ts. set ts \<subseteq> set ws \<and> s = concat ts @ strip_any ws s"
proof (induction ws s rule: strip_any.induct)
  case (1 ws s)
  show ?case
  proof (cases "find (\<lambda>w. w \<noteq> [] \<and> prefix w s) ws")
    case None
    then have "s = concat [] @ strip_any ws s"
      by (subst strip_any.simps) simp
    then show ?thesis by (metis empty_subsetI empty_set)
  next
    case (Some w)
    then have w: "w \<in> set ws" "prefix w s"
      by (auto simp: find_Some_iff)
    obtain ts where ts: "set ts \<subseteq> set ws" "drop (length w) s = concat ts @ strip_any ws (drop (length w) s)"
      using 1 [OF Some] by blast
    have "s = w @ drop (length w) s"
      using w(2) by (auto simp: prefix_def)
    moreover have "strip_any ws s = strip_any ws (drop (length w) s)"
      using Some by (subst strip_any.simps) simp
    ultimately have "s = concat (w # ts) @ strip_any ws s"
      using ts(2) by simp
    moreover have "set (w # ts) \<subseteq> set ws"
      using w(1) ts(1) by simp
    ultimately show ?thesis by blast
  qed
qed

lemma strip_any_Nil [simp]: "strip_any ws [] = []"
proof -
  have "find (\<lambda>w. w \<noteq> [] \<and> prefix w []) ws = None"
    by (auto simp: find_None_iff)
  then show ?thesis by (subst strip_any.simps) simp
qed

lemma strip_any_concat:
  assumes free: "\<And>v w. v \<in> set ws \<Longrightarrow> w \<in> set ws \<Longrightarrow> prefix v w \<Longrightarrow> v = w"
    and ne: "[] \<notin> set ws"
  shows "set ts \<subseteq> set ws \<Longrightarrow> strip_any ws (concat ts) = []"
proof (induction ts)
  case Nil
  show ?case by simp
next
  case (Cons t ts)
  then have t: "t \<in> set ws" by simp
  let ?p = "\<lambda>w. w \<noteq> [] \<and> prefix w (concat (t # ts))"
  have "find ?p ws \<noteq> None"
    using t ne by (auto simp: find_None_iff)
  then obtain w where w: "find ?p ws = Some w" by auto
  then have "w \<in> set ws" and p: "prefix w (t @ concat ts)"
    by (auto simp: find_Some_iff)
  from p have "prefix w t \<or> prefix t w"
    by (meson prefix_same_cases prefixI)
  then have "w = t"
    using free t \<open>w \<in> set ws\<close> by blast
  then show ?case
    using w Cons by (subst strip_any.simps) simp
qed

lemma white_space_prefix_free:
  "v \<in> set white_space \<Longrightarrow> w \<in> set white_space \<Longrightarrow> prefix v w \<Longrightarrow> v = w"
proof -
  have "list_all (\<lambda>v. list_all (\<lambda>w. prefix v w \<longrightarrow> v = w) white_space) white_space"
    by code_simp
  then show "v \<in> set white_space \<Longrightarrow> w \<in> set white_space \<Longrightarrow> prefix v w \<Longrightarrow> v = w"
    by (simp add: list_all_iff)
qed

lemma white_space_nonempty: "[] \<notin> set white_space"
  by (simp add: white_space_def)

lemma trim_start_eq_Nil: "trim_start s = [] \<longleftrightarrow> blank s"
proof
  assume "trim_start s = []"
  then show "blank s"
    using strip_any_suffix [of white_space s] by (auto simp: trim_start_def blank_def)
next
  assume "blank s"
  then show "trim_start s = []"
    using strip_any_concat [OF white_space_prefix_free white_space_nonempty]
    by (auto simp: trim_start_def blank_def)
qed

lemma strip_any_idem: "strip_any ws (strip_any ws s) = strip_any ws s"
proof (induction ws s rule: strip_any.induct)
  case (1 ws s)
  show ?case
  proof (cases "find (\<lambda>w. w \<noteq> [] \<and> prefix w s) ws")
    case None
    then have "strip_any ws s = s" by (subst strip_any.simps) simp
    then show ?thesis by simp
  next
    case (Some w)
    then have "strip_any ws s = strip_any ws (drop (length w) s)"
      by (subst strip_any.simps) simp
    then show ?thesis using 1 [OF Some] by simp
  qed
qed

lemma trim_start_idem_blank: "blank (trim_start s) \<Longrightarrow> trim_start s = []"
  by (metis strip_any_idem trim_start_def trim_start_eq_Nil)

theorem trim_eq_Nil: "trim s = [] \<longleftrightarrow> blank s"
proof
  assume "trim s = []"
  then obtain ts where ts: "set ts \<subseteq> set (map rev white_space)" "rev (trim_start s) = concat ts"
    using strip_any_suffix [of "map rev white_space" "rev (trim_start s)"]
    by (auto simp: trim_def trim_end_def)
  have "trim_start s = concat (map rev (rev ts))"
    using ts(2) by (metis rev_concat rev_map rev_rev_ident)
  moreover have "set (map rev (rev ts)) \<subseteq> set white_space"
    using ts(1) by auto
  ultimately have "blank (trim_start s)"
    unfolding blank_def by blast
  then show "blank s"
    using trim_start_idem_blank trim_start_eq_Nil by blast
next
  assume "blank s"
  then have "trim_start s = []" by (simp add: trim_start_eq_Nil)
  then show "trim s = []"
    by (simp add: trim_def trim_end_def)
qed

section \<open>UTF-8 validity\<close>

text \<open>\<open>String::from_utf8\<close> accepts exactly the well-formed sequences of RFC 3629.\<close>

definition cont_byte :: "char \<Rightarrow> bool" where
  "cont_byte c = (let n = of_char c :: nat in 128 \<le> n \<and> n < 192)"

fun utf8_valid :: "string \<Rightarrow> bool" where
  "utf8_valid [] = True"
| "utf8_valid (a # s) =
     (let n = of_char a :: nat in
      if n < 128 then utf8_valid s
      else if 194 \<le> n \<and> n < 224 then
        (case s of b # t \<Rightarrow> cont_byte b \<and> utf8_valid t | _ \<Rightarrow> False)
      else if 224 \<le> n \<and> n < 240 then
        (case s of b # c # t \<Rightarrow>
            cont_byte b \<and> cont_byte c
            \<and> (n = 224 \<longrightarrow> 160 \<le> (of_char b :: nat)) \<and> (n = 237 \<longrightarrow> (of_char b :: nat) < 160)
            \<and> utf8_valid t
         | _ \<Rightarrow> False)
      else if 240 \<le> n \<and> n < 245 then
        (case s of b # c # d # t \<Rightarrow>
            cont_byte b \<and> cont_byte c \<and> cont_byte d
            \<and> (n = 240 \<longrightarrow> 144 \<le> (of_char b :: nat)) \<and> (n = 244 \<longrightarrow> (of_char b :: nat) < 144)
            \<and> utf8_valid t
         | _ \<Rightarrow> False)
      else False)"

definition from_utf8 :: "string \<Rightarrow> string option" where
  "from_utf8 b = (if utf8_valid b then Some b else None)"

end
