(* ===== verification/Json.thy ===== *)
theory Json
  imports Rust_Strings "HOL-Library.Word"
begin

text \<open>
  JSON documents, as \<open>serde_json::Value\<close> has them, with its accessors; the JSONB operators
  of the SQL statements of the metadata store; and the decoders and encoders that
  \<open>derive(Serialize, Deserialize)\<close> gives for structs, enums, options, vectors and maps, from
  which the codecs of the API types are put together.
\<close>

section \<open>Documents\<close>

datatype json_number = PosInt "64 word" | NegInt "64 word" | Float "64 word"

datatype json =
    JNull
  | JBool bool
  | JNumber json_number
  | JString string
  | JArray "json list"
  | JObject "(string \<times> json) list"

fun json_get :: "json \<Rightarrow> string \<Rightarrow> json option" where
  "json_get (JObject m) k = map_of m k"
| "json_get _ k = None"

fun as_str :: "json \<Rightarrow> string option" where
  "as_str (JString s) = Some s"
| "as_str _ = None"

fun as_bool :: "json \<Rightarrow> bool option" where
  "as_bool (JBool b) = Some b"
| "as_bool _ = None"

fun as_array :: "json \<Rightarrow> json list option" where
  "as_array (JArray xs) = Some xs"
| "as_array _ = None"

fun as_object :: "json \<Rightarrow> (string \<times> json) list option" where
  "as_object (JObject m) = Some m"
| "as_object _ = None"

fun as_i64 :: "json \<Rightarrow> int option" where
  "as_i64 (JNumber (PosInt n)) = (if unat n < 2 ^ 63 then Some (uint n) else None)"
| "as_i64 (JNumber (NegInt n)) = Some (sint n)"
| "as_i64 _ = None"

fun as_u64 :: "json \<Rightarrow> nat option" where
  "as_u64 (JNumber (PosInt n)) = Some (unat n)"
| "as_u64 _ = None"

section \<open>JSONB operators of PostgreSQL\<close>

text \<open>
  \<open>doc->'k'\<close> is \<open>json_get\<close>.  \<open>doc->>'k'\<close> reads a member as text: a string is its own text,
  a JSON null is SQL NULL, and any other value is rendered by the server (\<open>txt\<close>).
\<close>

fun jsonb_text_of :: "(json \<Rightarrow> string) \<Rightarrow> json \<Rightarrow> string option" where
  "jsonb_text_of txt (JString s) = Some s"
| "jsonb_text_of txt JNull = None"
| "jsonb_text_of txt v = Some (txt v)"

definition jsonb_path_text :: "(json \<Rightarrow> string) \<Rightarrow> string \<Rightarrow> string \<Rightarrow> json \<Rightarrow> string option" where
  "jsonb_path_text txt k k' d =
     Option.bind (json_get d k) (\<lambda>m. Option.bind (json_get m k') (jsonb_text_of txt))"

text \<open>\<open>doc @> '["s"]'\<close>: an array with the string as an element.\<close>

fun jsonb_contains_string :: "json \<Rightarrow> string \<Rightarrow> bool" where
  "jsonb_contains_string (JArray xs) s = (JString s \<in> set xs)"
| "jsonb_contains_string _ s = False"

section \<open>Deserialisation\<close>

text \<open>
  A derived struct decoder reads an object by member name, or an array by position: a missing
  position is an error unless the field has a \<open>default\<close>, and so is a superfluous one.  The
  list names the fields in order, each with whether it has a \<open>default\<close>.
\<close>

fun struct_view :: "(string \<times> bool) list \<Rightarrow> json \<Rightarrow> (string \<Rightarrow> json option) option" where
  "struct_view fs (JObject m) = Some (map_of m)"
| "struct_view fs (JArray xs) =
     (if length xs \<le> length fs \<and> list_all snd (drop (length xs) fs)
      then Some (map_of (zip (map fst fs) xs)) else None)"
| "struct_view fs _ = None"

definition dec_string :: "json \<Rightarrow> string option" where
  "dec_string = as_str"

definition dec_bool :: "json \<Rightarrow> bool option" where
  "dec_bool = as_bool"

definition dec_option :: "(json \<Rightarrow> 'a option) \<Rightarrow> json \<Rightarrow> 'a option option" where
  "dec_option d v = (if v = JNull then Some None else map_option Some (d v))"

definition dec_list :: "(json \<Rightarrow> 'a option) \<Rightarrow> json \<Rightarrow> 'a list option" where
  "dec_list d v = Option.bind (as_array v) (\<lambda>xs. those (map d xs))"

definition dec_map :: "(json \<Rightarrow> 'a option) \<Rightarrow> json \<Rightarrow> (string \<times> 'a) list option" where
  "dec_map d v =
     Option.bind (as_object v) (\<lambda>m. those (map (\<lambda>(k, x). map_option (Pair k) (d x)) m))"

text \<open>A unit variant is its name, or an object with its name as the only key and null content.\<close>

fun dec_unit_enum :: "(string \<Rightarrow> 'a option) \<Rightarrow> json \<Rightarrow> 'a option" where
  "dec_unit_enum tag (JString s) = tag s"
| "dec_unit_enum tag (JObject [(s, JNull)]) = tag s"
| "dec_unit_enum tag _ = None"

text \<open>Required fields, \<open>Option\<close> fields (absent means \<open>None\<close>) and fields with a \<open>default\<close>.\<close>

definition field_req :: "(json \<Rightarrow> 'a option) \<Rightarrow> (string \<Rightarrow> json option) \<Rightarrow> string \<Rightarrow> 'a option" where
  "field_req d v k = Option.bind (v k) d"

definition field_opt :: "(json \<Rightarrow> 'a option) \<Rightarrow> (string \<Rightarrow> json option) \<Rightarrow> string \<Rightarrow> 'a option option" where
  "field_opt d v k = (case v k of None \<Rightarrow> Some None | Some j \<Rightarrow> dec_option d j)"

definition field_default :: "'a \<Rightarrow> (json \<Rightarrow> 'a option) \<Rightarrow> (string \<Rightarrow> json option) \<Rightarrow> string \<Rightarrow> 'a option" where
  "field_default x d v k = (case v k of None \<Rightarrow> Some x | Some j \<Rightarrow> d j)"

section \<open>Serialisation\<close>

definition enc_option :: "('a \<Rightarrow> json) \<Rightarrow> 'a option \<Rightarrow> json" where
  "enc_option e x = (case x of None \<Rightarrow> JNull | Some a \<Rightarrow> e a)"

definition enc_list :: "('a \<Rightarrow> json) \<Rightarrow> 'a list \<Rightarrow> json" where
  "enc_list e xs = JArray (map e xs)"

definition enc_map :: "('a \<Rightarrow> json) \<Rightarrow> (string \<times> 'a) list \<Rightarrow> json" where
  "enc_map e m = JObject (map (\<lambda>(k, v). (k, e v)) m)"

text \<open>\<open>skip_serializing_if = "Option::is_none"\<close> and \<open>skip_serializing_if = "Vec::is_empty"\<close>.\<close>

definition skip_none :: "string \<Rightarrow> ('a \<Rightarrow> json) \<Rightarrow> 'a option \<Rightarrow> (string \<times> json) list" where
  "skip_none k e x = (case x of None \<Rightarrow> [] | Some a \<Rightarrow> [(k, e a)])"

definition skip_empty :: "string \<Rightarrow> ('a list \<Rightarrow> json) \<Rightarrow> 'a list \<Rightarrow> (string \<times> json) list" where
  "skip_empty k e xs = (if xs = [] then [] else [(k, e xs)])"

lemma map_of_skip_none [codec_simps]:
  "map_of (skip_none k e x) k' = (if k' = k then map_option e x else None)"
  by (auto simp: skip_none_def split: option.splits)

lemma map_of_skip_empty [codec_simps]:
  "map_of (skip_empty k e xs) k' = (if k' = k \<and> xs \<noteq> [] then Some (e xs) else None)"
  by (auto simp: skip_empty_def)

lemma map_of_fields [codec_simps]:
  "map_of (es @ fs) k = (case map_of es k of None \<Rightarrow> map_of fs k | Some v \<Rightarrow> Some v)"
  by (simp add: map_add_def split: option.splits)

lemma those_eq_Some: "those xs = Some ys \<longleftrightarrow> xs = map Some ys"
proof (induction xs arbitrary: ys)
  case (Cons x xs)
  then show ?case by (cases x; cases ys) auto
qed auto

lemma those_map_Some [simp]: "those (map Some xs) = Some xs"
  by (simp add: those_eq_Some)

section \<open>Codecs\<close>

text \<open>
  The contract between the two derived implementations of a type: what \<open>Serialize\<close> writes,
  \<open>Deserialize\<close> reads back.
\<close>

locale json_codec =
  fixes enc :: "'a \<Rightarrow> json" and dec :: "json \<Rightarrow> 'a option"
  assumes dec_enc: "dec (enc x) = Some x"
begin

lemma enc_inj: "enc x = enc y \<Longrightarrow> x = y"
  by (metis dec_enc option.inject)

lemma dec_list_enc: "dec_list dec (enc_list enc xs) = Some xs"
  by (simp add: dec_list_def enc_list_def those_eq_Some dec_enc)

lemma dec_map_enc: "dec_map dec (enc_map enc m) = Some m"
  by (simp add: dec_map_def enc_map_def those_eq_Some dec_enc split_def)

lemma field_req_enc: "v k = Some (enc x) \<Longrightarrow> field_req dec v k = Some x"
  by (simp add: field_req_def dec_enc)

lemma field_default_enc: "v k = Some (enc x) \<Longrightarrow> field_default y dec v k = Some x"
  by (simp add: field_default_def dec_enc)

lemma field_default_skip_empty:
  "v k = (if xs = [] then None else Some (enc_list enc xs)) \<Longrightarrow>
   field_default [] (dec_list dec) v k = Some xs"
  by (simp add: field_default_def dec_list_enc split: if_splits)

end

text \<open>A codec whose values are never encoded as null can be used under \<open>Option\<close>.\<close>

locale json_codec_nonnull = json_codec +
  assumes enc_nonnull: "enc x \<noteq> JNull"
begin

lemma dec_option_enc: "dec_option dec (enc_option enc x) = Some x"
  by (cases x) (simp_all add: dec_option_def enc_option_def dec_enc enc_nonnull)

lemma dec_option_enc_some: "dec_option dec (enc x) = Some (Some x)"
  using dec_option_enc [of "Some x"] by (simp add: enc_option_def)

lemma field_opt_skip_none:
  "v k = map_option enc x \<Longrightarrow> field_opt dec v k = Some x"
  by (auto simp: field_opt_def dec_option_enc_some split: option.splits)

lemma field_opt_enc: "v k = Some (enc_option enc x) \<Longrightarrow> field_opt dec v k = Some x"
  by (simp add: field_opt_def dec_option_enc)

end

interpretation string_codec: json_codec_nonnull JString dec_string
  by unfold_locales (simp_all add: dec_string_def)

interpretation bool_codec: json_codec_nonnull JBool dec_bool
  by unfold_locales (simp_all add: dec_bool_def)

interpretation strings_codec: json_codec_nonnull "enc_list JString" "dec_list dec_string"
  by unfold_locales (simp_all add: string_codec.dec_list_enc, simp add: enc_list_def)

interpretation string_map_codec: json_codec_nonnull "enc_map JString" "dec_map dec_string"
  by unfold_locales (simp_all add: string_codec.dec_map_enc, simp add: enc_map_def)

interpretation strings_map_codec:
  json_codec_nonnull "enc_map (enc_list JString)" "dec_map (dec_list dec_string)"
  by unfold_locales (simp_all add: strings_codec.dec_map_enc, simp add: enc_map_def)

lemmas base_codecs [codec_simps] =
  string_codec.dec_enc bool_codec.dec_enc strings_codec.dec_enc string_map_codec.dec_enc
  strings_map_codec.dec_enc string_codec.dec_option_enc string_codec.dec_option_enc_some

end
