(* ===== verification/Api_Types.thy ===== *)
theory Api_Types
  imports Json "HOL-Library.Monad_Syntax"
begin

text \<open>
  The data model of \<open>libs/commons/src/api\<close>: resource metadata, data connections and their
  status, data connection types with their validation, flight services, secrets, and the
  error types.  Every struct that derives \<open>Serialize\<close> and \<open>Deserialize\<close> has its encoder
  (\<open>_to_value\<close>) and decoder (\<open>_from_value\<close>), written from the declaration and its \<open>serde\<close>
  attributes, and is interpreted as a codec.
\<close>

section \<open>Errors\<close>

datatype connector_error =
    SQLError string
  | ConnectionError string
  | NoDataError
  | InvalidRequest string
  | ConfigError string
  | IOError string
  | NotFound string
  | UnsupportedOperation string

fun connector_error_message :: "connector_error \<Rightarrow> string" where
  "connector_error_message (SQLError m) = m"
| "connector_error_message (ConnectionError m) = m"
| "connector_error_message (InvalidRequest m) = m"
| "connector_error_message (ConfigError m) = m"
| "connector_error_message (IOError m) = m"
| "connector_error_message (NotFound m) = m"
| "connector_error_message (UnsupportedOperation m) = m"
| "connector_error_message NoDataError = ''no data returned''"

datatype meta_store_error =
    Connection string
  | ResourceNotFound string
  | MetaInvalidRequest string
  | Config string
  | Query string
  | Conflict string
  | Serialization string
  | Deserialization string
  | Validation string
  | UnprocessableEntity string

fun meta_store_error_to_string :: "meta_store_error \<Rightarrow> string" where
  "meta_store_error_to_string (Connection m) = ''Connection error: '' @ m"
| "meta_store_error_to_string (ResourceNotFound m) = ''Not found: '' @ m"
| "meta_store_error_to_string (MetaInvalidRequest m) = ''Invalid request: '' @ m"
| "meta_store_error_to_string (Config m) = ''Config error: '' @ m"
| "meta_store_error_to_string (Query m) = ''Query error: '' @ m"
| "meta_store_error_to_string (Conflict m) = ''Resource conflict: '' @ m"
| "meta_store_error_to_string (Serialization m) = ''Serialization error: '' @ m"
| "meta_store_error_to_string (Deserialization m) = ''Deserialization error: '' @ m"
| "meta_store_error_to_string (Validation m) = ''Validation error: '' @ m"
| "meta_store_error_to_string (UnprocessableEntity m) = ''Unprocessable entity: '' @ m"

datatype secret_store_error =
    SecretNotFound string
  | Forbidden string
  | CannotCreateSecret string
  | CannotDeleteSecret string
  | CannotSetSecretLabels string

fun secret_store_error_to_string :: "secret_store_error \<Rightarrow> string" where
  "secret_store_error_to_string (SecretNotFound m) = ''Secret not found: '' @ m"
| "secret_store_error_to_string (Forbidden m) = ''Access denied: '' @ m"
| "secret_store_error_to_string (CannotCreateSecret m) = ''Cannot create secret: '' @ m"
| "secret_store_error_to_string (CannotDeleteSecret m) = ''Cannot delete secret: '' @ m"
| "secret_store_error_to_string (CannotSetSecretLabels m) = ''Cannot set secret labels: '' @ m"

datatype data_connection_type_error =
    MissingRequiredField string
  | EmptyValue string "nat option"

fun data_connection_type_error_to_string :: "data_connection_type_error \<Rightarrow> string" where
  "data_connection_type_error_to_string (MissingRequiredField f) =
     ''Required field '' @ f @ '' is missing''"
| "data_connection_type_error_to_string (EmptyValue f i) =
     f @ '' must not be empty or whitespace-only'' @
     (case i of None \<Rightarrow> '''' | Some n \<Rightarrow> '' (index '' @ show_nat n @ '')'')"

section \<open>Resource metadata and lists\<close>

record resource_metadata =
  md_id :: string
  md_tenant_id :: "string option"
  md_created_at :: string
  md_updated_at :: string

definition metadata_to_value :: "resource_metadata \<Rightarrow> json" where
  "metadata_to_value m = JObject
     ([(''id'', JString (md_id m))]
      @ skip_none ''tenant_id'' JString (md_tenant_id m)
      @ [(''created_at'', JString (md_created_at m)), (''updated_at'', JString (md_updated_at m))])"

definition metadata_from_value :: "json \<Rightarrow> resource_metadata option" where
  "metadata_from_value v = do {
     f \<leftarrow> struct_view [(''id'', False), (''tenant_id'', False), (''created_at'', False),
                      (''updated_at'', False)] v;
     i \<leftarrow> field_req dec_string f ''id'';
     t \<leftarrow> field_opt dec_string f ''tenant_id'';
     c \<leftarrow> field_req dec_string f ''created_at'';
     u \<leftarrow> field_req dec_string f ''updated_at'';
     Some \<lparr>md_id = i, md_tenant_id = t, md_created_at = c, md_updated_at = u\<rparr> }"

record 'a resource_list =
  total_count :: nat
  items :: "'a list"

definition resource_list_to_value :: "('a \<Rightarrow> json) \<Rightarrow> 'a resource_list \<Rightarrow> json" where
  "resource_list_to_value e l = JObject
     [(''total_count'', JNumber (PosInt (word_of_nat (total_count l)))),
      (''items'', enc_list e (items l))]"

section \<open>Data connections\<close>

datatype data_format = Tabular | Binary

fun data_format_to_string :: "data_format \<Rightarrow> string" where
  "data_format_to_string Tabular = ''tabular''"
| "data_format_to_string Binary = ''binary''"

definition data_format_from_string :: "string \<Rightarrow> string + data_format" where
  "data_format_from_string s =
     (if s = ''tabular'' then Inr Tabular
      else if s = ''binary'' then Inr Binary
      else Inl (''invalid data format: '' @ s))"

definition data_format_to_value :: "data_format \<Rightarrow> json" where
  "data_format_to_value f = JString (case f of Tabular \<Rightarrow> ''tabular'' | Binary \<Rightarrow> ''binary'')"

definition data_format_from_value :: "json \<Rightarrow> data_format option" where
  "data_format_from_value = dec_unit_enum (map_of [(''tabular'', Tabular), (''binary'', Binary)])"

datatype data_connection_state = Ready | IngestionNotReady | NotReady

definition state_to_value :: "data_connection_state \<Rightarrow> json" where
  "state_to_value s = JString (case s of
     Ready \<Rightarrow> ''ready'' | IngestionNotReady \<Rightarrow> ''ingestion_not_ready'' | NotReady \<Rightarrow> ''not_ready'')"

definition state_from_value :: "json \<Rightarrow> data_connection_state option" where
  "state_from_value = dec_unit_enum (map_of
     [(''ready'', Ready), (''ingestion_not_ready'', IngestionNotReady), (''not_ready'', NotReady)])"

record data_connection_status =
  st_state :: data_connection_state
  st_message :: "string option"
  st_updated_at :: "string option"

definition default_data_connection_status :: data_connection_status where
  "default_data_connection_status = \<lparr>st_state = NotReady, st_message = None, st_updated_at = None\<rparr>"

definition status_to_value :: "data_connection_status \<Rightarrow> json" where
  "status_to_value s = JObject
     ([(''state'', state_to_value (st_state s))]
      @ skip_none ''message'' JString (st_message s)
      @ skip_none ''updated_at'' JString (st_updated_at s))"

definition status_from_value :: "json \<Rightarrow> data_connection_status option" where
  "status_from_value v = do {
     f \<leftarrow> struct_view [(''state'', False), (''message'', False), (''updated_at'', False)] v;
     s \<leftarrow> field_req state_from_value f ''state'';
     m \<leftarrow> field_opt dec_string f ''message'';
     u \<leftarrow> field_opt dec_string f ''updated_at'';
     Some \<lparr>st_state = s, st_message = m, st_updated_at = u\<rparr> }"

record credentials_ref =
  cr_secret :: string

definition default_credentials_ref :: credentials_ref where
  "default_credentials_ref = \<lparr>cr_secret = ''''\<rparr>"

definition credentials_ref_to_value :: "credentials_ref \<Rightarrow> json" where
  "credentials_ref_to_value c = JObject [(''secret'', JString (cr_secret c))]"

definition credentials_ref_from_value :: "json \<Rightarrow> credentials_ref option" where
  "credentials_ref_from_value v = do {
     f \<leftarrow> struct_view [(''secret'', False)] v;
     s \<leftarrow> field_req dec_string f ''secret'';
     Some \<lparr>cr_secret = s\<rparr> }"

record data_connection =
  dc_name :: string
  dc_data_connection_type_id :: string
  dc_format :: data_format
  dc_credentials_ref :: credentials_ref
  dc_properties :: "string hmap"

definition data_connection_to_value :: "data_connection \<Rightarrow> json" where
  "data_connection_to_value d = JObject
     [(''name'', JString (dc_name d)),
      (''data_connection_type_id'', JString (dc_data_connection_type_id d)),
      (''format'', data_format_to_value (dc_format d)),
      (''credentials_ref'', credentials_ref_to_value (dc_credentials_ref d)),
      (''properties'', enc_map JString (dc_properties d))]"

definition data_connection_from_value :: "json \<Rightarrow> data_connection option" where
  "data_connection_from_value v = do {
     f \<leftarrow> struct_view [(''name'', False), (''data_connection_type_id'', False), (''format'', False),
                      (''credentials_ref'', False), (''properties'', False)] v;
     n \<leftarrow> field_req dec_string f ''name'';
     t \<leftarrow> field_req dec_string f ''data_connection_type_id'';
     fm \<leftarrow> field_req data_format_from_value f ''format'';
     c \<leftarrow> field_req credentials_ref_from_value f ''credentials_ref'';
     p \<leftarrow> field_req (dec_map dec_string) f ''properties'';
     Some \<lparr>dc_name = n, dc_data_connection_type_id = t, dc_format = fm, dc_credentials_ref = c,
           dc_properties = p\<rparr> }"

record data_connection_resource =
  dcr_metadata :: resource_metadata
  dcr_resource :: data_connection
  dcr_status :: data_connection_status

definition data_connection_resource_to_value :: "data_connection_resource \<Rightarrow> json" where
  "data_connection_resource_to_value r = JObject
     [(''metadata'', metadata_to_value (dcr_metadata r)),
      (''resource'', data_connection_to_value (dcr_resource r)),
      (''status'', status_to_value (dcr_status r))]"

definition data_connection_resource_from_value :: "json \<Rightarrow> data_connection_resource option" where
  "data_connection_resource_from_value v = do {
     f \<leftarrow> struct_view [(''metadata'', False), (''resource'', False), (''status'', True)] v;
     m \<leftarrow> field_req metadata_from_value f ''metadata'';
     r \<leftarrow> field_req data_connection_from_value f ''resource'';
     s \<leftarrow> field_default default_data_connection_status status_from_value f ''status'';
     Some \<lparr>dcr_metadata = m, dcr_resource = r, dcr_status = s\<rparr> }"

section \<open>Codec laws of the connection types\<close>

lemma case_option_same [codec_simps]: "(case x of None \<Rightarrow> None | Some v \<Rightarrow> Some v) = x"
  by (cases x) simp_all

lemmas field_defs [codec_simps] = field_req_def field_opt_def field_default_def

interpretation data_format_codec: json_codec_nonnull data_format_to_value data_format_from_value
  by unfold_locales
    (simp_all add: data_format_to_value_def data_format_from_value_def split: data_format.splits)

interpretation state_codec: json_codec_nonnull state_to_value state_from_value
  by unfold_locales
    (simp_all add: state_to_value_def state_from_value_def split: data_connection_state.splits)

lemmas enum_codecs [codec_simps] = data_format_codec.dec_enc state_codec.dec_enc

interpretation metadata_codec: json_codec_nonnull metadata_to_value metadata_from_value
  by unfold_locales
    (simp_all add: metadata_to_value_def metadata_from_value_def codec_simps
      del: map_of_append split: option.splits)

interpretation status_codec: json_codec_nonnull status_to_value status_from_value
  by unfold_locales
    (simp_all add: status_to_value_def status_from_value_def codec_simps
      del: map_of_append split: option.splits)

interpretation credentials_ref_codec:
  json_codec_nonnull credentials_ref_to_value credentials_ref_from_value
  by unfold_locales
    (simp_all add: credentials_ref_to_value_def credentials_ref_from_value_def codec_simps)

lemmas part_codecs [codec_simps] =
  metadata_codec.dec_enc status_codec.dec_enc credentials_ref_codec.dec_enc

interpretation data_connection_codec:
  json_codec_nonnull data_connection_to_value data_connection_from_value
  by unfold_locales
    (simp_all add: data_connection_to_value_def data_connection_from_value_def codec_simps)

lemmas data_connection_codecs [codec_simps] = data_connection_codec.dec_enc

interpretation data_connection_resource_codec:
  json_codec_nonnull data_connection_resource_to_value data_connection_resource_from_value
  by unfold_locales
    (simp_all add: data_connection_resource_to_value_def data_connection_resource_from_value_def
      codec_simps)

section \<open>Data connection types\<close>

record enum_value =
  ev_value :: string
  ev_label :: string

record field =
  f_name :: string
  f_label :: string
  f_description :: "string option"
  f_required :: bool
  f_d_type :: string
  f_enum_values :: "enum_value list option"
  f_default_value :: "string option"
  f_sensitive :: bool
  f_multiple :: bool

record data_connection_type =
  dct_name :: string
  dct_label :: "string option"
  dct_provider :: string
  dct_description :: "string option"
  dct_credentials_fields :: "field list"
  dct_tags :: "string list option"

fun check_fields :: "field list \<Rightarrow> string hmap \<Rightarrow> data_connection_type_error + unit" where
  "check_fields [] secret = Inr ()"
| "check_fields (fld # flds) secret =
     (if f_required fld \<and> \<not> contains_key secret (f_name fld)
      then Inl (MissingRequiredField (f_name fld))
      else check_fields flds secret)"

definition check_credentials_schema ::
    "data_connection_type \<Rightarrow> string hmap \<Rightarrow> data_connection_type_error + unit" where
  "check_credentials_schema t secret = check_fields (dct_credentials_fields t) secret"

definition validate_label :: "data_connection_type \<Rightarrow> data_connection_type_error + unit" where
  "validate_label t = (case dct_label t of
     Some label \<Rightarrow> if trim label = [] then Inl (EmptyValue ''label'' None) else Inr ()
   | None \<Rightarrow> Inr ())"

fun validate_tags_from :: "nat \<Rightarrow> string list \<Rightarrow> data_connection_type_error + unit" where
  "validate_tags_from i [] = Inr ()"
| "validate_tags_from i (tag # tags) =
     (if trim tag = [] then Inl (EmptyValue ''tag'' (Some i)) else validate_tags_from (Suc i) tags)"

definition validate_tags :: "data_connection_type \<Rightarrow> data_connection_type_error + unit" where
  "validate_tags t = (case dct_tags t of Some tags \<Rightarrow> validate_tags_from 0 tags | None \<Rightarrow> Inr ())"

record data_connection_type_status =
  ts_supported_formats :: "data_format list"
  ts_flight_ready :: bool
  ts_flight_url :: "string option"
  ts_message :: "string option"
  ts_updated_at :: "string option"

definition default_data_connection_type_status :: data_connection_type_status where
  "default_data_connection_type_status =
     \<lparr>ts_supported_formats = [], ts_flight_ready = False, ts_flight_url = None,
      ts_message = None, ts_updated_at = None\<rparr>"

record data_connection_type_resource =
  dctr_metadata :: resource_metadata
  dctr_resource :: data_connection_type
  dctr_status :: data_connection_type_status

definition enum_value_to_value :: "enum_value \<Rightarrow> json" where
  "enum_value_to_value e = JObject
     [(''value'', JString (ev_value e)), (''label'', JString (ev_label e))]"

definition enum_value_from_value :: "json \<Rightarrow> enum_value option" where
  "enum_value_from_value v = do {
     f \<leftarrow> struct_view [(''value'', False), (''label'', False)] v;
     x \<leftarrow> field_req dec_string f ''value'';
     l \<leftarrow> field_req dec_string f ''label'';
     Some \<lparr>ev_value = x, ev_label = l\<rparr> }"

definition field_to_value :: "field \<Rightarrow> json" where
  "field_to_value x = JObject
     ([(''name'', JString (f_name x)), (''label'', JString (f_label x))]
      @ skip_none ''description'' JString (f_description x)
      @ [(''required'', JBool (f_required x)), (''type'', JString (f_d_type x))]
      @ skip_none ''enum_values'' (enc_list enum_value_to_value) (f_enum_values x)
      @ skip_none ''default_value'' JString (f_default_value x)
      @ [(''sensitive'', JBool (f_sensitive x)), (''multiple'', JBool (f_multiple x))])"

definition field_from_value :: "json \<Rightarrow> field option" where
  "field_from_value v = do {
     f \<leftarrow> struct_view [(''name'', False), (''label'', False), (''description'', False),
                      (''required'', False), (''type'', False), (''enum_values'', False),
                      (''default_value'', False), (''sensitive'', True), (''multiple'', True)] v;
     n \<leftarrow> field_req dec_string f ''name'';
     l \<leftarrow> field_req dec_string f ''label'';
     d \<leftarrow> field_opt dec_string f ''description'';
     r \<leftarrow> field_req dec_bool f ''required'';
     t \<leftarrow> field_req dec_string f ''type'';
     e \<leftarrow> field_opt (dec_list enum_value_from_value) f ''enum_values'';
     dv \<leftarrow> field_opt dec_string f ''default_value'';
     s \<leftarrow> field_default False dec_bool f ''sensitive'';
     m \<leftarrow> field_default False dec_bool f ''multiple'';
     Some \<lparr>f_name = n, f_label = l, f_description = d, f_required = r, f_d_type = t,
           f_enum_values = e, f_default_value = dv, f_sensitive = s, f_multiple = m\<rparr> }"

definition data_connection_type_to_value :: "data_connection_type \<Rightarrow> json" where
  "data_connection_type_to_value t = JObject
     ([(''name'', JString (dct_name t))]
      @ skip_none ''label'' JString (dct_label t)
      @ [(''provider'', JString (dct_provider t))]
      @ skip_none ''description'' JString (dct_description t)
      @ [(''credentials_fields'', enc_list field_to_value (dct_credentials_fields t))]
      @ skip_none ''tags'' (enc_list JString) (dct_tags t))"

definition data_connection_type_from_value :: "json \<Rightarrow> data_connection_type option" where
  "data_connection_type_from_value v = do {
     f \<leftarrow> struct_view [(''name'', False), (''label'', True), (''provider'', False),
                      (''description'', False), (''credentials_fields'', False),
                      (''tags'', True)] v;
     n \<leftarrow> field_req dec_string f ''name'';
     l \<leftarrow> field_opt dec_string f ''label'';
     p \<leftarrow> field_req dec_string f ''provider'';
     d \<leftarrow> field_opt dec_string f ''description'';
     c \<leftarrow> field_req (dec_list field_from_value) f ''credentials_fields'';
     t \<leftarrow> field_opt (dec_list dec_string) f ''tags'';
     Some \<lparr>dct_name = n, dct_label = l, dct_provider = p, dct_description = d,
           dct_credentials_fields = c, dct_tags = t\<rparr> }"

definition type_status_to_value :: "data_connection_type_status \<Rightarrow> json" where
  "type_status_to_value s = JObject
     ([(''supported_formats'', enc_list data_format_to_value (ts_supported_formats s)),
       (''flight_ready'', JBool (ts_flight_ready s)),
       (''flight_url'', enc_option JString (ts_flight_url s))]
      @ skip_none ''message'' JString (ts_message s)
      @ [(''updated_at'', enc_option JString (ts_updated_at s))])"

definition type_status_from_value :: "json \<Rightarrow> data_connection_type_status option" where
  "type_status_from_value v = do {
     f \<leftarrow> struct_view [(''supported_formats'', True), (''flight_ready'', False),
                      (''flight_url'', False), (''message'', False), (''updated_at'', False)] v;
     sf \<leftarrow> field_default [] (dec_list data_format_from_value) f ''supported_formats'';
     r \<leftarrow> field_req dec_bool f ''flight_ready'';
     u \<leftarrow> field_opt dec_string f ''flight_url'';
     m \<leftarrow> field_opt dec_string f ''message'';
     t \<leftarrow> field_opt dec_string f ''updated_at'';
     Some \<lparr>ts_supported_formats = sf, ts_flight_ready = r, ts_flight_url = u, ts_message = m,
           ts_updated_at = t\<rparr> }"

definition data_connection_type_resource_to_value :: "data_connection_type_resource \<Rightarrow> json" where
  "data_connection_type_resource_to_value r = JObject
     [(''metadata'', metadata_to_value (dctr_metadata r)),
      (''resource'', data_connection_type_to_value (dctr_resource r)),
      (''status'', type_status_to_value (dctr_status r))]"

definition data_connection_type_resource_from_value ::
    "json \<Rightarrow> data_connection_type_resource option" where
  "data_connection_type_resource_from_value v = do {
     f \<leftarrow> struct_view [(''metadata'', False), (''resource'', False), (''status'', True)] v;
     m \<leftarrow> field_req metadata_from_value f ''metadata'';
     r \<leftarrow> field_req data_connection_type_from_value f ''resource'';
     s \<leftarrow> field_default default_data_connection_type_status type_status_from_value f ''status'';
     Some \<lparr>dctr_metadata = m, dctr_resource = r, dctr_status = s\<rparr> }"

interpretation enum_value_codec: json_codec_nonnull enum_value_to_value enum_value_from_value
  by unfold_locales (simp_all add: enum_value_to_value_def enum_value_from_value_def codec_simps)

interpretation enum_values_codec:
  json_codec_nonnull "enc_list enum_value_to_value" "dec_list enum_value_from_value"
  by unfold_locales (simp_all add: enum_value_codec.dec_list_enc, simp add: enc_list_def)

lemmas list_codecs [codec_simps] =
  enum_values_codec.dec_option_enc_some strings_codec.dec_option_enc_some
  data_format_codec.dec_list_enc

interpretation field_codec: json_codec_nonnull field_to_value field_from_value
  by unfold_locales
    (simp_all add: field_to_value_def field_from_value_def codec_simps
      del: map_of_append split: option.splits)

lemmas fields_codec [codec_simps] = field_codec.dec_list_enc

interpretation data_connection_type_codec:
  json_codec_nonnull data_connection_type_to_value data_connection_type_from_value
  by unfold_locales
    (simp_all add: data_connection_type_to_value_def data_connection_type_from_value_def codec_simps
      del: map_of_append split: option.splits)

interpretation type_status_codec: json_codec_nonnull type_status_to_value type_status_from_value
  by unfold_locales
    (simp_all add: type_status_to_value_def type_status_from_value_def codec_simps
      del: map_of_append split: option.splits)

lemmas type_part_codecs [codec_simps] =
  data_connection_type_codec.dec_enc type_status_codec.dec_enc

interpretation data_connection_type_resource_codec:
  json_codec_nonnull data_connection_type_resource_to_value data_connection_type_resource_from_value
  by unfold_locales
    (simp_all add: data_connection_type_resource_to_value_def
      data_connection_type_resource_from_value_def codec_simps)

section \<open>Flight services and secrets\<close>

record flight_service_status =
  fss_ready :: bool

record flight_service =
  fs_name :: string
  fs_namespace :: string
  fs_external_url :: string
  fs_internal_url :: string
  fs_supported_connectors :: "string list"
  fs_connector_capabilities :: "string list hmap"
  fs_status :: flight_service_status

record flight_service_resource =
  fsr_metadata :: resource_metadata
  fsr_resource :: flight_service

record secret =
  sec_name :: string
  sec_namespace :: string
  sec_properties :: "string hmap"
  sec_labels :: "string hmap option"
  sec_annotations :: "string hmap option"

record test_credentials_req =
  tc_data_connection_type_id :: string
  tc_credentials :: "string hmap"

definition flight_service_status_to_value :: "flight_service_status \<Rightarrow> json" where
  "flight_service_status_to_value s = JObject [(''ready'', JBool (fss_ready s))]"

definition flight_service_status_from_value :: "json \<Rightarrow> flight_service_status option" where
  "flight_service_status_from_value v = do {
     f \<leftarrow> struct_view [(''ready'', False)] v;
     r \<leftarrow> field_req dec_bool f ''ready'';
     Some \<lparr>fss_ready = r\<rparr> }"

definition flight_service_to_value :: "flight_service \<Rightarrow> json" where
  "flight_service_to_value s = JObject
     ([(''name'', JString (fs_name s)), (''namespace'', JString (fs_namespace s)),
       (''external_url'', JString (fs_external_url s)),
       (''internal_url'', JString (fs_internal_url s))]
      @ skip_empty ''supported_connectors'' (enc_list JString) (fs_supported_connectors s)
      @ skip_empty ''connector_capabilities'' (enc_map (enc_list JString))
          (fs_connector_capabilities s)
      @ [(''status'', flight_service_status_to_value (fs_status s))])"

definition flight_service_from_value :: "json \<Rightarrow> flight_service option" where
  "flight_service_from_value v = do {
     f \<leftarrow> struct_view [(''name'', False), (''namespace'', False), (''external_url'', False),
                      (''internal_url'', False), (''supported_connectors'', True),
                      (''connector_capabilities'', True), (''status'', False)] v;
     n \<leftarrow> field_req dec_string f ''name'';
     ns \<leftarrow> field_req dec_string f ''namespace'';
     e \<leftarrow> field_req dec_string f ''external_url'';
     i \<leftarrow> field_req dec_string f ''internal_url'';
     c \<leftarrow> field_default [] (dec_list dec_string) f ''supported_connectors'';
     p \<leftarrow> field_default [] (dec_map (dec_list dec_string)) f ''connector_capabilities'';
     s \<leftarrow> field_req flight_service_status_from_value f ''status'';
     Some \<lparr>fs_name = n, fs_namespace = ns, fs_external_url = e, fs_internal_url = i,
           fs_supported_connectors = c, fs_connector_capabilities = p, fs_status = s\<rparr> }"

definition flight_service_resource_to_value :: "flight_service_resource \<Rightarrow> json" where
  "flight_service_resource_to_value r = JObject
     [(''metadata'', metadata_to_value (fsr_metadata r)),
      (''resource'', flight_service_to_value (fsr_resource r))]"

definition flight_service_resource_from_value :: "json \<Rightarrow> flight_service_resource option" where
  "flight_service_resource_from_value v = do {
     f \<leftarrow> struct_view [(''metadata'', False), (''resource'', False)] v;
     m \<leftarrow> field_req metadata_from_value f ''metadata'';
     r \<leftarrow> field_req flight_service_from_value f ''resource'';
     Some \<lparr>fsr_metadata = m, fsr_resource = r\<rparr> }"

interpretation flight_service_status_codec:
  json_codec_nonnull flight_service_status_to_value flight_service_status_from_value
  by unfold_locales
    (simp_all add: flight_service_status_to_value_def flight_service_status_from_value_def codec_simps)

lemmas flight_service_status_codecs [codec_simps] = flight_service_status_codec.dec_enc

interpretation flight_service_codec:
  json_codec_nonnull flight_service_to_value flight_service_from_value
  by unfold_locales
    (simp_all add: flight_service_to_value_def flight_service_from_value_def codec_simps
      del: map_of_append split: option.splits)

lemmas flight_service_codecs [codec_simps] = flight_service_codec.dec_enc

interpretation flight_service_resource_codec:
  json_codec_nonnull flight_service_resource_to_value flight_service_resource_from_value
  by unfold_locales
    (simp_all add: flight_service_resource_to_value_def flight_service_resource_from_value_def
      codec_simps)

section \<open>Properties\<close>

text \<open>
  C8. What the derived serialisers write, the derived deserialisers read back: a connection, a
  connection type or a flight service stored as JSON is returned as it was, whatever optional
  members are left out.
\<close>

theorem serde_round_trip:
  "data_connection_resource_from_value (data_connection_resource_to_value c) = Some c
   \<and> data_connection_type_resource_from_value (data_connection_type_resource_to_value t) = Some t
   \<and> flight_service_resource_from_value (flight_service_resource_to_value f) = Some f"
  by (simp add: data_connection_resource_codec.dec_enc data_connection_type_resource_codec.dec_enc
      flight_service_resource_codec.dec_enc)

definition missing_field :: "string hmap \<Rightarrow> field \<Rightarrow> bool" where
  "missing_field secret fld \<longleftrightarrow> f_required fld \<and> \<not> contains_key secret (f_name fld)"

lemma check_fields_find:
  "check_fields flds secret =
     (case find (missing_field secret) flds of
        None \<Rightarrow> Inr ()
      | Some fld \<Rightarrow> Inl (MissingRequiredField (f_name fld)))"
  by (induction flds) (auto simp: missing_field_def)

text \<open>
  C9. A secret passes the schema check of a connection type exactly when it has every required
  field; otherwise the error names the first missing one, in the order of the schema.
\<close>

theorem check_credentials_schema_correct:
  "(check_credentials_schema t secret = Inr ()
      \<longleftrightarrow> (\<forall>fld \<in> set (dct_credentials_fields t). f_required fld \<longrightarrow> f_name fld \<in> fst ` set secret))
   \<and> (check_credentials_schema t secret = Inl e
      \<longleftrightarrow> (\<exists>pre fld post. dct_credentials_fields t = pre @ fld # post
             \<and> (\<forall>x \<in> set pre. \<not> missing_field secret x) \<and> missing_field secret fld
             \<and> e = MissingRequiredField (f_name fld)))"
proof -
  have "check_credentials_schema t secret = Inr ()
      \<longleftrightarrow> find (missing_field secret) (dct_credentials_fields t) = None"
    "check_credentials_schema t secret = Inl e
      \<longleftrightarrow> (\<exists>fld. find (missing_field secret) (dct_credentials_fields t) = Some fld
            \<and> e = MissingRequiredField (f_name fld))"
    by (auto simp: check_credentials_schema_def check_fields_find split: option.splits)
  then show ?thesis
    by (auto simp: find_None_iff find_Some_split missing_field_def contains_key_iff)
qed

definition sample_field :: "string \<Rightarrow> bool \<Rightarrow> field" where
  "sample_field n r = \<lparr>f_name = n, f_label = n, f_description = None, f_required = r,
     f_d_type = ''string'', f_enum_values = None, f_default_value = None, f_sensitive = False,
     f_multiple = False\<rparr>"

definition sample_s3_type :: data_connection_type where
  "sample_s3_type = \<lparr>dct_name = ''s3'', dct_label = None, dct_provider = ''s3'',
     dct_description = None,
     dct_credentials_fields = [sample_field ''region'' False, sample_field ''bucket'' True],
     dct_tags = None\<rparr>"

theorem check_credentials_schema_correct_witness:
  "check_credentials_schema sample_s3_type [(''bucket'', ''b'')] = Inr ()
   \<and> check_credentials_schema sample_s3_type [(''region'', ''r'')] \<noteq> Inr ()"
  using check_credentials_schema_correct [of sample_s3_type "[(''bucket'', ''b'')]"]
    check_credentials_schema_correct [of sample_s3_type "[(''region'', ''r'')]"]
  by (simp add: sample_s3_type_def sample_field_def)

lemma validate_tags_from_first:
  "(\<forall>x \<in> set pre. \<not> blank x) \<Longrightarrow> blank tag \<Longrightarrow>
   validate_tags_from i (pre @ tag # post) = Inl (EmptyValue ''tag'' (Some (i + length pre)))"
  by (induction pre arbitrary: i) (auto simp: trim_eq_Nil)

lemma validate_tags_from_ok:
  "validate_tags_from i tags = Inr () \<longleftrightarrow> (\<forall>x \<in> set tags. \<not> blank x)"
  by (induction tags arbitrary: i) (auto simp: trim_eq_Nil)

lemma validate_tags_from_Inl:
  "validate_tags_from i tags = Inl e \<longleftrightarrow>
     (\<exists>pre tag post. tags = pre @ tag # post \<and> (\<forall>x \<in> set pre. \<not> blank x) \<and> blank tag
        \<and> e = EmptyValue ''tag'' (Some (i + length pre)))" (is "?l \<longleftrightarrow> ?r")
proof
  assume ?l
  then have "\<exists>x \<in> set tags. blank x"
    using validate_tags_from_ok [of i tags] by auto
  then obtain pre tag post where s: "tags = pre @ tag # post" "blank tag" "\<forall>x \<in> set pre. \<not> blank x"
    using split_list_first_prop by metis
  with \<open>?l\<close> show ?r
    using validate_tags_from_first [of pre tag i post] by auto
qed (auto simp: validate_tags_from_first)

text \<open>
  Validation of labels and tags: a label is accepted exactly when it is absent or has a
  character that is not white space (in the Unicode sense), and tags are accepted exactly when
  each has one; the error gives the index of the first blank tag.
\<close>

theorem validate_label_and_tags:
  "(validate_label t = Inr () \<longleftrightarrow> (case dct_label t of None \<Rightarrow> True | Some l \<Rightarrow> \<not> blank l))
   \<and> (validate_tags t = Inr () \<longleftrightarrow> (case dct_tags t of None \<Rightarrow> True | Some ts \<Rightarrow> list_all (\<lambda>s. \<not> blank s) ts))
   \<and> (validate_tags t = Inl e \<longleftrightarrow>
        (\<exists>pre tag post. dct_tags t = Some (pre @ tag # post) \<and> list_all (\<lambda>s. \<not> blank s) pre
           \<and> blank tag \<and> e = EmptyValue ''tag'' (Some (length pre))))"
  by (cases "dct_tags t"; cases "dct_label t")
    (simp_all add: validate_label_def validate_tags_def validate_tags_from_ok validate_tags_from_Inl
      trim_eq_Nil list_all_iff)

end
