(* ===== verification/Sql.thy ===== *)
theory Sql
  imports Api_Types
begin

text \<open>
  The PostgreSQL database of \<open>libs/pg-meta-store\<close>: three tables of JSONB documents with the
  unique indexes of \<open>schema/connections.sql\<close>, the statements the store issues, and
  transactions.  Every statement may also fail for a reason outside the model (the network,
  a time-out, the server): which call fails, and how, is read from the environment of the
  operation, so that a theorem for every environment covers every failure at every point.
\<close>

section \<open>Tables\<close>

datatype table = DataConnections | DataConnectionTypes | FlightServices

text \<open>
  The store and the database behind its pool.  \<open>pg_text\<close> is the server's text form of a JSONB
  value that is not a string; no statement changes it.
\<close>

record pg_meta_store =
  global_tenant_id :: string
  pg_text :: "json \<Rightarrow> string"
  data_connections :: "json list"
  data_connection_types :: "json list"
  flight_services :: "json list"

fun rows :: "table \<Rightarrow> pg_meta_store \<Rightarrow> json list" where
  "rows DataConnections st = data_connections st"
| "rows DataConnectionTypes st = data_connection_types st"
| "rows FlightServices st = flight_services st"

fun set_rows :: "table \<Rightarrow> json list \<Rightarrow> pg_meta_store \<Rightarrow> pg_meta_store" where
  "set_rows DataConnections ds st = st\<lparr>data_connections := ds\<rparr>"
| "set_rows DataConnectionTypes ds st = st\<lparr>data_connection_types := ds\<rparr>"
| "set_rows FlightServices ds st = st\<lparr>flight_services := ds\<rparr>"

text \<open>\<open>data->'k'->>'l'\<close>.\<close>

definition doc_path :: "pg_meta_store \<Rightarrow> string \<Rightarrow> string \<Rightarrow> json \<Rightarrow> string option" where
  "doc_path st = jsonb_path_text (pg_text st)"

text \<open>
  The unique indexes of the schema, each the list of its key expressions.  A row with a NULL
  key expression clashes with no other row.
\<close>

fun unique_indexes :: "table \<Rightarrow> (string \<times> string) list list" where
  "unique_indexes DataConnections =
     [[(''resource'', ''name''), (''metadata'', ''tenant_id'')], [(''metadata'', ''id'')]]"
| "unique_indexes DataConnectionTypes =
     [[(''resource'', ''name''), (''metadata'', ''tenant_id'')], [(''metadata'', ''id'')]]"
| "unique_indexes FlightServices =
     [[(''resource'', ''namespace''), (''resource'', ''name'')], [(''metadata'', ''id'')]]"

definition index_key :: "pg_meta_store \<Rightarrow> (string \<times> string) list \<Rightarrow> json \<Rightarrow> string list option" where
  "index_key st ix d = those (map (\<lambda>(k, l). doc_path st k l d) ix)"

definition unique_ok :: "pg_meta_store \<Rightarrow> table \<Rightarrow> json list \<Rightarrow> bool" where
  "unique_ok st t ds = list_all (\<lambda>ix. distinct (List.map_filter (index_key st ix) ds)) (unique_indexes t)"

section \<open>The environment of an operation\<close>

datatype db_call =
    Begin
  | Select table
  | Column nat
  | Count table
  | Insert table
  | Update table
  | Delete table
  | Commit

text \<open>\<open>sqlx::Error\<close>: the code looks only at the database code and at \<open>RowNotFound\<close>.\<close>

datatype db_failure = Database "string option" | OtherFailure

datatype sqlx_error = RowNotFound | Failed db_failure

text \<open>
  The clock and the UUID generator as the operation reads them, which of its database calls
  fail, and whether a failed commit took effect on the server (the acknowledgement was lost).
\<close>

record env =
  now :: string
  new_uuid :: string
  db_fault :: "db_call \<Rightarrow> db_failure option"
  ack_lost :: bool

definition db_call_result :: "env \<Rightarrow> db_call \<Rightarrow> sqlx_error + 'a \<Rightarrow> sqlx_error + 'a" where
  "db_call_result en c r = (case db_fault en c of Some f \<Rightarrow> Inl (Failed f) | None \<Rightarrow> r)"

section \<open>Statements\<close>

definition fetch_one :: "env \<Rightarrow> table \<Rightarrow> (json \<Rightarrow> bool) \<Rightarrow> pg_meta_store \<Rightarrow> sqlx_error + json" where
  "fetch_one en t p st = db_call_result en (Select t) (ok_or RowNotFound (find p (rows t st)))"

definition fetch_all :: "env \<Rightarrow> table \<Rightarrow> (json \<Rightarrow> bool) \<Rightarrow> pg_meta_store \<Rightarrow> sqlx_error + json list" where
  "fetch_all en t p st = db_call_result en (Select t) (Inr (filter p (rows t st)))"

definition fetch_count :: "env \<Rightarrow> table \<Rightarrow> (json \<Rightarrow> bool) \<Rightarrow> pg_meta_store \<Rightarrow> sqlx_error + nat" where
  "fetch_count en t p st = db_call_result en (Count t) (Inr (length (filter p (rows t st))))"

text \<open>\<open>row.try_get("data")\<close> on the \<open>i\<close>-th row of a result.\<close>

definition try_get_data :: "env \<Rightarrow> nat \<Rightarrow> json \<Rightarrow> sqlx_error + json" where
  "try_get_data en i d = db_call_result en (Column i) (Inr d)"

definition store_rows :: "table \<Rightarrow> json list \<Rightarrow> pg_meta_store \<Rightarrow> sqlx_error + pg_meta_store" where
  "store_rows t ds st =
     (if unique_ok st t ds then Inr (set_rows t ds st) else Inl (Failed (Database (Some ''23505''))))"

definition execute_insert :: "env \<Rightarrow> table \<Rightarrow> json \<Rightarrow> pg_meta_store \<Rightarrow> sqlx_error + pg_meta_store" where
  "execute_insert en t d st = db_call_result en (Insert t) (store_rows t (rows t st @ [d]) st)"

definition execute_update ::
    "env \<Rightarrow> table \<Rightarrow> (json \<Rightarrow> bool) \<Rightarrow> json \<Rightarrow> pg_meta_store \<Rightarrow> sqlx_error + pg_meta_store" where
  "execute_update en t p d st =
     db_call_result en (Update t) (store_rows t (map (\<lambda>r. if p r then d else r) (rows t st)) st)"

definition execute_delete ::
    "env \<Rightarrow> table \<Rightarrow> (json \<Rightarrow> bool) \<Rightarrow> pg_meta_store \<Rightarrow> sqlx_error + (nat \<times> pg_meta_store)" where
  "execute_delete en t p st = db_call_result en (Delete t)
     (Inr (length (filter p (rows t st)), set_rows t (filter (\<lambda>r. \<not> p r) (rows t st)) st))"

section \<open>Transactions\<close>

text \<open>
  \<open>pool.begin()\<close>, the statements, \<open>tx.commit()\<close>: an early return drops the transaction, which
  rolls it back.
\<close>

definition transaction ::
    "env \<Rightarrow> meta_store_error \<Rightarrow> (pg_meta_store \<Rightarrow> meta_store_error + ('a \<times> pg_meta_store)) \<Rightarrow>
     pg_meta_store \<Rightarrow> (meta_store_error + 'a) \<times> pg_meta_store" where
  "transaction en err body st =
     (case db_fault en Begin of
        Some _ \<Rightarrow> (Inl err, st)
      | None \<Rightarrow>
          (case body st of
             Inl e \<Rightarrow> (Inl e, st)
           | Inr (a, st') \<Rightarrow>
               (case db_fault en Commit of
                  Some _ \<Rightarrow> (Inl err, if ack_lost en then st' else st)
                | None \<Rightarrow> (Inr a, st'))))"

text \<open>
  A single statement executed on the pool commits on its own: a fault of the call may hide that
  it was carried out.
\<close>

definition autocommit ::
    "env \<Rightarrow> (env \<Rightarrow> pg_meta_store \<Rightarrow> sqlx_error + ('a \<times> pg_meta_store)) \<Rightarrow>
     pg_meta_store \<Rightarrow> (sqlx_error + 'a) \<times> pg_meta_store" where
  "autocommit en stmt st =
     (case stmt en st of
        Inr (a, st') \<Rightarrow> (Inr a, st')
      | Inl e \<Rightarrow>
          (Inl e, if ack_lost en
                  then case stmt (en\<lparr>db_fault := \<lambda>_. None\<rparr>) st of Inr (_, st') \<Rightarrow> st' | Inl _ \<Rightarrow> st
                  else st))"

section \<open>Laws of the statements\<close>

lemma rows_set_rows [simp]:
  "rows t (set_rows u ds st) = (if t = u then ds else rows t st)"
  "global_tenant_id (set_rows u ds st) = global_tenant_id st"
  "pg_text (set_rows u ds st) = pg_text st"
  by (cases t; cases u; simp)+

lemma path_set_rows [simp]: "doc_path (set_rows u ds st) = doc_path st"
  by (simp add: doc_path_def)

lemma index_key_set_rows [simp]: "index_key (set_rows u ds st) = index_key st"
  by (simp add: index_key_def fun_eq_iff)

lemma unique_ok_set_rows [simp]: "unique_ok (set_rows u ds st) = unique_ok st"
  by (simp add: unique_ok_def fun_eq_iff)

lemma db_call_result_eq_Inr [sql_simps]:
  "db_call_result en c r = Inr a \<longleftrightarrow> db_fault en c = None \<and> r = Inr a"
  by (simp add: db_call_result_def split: option.splits)

lemma store_rows_eq_Inr [sql_simps]:
  "store_rows t ds st = Inr st' \<longleftrightarrow> unique_ok st t ds \<and> st' = set_rows t ds st"
  by (auto simp: store_rows_def)

lemma fetch_one_eq_Inr [sql_simps]:
  "fetch_one en t p st = Inr d \<longleftrightarrow> db_fault en (Select t) = None \<and> find p (rows t st) = Some d"
  by (simp add: fetch_one_def sql_simps result_simps)

lemma find_SomeD: "find p xs = Some x \<Longrightarrow> x \<in> set xs \<and> p x"
  by (auto simp: find_Some_iff)

lemma fetch_one_rowD: "fetch_one en t p st = Inr d \<Longrightarrow> d \<in> set (rows t st) \<and> p d"
  by (auto simp: sql_simps dest: find_SomeD)

lemma fetch_all_eq_Inr [sql_simps]:
  "fetch_all en t p st = Inr ds \<longleftrightarrow>
     db_fault en (Select t) = None \<and> ds = filter p (rows t st)"
  by (auto simp: fetch_all_def sql_simps)

lemma fetch_count_eq_Inr [sql_simps]:
  "fetch_count en t p st = Inr n \<longleftrightarrow>
     db_fault en (Count t) = None \<and> n = length (filter p (rows t st))"
  by (auto simp: fetch_count_def sql_simps)

lemma try_get_data_eq_Inr [sql_simps]:
  "try_get_data en i d = Inr v \<longleftrightarrow> db_fault en (Column i) = None \<and> v = d"
  by (auto simp: try_get_data_def sql_simps)

lemma execute_insert_eq_Inr [sql_simps]:
  "execute_insert en t d st = Inr st' \<longleftrightarrow>
     db_fault en (Insert t) = None \<and> unique_ok st t (rows t st @ [d])
     \<and> st' = set_rows t (rows t st @ [d]) st"
  by (simp add: execute_insert_def sql_simps)

lemma execute_update_eq_Inr [sql_simps]:
  "execute_update en t p d st = Inr st' \<longleftrightarrow>
     db_fault en (Update t) = None \<and> unique_ok st t (map (\<lambda>r. if p r then d else r) (rows t st))
     \<and> st' = set_rows t (map (\<lambda>r. if p r then d else r) (rows t st)) st"
  by (simp add: execute_update_def sql_simps)

lemma execute_delete_eq_Inr [sql_simps]:
  "execute_delete en t p st = Inr r \<longleftrightarrow>
     db_fault en (Delete t) = None
     \<and> r = (length (filter p (rows t st)), set_rows t (filter (\<lambda>r. \<not> p r) (rows t st)) st)"
  by (auto simp: execute_delete_def sql_simps)

text \<open>
  What a transaction can leave behind: the database as it was, or as its statements leave it.
  A property of states that the statements keep is kept by the transaction, whatever fails.
\<close>

lemma transaction_cases:
  assumes "transaction en err body st = (r, st')"
  obtains "st' = st" "\<exists>e. r = Inl e"
    | a where "body st = Inr (a, st')" "r = Inr a \<or> r = Inl err"
  using assms that(1) that(2)
  by (auto simp: transaction_def split: option.splits sum.splits prod.splits if_splits)

lemma transaction_keeps:
  assumes "P st" and "\<And>a st'. body st = Inr (a, st') \<Longrightarrow> P st'"
  shows "P (snd (transaction en err body st))"
  using assms by (auto simp: transaction_def split: option.splits sum.splits prod.splits)

lemma transaction_eq_Inr:
  "transaction en err body st = (Inr a, st') \<longleftrightarrow>
     db_fault en Begin = None \<and> body st = Inr (a, st') \<and> db_fault en Commit = None"
  by (auto simp: transaction_def split: option.splits sum.splits prod.splits)

lemma autocommit_keeps:
  assumes "P st" and "\<And>en' a st'. stmt en' st = Inr (a, st') \<Longrightarrow> P st'"
  shows "P (snd (autocommit en stmt st))"
  using assms by (auto simp: autocommit_def split: sum.splits prod.splits)

lemma autocommit_eq_Inr:
  "autocommit en stmt st = (Inr a, st') \<longleftrightarrow> stmt en st = Inr (a, st')"
  by (auto simp: autocommit_def split: sum.splits prod.splits)

end
