(* ===== verification/Meta_Store.thy ===== *)
theory Meta_Store
  imports Sql
begin

text \<open>
  The metadata store \<open>PgMetaStore\<close> of \<open>libs/pg-meta-store/src/store/meta.rs\<close>: the readers
  (\<open>MetaStoreReader\<close>), the connection and connection type operations (\<open>MetaStore\<close>) and the
  flight services (\<open>FlightDiscoveryStore\<close>), one definition per method, over the statements
  of \<open>Sql\<close>.  An operation that writes returns its result and the store it leaves.
\<close>

section \<open>Errors and messages\<close>

definition map_sqlx_error :: "sqlx_error \<Rightarrow> meta_store_error" where
  "map_sqlx_error e =
     (if e = Failed (Database (Some ''23505''))
      then Conflict ''a resource with the same identity already exists''
      else Query ''failed to execute database operation'')"

text \<open>\<open>match e { RowNotFound => nf, e => Query(msg) }\<close>.\<close>

definition row_not_found_or :: "meta_store_error \<Rightarrow> string \<Rightarrow> sqlx_error \<Rightarrow> meta_store_error" where
  "row_not_found_or nf msg e = (case e of RowNotFound \<Rightarrow> nf | Failed _ \<Rightarrow> Query msg)"

definition connection_type_in_use_message :: "string \<Rightarrow> nat \<Rightarrow> string" where
  "connection_type_in_use_message uid count =
     ''cannot delete connection type '' @ quoted uid @ '': '' @
     (if count = 1 then ''1 connection still references it''
      else show_nat count @ '' connections still reference it'') @
     ''; delete the connections first''"

definition not_found_message :: "string \<Rightarrow> string \<Rightarrow> string" where
  "not_found_message what uid = what @ '' '' @ quoted uid @ '' not found''"

section \<open>WHERE clauses\<close>

abbreviation row_id :: "pg_meta_store \<Rightarrow> json \<Rightarrow> string option" where
  "row_id st \<equiv> doc_path st ''metadata'' ''id''"

abbreviation row_tenant :: "pg_meta_store \<Rightarrow> json \<Rightarrow> string option" where
  "row_tenant st \<equiv> doc_path st ''metadata'' ''tenant_id''"

abbreviation row_type_ref :: "pg_meta_store \<Rightarrow> json \<Rightarrow> string option" where
  "row_type_ref st \<equiv> doc_path st ''resource'' ''data_connection_type_id''"

definition where_id :: "pg_meta_store \<Rightarrow> string \<Rightarrow> json \<Rightarrow> bool" where
  "where_id st uid d \<longleftrightarrow> row_id st d = Some uid"

definition where_id_tenant :: "pg_meta_store \<Rightarrow> string \<Rightarrow> string \<Rightarrow> json \<Rightarrow> bool" where
  "where_id_tenant st uid t d \<longleftrightarrow> row_id st d = Some uid \<and> row_tenant st d = Some t"

definition where_id_tenant_or_global :: "pg_meta_store \<Rightarrow> string \<Rightarrow> string \<Rightarrow> json \<Rightarrow> bool" where
  "where_id_tenant_or_global st uid t d \<longleftrightarrow>
     row_id st d = Some uid
     \<and> (row_tenant st d = Some t \<or> row_tenant st d = Some (global_tenant_id st))"

section \<open>Reading rows\<close>

definition read_row ::
    "env \<Rightarrow> string \<Rightarrow> string \<Rightarrow> (json \<Rightarrow> 'a option) \<Rightarrow> nat \<Rightarrow> json \<Rightarrow> meta_store_error + 'a" where
  "read_row en read_msg de_msg dec i d =
     rbind (map_err (\<lambda>_. Query read_msg) (try_get_data en i d))
       (\<lambda>v. ok_or (Deserialization de_msg) (dec v))"

definition resource_list_of :: "'a list \<Rightarrow> 'a resource_list" where
  "resource_list_of xs = \<lparr>total_count = length xs, items = xs\<rparr>"

abbreviation read_connection :: "env \<Rightarrow> nat \<Rightarrow> json \<Rightarrow> meta_store_error + data_connection_resource" where
  "read_connection en \<equiv> read_row en ''failed to read data connection''
     ''failed to deserialize data connection'' data_connection_resource_from_value"

abbreviation read_connection_type ::
    "env \<Rightarrow> nat \<Rightarrow> json \<Rightarrow> meta_store_error + data_connection_type_resource" where
  "read_connection_type en \<equiv> read_row en ''failed to read connection type''
     ''failed to deserialize connection type; see service logs for details''
     data_connection_type_resource_from_value"

abbreviation read_flight_service :: "env \<Rightarrow> nat \<Rightarrow> json \<Rightarrow> meta_store_error + flight_service_resource" where
  "read_flight_service en \<equiv> read_row en ''failed to read flight service''
     ''failed to deserialize flight service'' flight_service_resource_from_value"

definition discard_global_tenant ::
    "string \<Rightarrow> data_connection_type_resource \<Rightarrow> data_connection_type_resource" where
  "discard_global_tenant g dct =
     (if md_tenant_id (dctr_metadata dct) = Some g
      then dct\<lparr>dctr_metadata := (dctr_metadata dct)\<lparr>md_tenant_id := None\<rparr>\<rparr>
      else dct)"

definition deserialize_connection_type :: "json \<Rightarrow> string \<Rightarrow> data_connection_type_resource option" where
  "deserialize_connection_type v g =
     map_option (discard_global_tenant g) (data_connection_type_resource_from_value v)"

section \<open>MetaStoreReader\<close>

definition get_data_connections ::
    "env \<Rightarrow> pg_meta_store \<Rightarrow> string \<Rightarrow> meta_store_error + data_connection_resource resource_list" where
  "get_data_connections en st tenant_id =
     rbind (map_err (\<lambda>_. Query ''failed to list data connections'')
              (fetch_all en DataConnections (\<lambda>d. row_tenant st d = Some tenant_id) st)) (\<lambda>ds.
     rbind (rmapM (\<lambda>(i, d). read_connection en i d) (enumerate 0 ds)) (\<lambda>xs.
     Inr (resource_list_of xs)))"

definition get_data_connection ::
    "env \<Rightarrow> pg_meta_store \<Rightarrow> string \<Rightarrow> string \<Rightarrow> meta_store_error + data_connection_resource" where
  "get_data_connection en st tenant_id uid =
     rbind (map_err (row_not_found_or
                (ResourceNotFound (not_found_message ''data connection'' uid))
                ''failed to retrieve data connection'')
              (fetch_one en DataConnections (where_id_tenant st uid tenant_id) st)) (\<lambda>d.
     read_connection en 0 d)"

definition get_data_connection_types ::
    "env \<Rightarrow> pg_meta_store \<Rightarrow> string \<Rightarrow> meta_store_error + data_connection_type_resource resource_list" where
  "get_data_connection_types en st tenant_id =
     rbind (map_err (\<lambda>_. Query ''failed to list connection types'')
              (fetch_all en DataConnectionTypes
                 (\<lambda>d. row_tenant st d = Some tenant_id
                      \<or> row_tenant st d = Some (global_tenant_id st)) st)) (\<lambda>ds.
     Inr (resource_list_of
       (List.map_filter
          (\<lambda>(i, d). case try_get_data en i d of
              Inl _ \<Rightarrow> None
            | Inr v \<Rightarrow> deserialize_connection_type v (global_tenant_id st))
          (enumerate 0 ds))))"

definition get_data_connection_type ::
    "env \<Rightarrow> pg_meta_store \<Rightarrow> string \<Rightarrow> string \<Rightarrow> meta_store_error + data_connection_type_resource" where
  "get_data_connection_type en st tenant_id uid =
     rbind (map_err (row_not_found_or
                (ResourceNotFound (not_found_message ''connection type'' uid))
                ''failed to retrieve connection type'')
              (fetch_one en DataConnectionTypes (where_id_tenant_or_global st uid tenant_id) st)) (\<lambda>d.
     read_connection_type en 0 d)"

section \<open>MetaStore: data connections\<close>

definition validate_connection_type ::
    "env \<Rightarrow> pg_meta_store \<Rightarrow> string \<Rightarrow> string \<Rightarrow> meta_store_error + unit" where
  "validate_connection_type en st tenant_id connection_type_id =
     rbind (map_err (row_not_found_or
                (UnprocessableEntity (not_found_message ''connection type'' connection_type_id))
                ''failed to validate connection type'')
              (fetch_one en DataConnectionTypes
                 (where_id_tenant_or_global st connection_type_id tenant_id) st)) (\<lambda>_.
     Inr ())"

definition new_data_connection_resource ::
    "env \<Rightarrow> string \<Rightarrow> data_connection \<Rightarrow> data_connection_resource" where
  "new_data_connection_resource en tenant_id dc =
     \<lparr>dcr_metadata = \<lparr>md_id = new_uuid en, md_tenant_id = Some tenant_id,
                     md_created_at = now en, md_updated_at = now en\<rparr>,
      dcr_resource = dc,
      dcr_status = \<lparr>st_state = NotReady, st_message = None, st_updated_at = Some (now en)\<rparr>\<rparr>"

definition create_data_connection ::
    "env \<Rightarrow> pg_meta_store \<Rightarrow> string \<Rightarrow> data_connection \<Rightarrow>
     (meta_store_error + data_connection_resource) \<times> pg_meta_store" where
  "create_data_connection en st tenant_id dc =
     transaction en (Query ''failed to create data connection'') (\<lambda>tx.
       rbind (validate_connection_type en tx tenant_id (dc_data_connection_type_id dc)) (\<lambda>_.
       let resource = new_data_connection_resource en tenant_id dc in
       rbind (map_err map_sqlx_error
                (execute_insert en DataConnections (data_connection_resource_to_value resource) tx)) (\<lambda>tx'.
       Inr (resource, tx')))) st"

definition update_data_connection ::
    "env \<Rightarrow> pg_meta_store \<Rightarrow> string \<Rightarrow> string \<Rightarrow> (data_connection \<Rightarrow> meta_store_error + data_connection) \<Rightarrow>
     (meta_store_error + data_connection_resource) \<times> pg_meta_store" where
  "update_data_connection en st tenant_id uid update_fn =
     transaction en (Query ''failed to update data connection'') (\<lambda>tx.
       rbind (map_err (row_not_found_or
                  (ResourceNotFound (not_found_message ''data connection'' uid))
                  ''failed to update data connection'')
                (fetch_one en DataConnections (where_id_tenant tx uid tenant_id) tx)) (\<lambda>d.
       rbind (read_connection en 0 d) (\<lambda>existing.
       rbind (update_fn (dcr_resource existing)) (\<lambda>dc.
       rbind (validate_connection_type en tx tenant_id (dc_data_connection_type_id dc)) (\<lambda>_.
       let resource =
         \<lparr>dcr_metadata = (dcr_metadata existing)\<lparr>md_updated_at := now en\<rparr>,
          dcr_resource = dc,
          dcr_status = dcr_status existing\<rparr> in
       rbind (map_err (\<lambda>_. Query ''failed to update data connection'')
                (execute_update en DataConnections (where_id_tenant tx uid tenant_id)
                   (data_connection_resource_to_value resource) tx)) (\<lambda>tx'.
       Inr (resource, tx'))))))) st"

definition update_data_connection_status ::
    "env \<Rightarrow> pg_meta_store \<Rightarrow> string \<Rightarrow> string \<Rightarrow>
     (data_connection_status \<Rightarrow> meta_store_error + data_connection_status) \<Rightarrow>
     (meta_store_error + data_connection_resource) \<times> pg_meta_store" where
  "update_data_connection_status en st tenant_id uid update_fn =
     transaction en (Query ''failed to update data connection status'') (\<lambda>tx.
       rbind (map_err (row_not_found_or
                  (ResourceNotFound (not_found_message ''data connection'' uid))
                  ''failed to update data connection status'')
                (fetch_one en DataConnections (where_id_tenant tx uid tenant_id) tx)) (\<lambda>d.
       rbind (read_connection en 0 d) (\<lambda>existing.
       rbind (update_fn (dcr_status existing)) (\<lambda>status.
       let resource =
         \<lparr>dcr_metadata = (dcr_metadata existing)\<lparr>md_updated_at := now en\<rparr>,
          dcr_resource = dcr_resource existing,
          dcr_status = status\<rparr> in
       rbind (map_err (\<lambda>_. Query ''failed to update data connection status'')
                (execute_update en DataConnections (where_id_tenant tx uid tenant_id)
                   (data_connection_resource_to_value resource) tx)) (\<lambda>tx'.
       Inr (resource, tx')))))) st"

text \<open>\<open>if result.rows_affected() == 0\<close> after a statement on the pool.\<close>

definition deleted_or :: "meta_store_error \<Rightarrow> string \<Rightarrow> sqlx_error + nat \<Rightarrow> meta_store_error + unit" where
  "deleted_or nf msg r =
     rbind (map_err (\<lambda>_. Query msg) r) (\<lambda>n. if n = 0 then Inl nf else Inr ())"

definition delete_data_connection ::
    "env \<Rightarrow> pg_meta_store \<Rightarrow> string \<Rightarrow> string \<Rightarrow> (meta_store_error + unit) \<times> pg_meta_store" where
  "delete_data_connection en st tenant_id uid =
     (let (result, st') = autocommit en
            (\<lambda>en' s. execute_delete en' DataConnections (where_id_tenant s uid tenant_id) s) st
      in (deleted_or (ResourceNotFound (not_found_message ''data connection'' uid))
            ''failed to delete data connection'' result, st'))"

section \<open>MetaStore: data connection types\<close>

definition get_all_data_connection_types ::
    "env \<Rightarrow> pg_meta_store \<Rightarrow> meta_store_error + data_connection_type_resource resource_list" where
  "get_all_data_connection_types en st =
     rbind (map_err (\<lambda>_. Query ''failed to list connection types'')
              (fetch_all en DataConnectionTypes (\<lambda>_. True) st)) (\<lambda>ds.
     rbind (rmapM (\<lambda>(i, d). rbind (read_connection_type en i d)
                      (\<lambda>dct. Inr (discard_global_tenant (global_tenant_id st) dct)))
              (enumerate 0 ds)) (\<lambda>xs.
     Inr (resource_list_of xs)))"

text \<open>An \<open>INSERT\<close> on the pool whose conflict is reported with a message of its own.\<close>

definition insert_named ::
    "env \<Rightarrow> table \<Rightarrow> json \<Rightarrow> string \<Rightarrow> pg_meta_store \<Rightarrow> (meta_store_error + unit) \<times> pg_meta_store" where
  "insert_named en t d conflict_msg st =
     (let (result, st') = autocommit en
            (\<lambda>en' s. rbind (execute_insert en' t d s) (\<lambda>s'. Inr ((), s'))) st
      in (map_err (\<lambda>e. case map_sqlx_error e of Conflict _ \<Rightarrow> Conflict conflict_msg | other \<Rightarrow> other)
            result, st'))"

definition create_data_connection_type ::
    "env \<Rightarrow> pg_meta_store \<Rightarrow> string \<Rightarrow> data_connection_type \<Rightarrow>
     (meta_store_error + data_connection_type_resource) \<times> pg_meta_store" where
  "create_data_connection_type en st tenant_id dct =
     (let resource =
        \<lparr>dctr_metadata = \<lparr>md_id = new_uuid en, md_tenant_id = Some tenant_id,
                         md_created_at = now en, md_updated_at = now en\<rparr>,
         dctr_resource = dct,
         dctr_status = default_data_connection_type_status\<rparr>;
        (result, st') = insert_named en DataConnectionTypes
          (data_connection_type_resource_to_value resource)
          (''a connection type named '' @ quoted (dct_name dct) @ '' already exists for this tenant'') st
      in (rbind result (\<lambda>_. Inr resource), st'))"

definition update_data_connection_type ::
    "env \<Rightarrow> pg_meta_store \<Rightarrow> string \<Rightarrow> string \<Rightarrow>
     (data_connection_type \<Rightarrow> meta_store_error + data_connection_type) \<Rightarrow>
     (meta_store_error + data_connection_type_resource) \<times> pg_meta_store" where
  "update_data_connection_type en st tenant_id uid update_fn =
     transaction en (Query ''failed to update connection type'') (\<lambda>tx.
       rbind (map_err (row_not_found_or
                  (ResourceNotFound (not_found_message ''connection type'' uid))
                  ''failed to update connection type'')
                (fetch_one en DataConnectionTypes (where_id_tenant tx uid tenant_id) tx)) (\<lambda>d.
       rbind (read_connection_type en 0 d) (\<lambda>existing.
       rbind (update_fn (dctr_resource existing)) (\<lambda>dct.
       let resource =
         \<lparr>dctr_metadata = (dctr_metadata existing)\<lparr>md_updated_at := now en\<rparr>,
          dctr_resource = dct,
          dctr_status = dctr_status existing\<rparr> in
       rbind (map_err (\<lambda>_. Query ''failed to update connection type'')
                (execute_update en DataConnectionTypes (where_id_tenant tx uid tenant_id)
                   (data_connection_type_resource_to_value resource) tx)) (\<lambda>tx'.
       Inr (resource, tx')))))) st"

definition update_data_connection_type_status ::
    "env \<Rightarrow> pg_meta_store \<Rightarrow> string \<Rightarrow>
     (data_connection_type_status \<Rightarrow> meta_store_error + data_connection_type_status) \<Rightarrow>
     (meta_store_error + data_connection_type_resource) \<times> pg_meta_store" where
  "update_data_connection_type_status en st uid update_fn =
     transaction en (Query ''failed to update connection type status'') (\<lambda>tx.
       rbind (map_err (row_not_found_or
                  (ResourceNotFound (not_found_message ''connection type'' uid))
                  ''failed to update connection type status'')
                (fetch_one en DataConnectionTypes (where_id tx uid) tx)) (\<lambda>d.
       rbind (read_connection_type en 0 d) (\<lambda>existing.
       rbind (update_fn (dctr_status existing)) (\<lambda>status.
       let resource =
         \<lparr>dctr_metadata = (dctr_metadata existing)\<lparr>md_updated_at := now en\<rparr>,
          dctr_resource = dctr_resource existing,
          dctr_status = status\<rparr> in
       rbind (map_err (\<lambda>_. Query ''failed to update connection type status'')
                (execute_update en DataConnectionTypes (where_id tx uid)
                   (data_connection_type_resource_to_value resource) tx)) (\<lambda>tx'.
       Inr (resource, tx')))))) st"

definition delete_data_connection_type ::
    "env \<Rightarrow> pg_meta_store \<Rightarrow> string \<Rightarrow> string \<Rightarrow> (meta_store_error + unit) \<times> pg_meta_store" where
  "delete_data_connection_type en st tenant_id uid =
     transaction en (Query ''failed to delete connection type'') (\<lambda>tx.
       rbind (map_err (row_not_found_or
                  (ResourceNotFound (not_found_message ''connection type'' uid))
                  ''failed to delete connection type'')
                (fetch_one en DataConnectionTypes (where_id_tenant tx uid tenant_id) tx)) (\<lambda>_.
       rbind (map_err (\<lambda>_. Query ''failed to delete connection type'')
                (fetch_count en DataConnections (\<lambda>d. row_type_ref tx d = Some uid) tx)) (\<lambda>count.
       if 0 < count then Inl (Conflict (connection_type_in_use_message uid count))
       else
       rbind (map_err (\<lambda>_. Query ''failed to delete connection type'')
                (execute_delete en DataConnectionTypes (where_id_tenant tx uid tenant_id) tx)) (\<lambda>(n, tx').
       if n = 0 then Inl (ResourceNotFound (not_found_message ''connection type'' uid))
       else Inr ((), tx'))))) st"

section \<open>FlightDiscoveryStore\<close>

definition create_flight_service ::
    "env \<Rightarrow> pg_meta_store \<Rightarrow> flight_service \<Rightarrow>
     (meta_store_error + flight_service_resource) \<times> pg_meta_store" where
  "create_flight_service en st fs =
     (let resource =
        \<lparr>fsr_metadata = \<lparr>md_id = new_uuid en, md_tenant_id = None,
                        md_created_at = now en, md_updated_at = now en\<rparr>,
         fsr_resource = fs\<rparr>;
        (result, st') = insert_named en FlightServices (flight_service_resource_to_value resource)
          (''a flight service named '' @ quoted (fs_name fs) @ '' already exists in namespace ''
             @ quoted (fs_namespace fs)) st
      in (rbind result (\<lambda>_. Inr resource), st'))"

definition get_all_flight_services ::
    "env \<Rightarrow> pg_meta_store \<Rightarrow> meta_store_error + flight_service_resource resource_list" where
  "get_all_flight_services en st =
     rbind (map_err (\<lambda>_. Query ''failed to list flight services'')
              (fetch_all en FlightServices (\<lambda>_. True) st)) (\<lambda>ds.
     rbind (rmapM (\<lambda>(i, d). read_flight_service en i d) (enumerate 0 ds)) (\<lambda>xs.
     Inr (resource_list_of xs)))"

definition where_connector :: "string \<Rightarrow> json \<Rightarrow> bool" where
  "where_connector connector d =
     (case Option.bind (json_get d ''resource'') (\<lambda>r. json_get r ''supported_connectors'') of
        None \<Rightarrow> False
      | Some cs \<Rightarrow> jsonb_contains_string cs connector)"

definition get_flight_service_by_connector ::
    "env \<Rightarrow> pg_meta_store \<Rightarrow> string \<Rightarrow> meta_store_error + flight_service_resource" where
  "get_flight_service_by_connector en st connector =
     rbind (map_err (row_not_found_or
                (ResourceNotFound (''no flight service supports connector '' @ quoted connector))
                ''failed to retrieve flight service'')
              (fetch_one en FlightServices (where_connector connector) st)) (\<lambda>d.
     read_flight_service en 0 d)"

definition get_flight_service ::
    "env \<Rightarrow> pg_meta_store \<Rightarrow> string \<Rightarrow> meta_store_error + flight_service_resource" where
  "get_flight_service en st uid =
     rbind (map_err (row_not_found_or
                (ResourceNotFound (not_found_message ''flight service'' uid))
                ''failed to retrieve flight service'')
              (fetch_one en FlightServices (where_id st uid) st)) (\<lambda>d.
     read_flight_service en 0 d)"

definition update_flight_service ::
    "env \<Rightarrow> pg_meta_store \<Rightarrow> string \<Rightarrow> (flight_service \<Rightarrow> meta_store_error + flight_service) \<Rightarrow>
     (meta_store_error + flight_service_resource) \<times> pg_meta_store" where
  "update_flight_service en st uid update_fn =
     transaction en (Query ''failed to update flight service'') (\<lambda>tx.
       rbind (map_err (row_not_found_or
                  (ResourceNotFound (not_found_message ''flight service'' uid))
                  ''failed to update flight service'')
                (fetch_one en FlightServices (where_id tx uid) tx)) (\<lambda>d.
       rbind (read_flight_service en 0 d) (\<lambda>existing.
       let uid' = md_id (fsr_metadata existing) in
       rbind (update_fn (fsr_resource existing)) (\<lambda>service.
       let resource =
         existing\<lparr>fsr_metadata := (fsr_metadata existing)\<lparr>md_updated_at := now en\<rparr>,
                  fsr_resource := service\<rparr> in
       rbind (map_err (\<lambda>_. Query ''failed to update flight service'')
                (execute_update en FlightServices (where_id tx uid')
                   (flight_service_resource_to_value resource) tx)) (\<lambda>tx'.
       Inr (resource, tx')))))) st"

definition delete_flight_service ::
    "env \<Rightarrow> pg_meta_store \<Rightarrow> string \<Rightarrow> (meta_store_error + unit) \<times> pg_meta_store" where
  "delete_flight_service en st uid =
     (let (result, st') = autocommit en
            (\<lambda>en' s. execute_delete en' FlightServices (where_id s uid) s) st
      in (deleted_or (ResourceNotFound (not_found_message ''flight service'' uid))
            ''failed to delete flight service'' result, st'))"

end
