(* ===== verification/Meta_Invariant.thy ===== *)
theory Meta_Invariant
  imports Meta_Store
begin

text \<open>
  What the metadata store promises.  The documents of the three tables share a contract on
  their metadata (\<open>resource_doc\<close>).  An abstract step relation says what an operation may do to
  the tables; every operation of \<open>PgMetaStore\<close>, in every environment and whatever fails,
  refines it.  On the abstract steps: the unique indexes hold, every connection refers to a
  connection type its tenant can see, and a tenant's operation leaves the other tenants' rows
  as they are.
\<close>

section \<open>Documents with metadata\<close>

lemma as_str_eq_Some: "as_str v = Some s \<longleftrightarrow> v = JString s"
  by (cases v) auto

lemma metadata_from_object:
  assumes "metadata_from_value (JObject m) = Some x"
  shows "map_of m ''id'' = Some (JString (md_id x))"
    and "Option.bind (map_of m ''tenant_id'') (jsonb_text_of txt) = md_tenant_id x"
  using assms
  by (auto simp: metadata_from_value_def bind_eq_Some_conv field_req_def field_opt_def
      dec_string_def dec_option_def as_str_eq_Some split: option.splits if_splits)

lemma data_connection_from_object:
  "data_connection_from_value (JObject m) = Some x \<Longrightarrow>
   map_of m ''data_connection_type_id'' = Some (JString (dc_data_connection_type_id x))"
  by (auto simp: data_connection_from_value_def bind_eq_Some_conv field_req_def dec_string_def
      as_str_eq_Some)

locale resource_doc = json_codec enc dec
  for enc :: "'r \<Rightarrow> json" and dec :: "json \<Rightarrow> 'r option" +
  fixes md :: "'r \<Rightarrow> resource_metadata"
  assumes enc_metadata: "json_get (enc r) ''metadata'' = Some (metadata_to_value (md r))"
    and dec_metadata: "dec (JObject m) = Some r \<Longrightarrow>
      \<exists>v. map_of m ''metadata'' = Some v \<and> metadata_from_value v = Some (md r)"
begin

lemma row_id_enc [simp]: "row_id st (enc r) = Some (md_id (md r))"
  by (simp add: doc_path_def jsonb_path_text_def enc_metadata metadata_to_value_def)

lemma row_tenant_enc [simp]: "row_tenant st (enc r) = md_tenant_id (md r)"
  by (simp add: doc_path_def jsonb_path_text_def enc_metadata metadata_to_value_def codec_simps
      del: map_of_append split: option.splits)

lemma dec_row:
  assumes "dec d = Some r" "row_id st d = Some i"
  shows "md_id (md r) = i \<and> md_tenant_id (md r) = row_tenant st d"
proof -
  obtain m v where m: "d = JObject m" "map_of m ''metadata'' = Some v"
    using assms(2) by (cases d) (auto simp: doc_path_def jsonb_path_text_def bind_eq_Some_conv)
  with assms(2) obtain mm where v: "v = JObject mm"
    by (cases v) (auto simp: doc_path_def jsonb_path_text_def)
  have "metadata_from_value v = Some (md r)"
    using dec_metadata assms(1) m by fastforce
  then show ?thesis
    using assms(2) m v metadata_from_object [of mm "md r"]
    by (simp add: doc_path_def jsonb_path_text_def)
qed

lemma dec_row_tenant:
  assumes "dec d = Some r" "row_tenant st d = Some t"
  shows "row_id st d = Some (md_id (md r))"
proof -
  obtain m v where m: "d = JObject m" "map_of m ''metadata'' = Some v"
    using assms(2) by (cases d) (auto simp: doc_path_def jsonb_path_text_def bind_eq_Some_conv)
  with assms(2) obtain mm where v: "v = JObject mm"
    by (cases v) (auto simp: doc_path_def jsonb_path_text_def)
  have "metadata_from_value v = Some (md r)"
    using dec_metadata assms(1) m by fastforce
  then show ?thesis
    using m v metadata_from_object [of mm "md r"]
    by (simp add: doc_path_def jsonb_path_text_def)
qed

end

text \<open>What a derived struct decoder says of the members of an object.\<close>

lemma field_req_object: "field_req d (map_of m) k = Some x \<Longrightarrow> \<exists>v. map_of m k = Some v \<and> d v = Some x"
  by (auto simp: field_req_def bind_eq_Some_conv)

interpretation connection_doc:
  resource_doc data_connection_resource_to_value data_connection_resource_from_value dcr_metadata
  by unfold_locales
    (auto simp: data_connection_resource_to_value_def data_connection_resource_from_value_def
      bind_eq_Some_conv dest!: field_req_object)

interpretation connection_type_doc:
  resource_doc data_connection_type_resource_to_value data_connection_type_resource_from_value
    dctr_metadata
  by unfold_locales
    (auto simp: data_connection_type_resource_to_value_def
      data_connection_type_resource_from_value_def bind_eq_Some_conv dest!: field_req_object)

interpretation flight_service_doc:
  resource_doc flight_service_resource_to_value flight_service_resource_from_value fsr_metadata
  by unfold_locales
    (auto simp: flight_service_resource_to_value_def flight_service_resource_from_value_def
      bind_eq_Some_conv dest!: field_req_object)

lemma row_type_ref_enc [simp]:
  "row_type_ref st (data_connection_resource_to_value r) =
     Some (dc_data_connection_type_id (dcr_resource r))"
  by (simp add: doc_path_def jsonb_path_text_def data_connection_resource_to_value_def
      data_connection_to_value_def)

lemma dec_row_type_ref:
  assumes "data_connection_resource_from_value d = Some r" "row_id st d = Some i"
    "row_type_ref st d = Some tid"
  shows "dc_data_connection_type_id (dcr_resource r) = tid"
proof -
  obtain m v where m: "d = JObject m" "map_of m ''resource'' = Some v"
    using assms(3) by (cases d) (auto simp: doc_path_def jsonb_path_text_def bind_eq_Some_conv)
  with assms(3) obtain mm where v: "v = JObject mm"
    by (cases v) (auto simp: doc_path_def jsonb_path_text_def)
  have "data_connection_from_value v = Some (dcr_resource r)"
    using assms(1) m
    by (auto simp: data_connection_resource_from_value_def bind_eq_Some_conv
        dest!: field_req_object)
  then show ?thesis
    using assms(3) m v data_connection_from_object [of mm "dcr_resource r"]
    by (simp add: doc_path_def jsonb_path_text_def)
qed

section \<open>Unique indexes\<close>

definition indexes_ok :: "pg_meta_store \<Rightarrow> bool" where
  "indexes_ok st \<longleftrightarrow>
     unique_ok st DataConnections (data_connections st)
     \<and> unique_ok st DataConnectionTypes (data_connection_types st)
     \<and> unique_ok st FlightServices (flight_services st)"

lemma indexes_ok_rows: "indexes_ok st \<Longrightarrow> unique_ok st t (rows t st)"
  by (cases t) (simp_all add: indexes_ok_def)

lemma indexes_ok_set_rows: "indexes_ok st \<Longrightarrow> unique_ok st t ds \<Longrightarrow> indexes_ok (set_rows t ds st)"
proof -
  assume ok: "indexes_ok st" "unique_ok st t ds"
  have "unique_ok (set_rows t ds st) u (rows u (set_rows t ds st))" for u
    using ok indexes_ok_rows [OF ok(1), of u] by simp
  from this [of DataConnections] this [of DataConnectionTypes] this [of FlightServices]
  show ?thesis unfolding indexes_ok_def by (cases t) simp_all
qed

lemma set_map_filter: "set (List.map_filter f xs) = {y. \<exists>x \<in> set xs. f x = Some y}"
  by (induction xs) (auto simp: map_filter_simps split: option.splits)

lemma distinct_map_filter_filter:
  "distinct (List.map_filter f xs) \<Longrightarrow> distinct (List.map_filter f (filter p xs))"
proof (induction xs)
  case (Cons x xs)
  then show ?case
    by (auto simp: map_filter_simps set_map_filter split: option.splits)
qed (simp add: map_filter_simps)

lemma unique_ok_filter: "unique_ok st t ds \<Longrightarrow> unique_ok st t (filter p ds)"
  by (auto simp: unique_ok_def list_all_iff distinct_map_filter_filter)

lemma distinct_map_filter_inj:
  "distinct (List.map_filter f xs) \<Longrightarrow> x \<in> set xs \<Longrightarrow> y \<in> set xs \<Longrightarrow> f x = Some k \<Longrightarrow> f y = Some k
   \<Longrightarrow> x = y"
proof (induction xs)
  case (Cons a xs)
  then show ?case
    by (auto simp: map_filter_simps set_map_filter split: option.splits)
qed simp

lemma unique_ok_row_id:
  assumes "unique_ok st t ds" "d \<in> set ds" "d' \<in> set ds" "row_id st d = Some i" "row_id st d' = Some i"
  shows "d = d'"
proof -
  have "distinct (List.map_filter (index_key st [(''metadata'', ''id'')]) ds)"
    using assms(1) by (cases t) (simp_all add: unique_ok_def)
  moreover have "index_key st [(''metadata'', ''id'')] d = Some [i]"
      "index_key st [(''metadata'', ''id'')] d' = Some [i]"
    using assms(4,5) by (simp_all add: index_key_def)
  ultimately show ?thesis
    using distinct_map_filter_inj assms(2,3) by metis
qed

section \<open>The abstract steps\<close>

text \<open>A connection type that a tenant can see: its own, or a global one.\<close>

definition type_visible :: "pg_meta_store \<Rightarrow> string \<Rightarrow> string option \<Rightarrow> bool" where
  "type_visible st tid tenant \<longleftrightarrow>
     (\<exists>ty \<in> set (data_connection_types st).
        row_id st ty = Some tid
        \<and> (row_tenant st ty = tenant \<or> row_tenant st ty = Some (global_tenant_id st)))"

definition references_ok :: "pg_meta_store \<Rightarrow> bool" where
  "references_ok st \<longleftrightarrow>
     (\<forall>d \<in> set (data_connections st).
        case row_type_ref st d of None \<Rightarrow> False | Some tid \<Rightarrow> type_visible st tid (row_tenant st d))"

text \<open>Every row is a document that deserialises as a resource of its table.\<close>

fun row_ok :: "table \<Rightarrow> json \<Rightarrow> bool" where
  "row_ok DataConnections d = (data_connection_resource_from_value d \<noteq> None)"
| "row_ok DataConnectionTypes d = (data_connection_type_resource_from_value d \<noteq> None)"
| "row_ok FlightServices d = (flight_service_resource_from_value d \<noteq> None)"

declare row_ok.simps [simp del]

definition docs_ok :: "pg_meta_store \<Rightarrow> bool" where
  "docs_ok st \<longleftrightarrow>
     list_all (row_ok DataConnections) (data_connections st)
     \<and> list_all (row_ok DataConnectionTypes) (data_connection_types st)
     \<and> list_all (row_ok FlightServices) (flight_services st)"

definition meta_inv :: "pg_meta_store \<Rightarrow> bool" where
  "meta_inv st \<longleftrightarrow> indexes_ok st \<and> references_ok st \<and> docs_ok st"

text \<open>
  What an operation on behalf of tenant \<open>Some t\<close>, or of the system (\<open>None\<close>), may do to the
  tables.
\<close>

definition replace_rows :: "(json \<Rightarrow> bool) \<Rightarrow> json \<Rightarrow> json list \<Rightarrow> json list" where
  "replace_rows p d ds = map (\<lambda>r. if p r then d else r) ds"

inductive store_step :: "string option \<Rightarrow> pg_meta_store \<Rightarrow> pg_meta_store \<Rightarrow> bool" where
  unchanged: "store_step a st st"
| insert_connection:
    "row_ok DataConnections d \<Longrightarrow> row_tenant st d = Some t \<Longrightarrow> row_type_ref st d = Some tid \<Longrightarrow> type_visible st tid (Some t) \<Longrightarrow>
     unique_ok st DataConnections (data_connections st @ [d]) \<Longrightarrow>
     store_step (Some t) st (st\<lparr>data_connections := data_connections st @ [d]\<rparr>)"
| replace_connection:
    "row_ok DataConnections d \<Longrightarrow> row_id st d = Some uid \<Longrightarrow> row_tenant st d = Some t \<Longrightarrow> row_type_ref st d = Some tid \<Longrightarrow>
     type_visible st tid (Some t) \<Longrightarrow>
     ds = replace_rows (where_id_tenant st uid t) d (data_connections st) \<Longrightarrow>
     unique_ok st DataConnections ds \<Longrightarrow>
     store_step (Some t) st (st\<lparr>data_connections := ds\<rparr>)"
| delete_connection:
    "ds = filter (\<lambda>d. \<not> where_id_tenant st uid t d) (data_connections st) \<Longrightarrow>
     store_step (Some t) st (st\<lparr>data_connections := ds\<rparr>)"
| insert_type:
    "row_ok DataConnectionTypes d \<Longrightarrow> row_tenant st d = Some t \<Longrightarrow>
     unique_ok st DataConnectionTypes (data_connection_types st @ [d]) \<Longrightarrow>
     store_step (Some t) st (st\<lparr>data_connection_types := data_connection_types st @ [d]\<rparr>)"
| replace_type:
    "row_ok DataConnectionTypes d \<Longrightarrow> (\<And>d'. d' \<in> set (data_connection_types st) \<Longrightarrow> p d' \<Longrightarrow>
        row_id st d = row_id st d' \<and> row_tenant st d = row_tenant st d'
        \<and> (case a of None \<Rightarrow> True | Some t \<Rightarrow> row_tenant st d' = Some t)) \<Longrightarrow>
     ds = replace_rows p d (data_connection_types st) \<Longrightarrow>
     unique_ok st DataConnectionTypes ds \<Longrightarrow>
     store_step a st (st\<lparr>data_connection_types := ds\<rparr>)"
| delete_type:
    "(\<And>d. d \<in> set (data_connections st) \<Longrightarrow> row_type_ref st d \<noteq> Some uid) \<Longrightarrow>
     ds = filter (\<lambda>d. \<not> where_id_tenant st uid t d) (data_connection_types st) \<Longrightarrow>
     store_step (Some t) st (st\<lparr>data_connection_types := ds\<rparr>)"
| change_flight_services:
    "unique_ok st FlightServices ds \<Longrightarrow>
     set ds \<subseteq> set (flight_services st) \<union> Collect (row_ok FlightServices) \<Longrightarrow>
     store_step None st (st\<lparr>flight_services := ds\<rparr>)"

section \<open>The invariant is kept by every step\<close>

lemma store_update_simps [simp]:
  "doc_path (st\<lparr>data_connections := ds\<rparr>) = doc_path st"
  "doc_path (st\<lparr>data_connection_types := ds\<rparr>) = doc_path st"
  "doc_path (st\<lparr>flight_services := ds\<rparr>) = doc_path st"
  "unique_ok (st\<lparr>data_connections := ds\<rparr>) = unique_ok st"
  "unique_ok (st\<lparr>data_connection_types := ds\<rparr>) = unique_ok st"
  "unique_ok (st\<lparr>flight_services := ds\<rparr>) = unique_ok st"
  using path_set_rows [of DataConnections ds st] path_set_rows [of DataConnectionTypes ds st]
    path_set_rows [of FlightServices ds st] unique_ok_set_rows [of DataConnections ds st]
    unique_ok_set_rows [of DataConnectionTypes ds st] unique_ok_set_rows [of FlightServices ds st]
  by simp_all

lemma where_update_simps [simp]:
  "where_id_tenant (st\<lparr>data_connections := ds\<rparr>) = where_id_tenant st"
  "where_id_tenant (st\<lparr>data_connection_types := ds\<rparr>) = where_id_tenant st"
  "where_id (st\<lparr>data_connection_types := ds\<rparr>) = where_id st"
  "where_id (st\<lparr>flight_services := ds\<rparr>) = where_id st"
  by (simp_all add: fun_eq_iff where_id_tenant_def where_id_def)

lemma set_replace_rows:
  "set (replace_rows p d ds) \<subseteq> insert d (set ds)"
  "x \<in> set ds \<Longrightarrow> \<not> p x \<Longrightarrow> x \<in> set (replace_rows p d ds)"
  "x \<in> set ds \<Longrightarrow> p x \<Longrightarrow> d \<in> set (replace_rows p d ds)"
  by (auto simp: replace_rows_def)

lemma type_visible_simps [simp]:
  "type_visible (st\<lparr>data_connections := ds\<rparr>) tid a = type_visible st tid a"
  "type_visible (st\<lparr>flight_services := ds\<rparr>) tid a = type_visible st tid a"
  by (simp_all add: type_visible_def)

lemma type_visible_mono:
  assumes "type_visible st tid a"
    and "\<And>ty. ty \<in> set (data_connection_types st) \<Longrightarrow> row_id st ty = Some tid \<Longrightarrow>
      \<exists>ty' \<in> set ts. row_id st ty' = row_id st ty \<and> row_tenant st ty' = row_tenant st ty"
  shows "type_visible (st\<lparr>data_connection_types := ts\<rparr>) tid a"
  using assms by (fastforce simp: type_visible_def)

lemma references_ok_iff:
  "references_ok st \<longleftrightarrow>
     (\<forall>d \<in> set (data_connections st).
        \<exists>tid. row_type_ref st d = Some tid \<and> type_visible st tid (row_tenant st d))"
  by (auto simp: references_ok_def split: option.splits)

lemma references_ok_types:
  assumes ok: "references_ok st"
    and keep: "\<And>ty d. ty \<in> set (data_connection_types st) \<Longrightarrow> d \<in> set (data_connections st) \<Longrightarrow>
      row_id st ty = row_type_ref st d \<Longrightarrow>
      \<exists>ty' \<in> set ts. row_id st ty' = row_id st ty \<and> row_tenant st ty' = row_tenant st ty"
  shows "references_ok (st\<lparr>data_connection_types := ts\<rparr>)"
  unfolding references_ok_iff
proof (simp, intro ballI)
  fix d
  assume d: "d \<in> set (data_connections st)"
  with ok obtain tid where tid: "row_type_ref st d = Some tid" "type_visible st tid (row_tenant st d)"
    unfolding references_ok_iff by blast
  have "type_visible (st\<lparr>data_connection_types := ts\<rparr>) tid (row_tenant st d)"
    using tid(2) by (rule type_visible_mono) (use keep [OF _ d] tid(1) in simp)
  with tid(1) show "\<exists>tid. row_type_ref st d = Some tid
      \<and> type_visible (st\<lparr>data_connection_types := ts\<rparr>) tid (row_tenant st d)"
    by blast
qed

lemma references_ok_connections:
  assumes "references_ok st"
    and "\<And>d. d \<in> set ds \<Longrightarrow> d \<notin> set (data_connections st) \<Longrightarrow>
      \<exists>tid. row_type_ref st d = Some tid \<and> type_visible st tid (row_tenant st d)"
  shows "references_ok (st\<lparr>data_connections := ds\<rparr>)"
  using assms by (simp add: references_ok_iff) blast

lemma store_step_indexes_ok: "store_step a st st' \<Longrightarrow> indexes_ok st \<Longrightarrow> indexes_ok st'"
  by (induction rule: store_step.induct)
    (auto simp: indexes_ok_def unique_ok_filter)

lemma store_step_references_ok: "store_step a st st' \<Longrightarrow> references_ok st \<Longrightarrow> references_ok st'"
proof (induction rule: store_step.induct)
  case (replace_type d st p a ds)
  show ?case
  proof (rule references_ok_types [OF replace_type.prems])
    fix ty c
    assume ty: "ty \<in> set (data_connection_types st)"
    show "\<exists>ty' \<in> set ds. row_id st ty' = row_id st ty \<and> row_tenant st ty' = row_tenant st ty"
    proof (cases "p ty")
      case True
      then show ?thesis
        using replace_type.hyps(2) [OF ty] set_replace_rows(3) [OF ty] replace_type.hyps(3) by blast
    next
      case False
      then show ?thesis
        using set_replace_rows(2) [OF ty] replace_type.hyps(3) by blast
    qed
  qed
next
  case (delete_type st uid ds t)
  show ?case
  proof (rule references_ok_types [OF delete_type.prems])
    fix ty d
    assume "ty \<in> set (data_connection_types st)" "d \<in> set (data_connections st)"
      "row_id st ty = row_type_ref st d"
    then have "ty \<in> set ds"
      using delete_type.hyps by (auto simp: where_id_tenant_def)
    then show "\<exists>ty' \<in> set ds. row_id st ty' = row_id st ty \<and> row_tenant st ty' = row_tenant st ty"
      by blast
  qed
next
  case (insert_type d st t)
  then show ?case by (intro references_ok_types) auto
next
  case (replace_connection d st uid t tid ds)
  show ?case
    using replace_connection.prems
    by (rule references_ok_connections) (use replace_connection.hyps set_replace_rows(1) in fastforce)
next
  case (change_flight_services st ds)
  then show ?case by (simp add: references_ok_iff)
qed (auto intro: references_ok_connections)

lemma store_step_docs_ok: "store_step a st st' \<Longrightarrow> docs_ok st \<Longrightarrow> docs_ok st'"
  by (induction rule: store_step.induct)
    (auto simp: docs_ok_def list_all_iff replace_rows_def)

lemma store_step_meta_inv: "store_step a st st' \<Longrightarrow> meta_inv st \<Longrightarrow> meta_inv st'"
  using store_step_indexes_ok store_step_references_ok store_step_docs_ok
  unfolding meta_inv_def by blast

text \<open>What the other tenants see of the tables.\<close>

definition rows_of_others :: "pg_meta_store \<Rightarrow> string \<Rightarrow> json list \<Rightarrow> json list" where
  "rows_of_others st t ds = filter (\<lambda>d. row_tenant st d \<noteq> Some t) ds"

lemma rows_of_others_replace:
  "row_tenant st d = Some t \<Longrightarrow> (\<And>d'. d' \<in> set ds \<Longrightarrow> p d' \<Longrightarrow> row_tenant st d' = Some t) \<Longrightarrow>
   rows_of_others st t (replace_rows p d ds) = rows_of_others st t ds"
  by (induction ds) (auto simp: rows_of_others_def replace_rows_def)

lemma store_step_others:
  "store_step (Some t) st st' \<Longrightarrow>
   rows_of_others st' t (data_connections st') = rows_of_others st t (data_connections st)
   \<and> rows_of_others st' t (data_connection_types st') = rows_of_others st t (data_connection_types st)
   \<and> flight_services st' = flight_services st"
proof (induction "Some t" st st' rule: store_step.induct)
  case (replace_type d st p ds)
  have "rows_of_others st t (replace_rows p d (data_connection_types st))
      = rows_of_others st t (data_connection_types st)"
  proof (cases "\<exists>d' \<in> set (data_connection_types st). p d'")
    case True
    have hyp: "d' \<in> set (data_connection_types st) \<Longrightarrow> p d' \<Longrightarrow>
        row_tenant st d' = Some t \<and> row_tenant st d = row_tenant st d'" for d'
      using replace_type(2) [of d'] by simp
    show ?thesis
      using True hyp by (intro rows_of_others_replace) auto
  next
    case False
    then have "replace_rows p d (data_connection_types st) = data_connection_types st"
      by (simp add: replace_rows_def map_idI)
    then show ?thesis by simp
  qed
  then show ?case using replace_type by (simp add: rows_of_others_def)
next
  case (replace_connection d st uid tid ds)
  then show ?case
    using rows_of_others_replace [of st d t "data_connections st" "where_id_tenant st uid t"]
    by (auto simp: rows_of_others_def where_id_tenant_def)
next
  case (delete_connection ds st uid)
  then show ?case
    by (auto simp: rows_of_others_def where_id_tenant_def intro!: filter_cong)
next
  case (delete_type st uid ds)
  then show ?case
    by (auto simp: rows_of_others_def where_id_tenant_def intro!: filter_cong)
qed (simp_all add: rows_of_others_def)

section \<open>Every operation refines a step\<close>

lemma row_ok_enc [simp]:
  "row_ok DataConnections (data_connection_resource_to_value r)"
  "row_ok DataConnectionTypes (data_connection_type_resource_to_value t)"
  "row_ok FlightServices (flight_service_resource_to_value f)"
  by (simp_all add: row_ok.simps data_connection_resource_codec.dec_enc data_connection_type_resource_codec.dec_enc
      flight_service_resource_codec.dec_enc)

lemma where_idD [dest]:
  "where_id st uid d \<Longrightarrow> row_id st d = Some uid"
  "where_id_tenant st uid t d \<Longrightarrow> row_id st d = Some uid \<and> row_tenant st d = Some t"
  by (simp_all add: where_id_def where_id_tenant_def)

lemma read_row_eq_Inr [sql_simps]:
  "read_row en rm dm dec i d = Inr x \<longleftrightarrow> db_fault en (Column i) = None \<and> dec d = Some x"
  by (auto simp: read_row_def result_simps sql_simps)

lemma validate_connection_type_visible:
  "validate_connection_type en st t tid = Inr u \<Longrightarrow> type_visible st tid (Some t)"
  by (auto simp: validate_connection_type_def result_simps type_visible_def
      where_id_tenant_or_global_def dest!: fetch_one_rowD)

lemma create_data_connection_step:
  "store_step (Some t) st (snd (create_data_connection en st t dc))"
  unfolding create_data_connection_def
  by (rule transaction_keeps)
    (auto simp: result_simps sql_simps Let_def new_data_connection_resource_def
      intro: unchanged intro!: insert_connection dest: validate_connection_type_visible)

lemma found_connection:
  assumes "find (where_id_tenant st uid t) (data_connections st) = Some d"
    "data_connection_resource_from_value d = Some r"
  shows "d \<in> set (data_connections st)" "row_id st d = Some uid" "row_tenant st d = Some t"
    "md_id (dcr_metadata r) = uid" "md_tenant_id (dcr_metadata r) = Some t"
proof -
  show d: "d \<in> set (data_connections st)" "row_id st d = Some uid" "row_tenant st d = Some t"
    using find_SomeD [OF assms(1)] by (simp_all add: where_id_tenant_def)
  show "md_id (dcr_metadata r) = uid" "md_tenant_id (dcr_metadata r) = Some t"
    using connection_doc.dec_row [OF assms(2) d(2)] d(3) by simp_all
qed

lemma rewrite_connection:
  assumes "find (where_id_tenant st uid t) (data_connections st) = Some d"
    "data_connection_resource_from_value d = Some e"
    and "md_id (dcr_metadata r) = md_id (dcr_metadata e)"
    "md_tenant_id (dcr_metadata r) = md_tenant_id (dcr_metadata e)"
    and "type_visible st (dc_data_connection_type_id (dcr_resource r)) (Some t)"
    and "unique_ok st DataConnections
      (map (\<lambda>x. if where_id_tenant st uid t x then data_connection_resource_to_value r else x)
        (data_connections st))"
  shows "store_step (Some t) st (st\<lparr>data_connections :=
      map (\<lambda>x. if where_id_tenant st uid t x then data_connection_resource_to_value r else x)
        (data_connections st)\<rparr>)"
  using assms found_connection [OF assms(1,2)]
  by (intro replace_connection [where d = "data_connection_resource_to_value r" and uid = uid])
    (simp_all add: replace_rows_def)

lemma update_data_connection_step:
  "store_step (Some t) st (snd (update_data_connection en st t uid f))"
  unfolding update_data_connection_def
  by (rule transaction_keeps)
    (auto simp: result_simps sql_simps Let_def intro: unchanged intro!: rewrite_connection
      dest: validate_connection_type_visible)

lemma found_connection_visible:
  assumes "references_ok st" "find (where_id_tenant st uid t) (data_connections st) = Some d"
    "data_connection_resource_from_value d = Some r"
  shows "type_visible st (dc_data_connection_type_id (dcr_resource r)) (Some t)"
proof -
  note d = found_connection [OF assms(2,3)]
  obtain tid where "row_type_ref st d = Some tid" "type_visible st tid (row_tenant st d)"
    using assms(1) d(1) unfolding references_ok_iff by blast
  then show ?thesis
    using dec_row_type_ref [OF assms(3) d(2)] d(3) by simp
qed

lemma update_data_connection_status_step:
  "references_ok st \<Longrightarrow> store_step (Some t) st (snd (update_data_connection_status en st t uid f))"
  unfolding update_data_connection_status_def
  by (rule transaction_keeps)
    (auto simp: result_simps sql_simps Let_def intro: unchanged intro!: rewrite_connection
      dest: found_connection_visible)

lemma delete_data_connection_step:
  "store_step (Some t) st (snd (delete_data_connection en st t uid))"
proof -
  have "store_step (Some t) st (snd (autocommit en
     (\<lambda>en' s. execute_delete en' DataConnections (where_id_tenant s uid t) s) st))"
    by (rule autocommit_keeps) (auto simp: sql_simps intro: unchanged delete_connection)
  then show ?thesis
    by (simp add: delete_data_connection_def split_def Let_def)
qed

lemma insert_named_keeps:
  "P st \<Longrightarrow> (unique_ok st t (rows t st @ [d]) \<Longrightarrow> P (set_rows t (rows t st @ [d]) st)) \<Longrightarrow>
   P (snd (insert_named en t d msg st))"
  unfolding insert_named_def Let_def split_def snd_conv
  by (rule autocommit_keeps) (auto simp: sql_simps result_simps)

lemma create_data_connection_type_step:
  "store_step (Some t) st (snd (create_data_connection_type en st t dct))"
  unfolding create_data_connection_type_def Let_def split_def snd_conv
  by (rule insert_named_keeps) (auto intro: unchanged intro!: insert_type)

lemma found_type:
  assumes "find p (data_connection_types st) = Some d" "\<And>x. p x \<Longrightarrow> row_id st x = Some uid"
    "data_connection_type_resource_from_value d = Some r"
  shows "d \<in> set (data_connection_types st)" "p d" "row_id st d = Some uid"
    "md_id (dctr_metadata r) = uid" "md_tenant_id (dctr_metadata r) = row_tenant st d"
proof -
  show d: "d \<in> set (data_connection_types st)" "p d" "row_id st d = Some uid"
    using find_SomeD [OF assms(1)] assms(2) by auto
  show "md_id (dctr_metadata r) = uid" "md_tenant_id (dctr_metadata r) = row_tenant st d"
    using connection_type_doc.dec_row [OF assms(3) d(3)] by simp_all
qed

lemma rewrite_type:
  assumes f: "find p (data_connection_types st) = Some d" "\<And>x. p x \<Longrightarrow> row_id st x = Some uid"
    "data_connection_type_resource_from_value d = Some e"
    and md: "md_id (dctr_metadata r) = md_id (dctr_metadata e)"
    "md_tenant_id (dctr_metadata r) = md_tenant_id (dctr_metadata e)"
    and ix: "indexes_ok st"
    and a: "\<And>x. p x \<Longrightarrow> case a of None \<Rightarrow> True | Some t \<Rightarrow> row_tenant st x = Some t"
    and u: "unique_ok st DataConnectionTypes
      (map (\<lambda>x. if p x then data_connection_type_resource_to_value r else x)
        (data_connection_types st))"
  shows "store_step a st (st\<lparr>data_connection_types :=
      map (\<lambda>x. if p x then data_connection_type_resource_to_value r else x)
        (data_connection_types st)\<rparr>)"
proof (rule replace_type)
  fix d'
  assume d': "d' \<in> set (data_connection_types st)" "p d'"
  have "d' = d"
    using unique_ok_row_id [OF indexes_ok_rows [OF ix, of DataConnectionTypes]]
      found_type [OF f] d' f(2) by simp
  then show "row_id st (data_connection_type_resource_to_value r) = row_id st d'
      \<and> row_tenant st (data_connection_type_resource_to_value r) = row_tenant st d'
      \<and> (case a of None \<Rightarrow> True | Some t \<Rightarrow> row_tenant st d' = Some t)"
    using found_type [OF f] md a d'(2) by simp
qed (use u in \<open>simp_all add: replace_rows_def\<close>)

lemma update_data_connection_type_step:
  "indexes_ok st \<Longrightarrow> store_step (Some t) st (snd (update_data_connection_type en st t uid f))"
  unfolding update_data_connection_type_def
  by (rule transaction_keeps)
    (auto simp: result_simps sql_simps Let_def
      intro: unchanged intro!: rewrite_type [where uid = uid])

lemma update_data_connection_type_status_step:
  "indexes_ok st \<Longrightarrow> store_step None st (snd (update_data_connection_type_status en st uid f))"
  unfolding update_data_connection_type_status_def
  by (rule transaction_keeps)
    (auto simp: result_simps sql_simps Let_def
      intro: unchanged intro!: rewrite_type [where uid = uid])

lemma delete_data_connection_type_step:
  "store_step (Some t) st (snd (delete_data_connection_type en st t uid))"
  unfolding delete_data_connection_type_def
  by (rule transaction_keeps)
    (auto simp: result_simps sql_simps filter_empty_conv split: if_splits
      intro: unchanged intro!: delete_type)

lemma create_flight_service_step:
  "store_step None st (snd (create_flight_service en st fs))"
  unfolding create_flight_service_def Let_def split_def snd_conv
  by (rule insert_named_keeps) (simp_all add: unchanged change_flight_services)

lemma update_flight_service_step:
  "store_step None st (snd (update_flight_service en st uid f))"
  unfolding update_flight_service_def
  by (rule transaction_keeps, rule unchanged)
    (auto simp: result_simps sql_simps Let_def intro!: change_flight_services)

lemma delete_flight_service_step:
  assumes "indexes_ok st"
  shows "store_step None st (snd (delete_flight_service en st uid))"
proof -
  have "unique_ok st FlightServices (flight_services st)"
    using assms by (simp add: indexes_ok_def)
  then have del: "store_step None st (set_rows FlightServices (filter p (flight_services st)) st)" for p
    by (auto intro!: change_flight_services unique_ok_filter)
  have "store_step None st (snd (autocommit en
     (\<lambda>en' s. execute_delete en' FlightServices (where_id s uid) s) st))"
    by (rule autocommit_keeps, rule unchanged) (use del in \<open>auto simp: sql_simps\<close>)
  then show ?thesis
    by (simp add: delete_flight_service_def split_def Let_def)
qed

end
