(* ===== verification/Meta_Properties.thy ===== *)
theory Meta_Properties
  imports Meta_Invariant
begin

text \<open>
  The operations of the metadata store as one step function, the states it can reach from an
  empty database, and the properties of the store: referential integrity, tenant isolation,
  atomicity, and what each operation returns and leaves behind.
\<close>

section \<open>Operations and reachable states\<close>

datatype store_op =
    CreateDataConnection string data_connection
  | UpdateDataConnection string string "data_connection \<Rightarrow> meta_store_error + data_connection"
  | UpdateDataConnectionStatus string string
      "data_connection_status \<Rightarrow> meta_store_error + data_connection_status"
  | DeleteDataConnection string string
  | CreateDataConnectionType string data_connection_type
  | UpdateDataConnectionType string string
      "data_connection_type \<Rightarrow> meta_store_error + data_connection_type"
  | UpdateDataConnectionTypeStatus string
      "data_connection_type_status \<Rightarrow> meta_store_error + data_connection_type_status"
  | DeleteDataConnectionType string string
  | CreateFlightService flight_service
  | UpdateFlightService string "flight_service \<Rightarrow> meta_store_error + flight_service"
  | DeleteFlightService string

definition outcome :: "('e + 'a) \<times> 's \<Rightarrow> ('e + unit) \<times> 's" where
  "outcome = map_prod (map_sum id (\<lambda>_. ())) id"

fun run_op :: "env \<Rightarrow> store_op \<Rightarrow> pg_meta_store \<Rightarrow> (meta_store_error + unit) \<times> pg_meta_store" where
  "run_op en (CreateDataConnection t dc) st = outcome (create_data_connection en st t dc)"
| "run_op en (UpdateDataConnection t uid f) st = outcome (update_data_connection en st t uid f)"
| "run_op en (UpdateDataConnectionStatus t uid f) st =
     outcome (update_data_connection_status en st t uid f)"
| "run_op en (DeleteDataConnection t uid) st = outcome (delete_data_connection en st t uid)"
| "run_op en (CreateDataConnectionType t dct) st = outcome (create_data_connection_type en st t dct)"
| "run_op en (UpdateDataConnectionType t uid f) st =
     outcome (update_data_connection_type en st t uid f)"
| "run_op en (UpdateDataConnectionTypeStatus uid f) st =
     outcome (update_data_connection_type_status en st uid f)"
| "run_op en (DeleteDataConnectionType t uid) st = outcome (delete_data_connection_type en st t uid)"
| "run_op en (CreateFlightService fs) st = outcome (create_flight_service en st fs)"
| "run_op en (UpdateFlightService uid f) st = outcome (update_flight_service en st uid f)"
| "run_op en (DeleteFlightService uid) st = outcome (delete_flight_service en st uid)"

text \<open>The tenant on whose behalf an operation runs.\<close>

fun op_tenant :: "store_op \<Rightarrow> string option" where
  "op_tenant (CreateDataConnection t dc) = Some t"
| "op_tenant (UpdateDataConnection t uid f) = Some t"
| "op_tenant (UpdateDataConnectionStatus t uid f) = Some t"
| "op_tenant (DeleteDataConnection t uid) = Some t"
| "op_tenant (CreateDataConnectionType t dct) = Some t"
| "op_tenant (UpdateDataConnectionType t uid f) = Some t"
| "op_tenant (DeleteDataConnectionType t uid) = Some t"
| "op_tenant _ = None"

definition empty_store :: "string \<Rightarrow> (json \<Rightarrow> string) \<Rightarrow> pg_meta_store" where
  "empty_store g txt =
     \<lparr>global_tenant_id = g, pg_text = txt, data_connections = [], data_connection_types = [],
      flight_services = []\<rparr>"

inductive reachable :: "pg_meta_store \<Rightarrow> bool" where
  reachable_empty: "reachable (empty_store g txt)"
| reachable_op: "reachable st \<Longrightarrow> reachable (snd (run_op en oper st))"

lemma snd_outcome [simp]: "snd (outcome x) = snd x"
  by (simp add: outcome_def)

lemma fst_outcome_Inl: "fst (outcome x) = Inl e \<longleftrightarrow> fst x = Inl e"
  by (cases x; cases "fst x") (auto simp: outcome_def)

lemma run_op_step:
  assumes "meta_inv st"
  shows "store_step (op_tenant oper) st (snd (run_op en oper st))"
  using assms
  by (cases oper)
    (simp_all add: meta_inv_def create_data_connection_step update_data_connection_step
      update_data_connection_status_step delete_data_connection_step
      create_data_connection_type_step update_data_connection_type_step
      update_data_connection_type_status_step delete_data_connection_type_step
      create_flight_service_step update_flight_service_step delete_flight_service_step)

lemma meta_inv_empty: "meta_inv (empty_store g txt)"
  by (simp add: meta_inv_def indexes_ok_def references_ok_def docs_ok_def empty_store_def unique_ok_def
      list_all_iff map_filter_simps)

lemma meta_inv_reachable: "reachable st \<Longrightarrow> meta_inv st"
  by (induction rule: reachable.induct)
    (auto intro: meta_inv_empty store_step_meta_inv run_op_step)

text \<open>Every connection type has a tenant, so every row of the table has an identifier.\<close>

definition types_owned :: "pg_meta_store \<Rightarrow> bool" where
  "types_owned st \<longleftrightarrow> (\<forall>d \<in> set (data_connection_types st). row_tenant st d \<noteq> None)"

lemma store_step_types_owned: "store_step a st st' \<Longrightarrow> types_owned st \<Longrightarrow> types_owned st'"
  by (induction rule: store_step.induct) (auto simp: types_owned_def doc_path_def replace_rows_def)

lemma types_owned_reachable: "reachable st \<Longrightarrow> types_owned st"
proof (induction rule: reachable.induct)
  case (reachable_op st en oper)
  then show ?case
    using store_step_types_owned [OF run_op_step [OF meta_inv_reachable]] by blast
qed (simp add: types_owned_def empty_store_def)

section \<open>Sample data\<close>

text \<open>Concrete values on which the properties are instantiated.\<close>

definition calm :: env where
  "calm = \<lparr>now = ''2025-01-01T00:00:00Z'', new_uuid = ''u1'', db_fault = \<lambda>_. None, ack_lost = False\<rparr>"

definition sample_type :: data_connection_type where
  "sample_type = \<lparr>dct_name = ''pg'', dct_label = None, dct_provider = ''postgres'',
     dct_description = None, dct_credentials_fields = [], dct_tags = None\<rparr>"

definition sample_connection :: "string \<Rightarrow> data_connection" where
  "sample_connection tid = \<lparr>dc_name = ''sales'', dc_data_connection_type_id = tid,
     dc_format = Tabular, dc_credentials_ref = \<lparr>cr_secret = ''s''\<rparr>, dc_properties = []\<rparr>"

definition store_with_type :: pg_meta_store where
  "store_with_type =
     snd (create_data_connection_type (calm\<lparr>new_uuid := ''t1''\<rparr>) (empty_store ''global'' (\<lambda>_. ''''))
            ''acme'' sample_type)"

definition store_with_connection :: pg_meta_store where
  "store_with_connection =
     snd (create_data_connection calm store_with_type ''acme'' (sample_connection ''t1''))"

lemma reachable_with_type: "reachable store_with_type"
  using reachable_op [OF reachable_empty, where oper = "CreateDataConnectionType ''acme'' sample_type"]
  by (simp add: store_with_type_def)

lemma reachable_with_connection: "reachable store_with_connection"
  using reachable_op [OF reachable_with_type,
      where oper = "CreateDataConnection ''acme'' (sample_connection ''t1'')"]
  by (simp add: store_with_connection_def)

section \<open>Referential integrity\<close>

text \<open>
  C1. Whatever operations run, in whatever order, with whatever arguments, update functions and
  failures: no two rows of a table agree on a unique index, and every connection refers to a
  connection type that exists and that its tenant can see (its own or a global one), and every
  row deserialises as a resource of its table.
\<close>

theorem referential_integrity:
  assumes "reachable st"
  shows "indexes_ok st \<and> references_ok st \<and> docs_ok st"
  using meta_inv_reachable [OF assms] by (simp add: meta_inv_def)

theorem referential_integrity_witness:
  "reachable store_with_connection
   \<and> indexes_ok store_with_connection \<and> references_ok store_with_connection
   \<and> length (data_connections store_with_connection) = 1"
proof -
  have "length (data_connections store_with_connection) = 1"
    by code_simp
  then show ?thesis
    using referential_integrity [OF reachable_with_connection] reachable_with_connection by blast
qed

section \<open>Refinement and tenant isolation\<close>

text \<open>
  C7. Refinement: in a state that satisfies the invariant, every operation of the store, in every
  environment, does to the tables only what the abstract step relation allows the tenant of the
  operation to do.
\<close>

theorem store_refines_steps:
  assumes "meta_inv st"
  shows "store_step (op_tenant oper) st (snd (run_op en oper st))"
  using assms by (rule run_op_step)

theorem store_refines_steps_witness:
  "meta_inv store_with_type
   \<and> store_step (Some ''acme'') store_with_type
       (snd (run_op calm (CreateDataConnection ''acme'' (sample_connection ''t1'')) store_with_type))"
  using store_refines_steps [OF meta_inv_reachable [OF reachable_with_type],
      where oper = "CreateDataConnection ''acme'' (sample_connection ''t1'')"]
    meta_inv_reachable [OF reachable_with_type] by simp

lemma find_filter: "find p xs = (case filter p xs of [] \<Rightarrow> None | x # _ \<Rightarrow> Some x)"
  by (induction xs) auto

lemma filter_tenant_others:
  assumes "rows_of_others st' t ds' = rows_of_others st t ds" "doc_path st' = doc_path st"
    and "\<And>d. p d \<Longrightarrow> row_tenant st d \<noteq> Some t"
  shows "filter p ds' = filter p ds"
proof -
  have "filter p xs = filter p (rows_of_others st t xs)" for xs
    using assms(3) by (auto simp: rows_of_others_def filter_filter intro!: filter_cong)
  then show ?thesis
    using assms(1,2) by (metis rows_of_others_def)
qed

lemma store_step_path: "store_step a st st' \<Longrightarrow> doc_path st' = doc_path st \<and> global_tenant_id st' = global_tenant_id st"
  by (induction rule: store_step.induct) simp_all

lemma run_op_filter:
  assumes "meta_inv st" "op_tenant oper = Some t" "\<And>d. p d \<Longrightarrow> row_tenant st d \<noteq> Some t"
  shows "filter p (data_connections (snd (run_op en oper st))) = filter p (data_connections st)"
    "filter p (data_connection_types (snd (run_op en oper st))) = filter p (data_connection_types st)"
proof -
  have step: "store_step (Some t) st (snd (run_op en oper st))"
    using run_op_step [OF assms(1), of oper en] assms(2) by simp
  note others = store_step_others [OF step] and doc_path = store_step_path [OF step]
  show "filter p (data_connections (snd (run_op en oper st))) = filter p (data_connections st)"
    "filter p (data_connection_types (snd (run_op en oper st))) = filter p (data_connection_types st)"
    using filter_tenant_others [where p = p, OF _ _ assms(3)] others doc_path by blast+
qed

lemma other_tenant_reads:
  assumes "meta_inv st" "op_tenant oper = Some t" "t' \<noteq> t"
  shows "get_data_connections en' (snd (run_op en oper st)) t' = get_data_connections en' st t'
    \<and> get_data_connection en' (snd (run_op en oper st)) t' uid = get_data_connection en' st t' uid
    \<and> (t \<noteq> global_tenant_id st \<longrightarrow>
         get_data_connection_types en' (snd (run_op en oper st)) t' = get_data_connection_types en' st t'
         \<and> get_data_connection_type en' (snd (run_op en oper st)) t' uid
             = get_data_connection_type en' st t' uid)"
proof -
  let ?st = "snd (run_op en oper st)"
  have same: "doc_path ?st = doc_path st" "global_tenant_id ?st = global_tenant_id st"
    using store_step_path [OF run_op_step [OF assms(1)]] by blast+
  have w: "where_id_tenant ?st = where_id_tenant st"
    "where_id_tenant_or_global ?st = where_id_tenant_or_global st"
    using same by (simp_all add: fun_eq_iff where_id_tenant_def where_id_tenant_or_global_def)
  note flt = run_op_filter [OF assms(1,2), where en = en]
    and head = arg_cong [where f = "\<lambda>xs. case xs of [] \<Rightarrow> None | x # _ \<Rightarrow> Some x"]
  have c: "filter (\<lambda>d. row_tenant st d = Some t') (data_connections ?st)
       = filter (\<lambda>d. row_tenant st d = Some t') (data_connections st)"
    "find (where_id_tenant st uid t') (data_connections ?st)
       = find (where_id_tenant st uid t') (data_connections st)"
    using assms(3) by (auto simp: find_filter where_id_tenant_def intro!: flt(1) head)
  have t: "t \<noteq> global_tenant_id st \<Longrightarrow>
    filter (\<lambda>d. row_tenant st d = Some t' \<or> row_tenant st d = Some (global_tenant_id st))
        (data_connection_types ?st)
      = filter (\<lambda>d. row_tenant st d = Some t' \<or> row_tenant st d = Some (global_tenant_id st))
        (data_connection_types st)
    \<and> find (where_id_tenant_or_global st uid t') (data_connection_types ?st)
       = find (where_id_tenant_or_global st uid t') (data_connection_types st)"
    using assms(3) by (intro conjI) (auto simp: find_filter where_id_tenant_or_global_def
        intro!: flt(2) head)
  show ?thesis
    using same w c t
    by (simp add: get_data_connections_def get_data_connection_def get_data_connection_types_def
        get_data_connection_type_def fetch_all_def fetch_one_def cong: sum.case_cong)
qed



section \<open>Atomicity\<close>

lemma set_rows_same [simp]: "set_rows t (rows t st) st = st"
  by (cases t) simp_all

lemma transaction_error:
  "fst (transaction en err body st) = Inl e \<Longrightarrow> \<not> ack_lost en \<Longrightarrow>
   snd (transaction en err body st) = st"
  by (auto simp: transaction_def split: option.splits sum.splits prod.splits)

lemma autocommit_error:
  "fst (autocommit en stmt st) = Inl e \<Longrightarrow> \<not> ack_lost en \<Longrightarrow> snd (autocommit en stmt st) = st"
  by (auto simp: autocommit_def split: sum.splits prod.splits)

lemma insert_named_error:
  "fst (insert_named en t d msg st) = Inl e \<Longrightarrow> \<not> ack_lost en \<Longrightarrow>
   snd (insert_named en t d msg st) = st"
  by (auto simp: insert_named_def split_def Let_def result_simps dest: autocommit_error)

lemma delete_statement_error:
  assumes "deleted_or nf msg (fst (autocommit en (\<lambda>en' s. execute_delete en' t (p s) s) st)) = Inl e"
    "\<not> ack_lost en"
  shows "snd (autocommit en (\<lambda>en' s. execute_delete en' t (p s) s) st) = st"
proof (cases "execute_delete en t (p st) st")
  case (Inl x)
  then show ?thesis using assms(2) by (simp add: autocommit_def)
next
  case (Inr x)
  then have run: "autocommit en (\<lambda>en' s. execute_delete en' t (p s) s) st = (Inr (fst x), snd x)"
    by (simp add: autocommit_def split_def)
  have x: "x = (length (filter (p st) (rows t st)), set_rows t (filter (\<lambda>r. \<not> p st r) (rows t st)) st)"
    using Inr by (simp add: execute_delete_eq_Inr)
  have "filter (p st) (rows t st) = []"
    using assms(1) run x by (simp add: deleted_or_def split: if_splits)
  then have "filter (\<lambda>r. \<not> p st r) (rows t st) = rows t st"
    by (simp add: filter_empty_conv filter_id_conv)
  then show ?thesis using run x by simp
qed

text \<open>
  C4. Atomicity: an operation that returns an error leaves the store as it was, on every path and
  whichever database call failed, except where the server carried out a commit whose
  acknowledgement was lost.
\<close>

theorem error_leaves_store:
  assumes "fst (run_op en oper st) = Inl e" "\<not> ack_lost en"
  shows "snd (run_op en oper st) = st"
  using assms
  by (cases oper)
    (auto simp: fst_outcome_Inl create_data_connection_def update_data_connection_def
      update_data_connection_status_def delete_data_connection_def
      create_data_connection_type_def update_data_connection_type_def
      update_data_connection_type_status_def delete_data_connection_type_def
      create_flight_service_def update_flight_service_def delete_flight_service_def
      split_def Let_def result_simps
      dest: transaction_error insert_named_error delete_statement_error)

theorem error_leaves_store_witness:
  "fst (run_op calm (DeleteDataConnectionType ''acme'' ''t1'') store_with_connection) \<noteq> Inr ()
   \<and> snd (run_op calm (DeleteDataConnectionType ''acme'' ''t1'') store_with_connection)
       = store_with_connection"
proof -
  have e: "fst (run_op calm (DeleteDataConnectionType ''acme'' ''t1'') store_with_connection)
      = Inl (Conflict (connection_type_in_use_message ''t1'' 1))"
    by code_simp
  show ?thesis
    using error_leaves_store [OF e] e by (simp add: calm_def)
qed

section \<open>What the connection operations do\<close>

lemma find_unique:
  assumes "unique_ok st t ds" "d \<in> set ds" "p d" "\<And>x. p x \<Longrightarrow> row_id st x = Some i"
  shows "find p ds = Some d"
proof (cases "find p ds")
  case None
  then show ?thesis using assms(2,3) by (auto simp: find_None_iff)
next
  case (Some x)
  then show ?thesis
    using find_SomeD [OF Some] unique_ok_row_id [OF assms(1) _ assms(2)] assms(3,4) by metis
qed

lemma find_replace:
  "find p xs = Some x \<Longrightarrow> p d \<Longrightarrow> find p (map (\<lambda>r. if p r then d else r) xs) = Some d"
  by (induction xs) (auto split: if_splits)

lemma filter_not_replace:
  "p d \<Longrightarrow> filter (\<lambda>r. \<not> p r) (map (\<lambda>r. if p r then d else r) xs) = filter (\<lambda>r. \<not> p r) xs"
  by (induction xs) auto

lemma calm_calls:
  assumes "db_fault en = (\<lambda>_. None)"
  shows "fetch_one en t p st = ok_or RowNotFound (find p (rows t st))"
    "fetch_all en t p st = Inr (filter p (rows t st))"
    "fetch_count en t p st = Inr (length (filter p (rows t st)))"
    "try_get_data en i d = Inr d"
    "execute_delete en t p st =
       Inr (length (filter p (rows t st)), set_rows t (filter (\<lambda>r. \<not> p r) (rows t st)) st)"
    "read_row en rm dm dec i d = ok_or (Deserialization dm) (dec d)"
    "transaction en err body st = (case body st of Inl e \<Rightarrow> (Inl e, st) | Inr (a, st') \<Rightarrow> (Inr a, st'))"
  by (simp_all add: assms fetch_one_def fetch_all_def fetch_count_def try_get_data_def
      execute_delete_def db_call_result_def read_row_def transaction_def
      cong: sum.case_cong prod.case_cong)

lemma get_data_connection_eq_Inr:
  "get_data_connection en st t uid = Inr r \<longleftrightarrow>
     db_fault en (Select DataConnections) = None \<and> db_fault en (Column 0) = None
     \<and> (\<exists>d. find (where_id_tenant st uid t) (data_connections st) = Some d
          \<and> data_connection_resource_from_value d = Some r)"
  by (auto simp: get_data_connection_def result_simps sql_simps)

text \<open>
  C6. A created connection can be read back: when a create succeeds, the new row is the only
  change to the store, the returned resource has a fresh identifier, the caller's tenant and the
  status not ready, and getting it by that identifier returns exactly it.
\<close>

theorem create_then_get:
  assumes "create_data_connection en st t dc = (Inr r, st')" "db_fault en' = (\<lambda>_. None)"
  shows "r = new_data_connection_resource en t dc
    \<and> st' = st\<lparr>data_connections := data_connections st @ [data_connection_resource_to_value r]\<rparr>
    \<and> get_data_connection en' st' t (new_uuid en) = Inr r"
proof -
  let ?r = "new_data_connection_resource en t dc"
  let ?d = "data_connection_resource_to_value ?r"
  let ?ds = "data_connections st @ [?d]"
  have r: "r = ?r" "st' = st\<lparr>data_connections := ?ds\<rparr>" "unique_ok st DataConnections ?ds"
    using assms(1) unfolding create_data_connection_def transaction_eq_Inr
    by (auto simp: result_simps sql_simps Let_def)
  have "find (where_id_tenant st (new_uuid en) t) ?ds = Some ?d"
    by (rule find_unique [OF r(3)])
      (auto simp: where_id_tenant_def new_data_connection_resource_def)
  then show ?thesis
    using r assms(2)
    by (simp add: get_data_connection_eq_Inr data_connection_resource_codec.dec_enc)
qed

theorem create_then_get_witness:
  "get_data_connection calm store_with_connection ''acme'' ''u1''
   = Inr (new_data_connection_resource calm ''acme'' (sample_connection ''t1''))"
proof -
  have "create_data_connection calm store_with_type ''acme'' (sample_connection ''t1'')
      = (Inr (new_data_connection_resource calm ''acme'' (sample_connection ''t1'')), store_with_connection)"
    unfolding store_with_connection_def
    by (rule prod_eqI, code_simp, simp)
  from create_then_get [OF this, of calm] show ?thesis
    by (simp add: calm_def)
qed

text \<open>
  C5. An update changes the connection and nothing else: when it succeeds, whatever the update
  function does, the connection keeps its identifier, tenant, creation time and status, its
  resource is the update function's result on the one that was stored, a get returns the
  updated resource, and every other row of every table is as it was.
\<close>

theorem update_preserves_identity:
  assumes "update_data_connection en st t uid f = (Inr r, st')" "db_fault en' = (\<lambda>_. None)"
  shows "\<exists>old dc.
     get_data_connection en' st t uid = Inr old \<and> f (dcr_resource old) = Inr dc
     \<and> r = old\<lparr>dcr_metadata := (dcr_metadata old)\<lparr>md_updated_at := now en\<rparr>, dcr_resource := dc\<rparr>
     \<and> md_id (dcr_metadata r) = uid \<and> md_tenant_id (dcr_metadata r) = Some t
     \<and> get_data_connection en' st' t uid = Inr r
     \<and> filter (\<lambda>d. \<not> where_id_tenant st uid t d) (data_connections st')
         = filter (\<lambda>d. \<not> where_id_tenant st uid t d) (data_connections st)
     \<and> data_connection_types st' = data_connection_types st \<and> flight_services st' = flight_services st"
proof -
  obtain d old dc where
    d: "find (where_id_tenant st uid t) (data_connections st) = Some d"
       "data_connection_resource_from_value d = Some old"
    and upd: "f (dcr_resource old) = Inr dc"
       "r = old\<lparr>dcr_metadata := (dcr_metadata old)\<lparr>md_updated_at := now en\<rparr>, dcr_resource := dc\<rparr>"
       "st' = st\<lparr>data_connections := map (\<lambda>x. if where_id_tenant st uid t x
                    then data_connection_resource_to_value r else x) (data_connections st)\<rparr>"
    using assms(1) unfolding update_data_connection_def transaction_eq_Inr
    by (auto simp: result_simps sql_simps Let_def)
  note old = found_connection [OF d]
  have p: "where_id_tenant st uid t (data_connection_resource_to_value r)"
    using old upd(2) by (simp add: where_id_tenant_def)
  have "get_data_connection en' st t uid = Inr old" "get_data_connection en' st' t uid = Inr r"
    using d find_replace [OF d(1) p] assms(2) upd(3)
    by (simp_all add: get_data_connection_eq_Inr data_connection_resource_codec.dec_enc)
  then show ?thesis
    using old upd filter_not_replace [where p = "where_id_tenant st uid t", OF p] by simp
qed

theorem update_preserves_identity_witness:
  "\<exists>old dc r st'.
     update_data_connection calm store_with_connection ''acme'' ''u1''
       (\<lambda>dc. Inr (dc\<lparr>dc_name := ''renamed''\<rparr>)) = (Inr r, st')
     \<and> get_data_connection calm store_with_connection ''acme'' ''u1'' = Inr old
     \<and> Inr (dcr_resource old\<lparr>dc_name := ''renamed''\<rparr>) = (Inr dc :: meta_store_error + data_connection)
     \<and> get_data_connection calm st' ''acme'' ''u1'' = Inr r"
proof -
  let ?f = "\<lambda>dc. Inr (dc\<lparr>dc_name := ''renamed''\<rparr>)"
  let ?u = "update_data_connection calm store_with_connection ''acme'' ''u1'' ?f"
  have "is_ok (fst ?u)" by code_simp
  then obtain r st' where u: "?u = (Inr r, st')"
    by (cases ?u) (auto simp: is_ok_iff)
  from update_preserves_identity [OF u, of calm] u show ?thesis
    by (fastforce simp: calm_def)
qed

lemma update_data_connection_status_eq_Inr:
  assumes "update_data_connection_status en st t uid f = (Inr r, st')"
  shows "\<exists>d old status.
    find (where_id_tenant st uid t) (data_connections st) = Some d
    \<and> data_connection_resource_from_value d = Some old
    \<and> f (dcr_status old) = Inr status
    \<and> r = old\<lparr>dcr_metadata := (dcr_metadata old)\<lparr>md_updated_at := now en\<rparr>, dcr_status := status\<rparr>
    \<and> st' = st\<lparr>data_connections := map (\<lambda>x. if where_id_tenant st uid t x
                    then data_connection_resource_to_value r else x) (data_connections st)\<rparr>"
  using assms unfolding update_data_connection_status_def transaction_eq_Inr
  by (auto simp: result_simps sql_simps Let_def)

lemma status_update_spec:
  assumes "update_data_connection_status en st t uid f = (Inr r, st')" "db_fault en' = (\<lambda>_. None)"
  shows "\<exists>old status.
     get_data_connection en' st t uid = Inr old \<and> f (dcr_status old) = Inr status
     \<and> r = old\<lparr>dcr_metadata := (dcr_metadata old)\<lparr>md_updated_at := now en\<rparr>, dcr_status := status\<rparr>
     \<and> get_data_connection en' st' t uid = Inr r
     \<and> filter (\<lambda>d. \<not> where_id_tenant st uid t d) (data_connections st')
         = filter (\<lambda>d. \<not> where_id_tenant st uid t d) (data_connections st)
     \<and> data_connection_types st' = data_connection_types st \<and> flight_services st' = flight_services st"
proof -
  obtain d old status where
    d: "find (where_id_tenant st uid t) (data_connections st) = Some d"
       "data_connection_resource_from_value d = Some old"
    and upd: "f (dcr_status old) = Inr status"
       "r = old\<lparr>dcr_metadata := (dcr_metadata old)\<lparr>md_updated_at := now en\<rparr>, dcr_status := status\<rparr>"
       "st' = st\<lparr>data_connections := map (\<lambda>x. if where_id_tenant st uid t x
                    then data_connection_resource_to_value r else x) (data_connections st)\<rparr>"
    using update_data_connection_status_eq_Inr [OF assms(1)] by blast
  note old = found_connection [OF d]
  have p: "where_id_tenant st uid t (data_connection_resource_to_value r)"
    using old upd(2) by (simp add: where_id_tenant_def)
  have "get_data_connection en' st t uid = Inr old" "get_data_connection en' st' t uid = Inr r"
    using d find_replace [OF d(1) p] assms(2) upd(3)
    by (simp_all add: get_data_connection_eq_Inr data_connection_resource_codec.dec_enc)
  then show ?thesis
    using old upd filter_not_replace [where p = "where_id_tenant st uid t", OF p] by simp
qed

lemma update_data_connection_type_status_eq_Inr:
  assumes "update_data_connection_type_status en st uid f = (Inr r, st')"
  shows "\<exists>d old status.
    find (where_id st uid) (data_connection_types st) = Some d
    \<and> data_connection_type_resource_from_value d = Some old
    \<and> f (dctr_status old) = Inr status
    \<and> r = old\<lparr>dctr_metadata := (dctr_metadata old)\<lparr>md_updated_at := now en\<rparr>, dctr_status := status\<rparr>
    \<and> st' = st\<lparr>data_connection_types := map (\<lambda>x. if where_id st uid x
                    then data_connection_type_resource_to_value r else x) (data_connection_types st)\<rparr>"
  using assms unfolding update_data_connection_type_status_def transaction_eq_Inr
  by (auto simp: result_simps sql_simps Let_def)

text \<open>
  A status update changes the status and the update time of one connection and nothing else: the
  connection itself, its identifier, tenant and creation time stay, and so do all other rows.
\<close>

theorem status_update_only_status:
  assumes "update_data_connection_status en st t uid f = (Inr r, st')" "db_fault en' = (\<lambda>_. None)"
  shows "\<exists>old status.
     get_data_connection en' st t uid = Inr old \<and> f (dcr_status old) = Inr status
     \<and> r = old\<lparr>dcr_metadata := (dcr_metadata old)\<lparr>md_updated_at := now en\<rparr>, dcr_status := status\<rparr>
     \<and> get_data_connection en' st' t uid = Inr r
     \<and> filter (\<lambda>d. \<not> where_id_tenant st uid t d) (data_connections st')
         = filter (\<lambda>d. \<not> where_id_tenant st uid t d) (data_connections st)
     \<and> data_connection_types st' = data_connection_types st \<and> flight_services st' = flight_services st"
  using assms by (rule status_update_spec)

theorem status_update_only_status_witness:
  "\<exists>r st'. update_data_connection_status calm store_with_connection ''acme'' ''u1''
       (\<lambda>s. Inr (s\<lparr>st_state := Ready\<rparr>)) = (Inr r, st')
     \<and> get_data_connection calm st' ''acme'' ''u1'' = Inr r"
proof -
  let ?u = "update_data_connection_status calm store_with_connection ''acme'' ''u1''
       (\<lambda>s. Inr (s\<lparr>st_state := Ready\<rparr>))"
  have "is_ok (fst ?u)" by code_simp
  then obtain r st' where u: "?u = (Inr r, st')"
    by (cases ?u) (auto simp: is_ok_iff)
  from status_update_only_status [OF u, of calm] u show ?thesis
    by (auto simp: calm_def)
qed

section \<open>Deleting and listing connection types\<close>

text \<open>
  C3. Deleting a connection type, when the database answers: not found when the tenant has no such
  type; refused, with the number of connections, while connections of any tenant refer to it;
  otherwise the type is gone and nothing else has changed.
\<close>

theorem delete_type_refused_iff_referenced:
  assumes "db_fault en = (\<lambda>_. None)"
  shows "delete_data_connection_type en st t uid =
    (if \<not> list_ex (where_id_tenant st uid t) (data_connection_types st)
     then (Inl (ResourceNotFound (not_found_message ''connection type'' uid)), st)
     else let n = length (filter (\<lambda>d. row_type_ref st d = Some uid) (data_connections st)) in
       if n \<noteq> 0 then (Inl (Conflict (connection_type_in_use_message uid n)), st)
       else (Inr (), st\<lparr>data_connection_types :=
               filter (\<lambda>d. \<not> where_id_tenant st uid t d) (data_connection_types st)\<rparr>))"
proof (cases "find (where_id_tenant st uid t) (data_connection_types st)")
  case None
  then have "\<not> list_ex (where_id_tenant st uid t) (data_connection_types st)"
    by (simp add: find_None_iff list_ex_iff)
  with None show ?thesis
    by (simp add: delete_data_connection_type_def calm_calls [OF assms] row_not_found_or_def)
next
  case (Some d)
  then have "list_ex (where_id_tenant st uid t) (data_connection_types st)"
    "filter (where_id_tenant st uid t) (data_connection_types st) \<noteq> []"
    using find_SomeD [OF Some] by (auto simp: list_ex_iff filter_empty_conv)
  with Some show ?thesis
    by (simp add: delete_data_connection_type_def calm_calls [OF assms] Let_def)
qed

theorem delete_type_refused_iff_referenced_witness:
  "delete_data_connection_type calm store_with_connection ''acme'' ''t1''
   = (Inl (Conflict (connection_type_in_use_message ''t1'' 1)), store_with_connection)"
proof -
  have "db_fault calm = (\<lambda>_. None)" by (simp add: calm_def)
  moreover have "list_ex (where_id_tenant store_with_connection ''t1'' ''acme'')
      (data_connection_types store_with_connection)"
    "length (filter (\<lambda>d. row_type_ref store_with_connection d = Some ''t1'')
      (data_connections store_with_connection)) = 1"
    by code_simp+
  ultimately show ?thesis
    using delete_type_refused_iff_referenced [of calm store_with_connection "''acme''" "''t1''"]
    by (simp add: Let_def)
qed

lemma map_filter_enumerate:
  "List.map_filter (\<lambda>(i, d). f d) (enumerate n ds) = List.map_filter f ds"
  by (induction ds arbitrary: n) (auto simp: map_filter_simps split: option.splits)

lemma rmapM_enumerate: "rmapM (\<lambda>(i, d). f d) (enumerate n ds) = rmapM f ds"
  by (induction ds arbitrary: n) auto

text \<open>
  Listing the connection types of a tenant never fails on a malformed row: the result is the
  decodable rows of the tenant and of the global tenant, in order, and the global tenant's
  identifier is never disclosed.  Listing all types is strict: one malformed row fails it.
\<close>

theorem list_types_skips_malformed:
  assumes "db_fault en = (\<lambda>_. None)"
  shows "(\<exists>l. get_data_connection_types en st t = Inr l
      \<and> items l = map (\<lambda>d. discard_global_tenant (global_tenant_id st)
                            (the (data_connection_type_resource_from_value d)))
          (filter (\<lambda>d. (row_tenant st d = Some t \<or> row_tenant st d = Some (global_tenant_id st))
                       \<and> row_ok DataConnectionTypes d) (data_connection_types st))
      \<and> total_count l = length (items l)
      \<and> list_all (\<lambda>x. md_tenant_id (dctr_metadata x) \<noteq> Some (global_tenant_id st)) (items l))
    \<and> (is_ok (get_all_data_connection_types en st)
         \<longleftrightarrow> list_all (row_ok DataConnectionTypes) (data_connection_types st))"
proof -
  have mf: "List.map_filter (\<lambda>d. deserialize_connection_type d g) ds
      = map (\<lambda>d. discard_global_tenant g (the (data_connection_type_resource_from_value d)))
          (filter (row_ok DataConnectionTypes) ds)" for ds g
    by (induction ds) (auto simp: map_filter_simps deserialize_connection_type_def row_ok.simps)
  let ?vis = "\<lambda>d. row_tenant st d = Some t \<or> row_tenant st d = Some (global_tenant_id st)"
  let ?xs = "map (\<lambda>d. discard_global_tenant (global_tenant_id st)
               (the (data_connection_type_resource_from_value d)))
          (filter (\<lambda>d. ?vis d \<and> row_ok DataConnectionTypes d) (data_connection_types st))"
  have all: "is_ok (get_all_data_connection_types en st)
      \<longleftrightarrow> list_all (row_ok DataConnectionTypes) (data_connection_types st)"
    by (simp add: get_all_data_connection_types_def calm_calls [OF assms] rmapM_enumerate
        list_all_iff row_ok.simps)
  have one: "get_data_connection_types en st t = Inr (resource_list_of ?xs)"
    unfolding get_data_connection_types_def calm_calls [OF assms]
    by (simp add: map_filter_enumerate mf conj_commute)
  have "list_all (\<lambda>x. md_tenant_id (dctr_metadata x) \<noteq> Some (global_tenant_id st)) ?xs"
    by (auto simp: list_all_iff discard_global_tenant_def)
  with one all show ?thesis
    by (simp add: resource_list_of_def)
qed

theorem list_types_skips_malformed_witness:
  "\<exists>l. get_data_connection_types calm
         (store_with_type\<lparr>data_connection_types := JObject [(''metadata'',
            JObject [(''tenant_id'', JString ''acme'')])] # data_connection_types store_with_type\<rparr>) ''acme''
         = Inr l \<and> total_count l = 1"
proof -
  let ?st = "store_with_type\<lparr>data_connection_types := JObject [(''metadata'',
            JObject [(''tenant_id'', JString ''acme'')])] # data_connection_types store_with_type\<rparr>"
  have "db_fault calm = (\<lambda>_. None)" by (simp add: calm_def)
  moreover have "length (filter (\<lambda>d. (row_tenant ?st d = Some ''acme''
        \<or> row_tenant ?st d = Some (global_tenant_id ?st)) \<and> row_ok DataConnectionTypes d)
      (data_connection_types ?st)) = 1"
    by code_simp
  ultimately show ?thesis
    using list_types_skips_malformed [of calm ?st "''acme''"] by auto
qed

section \<open>References can be followed\<close>

text \<open>
  In every reachable state, the type of a connection that a tenant can read can be read by
  that tenant too, whatever has been created, updated and deleted before.
\<close>

theorem connection_type_readable:
  assumes "reachable st" "get_data_connection en st t uid = Inr r" "db_fault en' = (\<lambda>_. None)"
  shows "\<exists>ty. get_data_connection_type en' st t (dc_data_connection_type_id (dcr_resource r)) = Inr ty
    \<and> md_id (dctr_metadata ty) = dc_data_connection_type_id (dcr_resource r)"
proof -
  let ?tid = "dc_data_connection_type_id (dcr_resource r)"
  have inv: "references_ok st" "docs_ok st"
    using meta_inv_reachable [OF assms(1)] by (simp_all add: meta_inv_def)
  obtain d where d: "find (where_id_tenant st uid t) (data_connections st) = Some d"
      "data_connection_resource_from_value d = Some r"
    using assms(2) by (auto simp: get_data_connection_eq_Inr)
  have "type_visible st ?tid (Some t)"
    by (rule found_connection_visible [OF inv(1) d])
  then have "find (where_id_tenant_or_global st ?tid t) (data_connection_types st) \<noteq> None"
    by (auto simp: type_visible_def find_None_iff where_id_tenant_or_global_def)
  then obtain tyd where f: "find (where_id_tenant_or_global st ?tid t) (data_connection_types st) = Some tyd"
    by blast
  note tyd = find_SomeD [OF f]
  then obtain ty where ty: "data_connection_type_resource_from_value tyd = Some ty"
    using inv(2) by (auto simp: docs_ok_def list_all_iff row_ok.simps)
  have "md_id (dctr_metadata ty) = ?tid"
    using connection_type_doc.dec_row [OF ty] tyd by (auto simp: where_id_tenant_or_global_def)
  then show ?thesis
    using f ty by (simp add: get_data_connection_type_def calm_calls [OF assms(3)])
qed

theorem connection_type_readable_witness:
  "\<exists>ty. get_data_connection_type calm store_with_connection ''acme'' ''t1'' = Inr ty
     \<and> md_id (dctr_metadata ty) = ''t1''"
proof -
  let ?r = "new_data_connection_resource calm ''acme'' (sample_connection ''t1'')"
  have "get_data_connection calm store_with_connection ''acme'' ''u1'' = Inr ?r"
    by code_simp
  from connection_type_readable [OF reachable_with_connection this, of calm] show ?thesis
    by (simp add: calm_def new_data_connection_resource_def sample_connection_def)
qed

section \<open>Name clashes\<close>

lemma unique_ok_name_clash:
  assumes "xs = ys @ d # zs" "d' \<in> set (ys @ zs)"
    "doc_path st ''resource'' ''name'' d = Some n" "row_tenant st d = Some t"
    "doc_path st ''resource'' ''name'' d' = Some n" "row_tenant st d' = Some t"
  shows "\<not> unique_ok st DataConnections xs"
proof -
  let ?ix = "[(''resource'', ''name''), (''metadata'', ''tenant_id'')]"
  have k: "index_key st ?ix d = Some [n, t]" "index_key st ?ix d' = Some [n, t]"
    using assms(3-6) by (simp_all add: index_key_def)
  have "\<not> distinct (List.map_filter (index_key st ?ix) (ys @ d # zs))"
    using k assms(2) by (auto simp: List.map_filter_def intro!: image_eqI [where x = d'])
  then show ?thesis
    using assms(1) by (simp add: unique_ok_def)
qed

lemma row_name_enc:
  "doc_path st ''resource'' ''name'' (data_connection_resource_to_value r) = Some (dc_name (dcr_resource r))"
  by (simp add: doc_path_def jsonb_path_text_def data_connection_resource_to_value_def
      data_connection_to_value_def)

lemma update_name_clash:
  assumes calm: "db_fault en = (\<lambda>_. None)"
    and clash: "d' \<in> set (data_connections st)" "row_tenant st d' = Some t"
      "doc_path st ''resource'' ''name'' d' = Some (dc_name dc)"
    and val: "validate_connection_type en st t (dc_data_connection_type_id dc) = Inr ()"
    and old: "get_data_connection en st t uid = Inr old" and other: "\<not> where_id_tenant st uid t d'"
  shows "update_data_connection en st t uid (\<lambda>_. Inr dc) =
      (Inl (Query ''failed to update data connection''), st)"
proof -
  obtain d where d: "find (where_id_tenant st uid t) (data_connections st) = Some d"
      "data_connection_resource_from_value d = Some old"
    using old by (auto simp: get_data_connection_eq_Inr)
  let ?r = "\<lparr>dcr_metadata = (dcr_metadata old)\<lparr>md_updated_at := now en\<rparr>,
        dcr_resource = dc, dcr_status = dcr_status old\<rparr>"
  let ?d = "data_connection_resource_to_value ?r"
  let ?m = "map (\<lambda>x. if where_id_tenant st uid t x then ?d else x)"
  obtain ys zs where split: "data_connections st = ys @ d # zs"
    using find_SomeD [OF d(1)] by (auto dest: split_list)
  have "\<not> unique_ok st DataConnections (?m (data_connections st))"
  proof (rule unique_ok_name_clash [where d = ?d and d' = d' and ys = "?m ys" and zs = "?m zs"])
    show "?m (data_connections st) = ?m ys @ ?d # ?m zs"
      using split find_SomeD [OF d(1)] by simp
    show "d' \<in> set (?m ys @ ?m zs)"
      using split clash(1) other find_SomeD [OF d(1)] by (force simp: image_iff)
  qed (use clash found_connection [OF d] in \<open>simp_all add: row_name_enc\<close>)
  then show ?thesis
    using d val
    by (simp add: update_data_connection_def calm_calls [OF calm] execute_update_def
        db_call_result_def calm store_rows_def Let_def)
qed

lemma validate_visible:
  assumes "db_fault en = (\<lambda>_. None)" "type_visible st tid (Some t)"
  shows "validate_connection_type en st t tid = Inr ()"
proof -
  have "find (where_id_tenant_or_global st tid t) (data_connection_types st) \<noteq> None"
    using assms(2) by (auto simp: type_visible_def find_None_iff where_id_tenant_or_global_def)
  then show ?thesis
    by (auto simp: validate_connection_type_def calm_calls [OF assms(1)])
qed

text \<open>
  A connection cannot take the name of another connection of the same tenant.  On a create the
  clash is reported as a conflict; on an update it is reported as a query failure.  The store is
  unchanged in both cases.
\<close>

theorem name_clash_rejected:
  assumes calm: "db_fault en = (\<lambda>_. None)"
    and clash: "d' \<in> set (data_connections st)" "row_tenant st d' = Some t"
      "doc_path st ''resource'' ''name'' d' = Some (dc_name dc)"
    and visible: "type_visible st (dc_data_connection_type_id dc) (Some t)"
  shows "create_data_connection en st t dc =
      (Inl (Conflict ''a resource with the same identity already exists''), st)
    \<and> (get_data_connection en st t uid = Inr old \<longrightarrow> \<not> where_id_tenant st uid t d' \<longrightarrow>
       update_data_connection en st t uid (\<lambda>_. Inr dc) =
         (Inl (Query ''failed to update data connection''), st))"
proof -
  note val = validate_visible [OF calm visible]
  let ?new = "data_connection_resource_to_value (new_data_connection_resource en t dc)"
  have "\<not> unique_ok st DataConnections (data_connections st @ [?new])"
    by (rule unique_ok_name_clash [where d = ?new and d' = d' and zs = "[]"])
      (use clash in \<open>simp_all add: row_name_enc new_data_connection_resource_def\<close>)
  then have "create_data_connection en st t dc =
      (Inl (Conflict ''a resource with the same identity already exists''), st)"
    by (simp add: create_data_connection_def calm_calls [OF calm] val execute_insert_def
        db_call_result_def calm store_rows_def Let_def map_sqlx_error_def)
  then show ?thesis
    using update_name_clash [OF calm clash val] by blast
qed

theorem name_clash_rejected_witness:
  "create_data_connection calm store_with_connection ''acme'' (sample_connection ''t1'')
   = (Inl (Conflict ''a resource with the same identity already exists''), store_with_connection)"
proof -
  let ?d = "data_connection_resource_to_value
      (new_data_connection_resource calm ''acme'' (sample_connection ''t1''))"
  have "?d \<in> set (data_connections store_with_connection)"
    "row_tenant store_with_connection ?d = Some ''acme''"
    "doc_path store_with_connection ''resource'' ''name'' ?d = Some (dc_name (sample_connection ''t1''))"
    "type_visible store_with_connection (dc_data_connection_type_id (sample_connection ''t1'')) (Some ''acme'')"
    by code_simp+
  from name_clash_rejected [OF _ this, of calm] show ?thesis by (simp add: calm_def)
qed

end
