(* ===== verification/Secrets.thy ===== *)
theory Secrets
  imports Api_Types
begin

text \<open>
  The secret store of \<open>libs/kube-utils/src/secrets.rs\<close> over the Kubernetes API, which is a
  parameter: five calls on an abstract cluster state.  The documented behaviour of the API that
  properties rely on is stated as named laws.
\<close>

section \<open>The Kubernetes API\<close>

text \<open>A secret object: \<open>data\<close> holds raw bytes, \<open>stringData\<close> is write-only text.\<close>

record k8s_secret =
  ks_name :: "string option"
  ks_namespace :: "string option"
  ks_labels :: "string hmap option"
  ks_annotations :: "string hmap option"
  ks_data :: "string hmap option"
  ks_string_data :: "string hmap option"

text \<open>
  \<open>get\<close>, \<open>create\<close>, server-side apply, merge patch and \<open>delete\<close> of a secret in a namespace.  A
  writing call returns whether it succeeded.
\<close>

record 'c kube_api =
  api_get :: "'c \<Rightarrow> string \<Rightarrow> string \<Rightarrow> k8s_secret option"
  api_create :: "'c \<Rightarrow> string \<Rightarrow> k8s_secret \<Rightarrow> bool \<times> 'c"
  api_apply :: "'c \<Rightarrow> string \<Rightarrow> string \<Rightarrow> k8s_secret \<Rightarrow> bool \<times> 'c"
  api_merge :: "'c \<Rightarrow> string \<Rightarrow> string \<Rightarrow> json \<Rightarrow> bool \<times> 'c"
  api_delete :: "'c \<Rightarrow> string \<Rightarrow> string \<Rightarrow> bool \<times> 'c"

section \<open>KubeSecretStore\<close>

definition unwrap_or_default :: "'a list option \<Rightarrow> 'a list" where
  "unwrap_or_default x = (case x of None \<Rightarrow> [] | Some xs \<Rightarrow> xs)"

definition extract_properties :: "k8s_secret \<Rightarrow> string hmap" where
  "extract_properties k =
     List.map_filter (\<lambda>(key, bytes). map_option (Pair key) (from_utf8 bytes))
       (unwrap_or_default (ks_data k))"

definition get_secret :: "'c kube_api \<Rightarrow> 'c \<Rightarrow> string \<Rightarrow> string \<Rightarrow> secret_store_error + secret" where
  "get_secret api c ns name =
     rbind (ok_or (SecretNotFound ''Failed to obtain credentials'') (api_get api c ns name)) (\<lambda>k.
     Inr \<lparr>sec_name = name, sec_namespace = ns, sec_properties = extract_properties k,
          sec_labels = Some (unwrap_or_default (ks_labels k)),
          sec_annotations = Some (unwrap_or_default (ks_annotations k))\<rparr>)"

definition k8s_secret_of :: "secret \<Rightarrow> k8s_secret" where
  "k8s_secret_of s =
     \<lparr>ks_name = Some (sec_name s), ks_namespace = Some (sec_namespace s),
      ks_labels = sec_labels s, ks_annotations = sec_annotations s, ks_data = None,
      ks_string_data = Some (sec_properties s)\<rparr>"

definition create_secret ::
    "'c kube_api \<Rightarrow> 'c \<Rightarrow> secret \<Rightarrow> bool \<Rightarrow> (secret_store_error + unit) \<times> 'c" where
  "create_secret api c s overwrite =
     (let (ok, c') =
        (if overwrite then api_apply api c (sec_namespace s) (sec_name s) (k8s_secret_of s)
         else api_create api c (sec_namespace s) (k8s_secret_of s))
      in (if ok then Inr () else Inl (CannotCreateSecret (sec_name s)), c'))"

definition delete_secret ::
    "'c kube_api \<Rightarrow> 'c \<Rightarrow> string \<Rightarrow> string \<Rightarrow> (secret_store_error + unit) \<times> 'c" where
  "delete_secret api c ns name =
     (let (ok, c') = api_delete api c ns name
      in (if ok then Inr () else Inl (SecretNotFound (ns @ ''/'' @ name)), c'))"

definition set_secret_labels ::
    "'c kube_api \<Rightarrow> 'c \<Rightarrow> string \<Rightarrow> string \<Rightarrow> string hmap \<Rightarrow> (secret_store_error + unit) \<times> 'c" where
  "set_secret_labels api c ns name labels =
     (let (ok, c') = api_merge api c ns name
            (JObject [(''metadata'', JObject [(''labels'', enc_map JString labels)])])
      in (if ok then Inr () else Inl (SecretNotFound (ns @ ''/'' @ name)), c'))"

section \<open>Laws of the API\<close>

text \<open>
  Creating a secret fails where one of that name exists and changes nothing then; a created
  secret is there with its \<open>stringData\<close> as \<open>data\<close>, and no other secret has changed.
\<close>

definition create_law :: "'c kube_api \<Rightarrow> bool" where
  "create_law api \<longleftrightarrow>
     (\<forall>c c' ns k ok. api_create api c ns k = (ok, c') \<longrightarrow>
        (if ok then
           (\<exists>n. ks_name k = Some n \<and> api_get api c ns n = None
              \<and> api_get api c' ns n = Some (k\<lparr>ks_data := ks_string_data k, ks_string_data := None\<rparr>)
              \<and> (\<forall>ns' n'. (ns', n') \<noteq> (ns, n) \<longrightarrow> api_get api c' ns' n' = api_get api c ns' n'))
         else \<forall>ns' n'. api_get api c' ns' n' = api_get api c ns' n'))"

text \<open>A deleted secret is gone; no other secret has changed, and a failed delete changes nothing.\<close>

definition delete_law :: "'c kube_api \<Rightarrow> bool" where
  "delete_law api \<longleftrightarrow>
     (\<forall>c c' ns n ok. api_delete api c ns n = (ok, c') \<longrightarrow>
        (if ok then api_get api c' ns n = None
           \<and> (\<forall>ns' n'. (ns', n') \<noteq> (ns, n) \<longrightarrow> api_get api c' ns' n' = api_get api c ns' n')
         else \<forall>ns' n'. api_get api c' ns' n' = api_get api c ns' n'))"

text \<open>
  Applying a secret sets the given keys; keys it does not give may stay (they may be owned by
  another manager).  No other secret has changed.
\<close>

definition apply_law :: "'c kube_api \<Rightarrow> bool" where
  "apply_law api \<longleftrightarrow>
     (\<forall>c c' ns n k ok. distinct (map fst (unwrap_or_default (ks_string_data k))) \<longrightarrow>
        api_apply api c ns n k = (ok, c') \<longrightarrow>
        (if ok then
           (\<exists>k'. api_get api c' ns n = Some k'
              \<and> (\<forall>key v. hget (unwrap_or_default (ks_string_data k)) key = Some v \<longrightarrow>
                    hget (unwrap_or_default (ks_data k')) key = Some v)
              \<and> distinct (map fst (unwrap_or_default (ks_data k')))
              \<and> (\<forall>ns' n'. (ns', n') \<noteq> (ns, n) \<longrightarrow> api_get api c' ns' n' = api_get api c ns' n'))
         else \<forall>ns' n'. api_get api c' ns' n' = api_get api c ns' n'))"

section \<open>A cluster in memory\<close>

text \<open>An instance of the API that satisfies the laws: secrets by namespace and name.\<close>

type_synonym cluster = "string \<times> string \<Rightarrow> k8s_secret option"

definition memory_store :: "k8s_secret \<Rightarrow> k8s_secret" where
  "memory_store k = k\<lparr>ks_data := ks_string_data k, ks_string_data := None\<rparr>"

definition memory_api :: "cluster kube_api" where
  "memory_api =
     \<lparr>api_get = \<lambda>c ns n. c (ns, n),
      api_create = \<lambda>c ns k. (case ks_name k of
          None \<Rightarrow> (False, c)
        | Some n \<Rightarrow> (if c (ns, n) = None then (True, c((ns, n) \<mapsto> memory_store k)) else (False, c))),
      api_apply = \<lambda>c ns n k. (True, c((ns, n) \<mapsto>
          k\<lparr>ks_data := Some (hextend [] (unwrap_or_default (ks_string_data k))),
            ks_string_data := None\<rparr>)),
      api_merge = \<lambda>c ns n v. (c (ns, n) \<noteq> None, c),
      api_delete = \<lambda>c ns n. (if c (ns, n) = None then (False, c) else (True, c((ns, n) := None)))\<rparr>"

lemma memory_create_law: "create_law memory_api"
  unfolding create_law_def memory_api_def memory_store_def
  by (auto split: option.splits if_splits)

lemma memory_delete_law: "delete_law memory_api"
  unfolding delete_law_def memory_api_def by (auto split: if_splits)

lemma distinct_hextend: "distinct (map fst m) \<Longrightarrow> distinct (map fst (hextend m es))"
  by (induction es arbitrary: m) (simp_all add: distinct_update)

lemma memory_apply_law: "apply_law memory_api"
  unfolding apply_law_def memory_api_def
  by (auto simp: unwrap_or_default_def hget_hextend distinct_hextend)

section \<open>Reading properties\<close>

lemma map_of_map_filter_values:
  assumes "distinct (map fst m)"
  shows "map_of (List.map_filter (\<lambda>(k, v). map_option (Pair k) (f v)) m) key = Option.bind (map_of m key) f"
  using assms
proof (induction m)
  case (Cons e m)
  obtain k v where e: "e = (k, v)" by (cases e)
  have none: "k \<notin> fst ` set m" using Cons.prems e by auto
  then have "map_of m k = None" by (simp add: map_of_eq_None_iff)
  then show ?case
    using Cons e by (auto simp: map_filter_simps split: option.splits)
qed (simp add: map_filter_simps)

lemma get_secret_properties:
  assumes "api_get api c ns n = Some k" "distinct (map fst (unwrap_or_default (ks_data k)))"
  shows "\<exists>s. get_secret api c ns n = Inr s
    \<and> hget (sec_properties s) key = Option.bind (hget (unwrap_or_default (ks_data k)) key) from_utf8"
  using assms
  by (simp add: get_secret_def extract_properties_def map_of_map_filter_values)

end
