(* ===== verification/Grpc.thy ===== *)
theory Grpc
  imports Api_Types
begin

text \<open>
  gRPC statuses and request metadata, as \<open>tonic\<close> has them: the part of the vocabulary that the
  flight service and the REST service's flight client share.
\<close>

datatype grpc_code =
    Ok | Cancelled | Unknown | InvalidArgument | DeadlineExceeded | NotFoundCode | AlreadyExists
  | PermissionDenied | ResourceExhausted | FailedPrecondition | Aborted | OutOfRange | Unimplemented
  | InternalCode | Unavailable | DataLoss | UnauthenticatedCode

record grpc_status =
  status_code :: grpc_code
  status_message :: string

definition grpc_error :: "grpc_code \<Rightarrow> string \<Rightarrow> grpc_status" where
  "grpc_error c m = \<lparr>status_code = c, status_message = m\<rparr>"

lemma grpc_error_simps [simp]:
  "status_code (grpc_error c m) = c" "status_message (grpc_error c m) = m"
  by (simp_all add: grpc_error_def)

text \<open>Header names of \<open>libs/commons/src/api/mod.rs\<close>.\<close>

definition X_DATA_CONNECTION_ID :: string where
  "X_DATA_CONNECTION_ID = ''x-data-connection-id''"

definition X_TENANT_ID :: string where
  "X_TENANT_ID = ''x-tenant-id''"

definition X_REMOTE_USER :: string where
  "X_REMOTE_USER = ''x-remote-user''"

definition AUTHORIZATION :: string where
  "AUTHORIZATION = ''authorization''"

definition X_REMOTE_GROUPS :: string where
  "X_REMOTE_GROUPS = ''x-remote-groups''"

lemmas header_names =
  X_DATA_CONNECTION_ID_def X_TENANT_ID_def X_REMOTE_USER_def AUTHORIZATION_def X_REMOTE_GROUPS_def

text \<open>
  Request headers by lower-case name; a lookup returns the first value.  Inserting replaces
  every value of the name.
\<close>

type_synonym headers = "string hmap"

definition header_insert :: "string \<Rightarrow> string \<Rightarrow> headers \<Rightarrow> headers" where
  "header_insert k v hs = (k, v) # filter (\<lambda>(k', _). k' \<noteq> k) hs"

lemma hget_header_insert [simp]:
  "hget (header_insert k v hs) k' = (if k' = k then Some v else hget hs k')"
  by (induction hs) (auto simp: header_insert_def)

end
