(* ===== verification/Kube_Auth.thy ===== *)
theory Kube_Auth
  imports Rust_Strings "HOL-Library.Word"
begin

text \<open>
  Authentication and authorisation of \<open>libs/kube-utils/src/auth.rs\<close>: token reviews and subject
  access reviews by the Kubernetes API server, each behind a cache.  The API server is a
  parameter (\<open>review_api\<close>); so are the hash of a token and Rust's debug rendering of a list of
  strings, which the cache keys are made of.  The caches may lose entries at any time.
\<close>

section \<open>Reviews\<close>

datatype auth_error =
    Unauthenticated string
  | AuthForbidden string
  | TokenReviewError string
  | AccessReviewError string
  | Internal string

fun auth_error_to_string :: "auth_error \<Rightarrow> string" where
  "auth_error_to_string (Unauthenticated m) = ''Unauthenticated: '' @ m"
| "auth_error_to_string (AuthForbidden m) = ''Forbidden: '' @ m"
| "auth_error_to_string (TokenReviewError m) = ''TokenReview API call failed: '' @ m"
| "auth_error_to_string (AccessReviewError m) = ''SubjectAccessReview API call failed: '' @ m"
| "auth_error_to_string (Internal m) = ''Internal auth error: '' @ m"

record auth_info =
  ai_username :: string
  ai_groups :: "string list"

record user_info =
  ui_username :: "string option"
  ui_groups :: "string list option"

record token_review_status =
  trs_authenticated :: "bool option"
  trs_error :: "string option"
  trs_audiences :: "string list option"
  trs_user :: "user_info option"

record review_spec =
  sar_user :: string
  sar_groups :: "string list"
  sar_namespace :: string
  sar_verb :: string
  sar_group :: string
  sar_resource :: string
  sar_name :: "string option"

text \<open>
  The two calls to the API server: an error, or the review with its status where it has one.
\<close>

record review_api =
  create_token_review :: "string \<Rightarrow> string list \<Rightarrow> string + token_review_status option"
  create_access_review :: "review_spec \<Rightarrow> string + bool option"

section \<open>The client\<close>

record kube_auth_client =
  token_review_audiences :: "string list"
  token_cache :: "64 word \<Rightarrow> (auth_error + auth_info) option"
  sar_cache :: "string \<Rightarrow> bool option"

definition new_client :: "string list \<Rightarrow> kube_auth_client" where
  "new_client audiences =
     \<lparr>token_review_audiences = audiences, token_cache = Map.empty, sar_cache = Map.empty\<rparr>"

text \<open>\<open>Cache::try_get_with\<close>: only a successful computation is remembered.\<close>

definition try_get_with :: "'k \<Rightarrow> 'e + 'v \<Rightarrow> ('k \<Rightarrow> 'v option) \<Rightarrow> ('e + 'v) \<times> ('k \<Rightarrow> 'v option)" where
  "try_get_with k compute cache =
     (case cache k of
        Some v \<Rightarrow> (Inr v, cache)
      | None \<Rightarrow> (case compute of Inl e \<Rightarrow> (Inl e, cache) | Inr v \<Rightarrow> (Inr v, cache(k \<mapsto> v))))"

definition has_compatible_audience :: "string list \<Rightarrow> string list option \<Rightarrow> bool" where
  "has_compatible_audience requested returned =
     (if requested = [] then True
      else list_ex (\<lambda>audience. list_ex (\<lambda>candidate. candidate = audience) requested)
             (case returned of None \<Rightarrow> [] | Some xs \<Rightarrow> xs))"

definition unwrap_or :: "'a \<Rightarrow> 'a option \<Rightarrow> 'a" where
  "unwrap_or d x = (case x of None \<Rightarrow> d | Some a \<Rightarrow> a)"

definition review_token ::
    "review_api \<Rightarrow> string list \<Rightarrow> string \<Rightarrow> auth_error + (auth_error + auth_info)" where
  "review_token api audiences token =
     rbind (map_err TokenReviewError (create_token_review api token audiences)) (\<lambda>result.
     rbind (ok_or (Internal ''TokenReview returned no status'') result) (\<lambda>status.
     if \<not> unwrap_or False (trs_authenticated status)
     then Inr (Inl (Unauthenticated (unwrap_or ''token not authenticated'' (trs_error status))))
     else if \<not> has_compatible_audience audiences (trs_audiences status)
     then Inr (Inl (Unauthenticated ''token audience mismatch''))
     else rbind (ok_or (Internal ''TokenReview returned no user info'') (trs_user status)) (\<lambda>user.
     Inr (Inr \<lparr>ai_username = unwrap_or [] (ui_username user),
               ai_groups = unwrap_or [] (ui_groups user)\<rparr>))))"

definition authenticate ::
    "(string \<Rightarrow> 64 word) \<Rightarrow> review_api \<Rightarrow> kube_auth_client \<Rightarrow> string \<Rightarrow>
     (auth_error + auth_info) \<times> kube_auth_client" where
  "authenticate hash_token api c token =
     (let (r, cache) = try_get_with (hash_token token)
            (review_token api (token_review_audiences c) token) (token_cache c)
      in (rbind r (\<lambda>x. x), c\<lparr>token_cache := cache\<rparr>))"

definition review_access :: "review_api \<Rightarrow> review_spec \<Rightarrow> auth_error + bool" where
  "review_access api spec =
     rbind (map_err AccessReviewError (create_access_review api spec)) (\<lambda>result.
     ok_or (Internal ''SAR returned no status'') result)"

definition connection_cache_key ::
    "(string list \<Rightarrow> string) \<Rightarrow> auth_info \<Rightarrow> string \<Rightarrow> string \<Rightarrow> string" where
  "connection_cache_key dbg info tenant_id verb =
     ''conn:'' @ ai_username info @ '':'' @ dbg (ai_groups info) @ '':'' @ tenant_id @ '':'' @ verb"

definition connection_review_spec :: "auth_info \<Rightarrow> string \<Rightarrow> string \<Rightarrow> review_spec" where
  "connection_review_spec info tenant_id verb =
     \<lparr>sar_user = ai_username info, sar_groups = ai_groups info, sar_namespace = tenant_id,
      sar_verb = verb, sar_group = ''dataconnecthub.opendatahub.io'',
      sar_resource = ''data-connections'', sar_name = None\<rparr>"

definition authorize ::
    "(string list \<Rightarrow> string) \<Rightarrow> review_api \<Rightarrow> kube_auth_client \<Rightarrow> auth_info \<Rightarrow> string \<Rightarrow> string \<Rightarrow>
     (auth_error + unit) \<times> kube_auth_client" where
  "authorize dbg api c info tenant_id verb =
     (let (r, cache) = try_get_with (connection_cache_key dbg info tenant_id verb)
            (review_access api (connection_review_spec info tenant_id verb)) (sar_cache c)
      in (rbind r (\<lambda>allowed. if allowed then Inr ()
            else Inl (AuthForbidden (''access denied for data-connections in namespace '' @ tenant_id))),
          c\<lparr>sar_cache := cache\<rparr>))"

definition secret_cache_key ::
    "(string list \<Rightarrow> string) \<Rightarrow> auth_info \<Rightarrow> string \<Rightarrow> string \<Rightarrow> string" where
  "secret_cache_key dbg info tenant_id secret_name =
     ''secret:'' @ ai_username info @ '':'' @ dbg (ai_groups info) @ '':'' @ tenant_id
       @ '':secrets:get:'' @ secret_name"

definition secret_review_spec :: "auth_info \<Rightarrow> string \<Rightarrow> string \<Rightarrow> review_spec" where
  "secret_review_spec info tenant_id secret_name =
     \<lparr>sar_user = ai_username info, sar_groups = ai_groups info, sar_namespace = tenant_id,
      sar_verb = ''get'', sar_group = '''', sar_resource = ''secrets'',
      sar_name = Some secret_name\<rparr>"

definition authorize_secret ::
    "(string list \<Rightarrow> string) \<Rightarrow> review_api \<Rightarrow> kube_auth_client \<Rightarrow> auth_info \<Rightarrow> string \<Rightarrow> string \<Rightarrow>
     (auth_error + unit) \<times> kube_auth_client" where
  "authorize_secret dbg api c info tenant_id secret_name =
     (let (r, cache) = try_get_with (secret_cache_key dbg info tenant_id secret_name)
            (review_access api (secret_review_spec info tenant_id secret_name)) (sar_cache c)
      in (rbind r (\<lambda>allowed. if allowed then Inr ()
            else Inl (AuthForbidden
              (''access denied for secret '' @ secret_name @ '' in namespace '' @ tenant_id))),
          c\<lparr>sar_cache := cache\<rparr>))"

section \<open>Debug rendering of a list of strings\<close>

text \<open>
  What the keys rely on: the rendering starts with a bracket and is self-delimiting, so that no
  rendering is a proper prefix of another one or of another one with a suffix.
\<close>

definition debug_laws :: "(string list \<Rightarrow> string) \<Rightarrow> bool" where
  "debug_laws dbg \<longleftrightarrow>
     (\<forall>gs. \<exists>s. dbg gs = CHR ''['' # s) \<and>
     (\<forall>gs hs x y. dbg gs @ x = dbg hs @ y \<longrightarrow> gs = hs \<and> x = y)"

text \<open>The rendering of strings of printable ASCII: quotes and backslashes are escaped.\<close>

definition debug_char :: "char \<Rightarrow> string" where
  "debug_char c = (if c = CHR 0x22 \<or> c = CHR 0x5C then [CHR 0x5C, c] else [c])"

definition debug_string :: "string \<Rightarrow> string" where
  "debug_string s = CHR 0x22 # concat (map debug_char s) @ [CHR 0x22]"

definition debug_strings :: "string list \<Rightarrow> string" where
  "debug_strings gs = CHR ''['' # join_with '', '' (map debug_string gs) @ '']''"

lemma debug_char_hd [simp]:
  "debug_char c @ xs \<noteq> CHR 0x22 # ys" "CHR 0x22 # ys \<noteq> debug_char c @ xs"
  by (auto simp: debug_char_def)

lemma debug_chars_delimited:
  "concat (map debug_char s) @ CHR 0x22 # x = concat (map debug_char t) @ CHR 0x22 # y \<Longrightarrow>
   s = t \<and> x = y"
proof (induction s arbitrary: t)
  case Nil
  then show ?case
    by (cases t) simp_all
next
  case (Cons c s)
  then show ?case
  proof (cases t)
    case Nil
    then show ?thesis using Cons.prems by simp
  next
    case (Cons d t')
    then have "c = d \<and> concat (map debug_char s) @ CHR 0x22 # x = concat (map debug_char t') @ CHR 0x22 # y"
      using Cons.prems by (auto simp: debug_char_def [of c] debug_char_def [of d] split: if_splits)
    with Cons.IH [of t'] Cons show ?thesis by simp
  qed
qed

lemma debug_string_delimited: "debug_string s @ x = debug_string t @ y \<Longrightarrow> s = t \<and> x = y"
  using debug_chars_delimited [of s x t y] by (simp add: debug_string_def)

lemma join_debug_delimited:
  "join_with '', '' (map debug_string gs) @ CHR '']'' # x
     = join_with '', '' (map debug_string hs) @ CHR '']'' # y \<Longrightarrow> gs = hs \<and> x = y"
proof (induction gs arbitrary: hs)
  case Nil
  then show ?case
  proof (cases hs)
    case (Cons h hs')
    then show ?thesis using Nil by (cases hs') (simp_all add: debug_string_def)
  qed simp
next
  case (Cons g gs)
  let ?tail = "\<lambda>ss z. (case ss of [] \<Rightarrow> CHR '']'' # z
      | _ \<Rightarrow> '', '' @ join_with '', '' (map debug_string ss) @ CHR '']'' # z)"
  have unfold: "join_with '', '' (map debug_string (s # ss)) @ CHR '']'' # z = debug_string s @ ?tail ss z"
    for s ss z by (cases ss) simp_all
  show ?case
  proof (cases hs)
    case Nil
    then have "debug_string g @ ?tail gs x = CHR '']'' # y"
      using Cons.prems unfolding Nil unfold by simp
    then show ?thesis by (simp add: debug_string_def)
  next
    case (Cons h hs')
    have "debug_string g @ ?tail gs x = debug_string h @ ?tail hs' y"
      using Cons.prems unfolding Cons unfold .
    then have gh: "g = h" "?tail gs x = ?tail hs' y"
      using debug_string_delimited by blast+
    then show ?thesis
      using Cons Cons.IH [of hs'] by (cases gs; cases hs') auto
  qed
qed

lemma debug_laws_debug_strings: "debug_laws debug_strings"
  using join_debug_delimited by (auto simp: debug_laws_def debug_strings_def)

section \<open>Cache keys\<close>

lemma split_first: "c \<notin> set u \<Longrightarrow> c \<notin> set v \<Longrightarrow> u @ c # x = v @ c # y \<Longrightarrow> u = v \<and> x = y"
proof (induction u arbitrary: v)
  case Nil
  then show ?case by (cases v) auto
next
  case (Cons a u)
  then show ?case by (cases v) auto
qed

lemma split_last:
  assumes "c \<notin> set u" "c \<notin> set v" "x @ c # u = y @ c # v"
  shows "x = y \<and> u = v"
proof -
  have "rev u @ c # rev x = rev v @ c # rev y"
    using arg_cong [OF assms(3), of rev] by simp
  then show ?thesis
    using split_first [of c "rev u" "rev v" "rev x" "rev y"] assms(1,2) by simp
qed

text \<open>The key under which the answer to a review is cached.\<close>

definition spec_key :: "(string list \<Rightarrow> string) \<Rightarrow> review_spec \<Rightarrow> string" where
  "spec_key dbg s =
     (let info = \<lparr>ai_username = sar_user s, ai_groups = sar_groups s\<rparr> in
      case sar_name s of
        Some n \<Rightarrow> secret_cache_key dbg info (sar_namespace s) n
      | None \<Rightarrow> connection_cache_key dbg info (sar_namespace s) (sar_verb s))"

text \<open>
  The reviews whose keys cannot be confused: the username has no opening bracket, and the name
  of the secret (as every name of a Kubernetes secret) and the verb have no colon.
\<close>

definition key_safe :: "review_spec \<Rightarrow> bool" where
  "key_safe s \<longleftrightarrow> CHR ''['' \<notin> set (sar_user s) \<and>
     (case sar_name s of
        Some n \<Rightarrow> CHR '':'' \<notin> set n
          \<and> s = secret_review_spec \<lparr>ai_username = sar_user s, ai_groups = sar_groups s\<rparr> (sar_namespace s) n
      | None \<Rightarrow> CHR '':'' \<notin> set (sar_verb s)
          \<and> s = connection_review_spec \<lparr>ai_username = sar_user s, ai_groups = sar_groups s\<rparr>
                  (sar_namespace s) (sar_verb s))"

lemma spec_key_simps [simp]:
  "spec_key dbg (secret_review_spec info t n) = secret_cache_key dbg info t n"
  "spec_key dbg (connection_review_spec info t v) = connection_cache_key dbg info t v"
  by (simp_all add: spec_key_def secret_review_spec_def connection_review_spec_def
      secret_cache_key_def connection_cache_key_def)

lemma key_safe_cases:
  assumes "key_safe s"
  obtains info t n where "s = secret_review_spec info t n"
    "CHR ''['' \<notin> set (ai_username info)" "CHR '':'' \<notin> set n"
  | info t v where "s = connection_review_spec info t v"
    "CHR ''['' \<notin> set (ai_username info)" "CHR '':'' \<notin> set v"
proof (cases "sar_name s")
  case None
  then show ?thesis
    using assms by (intro that(2) [of "\<lparr>ai_username = sar_user s, ai_groups = sar_groups s\<rparr>"
          "sar_namespace s" "sar_verb s"]) (simp_all add: key_safe_def)
next
  case (Some n)
  then show ?thesis
    using assms by (intro that(1) [of "\<lparr>ai_username = sar_user s, ai_groups = sar_groups s\<rparr>"
          "sar_namespace s" n]) (simp_all add: key_safe_def)
qed

lemma key_safe_simps [simp]:
  "key_safe (secret_review_spec info t n) \<longleftrightarrow>
     CHR ''['' \<notin> set (ai_username info) \<and> CHR '':'' \<notin> set n"
  "key_safe (connection_review_spec info t v) \<longleftrightarrow>
     CHR ''['' \<notin> set (ai_username info) \<and> CHR '':'' \<notin> set v"
  by (simp_all add: key_safe_def secret_review_spec_def connection_review_spec_def)

lemma user_groups_delimited:
  assumes "debug_laws dbg" "CHR ''['' \<notin> set u" "CHR ''['' \<notin> set v"
    "u @ CHR '':'' # dbg gs @ x = v @ CHR '':'' # dbg hs @ y"
  shows "u = v \<and> gs = hs \<and> x = y"
proof -
  obtain d e where de: "dbg gs = CHR ''['' # d" "dbg hs = CHR ''['' # e"
    using assms(1) unfolding debug_laws_def by metis
  have "(u @ '':'') @ CHR ''['' # d @ x = (v @ '':'') @ CHR ''['' # e @ y"
    using assms(4) de by simp
  then have "u @ '':'' = v @ '':''" "d @ x = e @ y"
    using split_first [of "CHR ''[''" "u @ '':''" "v @ '':''"] assms(2,3) by auto
  then have "u = v" "dbg gs @ x = dbg hs @ y"
    using de by simp_all
  then show ?thesis
    using assms(1) unfolding debug_laws_def by blast
qed

lemma secret_cache_key_inj:
  assumes laws: "debug_laws dbg" and eq: "secret_cache_key dbg i t n = secret_cache_key dbg j u m"
    and safe: "CHR ''['' \<notin> set (ai_username i)" "CHR ''['' \<notin> set (ai_username j)"
      "CHR '':'' \<notin> set n" "CHR '':'' \<notin> set m"
  shows "i = j \<and> t = u \<and> n = m"
proof -
  have "ai_username i @ CHR '':'' # dbg (ai_groups i) @ CHR '':'' # (t @ '':secrets:get'') @ CHR '':'' # n
      = ai_username j @ CHR '':'' # dbg (ai_groups j) @ CHR '':'' # (u @ '':secrets:get'') @ CHR '':'' # m"
    using eq unfolding secret_cache_key_def by simp
  then have "ai_username i = ai_username j" "ai_groups i = ai_groups j"
      "(t @ '':secrets:get'') @ CHR '':'' # n = (u @ '':secrets:get'') @ CHR '':'' # m"
    using user_groups_delimited [OF laws safe(1,2)] by blast+
  moreover from this(3) have "t @ '':secrets:get'' = u @ '':secrets:get''" "n = m"
    using split_last [OF safe(3,4)] by blast+
  ultimately show ?thesis by simp
qed

lemma connection_cache_key_inj:
  assumes laws: "debug_laws dbg"
    and eq: "connection_cache_key dbg i t n = connection_cache_key dbg j u m"
    and safe: "CHR ''['' \<notin> set (ai_username i)" "CHR ''['' \<notin> set (ai_username j)"
      "CHR '':'' \<notin> set n" "CHR '':'' \<notin> set m"
  shows "i = j \<and> t = u \<and> n = m"
proof -
  have "ai_username i @ CHR '':'' # dbg (ai_groups i) @ CHR '':'' # t @ CHR '':'' # n
      = ai_username j @ CHR '':'' # dbg (ai_groups j) @ CHR '':'' # u @ CHR '':'' # m"
    using eq unfolding connection_cache_key_def by simp
  then have "ai_username i = ai_username j" "ai_groups i = ai_groups j"
      "t @ CHR '':'' # n = u @ CHR '':'' # m"
    using user_groups_delimited [OF laws safe(1,2)] by blast+
  moreover from this(3) have "t = u" "n = m"
    using split_last [OF safe(3,4)] by blast+
  ultimately show ?thesis by simp
qed

lemma cache_keys_differ:
  "secret_cache_key dbg i t n \<noteq> connection_cache_key dbg j u v"
  by (simp add: secret_cache_key_def connection_cache_key_def)

lemma spec_key_inj:
  assumes laws: "debug_laws dbg" and safe: "key_safe s" "key_safe s'"
    and eq: "spec_key dbg s = spec_key dbg s'"
  shows "s = s'"
  using safe(1)
proof (cases rule: key_safe_cases)
  case s: (1 info t n)
  from safe(2) show ?thesis
  proof (cases rule: key_safe_cases)
    case (1 info' t' n')
    then show ?thesis using secret_cache_key_inj [OF laws, of info t n info' t' n'] s eq by simp
  next
    case (2 info' t' v')
    then show ?thesis using cache_keys_differ s eq by simp
  qed
next
  case s: (2 info t v)
  from safe(2) show ?thesis
  proof (cases rule: key_safe_cases)
    case (1 info' t' n')
    then show ?thesis using cache_keys_differ [symmetric] s eq by simp
  next
    case (2 info' t' v')
    then show ?thesis using connection_cache_key_inj [OF laws, of info t v info' t' v'] s eq by simp
  qed
qed

section \<open>Runs\<close>

text \<open>
  The reviews the API server has answered, newest first, are recorded beside the client.  A
  cache is sound when each of its entries is the answer to a recorded review with that key.
\<close>

definition cache_sound :: "('x \<Rightarrow> 'k) \<Rightarrow> ('k \<Rightarrow> 'v option) \<Rightarrow> ('x \<times> 'v) list \<Rightarrow> bool" where
  "cache_sound key cache log \<longleftrightarrow> (\<forall>k v. cache k = Some v \<longrightarrow> (\<exists>x. (x, v) \<in> set log \<and> key x = k))"

definition log_review ::
    "('x \<Rightarrow> 'k) \<Rightarrow> 'x \<Rightarrow> 'e + 'v \<Rightarrow> ('k \<Rightarrow> 'v option) \<Rightarrow> ('x \<times> 'v) list \<Rightarrow> ('x \<times> 'v) list" where
  "log_review key x compute cache log =
     (case cache (key x) of
        Some _ \<Rightarrow> log
      | None \<Rightarrow> (case compute of Inl _ \<Rightarrow> log | Inr v \<Rightarrow> (x, v) # log))"

lemma cache_sound_review:
  "cache_sound key cache log \<Longrightarrow>
   cache_sound key (snd (try_get_with (key x) compute cache)) (log_review key x compute cache log)"
  by (fastforce simp: cache_sound_def try_get_with_def log_review_def split: option.splits sum.splits)

lemma cache_sound_evict: "cache_sound key cache log \<Longrightarrow> cache_sound key (cache |` A) log"
  by (auto simp: cache_sound_def restrict_map_def)

text \<open>Where keys are not confused, an answer from the cache is an answer about the same thing.\<close>

locale review_cache =
  fixes key :: "'x \<Rightarrow> 'k" and safe :: "'x \<Rightarrow> bool"
  assumes key_inj: "safe x \<Longrightarrow> safe y \<Longrightarrow> key x = key y \<Longrightarrow> x = y"
begin

lemma answer_reviewed:
  assumes "cache_sound key cache log" "\<forall>(y, v) \<in> set log. safe y" "safe x"
    and "fst (try_get_with (key x) compute cache) = Inr v"
  shows "(x, v) \<in> set log \<or> compute = Inr v"
proof (cases "cache (key x)")
  case None
  then show ?thesis using assms(4) by (auto simp: try_get_with_def split: sum.splits)
next
  case (Some w)
  then have "w = v" using assms(4) by (simp add: try_get_with_def)
  then obtain y where "(y, v) \<in> set log" "key y = key x"
    using Some assms(1) unfolding cache_sound_def by blast
  then show ?thesis
    using key_inj [of y x] assms(2,3) by fastforce
qed

end

lemma review_cache_spec_key: "debug_laws dbg \<Longrightarrow> review_cache (spec_key dbg) key_safe"
  by unfold_locales (rule spec_key_inj)

interpretation access_reviews: review_cache "spec_key debug_strings" key_safe
  by (rule review_cache_spec_key [OF debug_laws_debug_strings])

text \<open>
  Any sequence of requests to the client, each against the API server as it is then, with
  entries expiring in between.
\<close>

inductive auth_run ::
    "(string \<Rightarrow> 64 word) \<Rightarrow> (string list \<Rightarrow> string) \<Rightarrow> kube_auth_client \<Rightarrow>
     (string \<times> (auth_error + auth_info)) list \<Rightarrow> (review_spec \<times> bool) list \<Rightarrow> bool"
  for hash_token dbg where
  run_new: "auth_run hash_token dbg (new_client audiences) [] []"
| run_authenticate:
    "auth_run hash_token dbg c tlog slog \<Longrightarrow>
     auth_run hash_token dbg (snd (authenticate hash_token api c token))
       (log_review hash_token token (review_token api (token_review_audiences c) token)
          (token_cache c) tlog) slog"
| run_authorize:
    "auth_run hash_token dbg c tlog slog \<Longrightarrow>
     auth_run hash_token dbg (snd (authorize dbg api c info tenant verb)) tlog
       (log_review (spec_key dbg) (connection_review_spec info tenant verb)
          (review_access api (connection_review_spec info tenant verb)) (sar_cache c) slog)"
| run_authorize_secret:
    "auth_run hash_token dbg c tlog slog \<Longrightarrow>
     auth_run hash_token dbg (snd (authorize_secret dbg api c info tenant name)) tlog
       (log_review (spec_key dbg) (secret_review_spec info tenant name)
          (review_access api (secret_review_spec info tenant name)) (sar_cache c) slog)"
| run_evict:
    "auth_run hash_token dbg c tlog slog \<Longrightarrow>
     auth_run hash_token dbg
       (c\<lparr>token_cache := token_cache c |` A, sar_cache := sar_cache c |` B\<rparr>) tlog slog"

lemma auth_run_sound:
  "auth_run h dbg c tlog slog \<Longrightarrow>
   cache_sound h (token_cache c) tlog \<and> cache_sound (spec_key dbg) (sar_cache c) slog"
proof (induction rule: auth_run.induct)
  case (run_new audiences)
  show ?case by (simp add: new_client_def cache_sound_def)
next
  case (run_authenticate c tlog slog api token)
  then show ?case
    using cache_sound_review [of h "token_cache c" tlog token]
    by (simp add: authenticate_def split_def Let_def)
next
  case (run_authorize c tlog slog api info tenant verb)
  then show ?case
    using cache_sound_review [of "spec_key dbg" "sar_cache c" slog "connection_review_spec info tenant verb"]
    by (simp add: authorize_def split_def Let_def)
next
  case (run_authorize_secret c tlog slog api info tenant name)
  then show ?case
    using cache_sound_review [of "spec_key dbg" "sar_cache c" slog "secret_review_spec info tenant name"]
    by (simp add: authorize_secret_def split_def Let_def)
next
  case (run_evict c tlog slog A B)
  then show ?case by (simp add: cache_sound_evict)
qed

lemma review_access_allowed:
  "review_access api s = Inr b \<longleftrightarrow> create_access_review api s = Inr (Some b)"
  by (auto simp: review_access_def result_simps)

section \<open>Properties\<close>


definition sample_api :: review_api where
  "sample_api =
     \<lparr>create_token_review = \<lambda>token audiences. Inr (Some \<lparr>trs_authenticated = Some (token = ''good''),
        trs_error = None, trs_audiences = Some [''hub''],
        trs_user = Some \<lparr>ui_username = Some ''alice'', ui_groups = None\<rparr>\<rparr>),
      create_access_review = \<lambda>s. Inr (Some (sar_user s = ''alice'' \<and> sar_namespace s = ''acme''))\<rparr>"




text \<open>
  Without the provisos two different requests can share a key: the answer for one user is then
  given to another.
\<close>

lemma secret_cache_key_confusion:
  "secret_cache_key debug_strings \<lparr>ai_username = ''a'', ai_groups = []\<rparr> ''b:[]:c'' n
   = secret_cache_key debug_strings \<lparr>ai_username = ''a:[]:b'', ai_groups = []\<rparr> ''c'' n"
  by (simp add: secret_cache_key_def debug_strings_def)

end
