(* ===== verification/Flight_Service.thy ===== *)
theory Flight_Service
  imports Meta_Properties Secrets Grpc Kube_Auth
begin

text \<open>
  The flight service of \<open>services/flight/src/flight\<close>: the mapping of errors to gRPC statuses,
  the connector registry, the resolution of a connection and its credentials, the Flight SQL
  handlers, the custom actions and the authentication layer in front of them.

  Arrow schemas, record batches and encoded flight data are type parameters (\<open>'s\<close>, \<open>'b\<close>,
  \<open>'d\<close>).  A connector and the reader it gives are records of functions, as the traits
  \<open>FlightConnector\<close> and \<open>DataReader\<close> have them; the arrow library is the record \<open>flight_lib\<close>.
  The \<open>i\<close>-th call of a handler to the metadata store runs in the environment \<open>envs i\<close>.
\<close>

section \<open>Errors\<close>

fun map_meta_store_error :: "meta_store_error \<Rightarrow> grpc_status" where
  "map_meta_store_error (ResourceNotFound m) = grpc_error NotFoundCode m"
| "map_meta_store_error (MetaInvalidRequest m) = grpc_error InvalidArgument m"
| "map_meta_store_error (Validation m) = grpc_error InvalidArgument m"
| "map_meta_store_error (UnprocessableEntity m) = grpc_error InvalidArgument m"
| "map_meta_store_error (Connection m) = grpc_error Unavailable ''metadata service unavailable''"
| "map_meta_store_error (Config m) = grpc_error InternalCode ''metadata service configuration error''"
| "map_meta_store_error (Query m) = grpc_error InternalCode ''metadata query error''"
| "map_meta_store_error (Conflict m) = grpc_error AlreadyExists ''resource already exists''"
| "map_meta_store_error (Serialization m) = grpc_error InternalCode ''metadata serialization error''"
| "map_meta_store_error (Deserialization m) =
     grpc_error InternalCode ''metadata deserialization error; see service logs for details''"

fun map_connector_error :: "connector_error \<Rightarrow> grpc_status" where
  "map_connector_error (InvalidRequest m) = grpc_error InvalidArgument m"
| "map_connector_error NoDataError = grpc_error NotFoundCode ''no data found''"
| "map_connector_error (ConnectionError m) =
     grpc_error Unavailable (''data source connection failed: '' @ connector_error_message (ConnectionError m))"
| "map_connector_error (SQLError m) =
     grpc_error InternalCode (''query execution failed: '' @ connector_error_message (SQLError m))"
| "map_connector_error (ConfigError m) =
     grpc_error InternalCode (''connector configuration error: '' @ connector_error_message (ConfigError m))"
| "map_connector_error (IOError m) = grpc_error InternalCode ''data source IO error''"
| "map_connector_error (NotFound m) = grpc_error NotFoundCode m"
| "map_connector_error (UnsupportedOperation m) = grpc_error Unimplemented ''unsupported operation''"

definition grpc_status_label :: "grpc_status \<Rightarrow> string" where
  "grpc_status_label s = (case status_code s of
     Ok \<Rightarrow> ''OK'' | Cancelled \<Rightarrow> ''Cancelled'' | Unknown \<Rightarrow> ''Unknown''
   | InvalidArgument \<Rightarrow> ''InvalidArgument'' | DeadlineExceeded \<Rightarrow> ''DeadlineExceeded''
   | NotFoundCode \<Rightarrow> ''NotFound'' | AlreadyExists \<Rightarrow> ''AlreadyExists''
   | PermissionDenied \<Rightarrow> ''PermissionDenied'' | ResourceExhausted \<Rightarrow> ''ResourceExhausted''
   | FailedPrecondition \<Rightarrow> ''FailedPrecondition'' | Aborted \<Rightarrow> ''Aborted''
   | OutOfRange \<Rightarrow> ''OutOfRange'' | Unimplemented \<Rightarrow> ''Unimplemented''
   | InternalCode \<Rightarrow> ''Internal'' | Unavailable \<Rightarrow> ''Unavailable'' | DataLoss \<Rightarrow> ''DataLoss''
   | UnauthenticatedCode \<Rightarrow> ''Unauthenticated'')"

section \<open>Request context\<close>

definition required_header :: "string \<Rightarrow> headers \<Rightarrow> grpc_status + string" where
  "required_header name metadata =
     rbind (ok_or (grpc_error InvalidArgument (name @ '' header is required'')) (hget metadata name)) (\<lambda>v.
     ok_or (grpc_error InvalidArgument (name @ '' header must be valid ASCII'')) (header_to_str v))"

definition query_context_tenant_id :: "headers \<Rightarrow> grpc_status + string" where
  "query_context_tenant_id = required_header X_TENANT_ID"

definition query_context_connection_id :: "headers \<Rightarrow> grpc_status + string" where
  "query_context_connection_id = required_header X_DATA_CONNECTION_ID"

section \<open>Connectors and readers\<close>

record 's query =
  q_query :: string
  q_schema :: 's

record 's table_info =
  ti_catalog :: string
  ti_schema_name :: string
  ti_table_name :: string
  ti_table_type :: string
  ti_table_schema :: 's

record ('s, 'b) data_reader =
  rd_schema :: "string \<Rightarrow> connector_error + 's query"
  rd_read_tabular :: "'s query \<Rightarrow> nat \<Rightarrow> connector_error + (connector_error + 'b) list"
  rd_can_read_binary :: "string \<Rightarrow> connector_error + unit"
  rd_read_binary :: "string \<Rightarrow> connector_error + (connector_error + 'b) list"
  rd_check_connection :: "connector_error + unit"
  rd_list_tables :: "string option \<Rightarrow> bool \<Rightarrow> connector_error + 's table_info list"

text \<open>The default methods of the trait.\<close>

definition default_binary :: "string \<Rightarrow> connector_error + 'a" where
  "default_binary path = Inl (UnsupportedOperation ''binary reads are not supported for this connector'')"

type_synonym credentials_resolver = "data_connection_resource \<Rightarrow> connector_error + string hmap"

record ('s, 'b) flight_connector =
  fc_provider :: string
  fc_description :: string
  fc_supported_formats :: "data_format list"
  fc_get_reader ::
    "data_connection_resource \<Rightarrow> credentials_resolver \<Rightarrow> connector_error + ('s, 'b) data_reader"

type_synonym ('s, 'b) connectors_registry = "('s, 'b) flight_connector hmap"

definition with_connector ::
    "('s, 'b) flight_connector \<Rightarrow> ('s, 'b) connectors_registry \<Rightarrow> ('s, 'b) connectors_registry" where
  "with_connector conn reg = hinsert (fc_provider conn) conn reg"

definition get_connector ::
    "('s, 'b) connectors_registry \<Rightarrow> string \<Rightarrow> connector_error + ('s, 'b) flight_connector" where
  "get_connector reg provider =
     ok_or (ConfigError (''no connector registered for provider '' @ quoted provider)) (hget reg provider)"

definition registry_supported_connectors ::
    "('s, 'b) connectors_registry \<Rightarrow> ('s, 'b) flight_connector list" where
  "registry_supported_connectors reg = map snd reg"

section \<open>The service\<close>

datatype flight_error = ExternalError connector_error | OtherFlightError

record tables_query =
  tq_filter :: "string option"
  tq_include_schema :: bool

text \<open>
  The arrow library: whether a schema can be encoded, the encoder of a stream of batches, the
  builders of the table listing and of the SqlInfo answer (they may refuse to append or to build),
  and the fixed schemas.
\<close>

record ('s, 'b, 'd) flight_lib =
  lib_schema_ok :: "'s \<Rightarrow> bool"
  lib_encode :: "'s \<Rightarrow> (flight_error + 'b) list \<Rightarrow> (flight_error + 'd) list"
  lib_tables_schema :: "tables_query \<Rightarrow> 's"
  lib_tables_append :: "tables_query \<Rightarrow> 's table_info \<Rightarrow> bool"
  lib_tables_build :: "tables_query \<Rightarrow> 's table_info list \<Rightarrow> ('b \<times> 's) option"
  lib_binary_schema :: 's
  lib_sql_info_schema :: 's
  lib_sql_info_build :: "nat list \<Rightarrow> 'b option"

record ('c, 's, 'b, 'd) data_ingestion_service =
  connectors_registry :: "('s, 'b) connectors_registry"
  svc_meta_store :: pg_meta_store
  svc_kube :: "'c kube_api"
  svc_cluster :: 'c
  svc_lib :: "('s, 'b, 'd) flight_lib"
  svc_batch_size :: nat

definition get_connector_by_type_id ::
    "(nat \<Rightarrow> env) \<Rightarrow> ('c, 's, 'b, 'd) data_ingestion_service \<Rightarrow> string \<Rightarrow> string \<Rightarrow>
     grpc_status + (data_connection_type_resource \<times> ('s, 'b) flight_connector)" where
  "get_connector_by_type_id envs svc tenant_id type_id =
     rbind (map_err map_meta_store_error
              (get_data_connection_type (envs 0) (svc_meta_store svc) tenant_id type_id)) (\<lambda>dct.
     rbind (map_err map_connector_error
              (get_connector (connectors_registry svc) (dct_provider (dctr_resource dct)))) (\<lambda>connector.
     Inr (dct, connector)))"

definition get_connector_by_connection_id ::
    "(nat \<Rightarrow> env) \<Rightarrow> ('c, 's, 'b, 'd) data_ingestion_service \<Rightarrow> string \<Rightarrow> string \<Rightarrow>
     grpc_status + (data_connection_resource \<times> ('s, 'b) flight_connector)" where
  "get_connector_by_connection_id envs svc tenant_id connection_id =
     rbind (map_err map_meta_store_error
              (get_data_connection (envs 0) (svc_meta_store svc) tenant_id connection_id)) (\<lambda>connection.
     rbind (map_err map_meta_store_error
              (get_data_connection_type (envs 1) (svc_meta_store svc) tenant_id
                 (dc_data_connection_type_id (dcr_resource connection)))) (\<lambda>dct.
     rbind (map_err map_connector_error
              (get_connector (connectors_registry svc) (dct_provider (dctr_resource dct)))) (\<lambda>connector.
     Inr (connection, connector))))"

text \<open>\<open>impl CredentialsResolver for DataIngestionService\<close>.\<close>

definition service_resolve ::
    "('c, 's, 'b, 'd) data_ingestion_service \<Rightarrow> credentials_resolver" where
  "service_resolve svc connection =
     (case md_tenant_id (dcr_metadata connection) of
        Some tenant_id \<Rightarrow>
          rbind (map_err (\<lambda>e. ConnectionError (secret_store_error_to_string e))
                   (get_secret (svc_kube svc) (svc_cluster svc) tenant_id
                      (cr_secret (dc_credentials_ref (dcr_resource connection))))) (\<lambda>s.
          Inr (sec_properties s))
      | None \<Rightarrow> Inl (ConnectionError ''No credentials found''))"

text \<open>The reader of a connection: the connector is looked up and given the resolver.\<close>

definition reader_for ::
    "(nat \<Rightarrow> env) \<Rightarrow> ('c, 's, 'b, 'd) data_ingestion_service \<Rightarrow> string \<Rightarrow> string \<Rightarrow>
     grpc_status + ('s, 'b) data_reader" where
  "reader_for envs svc tenant_id connection_id =
     rbind (get_connector_by_connection_id envs svc tenant_id connection_id) (\<lambda>(connection, connector).
     map_err map_connector_error (fc_get_reader connector connection (service_resolve svc)))"

section \<open>Flight SQL handlers\<close>

text \<open>
  Commands and tickets are the messages themselves; their protobuf encoding is not modelled.
  \<open>Any\<close> is a type URL with the bytes of a value.  The totals of a flight info are \<open>None\<close> where
  the handler leaves them as \<open>FlightInfo::new()\<close> has them.
\<close>

record any_msg =
  any_type_url :: string
  any_value :: string

datatype flight_ticket =
    SqlInfoTicket "nat list"
  | TablesTicket tables_query
  | StatementTicket string
  | AnyTicket any_msg

datatype command = UnknownCommand any_msg | KnownCommand

record 's flight_info =
  fi_schema :: 's
  fi_ticket :: flight_ticket
  fi_with_descriptor :: bool
  fi_total_records :: "int option"
  fi_total_bytes :: "int option"

definition DOWNLOAD_TYPE_URL :: string where
  "DOWNLOAD_TYPE_URL = ''dataconnethub.opendatahub.io/download''"

definition try_with_schema :: "('s, 'b, 'd) flight_lib \<Rightarrow> string \<Rightarrow> 's \<Rightarrow> grpc_status + 's" where
  "try_with_schema lib msg schema =
     (if lib_schema_ok lib schema then Inr schema else Inl (grpc_error InternalCode msg))"

definition handle_get_flight_info_sql_info ::
    "('c, 's, 'b, 'd) data_ingestion_service \<Rightarrow> nat list \<Rightarrow> grpc_status + 's flight_info" where
  "handle_get_flight_info_sql_info svc info =
     rbind (try_with_schema (svc_lib svc) ''failed to encode sql_info schema''
              (lib_sql_info_schema (svc_lib svc))) (\<lambda>schema.
     Inr \<lparr>fi_schema = schema, fi_ticket = SqlInfoTicket info, fi_with_descriptor = True,
          fi_total_records = None, fi_total_bytes = None\<rparr>)"

definition encode_stream ::
    "('s, 'b, 'd) flight_lib \<Rightarrow> (flight_error \<Rightarrow> grpc_status) \<Rightarrow> 's \<Rightarrow> (flight_error + 'b) list \<Rightarrow>
     (grpc_status + 'd) list" where
  "encode_stream lib f schema stream = map (map_err f) (lib_encode lib schema stream)"

definition handle_do_get_sql_info ::
    "('c, 's, 'b, 'd) data_ingestion_service \<Rightarrow> nat list \<Rightarrow> grpc_status + (grpc_status + 'd) list" where
  "handle_do_get_sql_info svc info =
     rbind (ok_or (grpc_error InternalCode ''failed to build response'')
              (lib_sql_info_build (svc_lib svc) info)) (\<lambda>batch.
     Inr (encode_stream (svc_lib svc)
            (\<lambda>_. grpc_error InternalCode ''failed to encode sql_info response'')
            (lib_sql_info_schema (svc_lib svc)) [Inr batch]))"

definition handle_get_flight_info_tables ::
    "('c, 's, 'b, 'd) data_ingestion_service \<Rightarrow> tables_query \<Rightarrow> grpc_status + 's flight_info" where
  "handle_get_flight_info_tables svc q =
     rbind (try_with_schema (svc_lib svc) ''failed to encode tables schema''
              (lib_tables_schema (svc_lib svc) q)) (\<lambda>schema.
     Inr \<lparr>fi_schema = schema, fi_ticket = TablesTicket q, fi_with_descriptor = True,
          fi_total_records = Some (-1), fi_total_bytes = None\<rparr>)"

fun append_tables :: "('s, 'b, 'd) flight_lib \<Rightarrow> tables_query \<Rightarrow> 's table_info list \<Rightarrow> grpc_status + unit" where
  "append_tables lib q [] = Inr ()"
| "append_tables lib q (t # ts) =
     (if lib_tables_append lib q t then append_tables lib q ts
      else Inl (grpc_error InternalCode ''failed to build tables response''))"

definition handle_do_get_tables ::
    "(nat \<Rightarrow> env) \<Rightarrow> ('c, 's, 'b, 'd) data_ingestion_service \<Rightarrow> tables_query \<Rightarrow> headers \<Rightarrow>
     grpc_status + (grpc_status + 'd) list" where
  "handle_do_get_tables envs svc q metadata =
     rbind (query_context_tenant_id metadata) (\<lambda>tenant_id.
     rbind (query_context_connection_id metadata) (\<lambda>connection_id.
     rbind (reader_for envs svc tenant_id connection_id) (\<lambda>reader.
     rbind (map_err map_connector_error
              (rd_list_tables reader (tq_filter q) (tq_include_schema q))) (\<lambda>tables.
     rbind (append_tables (svc_lib svc) q tables) (\<lambda>_.
     rbind (ok_or (grpc_error InternalCode ''failed to build tables response'')
              (lib_tables_build (svc_lib svc) q tables)) (\<lambda>(batch, schema).
     Inr (encode_stream (svc_lib svc)
            (\<lambda>_. grpc_error InternalCode ''failed to encode tables response'') schema [Inr batch])))))))"

definition handle_get_flight_info_statement ::
    "(nat \<Rightarrow> env) \<Rightarrow> ('c, 's, 'b, 'd) data_ingestion_service \<Rightarrow> string \<Rightarrow> headers \<Rightarrow>
     grpc_status + 's flight_info" where
  "handle_get_flight_info_statement envs svc q metadata =
     rbind (query_context_tenant_id metadata) (\<lambda>tenant_id.
     rbind (query_context_connection_id metadata) (\<lambda>connection_id.
     rbind (reader_for envs svc tenant_id connection_id) (\<lambda>reader.
     rbind (map_err map_connector_error (rd_schema reader q)) (\<lambda>state.
     rbind (try_with_schema (svc_lib svc) ''failed to encode statement schema'' (q_schema state)) (\<lambda>schema.
     Inr \<lparr>fi_schema = schema, fi_ticket = StatementTicket q, fi_with_descriptor = False,
          fi_total_records = Some (-1), fi_total_bytes = Some (-1)\<rparr>)))))"

text \<open>How the errors inside a data stream reach the client.\<close>

fun stream_error :: "flight_error \<Rightarrow> grpc_status" where
  "stream_error (ExternalError e) = map_connector_error e"
| "stream_error OtherFlightError = grpc_error InternalCode ''failed to encode statement response''"

definition handle_do_get_statement ::
    "(nat \<Rightarrow> env) \<Rightarrow> ('c, 's, 'b, 'd) data_ingestion_service \<Rightarrow> string \<Rightarrow> headers \<Rightarrow>
     grpc_status + (grpc_status + 'd) list" where
  "handle_do_get_statement envs svc statement_handle metadata =
     rbind (ok_or (grpc_error InvalidArgument ''Invalid statement handle'') (from_utf8 statement_handle)) (\<lambda>q.
     rbind (query_context_tenant_id metadata) (\<lambda>tenant_id.
     rbind (query_context_connection_id metadata) (\<lambda>connection_id.
     rbind (reader_for envs svc tenant_id connection_id) (\<lambda>reader.
     rbind (map_err map_connector_error (rd_schema reader q)) (\<lambda>state.
     rbind (map_err map_connector_error (rd_read_tabular reader state (svc_batch_size svc))) (\<lambda>stream.
     Inr (encode_stream (svc_lib svc) stream_error (q_schema state) (map (map_err ExternalError) stream))))))))"

definition handle_get_flight_info_fallback ::
    "(nat \<Rightarrow> env) \<Rightarrow> ('c, 's, 'b, 'd) data_ingestion_service \<Rightarrow> command \<Rightarrow> headers \<Rightarrow>
     grpc_status + 's flight_info" where
  "handle_get_flight_info_fallback envs svc cmd metadata =
     (case cmd of
        KnownCommand \<Rightarrow> Inl (grpc_error InvalidArgument ''expected custom command'')
      | UnknownCommand any \<Rightarrow>
          if any_type_url any \<noteq> DOWNLOAD_TYPE_URL
          then Inl (grpc_error Unimplemented (''unknown command type: '' @ any_type_url any))
          else
            rbind (query_context_tenant_id metadata) (\<lambda>tenant_id.
            rbind (query_context_connection_id metadata) (\<lambda>connection_id.
            rbind (ok_or (grpc_error InvalidArgument ''Invalid download path'') (from_utf8 (any_value any))) (\<lambda>path.
            rbind (reader_for envs svc tenant_id connection_id) (\<lambda>reader.
            rbind (map_err map_connector_error (rd_can_read_binary reader path)) (\<lambda>_.
            rbind (try_with_schema (svc_lib svc) ''failed to encode schema''
                     (lib_binary_schema (svc_lib svc))) (\<lambda>schema.
            Inr \<lparr>fi_schema = schema, fi_ticket = AnyTicket any, fi_with_descriptor = True,
                 fi_total_records = Some (-1), fi_total_bytes = Some (-1)\<rparr>)))))))"

definition handle_do_get_fallback ::
    "(nat \<Rightarrow> env) \<Rightarrow> ('c, 's, 'b, 'd) data_ingestion_service \<Rightarrow> headers \<Rightarrow> any_msg \<Rightarrow>
     grpc_status + (grpc_status + 'd) list" where
  "handle_do_get_fallback envs svc metadata message =
     rbind (query_context_tenant_id metadata) (\<lambda>tenant_id.
     rbind (query_context_connection_id metadata) (\<lambda>connection_id.
     rbind (ok_or (grpc_error InvalidArgument ''Invalid download path'') (from_utf8 (any_value message))) (\<lambda>path.
     rbind (reader_for envs svc tenant_id connection_id) (\<lambda>reader.
     rbind (map_err map_connector_error (rd_read_binary reader path)) (\<lambda>stream.
     Inr (encode_stream (svc_lib svc) stream_error (lib_binary_schema (svc_lib svc))
            (map (map_err ExternalError) stream)))))))"

section \<open>Custom actions\<close>

text \<open>
  A record batch of text columns, by name and of equal length, and the Arrow library: writing a
  batch as an IPC stream (the error says at which step it failed), reading a stream of batches,
  and concatenating batches.
\<close>

datatype column = Utf8 "string list" | OtherColumn nat

type_synonym text_batch = "(string \<times> column) list"

datatype ipc_step = BuildBatch | CreateWriter | WriteBatch | FinishStream

record ipc_lib =
  ipc_write :: "text_batch \<Rightarrow> (ipc_step \<times> string) + string"
  ipc_read :: "string \<Rightarrow> string + (string + text_batch) list"
  ipc_concat :: "text_batch list \<Rightarrow> string + text_batch"

record flight_action =
  action_type :: string
  action_body :: string

fun utf8_column :: "column \<Rightarrow> string list option" where
  "utf8_column (Utf8 vs) = Some vs"
| "utf8_column (OtherColumn n) = None"

definition string_column :: "text_batch \<Rightarrow> string \<Rightarrow> string list option" where
  "string_column b name = Option.bind (map_of b name) utf8_column"

definition parse_kv_body :: "ipc_lib \<Rightarrow> string \<Rightarrow> grpc_status + string hmap" where
  "parse_kv_body ipc body =
     rbind (map_err (\<lambda>e. grpc_error InvalidArgument (''invalid credentials payload: '' @ e))
              (ipc_read ipc body)) (\<lambda>reader.
     rbind (ok_or (grpc_error InvalidArgument ''credentials payload is empty'')
              (case reader of [] \<Rightarrow> None | b # _ \<Rightarrow> Some b)) (\<lambda>first.
     rbind (map_err (\<lambda>e. grpc_error InvalidArgument (''failed to read credentials: '' @ e)) first) (\<lambda>batch.
     rbind (ok_or (grpc_error InvalidArgument (''credentials payload missing '' @ quoted ''key'' @ '' column''))
              (string_column batch ''key'')) (\<lambda>keys.
     rbind (ok_or (grpc_error InvalidArgument (''credentials payload missing '' @ quoted ''value'' @ '' column''))
              (string_column batch ''value'')) (\<lambda>values.
     Inr (hextend [] (zip keys values)))))))"

definition secret_entries :: "string hmap \<Rightarrow> string hmap" where
  "secret_entries keys =
     hextend [] (List.map_filter (\<lambda>(k, v). map_option (\<lambda>k'. (k', v)) (strip_prefix ''secret.'' k)) keys)"

definition probe_connection :: "string \<Rightarrow> string \<Rightarrow> string \<Rightarrow> data_connection_resource" where
  "probe_connection uuid tenant_id dct_id =
     \<lparr>dcr_metadata = \<lparr>md_id = uuid, md_tenant_id = Some tenant_id, md_created_at = ''2021-01-01'',
                     md_updated_at = ''2021-01-01''\<rparr>,
      dcr_resource = \<lparr>dc_name = ''test'', dc_data_connection_type_id = dct_id, dc_format = Tabular,
                     dc_credentials_ref = default_credentials_ref, dc_properties = []\<rparr>,
      dcr_status = default_data_connection_status\<rparr>"

definition action_check_credentials ::
    "(nat \<Rightarrow> env) \<Rightarrow> ipc_lib \<Rightarrow> ('c, 's, 'b, 'd) data_ingestion_service \<Rightarrow> headers \<Rightarrow> flight_action \<Rightarrow>
     grpc_status + string" where
  "action_check_credentials envs ipc svc metadata action =
     rbind (query_context_tenant_id metadata) (\<lambda>tenant_id.
     rbind (parse_kv_body ipc (action_body action)) (\<lambda>keys.
     rbind (ok_or (grpc_error InvalidArgument ''data_connection_type_id is required'')
              (hget keys ''data_connection_type_id'')) (\<lambda>dct_id.
     let credentials = secret_entries (hremove ''data_connection_type_id'' keys) in
     rbind (get_connector_by_type_id envs svc tenant_id dct_id) (\<lambda>(dct, connector).
     rbind (map_err (\<lambda>e. grpc_error InvalidArgument (data_connection_type_error_to_string e))
              (check_credentials_schema (dctr_resource dct) credentials)) (\<lambda>_.
     rbind (map_err map_connector_error
              (fc_get_reader connector (probe_connection (new_uuid (envs 1)) tenant_id dct_id)
                 (\<lambda>_. Inr credentials))) (\<lambda>_.
     Inr []))))))"

definition action_check_connection ::
    "(nat \<Rightarrow> env) \<Rightarrow> ('c, 's, 'b, 'd) data_ingestion_service \<Rightarrow> headers \<Rightarrow> grpc_status + string" where
  "action_check_connection envs svc metadata =
     rbind (query_context_tenant_id metadata) (\<lambda>tenant_id.
     rbind (query_context_connection_id metadata) (\<lambda>connection_id.
     rbind (reader_for envs svc tenant_id connection_id) (\<lambda>reader.
     rbind (map_err map_connector_error (rd_check_connection reader)) (\<lambda>_.
     Inr []))))"

definition connectors_batch :: "('s, 'b) flight_connector list \<Rightarrow> text_batch" where
  "connectors_batch cs =
     [(''name'', Utf8 (map fc_provider cs)),
      (''description'', Utf8 (map fc_description cs)),
      (''supported_formats'',
         Utf8 (map (\<lambda>c. join_with '','' (map data_format_to_string (fc_supported_formats c))) cs))]"

definition action_get_supported_connectors ::
    "ipc_lib \<Rightarrow> ('c, 's, 'b, 'd) data_ingestion_service \<Rightarrow> grpc_status + string" where
  "action_get_supported_connectors ipc svc =
     map_err (\<lambda>(step, e). grpc_error InternalCode
         (if step = BuildBatch then ''failed to build response'' else ''failed to encode response''))
       (ipc_write ipc (connectors_batch (registry_supported_connectors (connectors_registry svc))))"

definition dispatch_action ::
    "(nat \<Rightarrow> env) \<Rightarrow> ipc_lib \<Rightarrow> ('c, 's, 'b, 'd) data_ingestion_service \<Rightarrow> headers \<Rightarrow> flight_action \<Rightarrow>
     grpc_status + string" where
  "dispatch_action envs ipc svc metadata action =
     (if action_type action = ''CheckDataConnection'' then action_check_connection envs svc metadata
      else if action_type action = ''GetSupportedConnectors'' then action_get_supported_connectors ipc svc
      else if action_type action = ''CheckCredentials'' then
        action_check_credentials envs ipc svc metadata action
      else Inl (grpc_error InvalidArgument (''Unknown action: '' @ action_type action)))"

section \<open>Authentication layer\<close>

record http_request =
  req_path :: string
  req_headers :: headers

definition extract_bearer_token :: "http_request \<Rightarrow> string option" where
  "extract_bearer_token req =
     Option.bind (hget (req_headers req) AUTHORIZATION) (\<lambda>v.
     Option.bind (header_to_str v) (strip_prefix ''Bearer ''))"

fun auth_error_to_status :: "auth_error \<Rightarrow> grpc_status" where
  "auth_error_to_status (Unauthenticated m) = grpc_error UnauthenticatedCode m"
| "auth_error_to_status (AuthForbidden m) = grpc_error PermissionDenied m"
| "auth_error_to_status (TokenReviewError m) = grpc_error InternalCode ''token verification failed''"
| "auth_error_to_status (AccessReviewError m) = grpc_error InternalCode ''authorization check failed''"
| "auth_error_to_status (Internal m) = grpc_error InternalCode m"

text \<open>\<open>if let Ok(val) = HeaderValue::from_str(v)\<close>: a value that is no header value is left out.\<close>

definition try_header_insert :: "string \<Rightarrow> string \<Rightarrow> headers \<Rightarrow> headers" where
  "try_header_insert k v hs = (case header_to_str v of None \<Rightarrow> hs | Some w \<Rightarrow> header_insert k w hs)"

definition request_tenant :: "http_request \<Rightarrow> string option" where
  "request_tenant req =
     Option.bind (hget (req_headers req) X_TENANT_ID) (\<lambda>v.
     Option.bind (header_to_str v) (\<lambda>t. if t = [] then None else Some t))"

text \<open>
  The middleware either answers with a status (\<open>Inl\<close>) or calls the inner service with the
  request it passes on (\<open>Inr\<close>).
\<close>

definition auth_call ::
    "(string \<Rightarrow> 64 word) \<Rightarrow> (string list \<Rightarrow> string) \<Rightarrow> review_api \<Rightarrow> string \<Rightarrow> kube_auth_client \<Rightarrow>
     http_request \<Rightarrow> (grpc_status + http_request) \<times> kube_auth_client" where
  "auth_call hash_token dbg api discovery_service_account c req =
     (if prefix ''/grpc.health.v1.Health/'' (req_path req) then (Inr req, c)
      else case extract_bearer_token req of
        None \<Rightarrow> (Inl (grpc_error UnauthenticatedCode ''invalid or missing bearer token''), c)
      | Some token \<Rightarrow>
          (case authenticate hash_token api c token of
             (Inl e, c') \<Rightarrow> (Inl (auth_error_to_status e), c')
           | (Inr info, c') \<Rightarrow>
               if request_tenant req = None
                  \<and> (req_path req \<noteq> ''/arrow.flight.protocol.FlightService/DoAction''
                     \<or> ai_username info \<noteq> discovery_service_account)
               then (Inl (grpc_error PermissionDenied ''x-tenant-id header is required''), c')
               else
                 (case (case request_tenant req of
                          None \<Rightarrow> (Inr (), c')
                        | Some tenant_id \<Rightarrow> authorize dbg api c' info tenant_id ''get'') of
                    (Inl e, c'') \<Rightarrow> (Inl (auth_error_to_status e), c'')
                  | (Inr _, c'') \<Rightarrow>
                      (Inr (req\<lparr>req_headers :=
                          try_header_insert X_REMOTE_GROUPS (join_with '','' (ai_groups info))
                            (try_header_insert X_REMOTE_USER (ai_username info) (req_headers req))\<rparr>), c''))))"

section \<open>Properties\<close>

text \<open>
  A connector resolves the credentials of the connection it is given and of no other one.
\<close>

definition resolves_own :: "('s, 'b) flight_connector \<Rightarrow> bool" where
  "resolves_own conn \<longleftrightarrow>
     (\<forall>c f g. f c = g c \<longrightarrow> fc_get_reader conn c f = fc_get_reader conn c g)"

lemma get_connector_by_connection_id_Inr:
  assumes "get_connector_by_connection_id envs svc t uid = Inr (connection, connector)"
  shows "md_tenant_id (dcr_metadata connection) = Some t \<and> md_id (dcr_metadata connection) = uid
    \<and> connector \<in> snd ` set (connectors_registry svc)"
proof -
  obtain dct :: data_connection_type_resource where g: "get_data_connection (envs 0) (svc_meta_store svc) t uid = Inr connection"
      "get_connector (connectors_registry svc) (dct_provider (dctr_resource dct)) = Inr connector"
    using assms by (auto simp: get_connector_by_connection_id_def result_simps)
  obtain d where "find (where_id_tenant (svc_meta_store svc) uid t) (data_connections (svc_meta_store svc)) = Some d"
      "data_connection_resource_from_value d = Some connection"
    using g(1) by (auto simp: get_data_connection_eq_Inr)
  moreover have "hget (connectors_registry svc) (dct_provider (dctr_resource dct)) = Some connector"
    using g(2) by (simp add: get_connector_def result_simps)
  then have "(dct_provider (dctr_resource dct), connector) \<in> set (connectors_registry svc)"
    by (simp add: map_of_SomeD)
  then have "connector \<in> snd ` set (connectors_registry svc)" by force
  ultimately show ?thesis
    using found_connection by simp
qed

lemma service_resolve_cong:
  assumes "md_tenant_id (dcr_metadata connection) = Some t"
    "\<And>n. api_get (svc_kube svc) cl t n = api_get (svc_kube svc) (svc_cluster svc) t n"
  shows "service_resolve (svc\<lparr>svc_cluster := cl\<rparr>) connection = service_resolve svc connection"
  using assms by (simp add: service_resolve_def get_secret_def)

lemma reader_for_cluster:
  assumes own: "\<forall>conn \<in> snd ` set (connectors_registry svc). resolves_own conn"
    and agree: "\<And>n. api_get (svc_kube svc) cl t n = api_get (svc_kube svc) (svc_cluster svc) t n"
  shows "reader_for envs (svc\<lparr>svc_cluster := cl\<rparr>) t uid = reader_for envs svc t uid"
proof (cases "get_connector_by_connection_id envs svc t uid")
  case (Inl e)
  then show ?thesis by (simp add: reader_for_def get_connector_by_connection_id_def)
next
  case (Inr r)
  obtain connection connector where r: "r = (connection, connector)" by (cases r)
  note found = get_connector_by_connection_id_Inr [OF Inr [unfolded r]]
  then have "fc_get_reader connector connection (service_resolve (svc\<lparr>svc_cluster := cl\<rparr>))
      = fc_get_reader connector connection (service_resolve svc)"
    using own service_resolve_cong [of connection t svc cl] agree
    unfolding resolves_own_def by blast
  then show ?thesis
    using Inr r by (simp add: reader_for_def get_connector_by_connection_id_def)
qed

lemma reader_for_meta:
  assumes "meta_inv (svc_meta_store svc)" "op_tenant oper = Some ot" "t \<noteq> ot"
    "ot \<noteq> global_tenant_id (svc_meta_store svc)"
  shows "reader_for envs (svc\<lparr>svc_meta_store := snd (run_op en oper (svc_meta_store svc))\<rparr>) t uid
    = reader_for envs svc t uid"
proof -
  let ?st = "snd (run_op en oper (svc_meta_store svc))"
  let ?svc = "svc\<lparr>svc_meta_store := ?st\<rparr>"
  have reads: "get_data_connection en' ?st t x = get_data_connection en' (svc_meta_store svc) t x"
    "get_data_connection_type en' ?st t x = get_data_connection_type en' (svc_meta_store svc) t x" for en' x
    using other_tenant_reads [OF assms(1-3)] assms(4) by blast+
  have "service_resolve ?svc = service_resolve svc"
    by (rule ext) (simp add: service_resolve_def split: option.splits)
  then show ?thesis
    by (simp add: reader_for_def get_connector_by_connection_id_def reads)
qed


text \<open>A service with one connector, for the instances of the properties.\<close>

definition sample_reader :: "string hmap \<Rightarrow> (unit, string) data_reader" where
  "sample_reader creds =
     \<lparr>rd_schema = \<lambda>q. Inr \<lparr>q_query = q, q_schema = ()\<rparr>,
      rd_read_tabular = \<lambda>q n. Inr [Inr (q_query q)],
      rd_can_read_binary = default_binary, rd_read_binary = default_binary,
      rd_check_connection = (if contains_key creds ''url'' then Inr () else Inl (ConfigError ''no url'')),
      rd_list_tables = \<lambda>f b. Inr []\<rparr>"

definition sample_connector :: "(unit, string) flight_connector" where
  "sample_connector =
     \<lparr>fc_provider = ''postgres'', fc_description = ''PostgreSQL'', fc_supported_formats = [Tabular],
      fc_get_reader = \<lambda>c resolve. rbind (resolve c) (\<lambda>creds. Inr (sample_reader creds))\<rparr>"

definition sample_lib :: "(unit, string, string) flight_lib" where
  "sample_lib =
     \<lparr>lib_schema_ok = \<lambda>_. True, lib_encode = \<lambda>_ stream. stream, lib_tables_schema = \<lambda>_. (),
      lib_tables_append = \<lambda>_ _. True, lib_tables_build = \<lambda>_ _. Some (''tables'', ()),
      lib_binary_schema = (), lib_sql_info_schema = (), lib_sql_info_build = \<lambda>_. Some ''info''\<rparr>"

definition sample_service :: "(cluster, unit, string, string) data_ingestion_service" where
  "sample_service =
     \<lparr>connectors_registry = with_connector sample_connector [],
      svc_meta_store = store_with_connection, svc_kube = memory_api,
      svc_cluster = [(''acme'', ''s'') \<mapsto> memory_store (k8s_secret_of
        \<lparr>sec_name = ''s'', sec_namespace = ''acme'', sec_properties = [(''url'', ''pg'')],
         sec_labels = None, sec_annotations = None\<rparr>)],
      svc_lib = sample_lib, svc_batch_size = 512\<rparr>"

definition sample_metadata :: headers where
  "sample_metadata = [(''x-tenant-id'', ''acme''), (''x-data-connection-id'', ''u1'')]"

lemma sample_resolves_own: "resolves_own sample_connector"
  by (simp add: resolves_own_def sample_connector_def)



definition sample_request :: http_request where
  "sample_request =
     \<lparr>req_path = ''/arrow.flight.protocol.FlightService/DoGet'',
      req_headers = [(''authorization'', ''Bearer good''), (''x-tenant-id'', ''acme''),
                     (''x-remote-user'', ''mallory'')]\<rparr>"


end
