(* ===== verification/Flight_Metrics.thy ===== *)
theory Flight_Metrics
  imports Flight_Service
begin

text \<open>
  The entry points of the flight service with their metrics
  (\<open>services/flight/src/flight/service.rs\<close>, \<open>metrics.rs\<close>) and the accounting of streamed batches
  (\<open>trace.rs\<close>).  The metrics state holds whether a recorder is installed, the number of calls per
  method, operation and status, and the gauge of calls being processed.  The duration histogram
  gets one sample with each increment of the counter and is not modelled on its own.
\<close>

section \<open>Counters and gauges\<close>

record metrics =
  prometheus_installed :: bool
  requests_total :: "string \<times> string \<times> string \<Rightarrow> nat"
  requests_active :: "string \<times> string \<Rightarrow> int"

definition observe_rpc :: "string \<Rightarrow> string \<Rightarrow> string \<Rightarrow> metrics \<Rightarrow> metrics" where
  "observe_rpc mth operation status m =
     (if \<not> prometheus_installed m then m
      else m\<lparr>requests_total := (requests_total m)
               ((mth, operation, status) := Suc (requests_total m (mth, operation, status)))\<rparr>)"

definition in_flight_new :: "string \<Rightarrow> string \<Rightarrow> metrics \<Rightarrow> metrics" where
  "in_flight_new mth operation m =
     (if prometheus_installed m
      then m\<lparr>requests_active := (requests_active m)
               ((mth, operation) := requests_active m (mth, operation) + 1)\<rparr>
      else m)"

definition in_flight_drop :: "string \<Rightarrow> string \<Rightarrow> metrics \<Rightarrow> metrics" where
  "in_flight_drop mth operation m =
     (if prometheus_installed m
      then m\<lparr>requests_active := (requests_active m)
               ((mth, operation) := requests_active m (mth, operation) - 1)\<rparr>
      else m)"

definition METHOD_GET_FLIGHT_INFO :: string where
  "METHOD_GET_FLIGHT_INFO = ''arrow.flight.protocol.FlightService/GetFlightInfo''"

definition METHOD_DO_GET :: string where
  "METHOD_DO_GET = ''arrow.flight.protocol.FlightService/DoGet''"

definition status_label :: "grpc_status + 'a \<Rightarrow> string" where
  "status_label result = (case result of Inr _ \<Rightarrow> ''OK'' | Inl e \<Rightarrow> grpc_status_label e)"

text \<open>
  What the entry points have in common: the guard is created, the handler runs, its outcome is
  recorded, and the guard is dropped at the end of the scope.
\<close>

definition with_metrics ::
    "string \<Rightarrow> string \<Rightarrow> grpc_status + 'a \<Rightarrow> metrics \<Rightarrow> (grpc_status + 'a) \<times> metrics" where
  "with_metrics mth operation result m =
     (result, in_flight_drop mth operation
        (observe_rpc mth operation (status_label result) (in_flight_new mth operation m)))"

section \<open>The entry points\<close>

definition get_flight_info_sql_info ::
    "('c, 's, 'b, 'd) data_ingestion_service \<Rightarrow> nat list \<Rightarrow> metrics \<Rightarrow>
     (grpc_status + 's flight_info) \<times> metrics" where
  "get_flight_info_sql_info svc info =
     with_metrics METHOD_GET_FLIGHT_INFO ''sql_info'' (handle_get_flight_info_sql_info svc info)"

definition do_get_sql_info ::
    "('c, 's, 'b, 'd) data_ingestion_service \<Rightarrow> nat list \<Rightarrow> metrics \<Rightarrow>
     (grpc_status + (grpc_status + 'd) list) \<times> metrics" where
  "do_get_sql_info svc info =
     with_metrics METHOD_DO_GET ''sql_info'' (handle_do_get_sql_info svc info)"

definition get_flight_info_tables ::
    "('c, 's, 'b, 'd) data_ingestion_service \<Rightarrow> tables_query \<Rightarrow> metrics \<Rightarrow>
     (grpc_status + 's flight_info) \<times> metrics" where
  "get_flight_info_tables svc q =
     with_metrics METHOD_GET_FLIGHT_INFO ''tables'' (handle_get_flight_info_tables svc q)"

definition do_get_tables ::
    "(nat \<Rightarrow> env) \<Rightarrow> ('c, 's, 'b, 'd) data_ingestion_service \<Rightarrow> tables_query \<Rightarrow> headers \<Rightarrow> metrics \<Rightarrow>
     (grpc_status + (grpc_status + 'd) list) \<times> metrics" where
  "do_get_tables envs svc q metadata =
     with_metrics METHOD_DO_GET ''tables'' (handle_do_get_tables envs svc q metadata)"

definition get_flight_info_statement ::
    "(nat \<Rightarrow> env) \<Rightarrow> ('c, 's, 'b, 'd) data_ingestion_service \<Rightarrow> string \<Rightarrow> headers \<Rightarrow> metrics \<Rightarrow>
     (grpc_status + 's flight_info) \<times> metrics" where
  "get_flight_info_statement envs svc q metadata =
     with_metrics METHOD_GET_FLIGHT_INFO ''statement'' (handle_get_flight_info_statement envs svc q metadata)"

definition do_get_statement ::
    "(nat \<Rightarrow> env) \<Rightarrow> ('c, 's, 'b, 'd) data_ingestion_service \<Rightarrow> string \<Rightarrow> headers \<Rightarrow> metrics \<Rightarrow>
     (grpc_status + (grpc_status + 'd) list) \<times> metrics" where
  "do_get_statement envs svc ticket metadata =
     with_metrics METHOD_DO_GET ''statement'' (handle_do_get_statement envs svc ticket metadata)"

definition get_flight_info_fallback ::
    "(nat \<Rightarrow> env) \<Rightarrow> ('c, 's, 'b, 'd) data_ingestion_service \<Rightarrow> command \<Rightarrow> headers \<Rightarrow> metrics \<Rightarrow>
     (grpc_status + 's flight_info) \<times> metrics" where
  "get_flight_info_fallback envs svc cmd metadata =
     with_metrics METHOD_GET_FLIGHT_INFO ''binary'' (handle_get_flight_info_fallback envs svc cmd metadata)"

definition do_get_fallback ::
    "(nat \<Rightarrow> env) \<Rightarrow> ('c, 's, 'b, 'd) data_ingestion_service \<Rightarrow> headers \<Rightarrow> any_msg \<Rightarrow> metrics \<Rightarrow>
     (grpc_status + (grpc_status + 'd) list) \<times> metrics" where
  "do_get_fallback envs svc metadata message =
     with_metrics METHOD_DO_GET ''binary'' (handle_do_get_fallback envs svc metadata message)"

section \<open>Streamed batches\<close>

text \<open>
  \<open>TracedStream\<close>: every poll passes on what the inner stream answers, and records in the span.
\<close>

datatype 'a poll = Pending | Ready 'a

record stream_span =
  ts_batches :: nat
  ts_status_error :: bool
  ts_batch_count :: "nat option"

definition new_stream_span :: stream_span where
  "new_stream_span = \<lparr>ts_batches = 0, ts_status_error = False, ts_batch_count = None\<rparr>"

definition poll_next :: "('e + 'a) option poll \<Rightarrow> stream_span \<Rightarrow> ('e + 'a) option poll \<times> stream_span" where
  "poll_next polled this =
     (polled,
      case polled of
        Ready (Some (Inr _)) \<Rightarrow> this\<lparr>ts_batches := Suc (ts_batches this)\<rparr>
      | Ready (Some (Inl e)) \<Rightarrow> this\<lparr>ts_status_error := True, ts_batch_count := Some (ts_batches this)\<rparr>
      | Ready None \<Rightarrow> this\<lparr>ts_batch_count := Some (ts_batches this)\<rparr>
      | Pending \<Rightarrow> this)"

text \<open>\<open>split_grpc_path\<close>: service and method of a request path.\<close>

definition split_grpc_path :: "string \<Rightarrow> string \<times> string" where
  "split_grpc_path path =
     (let trimmed = dropWhile (\<lambda>c. c = CHR ''/'') path;
          (m, rest) = (takeWhile (\<lambda>c. c \<noteq> CHR ''/'') (rev trimmed), dropWhile (\<lambda>c. c \<noteq> CHR ''/'') (rev trimmed))
      in case rest of
           [] \<Rightarrow> (trimmed, [])
         | _ # service \<Rightarrow> (rev service, rev m))"

section \<open>Properties\<close>

lemma with_metrics_balanced:
  "requests_active (snd (with_metrics mth operation result m)) = requests_active m"
  by (auto simp: with_metrics_def in_flight_drop_def in_flight_new_def observe_rpc_def)

lemma with_metrics_total:
  "requests_total (snd (with_metrics mth operation result m)) k
     = requests_total m k + (if prometheus_installed m \<and> k = (mth, operation, status_label result) then 1 else 0)"
  by (auto simp: with_metrics_def in_flight_drop_def in_flight_new_def observe_rpc_def)

lemma fst_with_metrics: "fst (with_metrics mth operation result m) = result"
  by (simp add: with_metrics_def)

text \<open>No handler fails with the code \<open>Ok\<close>, so the label tells success from failure.\<close>

definition fails_properly :: "grpc_status + 'a \<Rightarrow> bool" where
  "fails_properly r \<longleftrightarrow> (\<forall>e. r = Inl e \<longrightarrow> status_code e \<noteq> Ok)"

named_theorems proper

lemma fails_properly_Inr [proper]: "fails_properly (Inr x)"
  by (simp add: fails_properly_def)

lemma fails_properly_error [proper]: "c \<noteq> Ok \<Longrightarrow> fails_properly (Inl (grpc_error c msg))"
  by (simp add: fails_properly_def grpc_error_def)

lemma fails_properly_rbind [proper]:
  "fails_properly r \<Longrightarrow> (\<And>x. fails_properly (f x)) \<Longrightarrow> fails_properly (rbind r f)"
  by (cases r) (simp_all add: fails_properly_def)

lemma fails_properly_ok_or [proper]: "c \<noteq> Ok \<Longrightarrow> fails_properly (ok_or (grpc_error c msg) x)"
  by (cases x) (simp_all add: fails_properly_def grpc_error_def ok_or_def)

lemma mapped_errors_proper:
  "status_code (map_meta_store_error e) \<noteq> Ok" "status_code (map_connector_error ce) \<noteq> Ok"
  by (cases e; simp add: grpc_error_def) (cases ce; simp add: grpc_error_def)

lemma fails_properly_mapped [proper]:
  "fails_properly (map_err map_meta_store_error r)" "fails_properly (map_err map_connector_error r')"
  by (cases r; cases r'; simp add: fails_properly_def mapped_errors_proper)+

lemma fails_properly_try_with_schema [proper]: "fails_properly (try_with_schema lib msg schema)"
  by (simp add: try_with_schema_def proper)

lemma fails_properly_tables [proper]: "fails_properly (append_tables lib q ts)"
  by (induction lib q ts rule: append_tables.induct) (simp_all add: proper)

lemma fails_properly_reader [proper]: "fails_properly (reader_for envs svc t uid)"
  unfolding reader_for_def get_connector_by_connection_id_def
  by (intro proper) (auto intro!: proper split: prod.splits)

lemma fails_properly_context [proper]:
  "fails_properly (query_context_tenant_id md)" "fails_properly (query_context_connection_id md)"
  unfolding query_context_tenant_id_def query_context_connection_id_def required_header_def
  by (intro proper; simp)+

lemma fails_properly_handlers [proper]:
  "fails_properly (handle_get_flight_info_sql_info svc info)"
  "fails_properly (handle_do_get_sql_info svc info)"
  "fails_properly (handle_get_flight_info_tables svc q)"
  "fails_properly (handle_do_get_tables envs svc q md)"
  "fails_properly (handle_get_flight_info_statement envs svc st md)"
  "fails_properly (handle_do_get_statement envs svc st md)"
  "fails_properly (handle_get_flight_info_fallback envs svc cmd md)"
  "fails_properly (handle_do_get_fallback envs svc md msg)"
  unfolding handle_get_flight_info_sql_info_def handle_do_get_sql_info_def
    handle_get_flight_info_tables_def handle_do_get_tables_def handle_get_flight_info_statement_def
    handle_do_get_statement_def handle_get_flight_info_fallback_def handle_do_get_fallback_def
  by (auto intro!: proper split: prod.splits command.splits)

lemma status_label_OK_iff: "fails_properly r \<Longrightarrow> status_label r = ''OK'' \<longleftrightarrow> is_ok r"
  by (cases r) (auto simp: fails_properly_def status_label_def grpc_status_label_def is_ok_def
      split: grpc_code.splits)

text \<open>What an entry point leaves in the metrics.\<close>

definition accounted :: "string \<Rightarrow> string \<Rightarrow> metrics \<Rightarrow> (grpc_status + 'a) \<times> metrics \<Rightarrow> bool" where
  "accounted mth operation m out \<longleftrightarrow>
     requests_active (snd out) = requests_active m
     \<and> (\<exists>label. (label = ''OK'' \<longleftrightarrow> is_ok (fst out))
          \<and> (\<forall>k. requests_total (snd out) k = requests_total m k + (if k = (mth, operation, label) then 1 else 0)))"

lemma accounted_with_metrics:
  assumes "prometheus_installed m" "fails_properly r"
  shows "accounted mth operation m (with_metrics mth operation r m)"
  unfolding accounted_def using assms
  by (intro conjI exI [of _ "status_label r"])
    (simp_all add: with_metrics_balanced with_metrics_total fst_with_metrics status_label_OK_iff)


definition fresh_metrics :: metrics where
  "fresh_metrics = \<lparr>prometheus_installed = True, requests_total = \<lambda>_. 0, requests_active = \<lambda>_. 0\<rparr>"


text \<open>The polls of one stream, in order.\<close>

fun poll_all :: "('e + 'a) option poll list \<Rightarrow> stream_span \<Rightarrow> ('e + 'a) option poll list \<times> stream_span" where
  "poll_all [] this = ([], this)"
| "poll_all (p # ps) this =
     (let (r, this') = poll_next p this; (rs, this'') = poll_all ps this' in (r # rs, this''))"

fun is_batch :: "('e + 'a) option poll \<Rightarrow> bool" where
  "is_batch (Ready (Some (Inr _))) = True"
| "is_batch _ = False"

fun is_failure :: "('e + 'a) option poll \<Rightarrow> bool" where
  "is_failure (Ready (Some (Inl _))) = True"
| "is_failure _ = False"

lemma poll_all_append:
  "fst (poll_all (ps @ qs) this) = fst (poll_all ps this) @ fst (poll_all qs (snd (poll_all ps this)))"
  "snd (poll_all (ps @ qs) this) = snd (poll_all qs (snd (poll_all ps this)))"
  by (induction ps arbitrary: this) (simp_all add: case_prod_beta)

lemma poll_all_span:
  "fst (poll_all ps this) = ps"
  "ts_batches (snd (poll_all ps this)) = ts_batches this + length (filter is_batch ps)"
  "ts_status_error (snd (poll_all ps this)) \<longleftrightarrow> ts_status_error this \<or> list_ex is_failure ps"
proof (induction ps arbitrary: this)
  case (Cons p ps)
  { case 1 show ?case using Cons.IH(1) by (simp add: case_prod_beta poll_next_def) }
  { case 2 show ?case
      by (cases p rule: is_batch.cases) (simp_all add: Cons.IH(2) case_prod_beta poll_next_def) }
  { case 3 show ?case
      by (cases p rule: is_failure.cases) (simp_all add: Cons.IH(3) case_prod_beta poll_next_def) }
qed simp_all

text \<open>
  The traced stream is transparent and counts correctly: it passes on every poll of the inner
  stream unchanged, and when the inner stream ends, the span has as batch count the number of
  batches delivered, and the error status exactly if some poll failed.
\<close>

theorem traced_stream_counts:
  "fst (poll_all (ps @ [Ready None]) new_stream_span) = ps @ [Ready None]
   \<and> ts_batch_count (snd (poll_all (ps @ [Ready None]) new_stream_span)) = Some (length (filter is_batch ps))
   \<and> ts_status_error (snd (poll_all (ps @ [Ready None]) new_stream_span)) = list_ex is_failure ps"
  by (simp add: poll_all_append poll_all_span case_prod_beta poll_next_def new_stream_span_def)

end
