(* ===== verification/Flight_Client.thy ===== *)
theory Flight_Client
  imports Flight_Service
begin

text \<open>
  The client the REST service uses to talk to a flight service
  (\<open>services/rest/src/clients/flight.rs\<close>).  The network, the token file and the trace
  propagator are a record of functions; what comes back from the network is arbitrary.  A Rust
  panic (a column that is not text where the client insists on text) is \<open>None\<close>.
\<close>

section \<open>The outside world of the client\<close>

datatype batch_stream_error = TonicError grpc_status | OtherStreamError string

text \<open>A record batch of a download, by column name.\<close>

datatype bin_column = BinaryColumn "string list" | NotBinary

type_synonym bin_batch = "(string \<times> bin_column) list"

record 'b flight_net =
  net_trace :: headers
  net_read_file :: "string \<Rightarrow> string + string"
  net_from_shared :: "string \<Rightarrow> string + unit"
  net_tls_config :: "string \<Rightarrow> string + unit"
  net_connect :: "string \<Rightarrow> string option \<Rightarrow> string + unit"
  net_do_action :: "string \<Rightarrow> headers \<Rightarrow> flight_action \<Rightarrow> grpc_status + (grpc_status + string) list"
  net_get_flight_info :: "string \<Rightarrow> headers \<Rightarrow> any_msg \<Rightarrow> grpc_status + flight_ticket option list"
  net_do_get :: "string \<Rightarrow> headers \<Rightarrow> flight_ticket \<Rightarrow> grpc_status + (batch_stream_error + 'b) list"

record flight_client =
  fcl_endpoint :: string
  fcl_tls_ca_cert :: "string option"
  fcl_sa_token_file :: "string option"

record supported_connector =
  scn_name :: string
  scn_description :: string
  scn_supported_formats :: "string list"

section \<open>Requests\<close>

definition read_sa_token :: "'b flight_net \<Rightarrow> flight_client \<Rightarrow> grpc_status + string" where
  "read_sa_token net fc =
     (case fcl_sa_token_file fc of
        None \<Rightarrow> Inr ''Bearer none''
      | Some path \<Rightarrow>
          rbind (map_err (\<lambda>e. grpc_error InternalCode (''failed to read SA token from '' @ path @ '': '' @ e))
                   (net_read_file net path)) (\<lambda>token.
          Inr (''Bearer '' @ trim token)))"

definition attach_header :: "string \<Rightarrow> string \<Rightarrow> headers \<Rightarrow> grpc_status + headers" where
  "attach_header header value metadata =
     rbind (ok_or (grpc_error InvalidArgument ''invalid header value'') (header_to_str value)) (\<lambda>v.
     Inr (header_insert header v metadata))"

definition client_connect :: "'b flight_net \<Rightarrow> flight_client \<Rightarrow> grpc_status + unit" where
  "client_connect net fc =
     rbind (map_err (\<lambda>e. grpc_error InternalCode (''invalid flight endpoint: '' @ e))
              (net_from_shared net (fcl_endpoint fc))) (\<lambda>_.
     rbind (case fcl_tls_ca_cert fc of
              None \<Rightarrow> Inr ()
            | Some ca_cert \<Rightarrow> map_err (\<lambda>e. grpc_error InternalCode (''invalid TLS config: '' @ e))
                                (net_tls_config net ca_cert)) (\<lambda>_.
     map_err (\<lambda>e. grpc_error Unavailable (''failed to connect to flight service: '' @ e))
       (net_connect net (fcl_endpoint fc) (fcl_tls_ca_cert fc))))"

definition tenant_metadata :: "'b flight_net \<Rightarrow> string \<Rightarrow> string \<Rightarrow> grpc_status + headers" where
  "tenant_metadata net sa_token tenant_id =
     rbind (attach_header AUTHORIZATION sa_token (net_trace net)) (\<lambda>metadata.
     attach_header X_TENANT_ID tenant_id metadata)"

definition connection_metadata ::
    "'b flight_net \<Rightarrow> string \<Rightarrow> string \<Rightarrow> string \<Rightarrow> grpc_status + headers" where
  "connection_metadata net sa_token tenant_id connection_id =
     rbind (tenant_metadata net sa_token tenant_id) (\<lambda>metadata.
     attach_header X_DATA_CONNECTION_ID connection_id metadata)"

text \<open>\<open>stream.message().await?\<close>: the first message of a stream, if there is one.\<close>

fun first_message :: "(grpc_status + 'a) list \<Rightarrow> grpc_status + 'a option" where
  "first_message [] = Inr None"
| "first_message (Inl e # _) = Inl e"
| "first_message (Inr x # _) = Inr (Some x)"

section \<open>FlightDataClient\<close>

definition split_formats :: "string \<Rightarrow> string list" where
  "split_formats s = filter (\<lambda>f. f \<noteq> []) (split_at (CHR '','') s)"

definition connector_of_row ::
    "string list \<Rightarrow> string list \<Rightarrow> string list option \<Rightarrow> nat \<Rightarrow> supported_connector" where
  "connector_of_row names descriptions formats i =
     \<lparr>scn_name = names ! i, scn_description = descriptions ! i,
      scn_supported_formats = (case formats of None \<Rightarrow> [] | Some fs \<Rightarrow> split_formats (fs ! i))\<rparr>"

definition num_rows :: "text_batch \<Rightarrow> nat" where
  "num_rows b = (case b of [] \<Rightarrow> 0 | (_, Utf8 vs) # _ \<Rightarrow> length vs | (_, OtherColumn n) # _ \<Rightarrow> n)"

text \<open>The rows of the concatenated batch; \<open>None\<close> where \<open>as_string\<close> panics.\<close>

definition connectors_of_batch :: "text_batch \<Rightarrow> (grpc_status + supported_connector list) option" where
  "connectors_of_batch batch =
     (case map_of batch ''name'' of
        None \<Rightarrow> Some (Inl (grpc_error InternalCode (''missing '' @ quoted ''name'' @ '' column'')))
      | Some name_col \<Rightarrow>
          Option.bind (utf8_column name_col) (\<lambda>names.
          (case map_of batch ''description'' of
             None \<Rightarrow> Some (Inl (grpc_error InternalCode (''missing '' @ quoted ''description'' @ '' column'')))
           | Some description_col \<Rightarrow>
               Option.bind (utf8_column description_col) (\<lambda>descriptions.
               (case map_of batch ''supported_formats'' of
                  None \<Rightarrow> Some (Inr (map (connector_of_row names descriptions None) [0..<num_rows batch]))
                | Some formats_col \<Rightarrow>
                    if num_rows batch = 0 then Some (Inr [])
                    else Option.bind (utf8_column formats_col) (\<lambda>formats.
                      Some (Inr (map (connector_of_row names descriptions (Some formats))
                                   [0..<num_rows batch]))))))))"

definition get_supported_connectors ::
    "ipc_lib \<Rightarrow> 'b flight_net \<Rightarrow> flight_client \<Rightarrow> string \<Rightarrow> (grpc_status + supported_connector list) option" where
  "get_supported_connectors ipc net fc tenant_id =
     (case
        rbind (client_connect net fc) (\<lambda>_.
        rbind (read_sa_token net fc) (\<lambda>sa_token.
        rbind (tenant_metadata net sa_token tenant_id) (\<lambda>metadata.
        rbind (net_do_action net (fcl_endpoint fc) metadata
                 \<lparr>action_type = ''GetSupportedConnectors'', action_body = []\<rparr>) (\<lambda>stream.
        rbind (first_message stream) (\<lambda>message.
        rbind (ok_or (grpc_error InternalCode ''empty response from GetSupportedConnectors'') message) (\<lambda>body.
        rbind (map_err (\<lambda>e. grpc_error InternalCode (''failed to read IPC stream: '' @ e))
                 (ipc_read ipc body)) (\<lambda>reader.
        rbind (map_err (\<lambda>e. grpc_error InternalCode (''failed to read IPC batches: '' @ e))
                 (rmapM id reader)) (\<lambda>batches.
        if batches = [] then Inl (grpc_error InternalCode ''no batches returned from GetSupportedConnectors'')
        else map_err (\<lambda>e. grpc_error InternalCode (''failed to concat batches: '' @ e))
               (ipc_concat ipc batches)))))))))
      of Inl e \<Rightarrow> Some (Inl e)
       | Inr batch \<Rightarrow> connectors_of_batch batch)"

definition check_data_connection ::
    "'b flight_net \<Rightarrow> flight_client \<Rightarrow> string \<Rightarrow> string \<Rightarrow> grpc_status + unit" where
  "check_data_connection net fc tenant_id connection_id =
     rbind (client_connect net fc) (\<lambda>_.
     rbind (read_sa_token net fc) (\<lambda>sa_token.
     rbind (connection_metadata net sa_token tenant_id connection_id) (\<lambda>metadata.
     rbind (net_do_action net (fcl_endpoint fc) metadata
              \<lparr>action_type = ''CheckDataConnection'', action_body = []\<rparr>) (\<lambda>stream.
     rbind (first_message stream) (\<lambda>_.
     Inr ())))))"

definition credentials_batch :: "test_credentials_req \<Rightarrow> text_batch" where
  "credentials_batch creds =
     [(''key'', Utf8 (''data_connection_type_id'' # map (\<lambda>(k, v). ''secret.'' @ k) (tc_credentials creds))),
      (''value'', Utf8 (tc_data_connection_type_id creds # map snd (tc_credentials creds)))]"

fun ipc_step_message :: "ipc_step \<Rightarrow> string" where
  "ipc_step_message BuildBatch = ''failed to build credentials batch: ''"
| "ipc_step_message CreateWriter = ''failed to create IPC writer: ''"
| "ipc_step_message WriteBatch = ''failed to write IPC batch: ''"
| "ipc_step_message FinishStream = ''failed to finish IPC stream: ''"

definition test_credentials ::
    "ipc_lib \<Rightarrow> 'b flight_net \<Rightarrow> flight_client \<Rightarrow> string \<Rightarrow> test_credentials_req \<Rightarrow> grpc_status + unit" where
  "test_credentials ipc net fc tenant_id creds =
     rbind (map_err (\<lambda>(step, e). grpc_error InternalCode (ipc_step_message step @ e))
              (ipc_write ipc (credentials_batch creds))) (\<lambda>buf.
     rbind (client_connect net fc) (\<lambda>_.
     rbind (read_sa_token net fc) (\<lambda>sa_token.
     rbind (tenant_metadata net sa_token tenant_id) (\<lambda>metadata.
     rbind (net_do_action net (fcl_endpoint fc) metadata
              \<lparr>action_type = ''CheckCredentials'', action_body = buf\<rparr>) (\<lambda>stream.
     rbind (first_message stream) (\<lambda>_.
     Inr ()))))))"

fun batch_status :: "batch_stream_error \<Rightarrow> grpc_status" where
  "batch_status (TonicError s) = s"
| "batch_status (OtherStreamError e) = grpc_error InternalCode e"

definition download_binary ::
    "'b flight_net \<Rightarrow> flight_client \<Rightarrow> string \<Rightarrow> string \<Rightarrow> string \<Rightarrow>
     grpc_status + (grpc_status + 'b) list" where
  "download_binary net fc tenant_id connection_id path =
     rbind (client_connect net fc) (\<lambda>_.
     rbind (read_sa_token net fc) (\<lambda>sa_token.
     rbind (connection_metadata net sa_token tenant_id connection_id) (\<lambda>metadata.
     rbind (net_get_flight_info net (fcl_endpoint fc) metadata
              \<lparr>any_type_url = DOWNLOAD_TYPE_URL, any_value = path\<rparr>) (\<lambda>endpoints.
     rbind (ok_or (grpc_error InternalCode ''no ticket in flight info response'')
              (case endpoints of [] \<Rightarrow> None | t # _ \<Rightarrow> t)) (\<lambda>ticket.
     rbind (connection_metadata net sa_token tenant_id connection_id) (\<lambda>metadata.
     rbind (net_do_get net (fcl_endpoint fc) metadata ticket) (\<lambda>flight_stream.
     Inr (map (map_err batch_status) flight_stream))))))))"

section \<open>Client and server together\<close>

text \<open>
  A \<open>do_action\<close> call as the flight service answers it: through the authentication layer to the
  dispatcher of the actions, with the answer as a stream of one message.
\<close>

definition action_request :: "headers \<Rightarrow> http_request" where
  "action_request hs = \<lparr>req_path = ''/arrow.flight.protocol.FlightService/DoAction'', req_headers = hs\<rparr>"

definition serve_action ::
    "(http_request \<Rightarrow> grpc_status + http_request) \<Rightarrow> (nat \<Rightarrow> env) \<Rightarrow> ipc_lib \<Rightarrow>
     ('c, 's, 'b, 'd) data_ingestion_service \<Rightarrow> headers \<Rightarrow> flight_action \<Rightarrow>
     grpc_status + (grpc_status + string) list" where
  "serve_action auth envs ipc svc hs action =
     rbind (auth (action_request hs)) (\<lambda>req.
     rbind (dispatch_action envs ipc svc (req_headers req) action) (\<lambda>body.
     Inr [Inr body]))"

text \<open>What the client relies on of Arrow: a written batch is read back, alone in its stream.\<close>

definition ipc_laws :: "ipc_lib \<Rightarrow> bool" where
  "ipc_laws ipc \<longleftrightarrow>
     (\<forall>b s. ipc_write ipc b = Inr s \<longrightarrow> ipc_read ipc s = Inr [Inr b])
     \<and> (\<forall>b. ipc_concat ipc [b] = Inr b)"

lemma data_format_strings:
  "data_format_to_string f \<noteq> []" "CHR '','' \<notin> set (data_format_to_string f)"
  by (cases f; simp)+

lemma split_formats_join:
  "split_formats (join_with '','' (map data_format_to_string fs)) = map data_format_to_string fs"
proof (cases "fs = []")
  case False
  then have "split_at (CHR '','') (join_with '','' (map data_format_to_string fs)) = map data_format_to_string fs"
    by (intro split_at_join_with) (auto simp: data_format_strings(2))
  then show ?thesis
    by (simp add: split_formats_def filter_id_conv data_format_strings(1))
qed (simp add: split_formats_def)

definition connector_entry :: "('s, 'b) flight_connector \<Rightarrow> supported_connector" where
  "connector_entry c =
     \<lparr>scn_name = fc_provider c, scn_description = fc_description c,
      scn_supported_formats = map data_format_to_string (fc_supported_formats c)\<rparr>"

lemma connectors_of_batch_encoded:
  "connectors_of_batch (connectors_batch cs) = Some (Inr (map connector_entry cs))"
proof -
  have "map (connector_of_row (map fc_provider cs) (map fc_description cs)
      (Some (map (\<lambda>c. join_with '','' (map data_format_to_string (fc_supported_formats c))) cs))) [0..<length cs]
      = map connector_entry cs"
    by (rule nth_equalityI)
      (simp_all add: connector_of_row_def connector_entry_def split_formats_join)
  then show ?thesis
    by (simp add: connectors_of_batch_def connectors_batch_def num_rows_def)
qed

text \<open>
  The REST client reads exactly the connectors the flight service registered: it never panics
  on the answer of the service; it fails only where connecting, reading the token, building the
  headers, authenticating or encoding fails, and otherwise returns every registered connector with
  its name, description and formats.
\<close>

theorem connectors_round_trip:
  assumes laws: "ipc_laws ipc"
    and served: "net_do_action net (fcl_endpoint fc) = serve_action auth envs ipc svc"
  shows "get_supported_connectors ipc net fc t = Some
     (rbind (client_connect net fc) (\<lambda>_.
      rbind (read_sa_token net fc) (\<lambda>sa_token.
      rbind (tenant_metadata net sa_token t) (\<lambda>metadata.
      rbind (auth (action_request metadata)) (\<lambda>_.
      rbind (action_get_supported_connectors ipc svc) (\<lambda>_.
      Inr (map connector_entry (registry_supported_connectors (connectors_registry svc)))))))))"
  unfolding get_supported_connectors_def served serve_action_def
  using laws
  by (auto simp: rbind_def dispatch_action_def action_get_supported_connectors_def ipc_laws_def
      connectors_of_batch_encoded map_err_def split: sum.splits)

text \<open>Keys sent with a prefix come back without it.\<close>

lemma map_filter_strip:
  "List.map_filter (\<lambda>(k, v). map_option (\<lambda>k'. (k', v)) (strip_prefix p k)) (map (\<lambda>(k, v). (p @ k, v)) m) = m"
  by (induction m) (auto simp: List.map_filter_simps)

lemma keys_prefixed: "map fst (map (\<lambda>(k, v). (p @ k, v)) m) = map ((@) p) (map fst m)"
  by (induction m) auto

lemma distinct_prefixed: "distinct (map ((@) p) ks) \<longleftrightarrow> distinct ks"
  by (simp add: distinct_map inj_on_def)

lemma parse_credentials:
  assumes laws: "ipc_laws ipc" and w: "ipc_write ipc (credentials_batch creds) = Inr buf"
    and dist: "distinct (map fst (tc_credentials creds))"
  shows "parse_kv_body ipc buf = Inr ((''data_connection_type_id'', tc_data_connection_type_id creds)
      # map (\<lambda>(k, v). (''secret.'' @ k, v)) (tc_credentials creds))"
proof -
  define p where "p = ''secret.''"
  let ?es = "(''data_connection_type_id'', tc_data_connection_type_id creds)
      # map (\<lambda>(k, v). (p @ k, v)) (tc_credentials creds)"
  have "''data_connection_type_id'' \<notin> set (map ((@) p) (map fst (tc_credentials creds)))"
    by (auto simp: p_def)
  moreover have "distinct (map ((@) p) (map fst (tc_credentials creds)))"
    using dist distinct_prefixed by blast
  ultimately have "distinct (map fst ?es)"
    unfolding list.map(2) keys_prefixed fst_conv distinct.simps(2) by (rule conjI)
  then have ext: "hextend [] ?es = ?es" by (rule hextend_distinct)
  have zip: "zip (''data_connection_type_id'' # map (\<lambda>(k, v). p @ k) (tc_credentials creds))
      (tc_data_connection_type_id creds # map snd (tc_credentials creds)) = ?es"
    by (simp add: zip_map_map zip_same_conv_map case_prod_beta)
  have "ipc_read ipc buf = Inr [Inr (credentials_batch creds)]"
    using laws w by (simp add: ipc_laws_def)
  then have "parse_kv_body ipc buf
      = Inr (hextend [] (zip (''data_connection_type_id'' # map (\<lambda>(k, v). p @ k) (tc_credentials creds))
          (tc_data_connection_type_id creds # map snd (tc_credentials creds))))"
    by (simp add: parse_kv_body_def credentials_batch_def string_column_def p_def)
  then show ?thesis
    unfolding zip ext unfolding p_def .
qed

lemma hremove_first: "k \<notin> fst ` set m \<Longrightarrow> hremove k ((k, v) # m) = m"
  by (simp add: hremove_absent)

lemma secret_entries_sent:
  assumes "distinct (map fst creds)"
  shows "secret_entries (hremove ''data_connection_type_id''
      ((''data_connection_type_id'', uid) # map (\<lambda>(k, v). (''secret.'' @ k, v)) creds)) = creds"
proof -
  have "''data_connection_type_id'' \<notin> fst ` set (map (\<lambda>(k, v). (''secret.'' @ k, v)) creds)"
    by auto
  then show ?thesis
    unfolding secret_entries_def by (subst hremove_first) (assumption, unfold map_filter_strip, rule hextend_distinct [OF assms])
qed

text \<open>The headers the client builds, as the authentication layer and the handlers see them.\<close>

lemma tenant_metadata_eq_Inr:
  assumes "tenant_metadata net sa_token t = Inr md"
  shows "header_to_str t = Some t" "hget md X_TENANT_ID = Some t" "hget md AUTHORIZATION = Some sa_token"
  using assms
  by (auto simp: tenant_metadata_def attach_header_def header_to_str_def header_names result_simps
      split: if_splits)

lemma auth_call_keeps_tenant:
  assumes "fst (auth_call h dbg api discovery c (action_request md)) = Inr req"
  shows "hget (req_headers req) X_TENANT_ID = hget md X_TENANT_ID"
  using assms
  by (auto simp: auth_call_def action_request_def try_header_insert_def header_names
      split: if_splits option.splits sum.splits prod.splits)

lemma check_credentials_sent:
  assumes laws: "ipc_laws ipc" and w: "ipc_write ipc (credentials_batch creds) = Inr buf"
    and dist: "distinct (map fst (tc_credentials creds))"
    and t: "header_to_str t = Some t" "hget md X_TENANT_ID = Some t"
  shows "action_check_credentials envs ipc svc md \<lparr>action_type = a, action_body = buf\<rparr> =
     rbind (get_connector_by_type_id envs svc t (tc_data_connection_type_id creds)) (\<lambda>(dct, connector).
     rbind (map_err (\<lambda>e. grpc_error InvalidArgument (data_connection_type_error_to_string e))
              (check_credentials_schema (dctr_resource dct) (tc_credentials creds))) (\<lambda>_.
     rbind (map_err map_connector_error
              (fc_get_reader connector
                 (probe_connection (new_uuid (envs 1)) t (tc_data_connection_type_id creds))
                 (\<lambda>_. Inr (tc_credentials creds)))) (\<lambda>_.
     Inr [])))"
proof -
  have "query_context_tenant_id md = Inr t"
    using t by (simp add: query_context_tenant_id_def required_header_def)
  then show ?thesis
    unfolding action_check_credentials_def
    by (simp add: parse_credentials [OF laws w dist] secret_entries_sent [OF dist, simplified] Let_def)
qed

text \<open>
  C22. Testing credentials reaches the connector unaltered: the call fails only where writing the
  batch, connecting, reading the token, building the headers or authenticating fails, and
  otherwise its outcome is that of the connector of the requested type given exactly the
  credentials the caller sent, after their check against the schema of the type.  No credential is
  lost, renamed or added on the way.
\<close>

theorem credentials_reach_connector:
  assumes laws: "ipc_laws ipc" and dist: "distinct (map fst (tc_credentials creds))"
    and served: "net_do_action net (fcl_endpoint fc) =
      serve_action (\<lambda>req. fst (auth_call h dbg api discovery c req)) envs ipc svc"
  shows "test_credentials ipc net fc t creds =
     rbind (map_err (\<lambda>(step, e). grpc_error InternalCode (ipc_step_message step @ e))
              (ipc_write ipc (credentials_batch creds))) (\<lambda>_.
     rbind (client_connect net fc) (\<lambda>_.
     rbind (read_sa_token net fc) (\<lambda>sa_token.
     rbind (tenant_metadata net sa_token t) (\<lambda>md.
     rbind (fst (auth_call h dbg api discovery c (action_request md))) (\<lambda>_.
     rbind (get_connector_by_type_id envs svc t (tc_data_connection_type_id creds)) (\<lambda>(dct, connector).
     rbind (map_err (\<lambda>e. grpc_error InvalidArgument (data_connection_type_error_to_string e))
              (check_credentials_schema (dctr_resource dct) (tc_credentials creds))) (\<lambda>_.
     rbind (map_err map_connector_error
              (fc_get_reader connector
                 (probe_connection (new_uuid (envs 1)) t (tc_data_connection_type_id creds))
                 (\<lambda>_. Inr (tc_credentials creds)))) (\<lambda>_.
     Inr ()))))))))"
proof -
  have "rbind (serve_action (\<lambda>req. fst (auth_call h dbg api discovery c req)) envs ipc svc md
          \<lparr>action_type = ''CheckCredentials'', action_body = buf\<rparr>) (\<lambda>stream.
        rbind (first_message stream) (\<lambda>_. Inr ())) =
     rbind (fst (auth_call h dbg api discovery c (action_request md))) (\<lambda>_.
     rbind (get_connector_by_type_id envs svc t (tc_data_connection_type_id creds)) (\<lambda>(dct, connector).
     rbind (map_err (\<lambda>e. grpc_error InvalidArgument (data_connection_type_error_to_string e))
              (check_credentials_schema (dctr_resource dct) (tc_credentials creds))) (\<lambda>_.
     rbind (map_err map_connector_error
              (fc_get_reader connector
                 (probe_connection (new_uuid (envs 1)) t (tc_data_connection_type_id creds))
                 (\<lambda>_. Inr (tc_credentials creds)))) (\<lambda>_.
     Inr ()))))"
    if "ipc_write ipc (credentials_batch creds) = Inr buf" "tenant_metadata net sa_token t = Inr md"
    for buf md sa_token
  proof (cases "fst (auth_call h dbg api discovery c (action_request md))")
    case (Inr req)
    then have "hget (req_headers req) X_TENANT_ID = Some t"
      using auth_call_keeps_tenant tenant_metadata_eq_Inr [OF that(2)] by metis
    then have "dispatch_action envs ipc svc (req_headers req) \<lparr>action_type = ''CheckCredentials'', action_body = buf\<rparr>
        = action_check_credentials envs ipc svc (req_headers req) \<lparr>action_type = ''CheckCredentials'', action_body = buf\<rparr>"
      by (simp add: dispatch_action_def)
    with Inr show ?thesis
      unfolding serve_action_def
      by (simp add: check_credentials_sent [OF laws that(1) dist tenant_metadata_eq_Inr(1) [OF that(2)]]
          \<open>hget (req_headers req) X_TENANT_ID = Some t\<close> rbind_def split: sum.splits)
  qed (simp add: serve_action_def)
  then show ?thesis
    unfolding test_credentials_def served
    by (auto intro!: rbind_cong simp: result_simps)
qed

text \<open>A client, a network and an Arrow library for the instances of the properties.\<close>

definition table_ipc :: "(text_batch \<times> string) list \<Rightarrow> ipc_lib" where
  "table_ipc tab =
     \<lparr>ipc_write = \<lambda>b. (case map_of tab b of None \<Rightarrow> Inl (WriteBatch, ''unknown batch'') | Some s \<Rightarrow> Inr s),
      ipc_read = \<lambda>s. (case map_of (map prod.swap tab) s of None \<Rightarrow> Inl ''no stream'' | Some b \<Rightarrow> Inr [Inr b]),
      ipc_concat = \<lambda>bs. Inr (concat bs)\<rparr>"

lemma table_ipc_laws:
  assumes "distinct (map snd tab)"
  shows "ipc_laws (table_ipc tab)"
proof -
  have "map_of (map prod.swap tab) s = Some b" if "map_of tab b = Some s" for b s
  proof (rule map_of_is_SomeI)
    show "distinct (map fst (map prod.swap tab))" using assms by (simp add: comp_def)
    show "(s, b) \<in> set (map prod.swap tab)" using map_of_SomeD [OF that] by force
  qed
  then show ?thesis
    by (auto simp: ipc_laws_def table_ipc_def split: option.splits)
qed

definition sample_creds :: test_credentials_req where
  "sample_creds = \<lparr>tc_data_connection_type_id = ''t1'', tc_credentials = [(''url'', ''pg''), (''user'', ''me'')]\<rparr>"

definition sample_ipc :: ipc_lib where
  "sample_ipc = table_ipc
     [(credentials_batch sample_creds, ''A''),
      (connectors_batch (registry_supported_connectors (connectors_registry sample_service)), ''B'')]"

definition sample_auth :: "http_request \<Rightarrow> grpc_status + http_request" where
  "sample_auth req = fst (auth_call (\<lambda>_. 0) debug_strings sample_api ''disco'' (new_client []) req)"

definition sample_net :: "bin_batch flight_net" where
  "sample_net =
     \<lparr>net_trace = [(''traceparent'', ''00-1-2-01'')],
      net_read_file = \<lambda>p. Inr (''good'' @ [CHR 0x0A]),
      net_from_shared = \<lambda>_. Inr (), net_tls_config = \<lambda>_. Inr (), net_connect = \<lambda>_ _. Inr (),
      net_do_action = \<lambda>_. serve_action sample_auth (\<lambda>_. calm) sample_ipc sample_service,
      net_get_flight_info = \<lambda>_ _ _. Inr [], net_do_get = \<lambda>_ _ _. Inr []\<rparr>"

definition sample_client :: flight_client where
  "sample_client = \<lparr>fcl_endpoint = ''http://flight'', fcl_tls_ca_cert = None, fcl_sa_token_file = Some ''/token''\<rparr>"

lemma sample_ipc_laws: "ipc_laws sample_ipc"
  unfolding sample_ipc_def by (rule table_ipc_laws) simp

theorem connectors_round_trip_witness:
  "get_supported_connectors sample_ipc sample_net sample_client ''acme''
   = Some (Inr [\<lparr>scn_name = ''postgres'', scn_description = ''PostgreSQL'', scn_supported_formats = [''tabular'']\<rparr>])"
proof -
  have "is_ok (rbind (client_connect sample_net sample_client) (\<lambda>_.
      rbind (read_sa_token sample_net sample_client) (\<lambda>sa_token.
      rbind (tenant_metadata sample_net sa_token ''acme'') (\<lambda>metadata.
      rbind (sample_auth (action_request metadata)) (\<lambda>_.
      rbind (action_get_supported_connectors sample_ipc sample_service) (\<lambda>_. Inr ()))))))"
    by code_simp
  moreover have "map connector_entry (registry_supported_connectors (connectors_registry sample_service))
     = [\<lparr>scn_name = ''postgres'', scn_description = ''PostgreSQL'', scn_supported_formats = [''tabular'']\<rparr>]"
    by code_simp
  moreover note connectors_round_trip [OF sample_ipc_laws, of sample_net sample_client sample_auth
      "\<lambda>_. calm" sample_service "''acme''"]
  ultimately show ?thesis
    by (auto simp: sample_net_def is_ok_iff result_simps)
qed

theorem credentials_reach_connector_witness:
  "test_credentials sample_ipc sample_net sample_client ''acme'' sample_creds = Inr ()"
proof -
  have "net_do_action sample_net (fcl_endpoint sample_client) =
      serve_action (\<lambda>req. fst (auth_call (\<lambda>_. 0) debug_strings sample_api ''disco'' (new_client []) req))
        (\<lambda>_. calm) sample_ipc sample_service"
    by (simp add: sample_net_def sample_auth_def [abs_def])
  note credentials_reach_connector [OF sample_ipc_laws _ this, of sample_creds "''acme''"]
  moreover have "distinct (map fst (tc_credentials sample_creds))" by code_simp
  ultimately show ?thesis by simp code_simp
qed

end
