(* ===== verification/Rest_Errors.thy ===== *)
theory Rest_Errors
  imports Api_Types Kube_Auth Grpc "HOL-Library.Word"
begin

text \<open>
  The errors of the REST service and their HTTP responses (\<open>services/rest/src/rest/errors.rs\<close>),
  the identity of a request (\<open>services/rest/src/auth.rs\<close>) and the middleware that builds the
  request context (\<open>services/rest/src/rest/middleware.rs\<close>).
\<close>

section \<open>Error types\<close>

record rest_error_response =
  err_code :: string
  err_message :: string
  err_status :: "16 word"

datatype endpoint_error =
    PathNotFound
  | HeaderNotFound string
  | InvalidHeaderValue string

datatype validation_error =
    DeserializationError string
  | InvalidTenantId
  | InvalidSecret
  | UnsupportedProvider string
  | FlightServiceError string
  | FlightServiceNotFound string
  | MissingField string
  | ConnectionCheckFailed string
  | CredentialsCheckFailed string
  | StatusUpdateFailed string
  | InvalidDataConnectionType string
  | InvalidDataConnectionId string
  | CannotGetDataConnectionTypes
  | ConnectorsAlreadyExists string

definition rest_error :: "string \<Rightarrow> string \<Rightarrow> 16 word \<Rightarrow> rest_error_response" where
  "rest_error c m s = \<lparr>err_code = c, err_message = m, err_status = s\<rparr>"

section \<open>Responses\<close>

text \<open>\<open>StatusCode::from_u16\<close> accepts 100 to 999.\<close>

definition response_status_code :: "rest_error_response \<Rightarrow> nat" where
  "response_status_code e =
     (let s = unat (err_status e) in if 100 \<le> s \<and> s < 1000 then s else 500)"

definition error_body :: "rest_error_response \<Rightarrow> json" where
  "error_body e = JObject [(''code'', JString (err_code e)), (''message'', JString (err_message e))]"

text \<open>
  A response with the headers the service sets itself.  A streamed body is the list of its chunks:
  bytes, an error that ends the stream, or a panic while producing the chunk.
\<close>

datatype body_chunk = Chunk string | ChunkError string | ChunkPanic

datatype http_body = JsonBody json | NoBody | StreamBody "body_chunk list"

record http_response =
  http_status :: nat
  http_headers :: "(string \<times> string) list"
  http_body :: http_body

definition json_response :: "nat \<Rightarrow> json \<Rightarrow> http_response" where
  "json_response s v = \<lparr>http_status = s, http_headers = [], http_body = JsonBody v\<rparr>"

definition no_content :: http_response where
  "no_content = \<lparr>http_status = 204, http_headers = [], http_body = NoBody\<rparr>"

definition error_response :: "rest_error_response \<Rightarrow> http_response" where
  "error_response e = json_response (response_status_code e) (error_body e)"

section \<open>Conversions\<close>

fun connector_error_code :: "connector_error \<Rightarrow> string \<times> 16 word" where
  "connector_error_code (InvalidRequest _) = (''invalid_request'', 400)"
| "connector_error_code NoDataError = (''no_data'', 404)"
| "connector_error_code (ConfigError _) = (''config'', 500)"
| "connector_error_code (ConnectionError _) = (''connection'', 503)"
| "connector_error_code (SQLError _) = (''sql_error'', 400)"
| "connector_error_code (IOError _) = (''io_error'', 500)"
| "connector_error_code (NotFound _) = (''not_found'', 404)"
| "connector_error_code (UnsupportedOperation _) = (''unsupported_operation'', 501)"

definition from_connector_error :: "connector_error \<Rightarrow> rest_error_response" where
  "from_connector_error err =
     (let (c, s) = connector_error_code err
      in rest_error c
           (case err of IOError _ \<Rightarrow> ''data source I/O error'' | _ \<Rightarrow> connector_error_message err) s)"

fun meta_store_error_code :: "meta_store_error \<Rightarrow> string \<times> 16 word" where
  "meta_store_error_code (ResourceNotFound _) = (''not_found'', 404)"
| "meta_store_error_code (MetaInvalidRequest _) = (''invalid_request'', 400)"
| "meta_store_error_code (Config _) = (''config'', 500)"
| "meta_store_error_code (Connection _) = (''connection'', 503)"
| "meta_store_error_code (Query _) = (''query_error'', 500)"
| "meta_store_error_code (Conflict _) = (''conflict'', 409)"
| "meta_store_error_code (Serialization _) = (''serialization'', 400)"
| "meta_store_error_code (Deserialization _) = (''deserialization'', 400)"
| "meta_store_error_code (Validation _) = (''validation'', 400)"
| "meta_store_error_code (UnprocessableEntity _) = (''unprocessable_entity'', 422)"

definition from_meta_store_error :: "meta_store_error \<Rightarrow> rest_error_response" where
  "from_meta_store_error err =
     (let (c, s) = meta_store_error_code err in rest_error c (meta_store_error_to_string err) s)"

fun secret_store_error_code :: "secret_store_error \<Rightarrow> string \<times> 16 word" where
  "secret_store_error_code (SecretNotFound _) = (''secret_not_found'', 404)"
| "secret_store_error_code (Forbidden _) = (''forbidden'', 403)"
| "secret_store_error_code (CannotCreateSecret _) = (''cannot_create_secret'', 400)"
| "secret_store_error_code (CannotDeleteSecret _) = (''cannot_delete_secret'', 400)"
| "secret_store_error_code (CannotSetSecretLabels _) = (''cannot_set_secret_labels'', 400)"

definition from_secret_store_error :: "secret_store_error \<Rightarrow> rest_error_response" where
  "from_secret_store_error err =
     (let (c, s) = secret_store_error_code err in rest_error c (secret_store_error_to_string err) s)"

definition from_tonic_status :: "grpc_status \<Rightarrow> rest_error_response" where
  "from_tonic_status status =
     (let (c, s) = (case status_code status of
          InvalidArgument \<Rightarrow> (''invalid_request'', 400)
        | UnauthenticatedCode \<Rightarrow> (''unauthenticated'', 401)
        | PermissionDenied \<Rightarrow> (''forbidden'', 403)
        | NotFoundCode \<Rightarrow> (''not_found'', 404)
        | Unavailable \<Rightarrow> (''connection'', 503)
        | Unimplemented \<Rightarrow> (''unsupported_operation'', 501)
        | _ \<Rightarrow> (''flight_service_error'', 500))
      in rest_error c (status_message status) s)"

definition extraction_error :: "string \<Rightarrow> string \<Rightarrow> rest_error_response" where
  "extraction_error c err = rest_error c err 400"

fun from_auth_error :: "auth_error \<Rightarrow> rest_error_response" where
  "from_auth_error (Unauthenticated _) =
     rest_error ''unauthenticated'' ''An authenticated identity is required'' 401"
| "from_auth_error (AuthForbidden m) = rest_error ''forbidden'' m 403"
| "from_auth_error (TokenReviewError _) = rest_error ''auth_error'' ''Authorization check failed'' 500"
| "from_auth_error (AccessReviewError _) = rest_error ''auth_error'' ''Authorization check failed'' 500"
| "from_auth_error (Internal _) = rest_error ''auth_error'' ''Authorization check failed'' 500"

fun from_endpoint_error :: "endpoint_error \<Rightarrow> rest_error_response" where
  "from_endpoint_error PathNotFound = rest_error ''path_not_found'' ''Path not found'' 404"
| "from_endpoint_error (HeaderNotFound header) =
     rest_error ''header_not_found'' (''Header '' @ quoted header @ '' not found'') 400"
| "from_endpoint_error (InvalidHeaderValue header) =
     rest_error ''invalid_header_value'' (''Header '' @ quoted header @ '' has an invalid value'') 400"

fun from_validation_error :: "validation_error \<Rightarrow> rest_error_response" where
  "from_validation_error (FlightServiceNotFound e) = rest_error ''flight_service_not_found'' e 404"
| "from_validation_error (DeserializationError e) = rest_error ''deserialization_error'' e 400"
| "from_validation_error InvalidTenantId = rest_error ''invalid_tenant_id'' ''Invalid tenant ID'' 400"
| "from_validation_error InvalidSecret = rest_error ''invalid_secret'' ''Invalid secret'' 400"
| "from_validation_error (FlightServiceError e) = rest_error ''flight_service_error'' e 500"
| "from_validation_error (ConnectionCheckFailed e) = rest_error ''connection_check_failed'' e 502"
| "from_validation_error (UnsupportedProvider e) = rest_error ''unsupported_provider'' e 400"
| "from_validation_error (MissingField f) = rest_error ''missing_field'' (''Missing field: '' @ f) 400"
| "from_validation_error (CredentialsCheckFailed e) = rest_error ''credentials_check_failed'' e 400"
| "from_validation_error (StatusUpdateFailed e) = rest_error ''status_update_failed'' e 500"
| "from_validation_error (InvalidDataConnectionType e) =
     rest_error ''invalid_data_connection_type'' e 400"
| "from_validation_error (InvalidDataConnectionId e) = rest_error ''invalid_data_connection_id'' e 400"
| "from_validation_error CannotGetDataConnectionTypes =
     rest_error ''cannot_get_data_connection_types'' ''Cannot get data connection types'' 500"
| "from_validation_error (ConnectorsAlreadyExists e) = rest_error ''connectors_already_exists'' e 400"

section \<open>Identity and request context\<close>

record request_identity =
  ri_username :: string

definition resolve_identity :: "string option \<Rightarrow> request_identity option" where
  "resolve_identity remote_user =
     (case remote_user of
        None \<Rightarrow> None
      | Some username \<Rightarrow> if username = [] then None else Some \<lparr>ri_username = username\<rparr>)"

definition check_secret_access ::
    "(string list \<Rightarrow> string) \<Rightarrow> review_api \<Rightarrow> kube_auth_client \<Rightarrow> request_identity \<Rightarrow> string \<Rightarrow> string \<Rightarrow>
     (auth_error + unit) \<times> kube_auth_client" where
  "check_secret_access dbg api c identity tenant_id secret_name =
     authorize_secret dbg api c \<lparr>ai_username = ri_username identity, ai_groups = []\<rparr> tenant_id secret_name"

record api_context =
  ctx_tenant_id :: string
  ctx_identity :: "request_identity option"

text \<open>The middleware answers with an error or calls the next service with the context.\<close>

definition bad_request :: "endpoint_error \<Rightarrow> http_response" where
  "bad_request err = json_response 400 (error_body (from_endpoint_error err))"

definition validate_headers :: "headers \<Rightarrow> http_response + api_context" where
  "validate_headers hs =
     (case hget hs X_TENANT_ID of
        None \<Rightarrow> Inl (bad_request (HeaderNotFound X_TENANT_ID))
      | Some value \<Rightarrow>
          (case header_to_str value of
             None \<Rightarrow> Inl (bad_request (InvalidHeaderValue X_TENANT_ID))
           | Some v \<Rightarrow>
               if v = [] then Inl (bad_request (InvalidHeaderValue X_TENANT_ID))
               else Inr \<lparr>ctx_tenant_id = v,
                      ctx_identity = resolve_identity
                        (Option.bind (hget hs X_REMOTE_USER) header_to_str)\<rparr>))"

section \<open>Properties\<close>

lemma status_of_rest_error: "err_status (rest_error c m s) = s" "err_code (rest_error c m s) = c"
  by (simp_all add: rest_error_def)

lemma error_code_bounds:
  "unat (snd (connector_error_code e1)) \<in> {400..<600}"
  "unat (snd (meta_store_error_code e2)) \<in> {400..<600}"
  "unat (snd (secret_store_error_code e3)) \<in> {400..<600}"
  by ((cases e1; simp), (cases e2; simp), (cases e3; simp))

lemma converted_status_bounds:
  "unat (err_status (from_tonic_status e4)) \<in> {400..<600}"
  "unat (err_status (from_auth_error e5)) \<in> {400..<600}"
  "unat (err_status (from_endpoint_error e6)) \<in> {400..<600}"
  "unat (err_status (from_validation_error e7)) \<in> {400..<600}"
  by ((cases "status_code e4"; simp add: from_tonic_status_def status_of_rest_error),
      (cases e5; simp add: status_of_rest_error), (cases e6; simp add: status_of_rest_error),
      (cases e7; simp add: status_of_rest_error))

text \<open>An error response: a client or server error whose status is the one the conversion chose.\<close>

definition proper_error :: "rest_error_response \<Rightarrow> bool" where
  "proper_error e \<longleftrightarrow>
     400 \<le> response_status_code e \<and> response_status_code e < 600
     \<and> response_status_code e = unat (err_status e)"

lemma proper_errorI: "unat (err_status e) \<in> {400..<600} \<Longrightarrow> proper_error e"
  by (simp add: proper_error_def response_status_code_def Let_def)

text \<open>
  Every error of the service becomes an HTTP error: whatever error of whatever component is
  converted, the response has a status from 400 to 599, namely the one the conversion names; the
  fallback to 500 for an invalid status number is never taken.
\<close>

theorem error_status_bounds:
  "proper_error (from_connector_error e1) \<and> proper_error (from_meta_store_error e2)
   \<and> proper_error (from_secret_store_error e3) \<and> proper_error (from_tonic_status e4)
   \<and> proper_error (from_auth_error e5) \<and> proper_error (from_endpoint_error e6)
   \<and> proper_error (from_validation_error e7) \<and> proper_error (extraction_error c m)"
proof -
  have "proper_error (from_connector_error e1)" "proper_error (from_meta_store_error e2)"
    "proper_error (from_secret_store_error e3)"
    by (rule proper_errorI, simp only: from_connector_error_def from_meta_store_error_def
        from_secret_store_error_def Let_def case_prod_beta status_of_rest_error error_code_bounds)+
  moreover have "proper_error (extraction_error c m)"
    by (rule proper_errorI) (simp add: extraction_error_def status_of_rest_error)
  ultimately show ?thesis
    using converted_status_bounds [THEN proper_errorI] by blast
qed

lemma header_to_str_eq:
  "header_to_str v = Some u \<longleftrightarrow> u = v \<and> list_all visible_ascii v"
  "header_to_str v = None \<longleftrightarrow> \<not> list_all visible_ascii v"
  by (auto simp: header_to_str_def)

lemma usable_header: "Option.bind x header_to_str = Some u \<longleftrightarrow> x = Some u \<and> list_all visible_ascii u"
  by (cases x) (auto simp: header_to_str_def)

text \<open>
  What reaches the handlers: a request gets a context exactly when its tenant header is
  present, visible ASCII and not empty; the tenant is the header's value, and the identity is the
  proxy's user header when that is usable.  Every other request is answered with 400.
\<close>

theorem validate_headers_spec:
  "(case validate_headers hs of
      Inr ctx \<Rightarrow> hget hs X_TENANT_ID = Some (ctx_tenant_id ctx) \<and> ctx_tenant_id ctx \<noteq> []
        \<and> list_all visible_ascii (ctx_tenant_id ctx)
        \<and> (\<forall>u. ctx_identity ctx = Some \<lparr>ri_username = u\<rparr> \<longleftrightarrow>
              hget hs X_REMOTE_USER = Some u \<and> u \<noteq> [] \<and> list_all visible_ascii u)
    | Inl resp \<Rightarrow> http_status resp = 400
        \<and> (\<nexists>t. hget hs X_TENANT_ID = Some t \<and> t \<noteq> [] \<and> list_all visible_ascii t))"
  by (auto simp: validate_headers_def header_to_str_eq resolve_identity_def bad_request_def
      json_response_def usable_header split: option.splits if_splits)

end
