(* ===== verification/Status_Audit.thy ===== *)
theory Status_Audit
  imports Meta_Properties Secrets Flight_Client Rest_Errors
begin

text \<open>
  The state of the REST service (\<open>services/rest/src/state/mod.rs\<close>) and the two audits that keep
  the status of connections and connection types (\<open>services/rest/src/state/audit.rs\<close>).

  An operation is a computation on the state of the service: the metadata database, the secrets of
  the cluster and the authorisation cache.  What it depends on outside is a record: the Kubernetes
  and review APIs, the network, the Arrow, JSON patch and Debug libraries, the messages of the
  extractors of the web framework and what it does with an invalid header value, the clock, and
  the environment of each call to the database.
\<close>

section \<open>ApiService\<close>

record ('c, 'b) rest_world =
  rw_kube :: "'c kube_api"
  rw_review :: review_api
  rw_debug :: "string list \<Rightarrow> string"
  rw_ipc :: ipc_lib
  rw_net :: "'b flight_net"
  rw_merge :: "json \<Rightarrow> json \<Rightarrow> json"
  rw_serde_error :: "json \<Rightarrow> string"
  rw_extract_error :: "json \<Rightarrow> string"
  rw_query_error :: string
  rw_header_value_ok :: "string \<Rightarrow> bool"
  rw_header_error :: http_response
  rw_env :: "nat \<Rightarrow> env"
  rw_clock :: "nat \<Rightarrow> string"

record 'c api_service =
  as_meta_store :: pg_meta_store
  as_secret_store :: 'c
  as_flight_ca_cert :: "string option"
  as_service_account_token_file :: "string option"
  as_global_tenant_id :: string
  as_authorizer :: "kube_auth_client option"

definition new_api_service ::
    "pg_meta_store \<Rightarrow> 'c \<Rightarrow> string option \<Rightarrow> string option \<Rightarrow> string \<Rightarrow> 'c api_service" where
  "new_api_service meta_store secret_store ca_cert token_file global_tenant =
     \<lparr>as_meta_store = meta_store, as_secret_store = secret_store, as_flight_ca_cert = ca_cert,
      as_service_account_token_file = token_file, as_global_tenant_id = global_tenant,
      as_authorizer = None\<rparr>"

definition with_authorizer :: "kube_auth_client \<Rightarrow> 'c api_service \<Rightarrow> 'c api_service" where
  "with_authorizer authorizer svc = svc\<lparr>as_authorizer := Some authorizer\<rparr>"

definition flight_client_for :: "'c api_service \<Rightarrow> string \<Rightarrow> flight_client" where
  "flight_client_for svc endpoint =
     \<lparr>fcl_endpoint = endpoint, fcl_tls_ca_cert = as_flight_ca_cert svc,
      fcl_sa_token_file = as_service_account_token_file svc\<rparr>"

text \<open>Operations of the stores as operations of the service.\<close>

definition on_store ::
    "(pg_meta_store \<Rightarrow> 'r \<times> pg_meta_store) \<Rightarrow> 'c api_service \<Rightarrow> 'r \<times> 'c api_service" where
  "on_store f svc = (let (r, st) = f (as_meta_store svc) in (r, svc\<lparr>as_meta_store := st\<rparr>))"

definition on_secrets :: "('c \<Rightarrow> 'r \<times> 'c) \<Rightarrow> 'c api_service \<Rightarrow> 'r \<times> 'c api_service" where
  "on_secrets f svc = (let (r, c) = f (as_secret_store svc) in (r, svc\<lparr>as_secret_store := c\<rparr>))"

section \<open>Audit of a connection\<close>

definition set_data_connection_status ::
    "('c, 'b) rest_world \<Rightarrow> nat \<Rightarrow> string \<Rightarrow> string \<Rightarrow> data_connection_state \<Rightarrow> string option \<Rightarrow>
     'c api_service \<Rightarrow> (validation_error + unit) \<times> 'c api_service" where
  "set_data_connection_status w i tenant_id data_connection_id status message =
     sbind (smap_err (\<lambda>_. StatusUpdateFailed ''Failed to update data connection status'')
              (on_store (\<lambda>st. update_data_connection_status (rw_env w i) st tenant_id data_connection_id
                 (\<lambda>_. Inr \<lparr>st_state = status, st_message = message, st_updated_at = Some (rw_clock w i)\<rparr>))))
       (\<lambda>_. slift (\<lambda>_. Inr ()))"

definition audit_data_connection ::
    "('c, 'b) rest_world \<Rightarrow> string \<Rightarrow> string \<Rightarrow> 'c api_service \<Rightarrow> (validation_error + unit) \<times> 'c api_service" where
  "audit_data_connection w tenant_id data_connection_id =
     sbind (slift (\<lambda>svc. map_err (\<lambda>_. InvalidDataConnectionId data_connection_id)
              (get_data_connection (rw_env w 0) (as_meta_store svc) tenant_id data_connection_id))) (\<lambda>dc.
     sbind (slift (\<lambda>svc. map_err (\<lambda>_. InvalidDataConnectionType (dc_data_connection_type_id (dcr_resource dc)))
              (get_data_connection_type (rw_env w 1) (as_meta_store svc) tenant_id
                 (dc_data_connection_type_id (dcr_resource dc))))) (\<lambda>dct.
     sbind (\<lambda>svc. case get_secret (rw_kube w) (as_secret_store svc) tenant_id
                          (cr_secret (dc_credentials_ref (dcr_resource dc))) of
              Inr secret \<Rightarrow> (Inr (sec_properties secret), svc)
            | Inl _ \<Rightarrow>
                sbind (set_data_connection_status w 2 tenant_id data_connection_id NotReady
                         (Some ''Secret cannot be read''))
                  (\<lambda>_. slift (\<lambda>_. Inl InvalidSecret)) svc) (\<lambda>keys.
     sbind (case check_credentials_schema (dctr_resource dct) keys of
              Inr _ \<Rightarrow> slift (\<lambda>_. Inr ())
            | Inl e \<Rightarrow>
                sbind (set_data_connection_status w 2 tenant_id data_connection_id NotReady
                         (Some (data_connection_type_error_to_string e)))
                  (\<lambda>_. slift (\<lambda>_. Inl (CredentialsCheckFailed (data_connection_type_error_to_string e))))) (\<lambda>_.
     sbind (slift (\<lambda>svc. map_err (\<lambda>e. FlightServiceError (meta_store_error_to_string e))
              (get_flight_service_by_connector (rw_env w 2) (as_meta_store svc)
                 (dct_provider (dctr_resource dct))))) (\<lambda>flight svc.
     case check_data_connection (rw_net w) (flight_client_for svc (fs_internal_url (fsr_resource flight)))
            tenant_id (md_id (dcr_metadata dc)) of
       Inr _ \<Rightarrow>
         set_data_connection_status w 3 tenant_id data_connection_id data_connection_state.Ready
           (Some ''Connection check successful'') svc
     | Inl _ \<Rightarrow>
         sbind (set_data_connection_status w 3 tenant_id data_connection_id IngestionNotReady
                  (Some ''Connection check failed''))
           (\<lambda>_. slift (\<lambda>_. Inl (ConnectionCheckFailed (md_id (dcr_metadata dc))))) svc)))))"

section \<open>Audit of the connection types\<close>

text \<open>The formats and the URL the inner loop finds: those of the first service with the provider.\<close>

definition provider_flight :: "flight_service_resource list \<Rightarrow> string \<Rightarrow> data_format list \<times> string option" where
  "provider_flight flights provider =
     (case find (\<lambda>fl. provider \<in> set (fs_supported_connectors (fsr_resource fl))) flights of
        None \<Rightarrow> ([], None)
      | Some fl \<Rightarrow>
          (case hget (fs_connector_capabilities (fsr_resource fl)) provider of
             None \<Rightarrow> []
           | Some fmts \<Rightarrow> List.map_filter
               (\<lambda>f. case data_format_from_string f of Inr x \<Rightarrow> Some x | Inl _ \<Rightarrow> None) fmts,
           if fss_ready (fs_status (fsr_resource fl)) then Some (fs_external_url (fsr_resource fl)) else None))"

definition type_status :: "flight_service_resource list \<Rightarrow> string \<Rightarrow> string \<Rightarrow> data_connection_type_status" where
  "type_status flights provider clock =
     (let (formats, url) = provider_flight flights provider
      in \<lparr>ts_supported_formats = formats, ts_flight_ready = (url \<noteq> None), ts_flight_url = url,
          ts_message = None, ts_updated_at = Some clock\<rparr>)"

fun audit_each ::
    "('c, 'b) rest_world \<Rightarrow> flight_service_resource list \<Rightarrow> nat \<Rightarrow> data_connection_type_resource list \<Rightarrow>
     'c api_service \<Rightarrow> (validation_error + unit) \<times> 'c api_service" where
  "audit_each w flights i [] = slift (\<lambda>_. Inr ())"
| "audit_each w flights i (dct # rest) =
     sbind (smap_err (\<lambda>_. StatusUpdateFailed (md_id (dctr_metadata dct)))
              (on_store (\<lambda>st. update_data_connection_type_status (rw_env w i) st (md_id (dctr_metadata dct))
                 (\<lambda>_. Inr (type_status flights (dct_provider (dctr_resource dct)) (rw_clock w i))))))
       (\<lambda>_. audit_each w flights (Suc i) rest)"

definition audit_data_connection_types ::
    "('c, 'b) rest_world \<Rightarrow> nat \<Rightarrow> 'c api_service \<Rightarrow> (validation_error + unit) \<times> 'c api_service" where
  "audit_data_connection_types w i =
     sbind (slift (\<lambda>svc. map_err (\<lambda>e. FlightServiceError (meta_store_error_to_string e))
              (get_all_flight_services (rw_env w i) (as_meta_store svc)))) (\<lambda>flights.
     sbind (slift (\<lambda>svc. map_err (\<lambda>_. CannotGetDataConnectionTypes)
              (get_all_data_connection_types (rw_env w (i + 1)) (as_meta_store svc)))) (\<lambda>types.
     audit_each w (items flights) (i + 2) (items types)))"

section \<open>What the connection audit does\<close>

lemma on_store_eq [result_simps]:
  "on_store f svc = (r, svc') \<longleftrightarrow>
     r = fst (f (as_meta_store svc)) \<and> svc' = svc\<lparr>as_meta_store := snd (f (as_meta_store svc))\<rparr>"
  by (auto simp: on_store_def Let_def split: prod.splits)

lemma on_secrets_eq [result_simps]:
  "on_secrets f svc = (r, svc') \<longleftrightarrow>
     r = fst (f (as_secret_store svc)) \<and> svc' = svc\<lparr>as_secret_store := snd (f (as_secret_store svc))\<rparr>"
  by (auto simp: on_secrets_def Let_def split: prod.splits)

text \<open>
  The reading part of the audit: an error where it stops without a verdict, or the status and the
  message to record with the answer for the caller.
\<close>

definition audit_verdict ::
    "('c, 'b) rest_world \<Rightarrow> string \<Rightarrow> string \<Rightarrow> 'c api_service \<Rightarrow>
     validation_error + (nat \<times> data_connection_state \<times> string \<times> (validation_error + unit))" where
  "audit_verdict w t uid svc =
     rbind (map_err (\<lambda>_. InvalidDataConnectionId uid)
              (get_data_connection (rw_env w 0) (as_meta_store svc) t uid)) (\<lambda>dc.
     rbind (map_err (\<lambda>_. InvalidDataConnectionType (dc_data_connection_type_id (dcr_resource dc)))
              (get_data_connection_type (rw_env w 1) (as_meta_store svc) t
                 (dc_data_connection_type_id (dcr_resource dc)))) (\<lambda>dct.
     case get_secret (rw_kube w) (as_secret_store svc) t (cr_secret (dc_credentials_ref (dcr_resource dc))) of
       Inl _ \<Rightarrow> Inr (2, NotReady, ''Secret cannot be read'', Inl InvalidSecret)
     | Inr secret \<Rightarrow>
         (case check_credentials_schema (dctr_resource dct) (sec_properties secret) of
            Inl e \<Rightarrow> Inr (2, NotReady, data_connection_type_error_to_string e,
                         Inl (CredentialsCheckFailed (data_connection_type_error_to_string e)))
          | Inr _ \<Rightarrow>
              rbind (map_err (\<lambda>e. FlightServiceError (meta_store_error_to_string e))
                       (get_flight_service_by_connector (rw_env w 2) (as_meta_store svc)
                          (dct_provider (dctr_resource dct)))) (\<lambda>flight.
              Inr (case check_data_connection (rw_net w)
                          (flight_client_for svc (fs_internal_url (fsr_resource flight))) t
                          (md_id (dcr_metadata dc)) of
                     Inr _ \<Rightarrow> (3, data_connection_state.Ready, ''Connection check successful'', Inr ())
                   | Inl _ \<Rightarrow> (3, IngestionNotReady, ''Connection check failed'',
                                Inl (ConnectionCheckFailed (md_id (dcr_metadata dc)))))))))"

lemma audit_data_connection_verdict:
  "audit_data_connection w t uid svc =
     (case audit_verdict w t uid svc of
        Inl e \<Rightarrow> (Inl e, svc)
      | Inr (i, s, m, r) \<Rightarrow>
          sbind (set_data_connection_status w i t uid s (Some m)) (\<lambda>_. slift (\<lambda>_. r)) svc)"
  unfolding audit_data_connection_def audit_verdict_def
  by (auto simp: sbind_def slift_def rbind_def map_err_def split: sum.splits prod.splits)

lemma set_data_connection_status_cases:
  assumes "set_data_connection_status w i t uid s m svc = (r, svc')"
  shows "(\<exists>x st'. r = Inr () \<and> svc' = svc\<lparr>as_meta_store := st'\<rparr>
            \<and> update_data_connection_status (rw_env w i) (as_meta_store svc) t uid
                (\<lambda>_. Inr \<lparr>st_state = s, st_message = m, st_updated_at = Some (rw_clock w i)\<rparr>) = (Inr x, st'))
    \<or> r = Inl (StatusUpdateFailed ''Failed to update data connection status'')
      \<and> (\<not> ack_lost (rw_env w i) \<longrightarrow> svc' = svc)"
proof -
  let ?u = "update_data_connection_status (rw_env w i) (as_meta_store svc) t uid
      (\<lambda>_. Inr \<lparr>st_state = s, st_message = m, st_updated_at = Some (rw_clock w i)\<rparr>)"
  have svc': "svc' = svc\<lparr>as_meta_store := snd ?u\<rparr>"
    and r: "r = map_err (\<lambda>_. StatusUpdateFailed ''Failed to update data connection status'') (rbind (fst ?u) (\<lambda>_. Inr ()))"
    using assms by (auto simp: set_data_connection_status_def sbind_def smap_err_def slift_def on_store_def
        Let_def result_simps split: prod.splits sum.splits)
  show ?thesis
  proof (cases "fst ?u")
    case (Inl e)
    then have "\<not> ack_lost (rw_env w i) \<longrightarrow> snd ?u = as_meta_store svc"
      using transaction_error unfolding update_data_connection_status_def by blast
    with Inl svc' r show ?thesis by simp
  next
    case (Inr x)
    then have "?u = (Inr x, snd ?u)" by (simp add: prod_eq_iff)
    with Inr svc' r show ?thesis by auto
  qed
qed

text \<open>
  C19. An audit of a connection records what it found.  Where it cannot read the connection, its type
  or the flight service, it changes nothing.  Otherwise it writes one status: not ready when the
  secret is unreadable or lacks a required field, ingestion not ready when the flight service's
  check fails, ready only when the secret satisfies the schema and the flight service confirmed the
  connection; the answer to the caller agrees with the status, and nothing but the status and the
  update time of that connection has changed.  When the status cannot be written, the audit fails.
\<close>

theorem audit_records_verdict:
  assumes calm: "db_fault en' = (\<lambda>_. None)"
    and audit: "audit_data_connection w t uid svc = (r, svc')"
  shows "case audit_verdict w t uid svc of
      Inl e \<Rightarrow> r = Inl e \<and> svc' = svc
    | Inr (i, s, m, answer) \<Rightarrow>
        r = Inl (StatusUpdateFailed ''Failed to update data connection status'')
          \<and> (\<not> ack_lost (rw_env w i) \<longrightarrow> svc' = svc)
        \<or> r = answer \<and> (\<exists>old st'.
            get_data_connection en' (as_meta_store svc) t uid = Inr old
          \<and> svc' = svc\<lparr>as_meta_store := st'\<rparr>
          \<and> get_data_connection en' st' t uid = Inr (old
              \<lparr>dcr_metadata := (dcr_metadata old)\<lparr>md_updated_at := now (rw_env w i)\<rparr>,
               dcr_status := \<lparr>st_state = s, st_message = Some m, st_updated_at = Some (rw_clock w i)\<rparr>\<rparr>)
          \<and> filter (\<lambda>d. \<not> where_id_tenant (as_meta_store svc) uid t d) (data_connections st')
              = filter (\<lambda>d. \<not> where_id_tenant (as_meta_store svc) uid t d) (data_connections (as_meta_store svc))
          \<and> data_connection_types st' = data_connection_types (as_meta_store svc)
          \<and> flight_services st' = flight_services (as_meta_store svc))"
proof (cases "audit_verdict w t uid svc")
  case (Inl e)
  then show ?thesis using audit by (simp add: audit_data_connection_verdict)
next
  case (Inr v)
  obtain i s m answer where v: "v = (i, s, m, answer)" by (cases v)
  obtain r1 svc1 where set: "set_data_connection_status w i t uid s (Some m) svc = (r1, svc1)"
    by fastforce
  have run: "(r, svc') = (case r1 of Inl e \<Rightarrow> (Inl e, svc1) | Inr _ \<Rightarrow> (answer, svc1))"
    using audit Inr v set
    by (cases r1) (auto simp: audit_data_connection_verdict sbind_def slift_def)
  from set_data_connection_status_cases [OF set] show ?thesis
  proof (elim disjE exE conjE)
    fix x st'
    assume ok: "r1 = Inr ()" "svc1 = svc\<lparr>as_meta_store := st'\<rparr>"
      and u: "update_data_connection_status (rw_env w i) (as_meta_store svc) t uid
                (\<lambda>_. Inr \<lparr>st_state = s, st_message = Some m, st_updated_at = Some (rw_clock w i)\<rparr>) = (Inr x, st')"
    from status_update_spec [OF u calm] run ok show ?thesis
      unfolding Inr v by auto
  next
    assume "r1 = Inl (StatusUpdateFailed ''Failed to update data connection status'')"
      "\<not> ack_lost (rw_env w i) \<longrightarrow> svc1 = svc"
    with run show ?thesis unfolding Inr v by simp
  qed
qed

section \<open>What the audit of the types does\<close>

text \<open>A row whose status is the one the flight services call for, and what a status update keeps.\<close>

definition audited :: "flight_service_resource list \<Rightarrow> json \<Rightarrow> bool" where
  "audited flights d \<longleftrightarrow>
     (\<exists>r clock. data_connection_type_resource_from_value d = Some r
        \<and> dctr_status r = type_status flights (dct_provider (dctr_resource r)) clock)"

definition type_core :: "json \<Rightarrow> (string \<times> string option \<times> string \<times> data_connection_type) option" where
  "type_core d =
     map_option (\<lambda>r. (md_id (dctr_metadata r), md_tenant_id (dctr_metadata r),
                      md_created_at (dctr_metadata r), dctr_resource r))
       (data_connection_type_resource_from_value d)"

definition provider_known :: "pg_meta_store \<Rightarrow> data_connection_type_resource \<Rightarrow> bool" where
  "provider_known st x \<longleftrightarrow>
     (\<forall>d \<in> set (data_connection_types st). row_id st d = Some (md_id (dctr_metadata x)) \<longrightarrow>
        (\<exists>r. data_connection_type_resource_from_value d = Some r
           \<and> dct_provider (dctr_resource r) = dct_provider (dctr_resource x)))"

lemma audit_one:
  assumes inv: "reachable st" and known: "provider_known st x"
    and u: "update_data_connection_type_status en st (md_id (dctr_metadata x))
      (\<lambda>_. Inr (type_status flights (dct_provider (dctr_resource x)) clock)) = (Inr r, st')"
  shows "map type_core (data_connection_types st') = map type_core (data_connection_types st)"
    and "\<forall>d \<in> set (data_connection_types st'). row_id st' d = Some (md_id (dctr_metadata x)) \<longrightarrow> audited flights d"
    and "\<forall>d \<in> set (data_connection_types st'). row_id st' d \<noteq> Some (md_id (dctr_metadata x)) \<longrightarrow> d \<in> set (data_connection_types st)"
    and "\<forall>y. provider_known st y \<longrightarrow> provider_known st' y"
    and "data_connections st' = data_connections st" "flight_services st' = flight_services st"
    and "pg_text st' = pg_text st" "global_tenant_id st' = global_tenant_id st"
proof -
  let ?uid = "md_id (dctr_metadata x)"
  obtain d0 old where d0: "find (where_id st ?uid) (data_connection_types st) = Some d0"
      "data_connection_type_resource_from_value d0 = Some old"
    and r: "r = old\<lparr>dctr_metadata := (dctr_metadata old)\<lparr>md_updated_at := now en\<rparr>,
        dctr_status := type_status flights (dct_provider (dctr_resource x)) clock\<rparr>"
    and st': "st' = st\<lparr>data_connection_types := map (\<lambda>x. if where_id st ?uid x
                    then data_connection_type_resource_to_value r else x) (data_connection_types st)\<rparr>"
    using update_data_connection_type_status_eq_Inr [OF u] by auto
  define nd where "nd = data_connection_type_resource_to_value r"
  have f: "d0 \<in> set (data_connection_types st)" "row_id st d0 = Some ?uid"
    using find_SomeD [OF d0(1)] by (simp_all add: where_id_def)
  have path: "doc_path st' = doc_path st" unfolding st' by (simp add: doc_path_def fun_eq_iff)
  have prov: "dct_provider (dctr_resource old) = dct_provider (dctr_resource x)"
    using known f d0(2) unfolding provider_known_def by fastforce
  have rid: "md_id (dctr_metadata old) = ?uid"
    using connection_type_doc.dec_row [OF d0(2) f(2)] by simp
  have nd: "data_connection_type_resource_from_value nd = Some r" "row_id st nd = Some ?uid"
    using rid by (simp_all add: nd_def r data_connection_type_resource_codec.dec_enc)
  have rows: "data_connection_types st'
      = map (\<lambda>d. if row_id st d = Some ?uid then nd else d) (data_connection_types st)"
    by (simp add: st' nd_def where_id_def)
  have rows': "d = nd \<or> d \<in> set (data_connection_types st) \<and> row_id st d \<noteq> Some ?uid"
    if "d \<in> set (data_connection_types st')" for d
    using that unfolding rows by (auto split: if_splits)
  have "unique_ok st DataConnectionTypes (data_connection_types st)"
    using meta_inv_reachable [OF inv] by (simp add: meta_inv_def indexes_ok_def)
  then have only: "d = d0" if "d \<in> set (data_connection_types st)" "row_id st d = Some ?uid" for d
    using unique_ok_row_id f that by blast
  have core: "type_core nd = type_core d0"
    using d0(2) nd(1) by (simp add: type_core_def r)
  show "map type_core (data_connection_types st') = map type_core (data_connection_types st)"
    unfolding rows list.map_comp by (rule map_cong [OF refl]) (use only core in auto)
  have "audited flights nd"
    unfolding audited_def using nd(1) prov by (auto simp: r)
  then show "\<forall>d \<in> set (data_connection_types st'). row_id st' d = Some ?uid \<longrightarrow> audited flights d"
    unfolding path using rows' by blast
  show "\<forall>d \<in> set (data_connection_types st'). row_id st' d \<noteq> Some ?uid \<longrightarrow> d \<in> set (data_connection_types st)"
    unfolding path using rows' nd(2) by blast
  show "\<forall>y. provider_known st y \<longrightarrow> provider_known st' y"
  proof (intro allI impI)
    fix y assume y: "provider_known st y"
    have "\<exists>r. data_connection_type_resource_from_value d = Some r
        \<and> dct_provider (dctr_resource r) = dct_provider (dctr_resource y)"
      if d: "d \<in> set (data_connection_types st')" "row_id st d = Some (md_id (dctr_metadata y))" for d
      using rows' [OF d(1)]
    proof
      assume "d = nd"
      then have "row_id st d0 = Some (md_id (dctr_metadata y))" using d(2) nd(2) f(2) by simp
      then have "dct_provider (dctr_resource old) = dct_provider (dctr_resource y)"
        using y f(1) d0(2) unfolding provider_known_def by fastforce
      then show ?thesis using \<open>d = nd\<close> nd(1) by (simp add: r)
    next
      assume "d \<in> set (data_connection_types st) \<and> row_id st d \<noteq> Some ?uid"
      then show ?thesis using y d(2) unfolding provider_known_def by blast
    qed
    then show "provider_known st' y" unfolding provider_known_def path by blast
  qed
qed (use update_data_connection_type_status_eq_Inr [OF u] in auto)

lemma audit_each_spec:
  assumes "reachable (as_meta_store svc)" "\<forall>x \<in> set types. provider_known (as_meta_store svc) x"
    "audit_each w flights i types svc = (Inr (), svc')"
  shows "\<exists>st'. svc' = svc\<lparr>as_meta_store := st'\<rparr> \<and> reachable st'
    \<and> map type_core (data_connection_types st') = map type_core (data_connection_types (as_meta_store svc))
    \<and> (\<forall>d \<in> set (data_connection_types st').
         row_id st' d \<in> Some ` md_id ` dctr_metadata ` set types \<longrightarrow> audited flights d)
    \<and> (\<forall>d \<in> set (data_connection_types st').
         row_id st' d \<notin> Some ` md_id ` dctr_metadata ` set types \<longrightarrow>
         d \<in> set (data_connection_types (as_meta_store svc)))
    \<and> data_connections st' = data_connections (as_meta_store svc)
    \<and> flight_services st' = flight_services (as_meta_store svc)
    \<and> pg_text st' = pg_text (as_meta_store svc)"
  using assms
proof (induction types arbitrary: i svc)
  case Nil
  then show ?case by (intro exI [of _ "as_meta_store svc"]) (auto simp: slift_def)
next
  case (Cons x types)
  let ?st = "as_meta_store svc"
  let ?f = "\<lambda>_. Inr (type_status flights (dct_provider (dctr_resource x)) (rw_clock w i))"
  let ?u = "update_data_connection_type_status (rw_env w i) ?st (md_id (dctr_metadata x)) ?f"
  obtain r st1 where u: "?u = (Inr r, st1)"
    and rest: "audit_each w flights (Suc i) types (svc\<lparr>as_meta_store := st1\<rparr>) = (Inr (), svc')"
    using Cons.prems(3) by (auto simp: result_simps) (metis prod.collapse)
  have known: "provider_known ?st x" using Cons.prems(2) by simp
  note one = audit_one [OF Cons.prems(1) known u]
  have "st1 = snd (run_op (rw_env w i) (UpdateDataConnectionTypeStatus (md_id (dctr_metadata x)) ?f) ?st)"
    using u by simp
  then have reach: "reachable st1"
    using reachable_op [OF Cons.prems(1)] by metis
  obtain st' where st': "svc' = svc\<lparr>as_meta_store := st'\<rparr>" "reachable st'"
    "map type_core (data_connection_types st') = map type_core (data_connection_types st1)"
    "\<forall>d \<in> set (data_connection_types st').
       row_id st' d \<in> Some ` md_id ` dctr_metadata ` set types \<longrightarrow> audited flights d"
    "\<forall>d \<in> set (data_connection_types st').
       row_id st' d \<notin> Some ` md_id ` dctr_metadata ` set types \<longrightarrow> d \<in> set (data_connection_types st1)"
    "data_connections st' = data_connections st1" "flight_services st' = flight_services st1"
    "pg_text st' = pg_text st1"
    using Cons.IH [of "svc\<lparr>as_meta_store := st1\<rparr>" "Suc i"] reach rest Cons.prems(2) one(4) by auto
  have path: "row_id st' d = row_id st1 d" for d
    using st'(8) by (simp add: doc_path_def)
  have "\<forall>d \<in> set (data_connection_types st').
      row_id st' d \<in> Some ` md_id ` dctr_metadata ` set (x # types) \<longrightarrow> audited flights d"
    using st'(4,5) one(2) path by auto
  moreover have "\<forall>d \<in> set (data_connection_types st').
      row_id st' d \<notin> Some ` md_id ` dctr_metadata ` set (x # types) \<longrightarrow> d \<in> set (data_connection_types ?st)"
    using st'(5) one(3) path by auto
  ultimately show ?case
    using st' one by (intro exI [of _ st']) simp
qed

lemma read_row_Inr: "read_row en rm dm dec i d = Inr x \<Longrightarrow> dec d = Some x"
  by (auto simp: read_row_def try_get_data_def result_simps sql_simps)

lemma read_rows_Inr:
  "map (\<lambda>(i, d). read_row en rm dm dec i d) (enumerate n ds) = map Inr xs \<Longrightarrow> map dec ds = map Some xs"
  by (induction ds arbitrary: n xs) (auto simp: Cons_eq_map_conv dest: read_row_Inr)

lemma get_all_flight_services_Inr:
  "get_all_flight_services en st = Inr l \<Longrightarrow>
   map flight_service_resource_from_value (flight_services st) = map Some (items l)"
  by (auto simp: get_all_flight_services_def result_simps sql_simps resource_list_of_def
      dest: read_rows_Inr)

lemma all_types_rows:
  "map (\<lambda>(i, d). rbind (read_connection_type en i d) (\<lambda>dct. Inr (discard_global_tenant g dct)))
     (enumerate n ds) = map Inr xs \<Longrightarrow>
   map (\<lambda>d. map_option (discard_global_tenant g) (data_connection_type_resource_from_value d)) ds = map Some xs"
  by (induction ds arbitrary: n xs) (auto simp: Cons_eq_map_conv result_simps dest: read_row_Inr)

lemma get_all_data_connection_types_Inr:
  "get_all_data_connection_types en st = Inr l \<Longrightarrow>
   map (\<lambda>d. map_option (discard_global_tenant (global_tenant_id st))
          (data_connection_type_resource_from_value d)) (data_connection_types st) = map Some (items l)"
  by (auto simp: get_all_data_connection_types_def result_simps sql_simps resource_list_of_def
      dest: all_types_rows)

lemma listed_provider_known:
  assumes inv: "reachable st" and l: "get_all_data_connection_types en st = Inr l" and x: "x \<in> set (items l)"
  shows "provider_known st x"
  unfolding provider_known_def
proof (intro ballI impI)
  fix d assume d: "d \<in> set (data_connection_types st)" "row_id st d = Some (md_id (dctr_metadata x))"
  have "Some x \<in> set (map (\<lambda>d. map_option (discard_global_tenant (global_tenant_id st))
          (data_connection_type_resource_from_value d)) (data_connection_types st))"
    unfolding get_all_data_connection_types_Inr [OF l] using x by simp
  then obtain d1 y where d1: "d1 \<in> set (data_connection_types st)"
      "data_connection_type_resource_from_value d1 = Some y" "x = discard_global_tenant (global_tenant_id st) y"
    by (auto dest!: sym [of "Some x"])
  then have same: "md_id (dctr_metadata x) = md_id (dctr_metadata y)" "dctr_resource x = dctr_resource y"
    by (simp_all add: discard_global_tenant_def)
  obtain t where "row_tenant st d1 = Some t"
    using types_owned_reachable [OF inv] d1(1) by (auto simp: types_owned_def)
  then have "row_id st d1 = Some (md_id (dctr_metadata x))"
    using connection_type_doc.dec_row_tenant [OF d1(2)] same by simp
  moreover have "unique_ok st DataConnectionTypes (data_connection_types st)"
    using meta_inv_reachable [OF inv] by (simp add: meta_inv_def indexes_ok_def)
  ultimately have "d = d1" using unique_ok_row_id d d1(1) by blast
  then show "\<exists>r. data_connection_type_resource_from_value d = Some r
      \<and> dct_provider (dctr_resource r) = dct_provider (dctr_resource x)"
    using d1(2) same by simp
qed

lemma listed_all_rows:
  assumes inv: "reachable st" and l: "get_all_data_connection_types en st = Inr l"
    and core: "map type_core ds = map type_core (data_connection_types st)" and d: "d \<in> set ds"
    and id: "row_id st d \<noteq> None"
  shows "row_id st d \<in> Some ` md_id ` dctr_metadata ` set (items l)"
proof -
  have "type_core d \<in> set (map type_core (data_connection_types st))"
    using d core by (metis image_eqI list.set_map)
  then obtain d1 where d1: "d1 \<in> set (data_connection_types st)" "type_core d = type_core d1" by auto
  have "map_option (discard_global_tenant (global_tenant_id st)) (data_connection_type_resource_from_value d1)
      \<in> Some ` set (items l)"
    using get_all_data_connection_types_Inr [OF l] d1(1) by (metis (mono_tags, lifting) image_eqI list.set_map)
  then obtain x y where y: "data_connection_type_resource_from_value d1 = Some y"
      "x \<in> set (items l)" "x = discard_global_tenant (global_tenant_id st) y"
    by auto
  then obtain z where z: "data_connection_type_resource_from_value d = Some z"
      "md_id (dctr_metadata z) = md_id (dctr_metadata y)"
    using d1(2) by (auto simp: type_core_def)
  have "row_id st d = Some (md_id (dctr_metadata z))"
    using connection_type_doc.dec_row [OF z(1)] id by auto
  moreover have "md_id (dctr_metadata y) = md_id (dctr_metadata x)"
    using y(3) by (simp add: discard_global_tenant_def)
  ultimately show ?thesis
    using y(2) z(2) by (simp add: image_iff) metis
qed

text \<open>
  A successful audit of the types leaves every type with the status its provider's flight
  service calls for: the formats and, if it is ready, the URL of the first registered service that
  supports the provider, and not ready otherwise.  Identifiers, tenants, creation times and the
  types themselves are as before, in the same order; connections and flight services are untouched.
\<close>

theorem types_audit_postcondition:
  assumes inv: "reachable (as_meta_store svc)"
    and audit: "audit_data_connection_types w i svc = (Inr (), svc')"
  shows "\<exists>st' flights. svc' = svc\<lparr>as_meta_store := st'\<rparr>
    \<and> map flight_service_resource_from_value (flight_services (as_meta_store svc)) = map Some flights
    \<and> list_all (audited flights) (data_connection_types st')
    \<and> map type_core (data_connection_types st') = map type_core (data_connection_types (as_meta_store svc))
    \<and> data_connections st' = data_connections (as_meta_store svc)
    \<and> flight_services st' = flight_services (as_meta_store svc)"
proof -
  obtain flights types where
    fl: "get_all_flight_services (rw_env w i) (as_meta_store svc) = Inr flights"
    and ty: "get_all_data_connection_types (rw_env w (i + 1)) (as_meta_store svc) = Inr types"
    and each: "audit_each w (items flights) (i + 2) (items types) svc = (Inr (), svc')"
    using audit by (auto simp: audit_data_connection_types_def result_simps)
  obtain st' where st': "svc' = svc\<lparr>as_meta_store := st'\<rparr>" "reachable st'"
    "map type_core (data_connection_types st') = map type_core (data_connection_types (as_meta_store svc))"
    "\<forall>d \<in> set (data_connection_types st').
       row_id st' d \<in> Some ` md_id ` dctr_metadata ` set (items types) \<longrightarrow> audited (items flights) d"
    "data_connections st' = data_connections (as_meta_store svc)"
    "flight_services st' = flight_services (as_meta_store svc)"
    "pg_text st' = pg_text (as_meta_store svc)"
    using audit_each_spec [OF inv _ each] listed_provider_known [OF inv ty] by blast
  have "audited (items flights) d" if d: "d \<in> set (data_connection_types st')" for d
  proof -
    obtain t where t: "row_tenant st' d = Some t"
      using types_owned_reachable [OF st'(2)] d by (auto simp: types_owned_def)
    obtain r where "data_connection_type_resource_from_value d = Some r"
      using meta_inv_reachable [OF st'(2)] d by (auto simp: meta_inv_def docs_ok_def list_all_iff row_ok.simps)
    then have "row_id st' d \<noteq> None"
      using connection_type_doc.dec_row_tenant t by auto
    moreover have "row_id st' d = row_id (as_meta_store svc) d"
      using st'(7) by (simp add: doc_path_def)
    ultimately show ?thesis
      using st'(4) d listed_all_rows [OF inv ty st'(3) d] by auto
  qed
  then show ?thesis
    using st' get_all_flight_services_Inr [OF fl] by (auto simp: list_all_iff)
qed

section \<open>Instances\<close>

definition sample_flight :: flight_service where
  "sample_flight =
     \<lparr>fs_name = ''flight'', fs_namespace = ''hub'', fs_external_url = ''grpc://flight.example'',
      fs_internal_url = ''http://flight'', fs_supported_connectors = [''postgres''],
      fs_connector_capabilities = [(''postgres'', [''tabular'', ''video''])],
      fs_status = \<lparr>fss_ready = True\<rparr>\<rparr>"

definition sample_store :: pg_meta_store where
  "sample_store = snd (create_flight_service (calm\<lparr>new_uuid := ''f1''\<rparr>) store_with_connection sample_flight)"

lemma reachable_sample_store: "reachable sample_store"
  using reachable_op [OF reachable_with_connection, where oper = "CreateFlightService sample_flight"]
  by (simp add: sample_store_def)

definition sample_world :: "(cluster, bin_batch) rest_world" where
  "sample_world =
     \<lparr>rw_kube = memory_api, rw_review = sample_api, rw_debug = debug_strings, rw_ipc = sample_ipc,
      rw_net = sample_net, rw_merge = \<lambda>v p. v, rw_serde_error = \<lambda>_. ''invalid value'',
      rw_extract_error = \<lambda>_. ''invalid body'', rw_query_error = ''missing field'',
      rw_header_value_ok = list_all visible_ascii, rw_header_error = no_content,
      rw_env = \<lambda>_. calm,
      rw_clock = \<lambda>_. ''2025-06-01T00:00:00Z''\<rparr>"

definition sample_rest :: "cluster api_service" where
  "sample_rest = new_api_service sample_store (svc_cluster sample_service) None (Some ''/token'') ''global''"

lemma sample_verdict:
  "audit_verdict sample_world ''acme'' ''u1'' sample_rest
   = Inr (3, data_connection_state.Ready, ''Connection check successful'', Inr ())"
  by code_simp

theorem audit_records_verdict_witness:
  "\<exists>svc' old. audit_data_connection sample_world ''acme'' ''u1'' sample_rest = (Inr (), svc')
     \<and> get_data_connection calm (as_meta_store sample_rest) ''acme'' ''u1'' = Inr old
     \<and> (\<exists>new. get_data_connection calm (as_meta_store svc') ''acme'' ''u1'' = Inr new
          \<and> st_state (dcr_status new) = data_connection_state.Ready \<and> dcr_resource new = dcr_resource old)"
proof -
  let ?a = "audit_data_connection sample_world ''acme'' ''u1'' sample_rest"
  have "is_ok (fst ?a)" by code_simp
  then obtain svc' where a: "?a = (Inr (), svc')"
    by (cases ?a) (auto simp: is_ok_iff)
  from audit_records_verdict [OF _ a, of calm] a show ?thesis
    by (auto simp: sample_verdict calm_def)
qed

theorem types_audit_postcondition_witness:
  "\<exists>svc' flights. audit_data_connection_types sample_world 0 sample_rest = (Inr (), svc')
     \<and> list_all (audited flights) (data_connection_types (as_meta_store svc'))
     \<and> provider_flight flights ''postgres'' = ([Tabular], Some ''grpc://flight.example'')"
proof -
  let ?a = "audit_data_connection_types sample_world 0 sample_rest"
  have "is_ok (fst ?a)" by code_simp
  then obtain svc' where a: "?a = (Inr (), svc')"
    by (cases ?a) (auto simp: is_ok_iff)
  have "reachable (as_meta_store sample_rest)"
    using reachable_sample_store by (simp add: sample_rest_def new_api_service_def)
  from types_audit_postcondition [OF this a] obtain flights where
    fl: "map flight_service_resource_from_value (flight_services (as_meta_store sample_rest)) = map Some flights"
      "list_all (audited flights) (data_connection_types (as_meta_store svc'))"
    by auto
  have "map (map_option (\<lambda>fl. provider_flight [fl] ''postgres''))
      (map flight_service_resource_from_value (flight_services (as_meta_store sample_rest)))
      = [Some ([Tabular], Some ''grpc://flight.example'')]"
    by code_simp
  then have "\<exists>f. flights = [f] \<and> provider_flight [f] ''postgres'' = ([Tabular], Some ''grpc://flight.example'')"
    unfolding fl(1) by (auto simp: map_eq_Cons_conv)
  then show ?thesis using a fl(2) by auto
qed

end
