(* ===== verification/Rest_Api.thy ===== *)
theory Rest_Api
  imports Status_Audit
begin

text \<open>
  The endpoints of the REST service (\<open>services/rest/src/rest/endpoints.rs\<close>), the request bodies
  (\<open>rest/mod.rs\<close>) and the routes (\<open>main.rs\<close>).  A handler is a computation on the state of the
  service that answers with a response or an error response; call number \<open>i\<close> of a handler to the
  database runs in environment \<open>i\<close>.
\<close>

section \<open>Request bodies\<close>

record inline_creds =
  ic_secret :: string
  ic_properties :: "string hmap"

record data_connection_with_creds =
  dcc_name :: string
  dcc_data_connection_type_id :: string
  dcc_format :: data_format
  dcc_credentials :: inline_creds
  dcc_properties :: "string hmap"

definition to_data_connection :: "data_connection_with_creds \<Rightarrow> data_connection" where
  "to_data_connection c =
     \<lparr>dc_name = dcc_name c, dc_data_connection_type_id = dcc_data_connection_type_id c,
      dc_format = dcc_format c, dc_credentials_ref = \<lparr>cr_secret = ic_secret (dcc_credentials c)\<rparr>,
      dc_properties = dcc_properties c\<rparr>"

datatype create_connection_request =
    DataConnectionWithSecretRef data_connection
  | DataConnectionWithInlineCreds data_connection_with_creds

definition inline_creds_from_value :: "json \<Rightarrow> inline_creds option" where
  "inline_creds_from_value v = do {
     f \<leftarrow> struct_view [(''secret'', False), (''properties'', False)] v;
     n \<leftarrow> field_req dec_string f ''secret'';
     p \<leftarrow> field_req (dec_map dec_string) f ''properties'';
     Some \<lparr>ic_secret = n, ic_properties = p\<rparr> }"

definition with_creds_from_value :: "json \<Rightarrow> data_connection_with_creds option" where
  "with_creds_from_value v = do {
     f \<leftarrow> struct_view [(''name'', False), (''data_connection_type_id'', False), (''format'', False),
                      (''credentials'', False), (''properties'', False)] v;
     n \<leftarrow> field_req dec_string f ''name'';
     t \<leftarrow> field_req dec_string f ''data_connection_type_id'';
     fm \<leftarrow> field_req data_format_from_value f ''format'';
     c \<leftarrow> field_req inline_creds_from_value f ''credentials'';
     p \<leftarrow> field_req (dec_map dec_string) f ''properties'';
     Some \<lparr>dcc_name = n, dcc_data_connection_type_id = t, dcc_format = fm, dcc_credentials = c,
           dcc_properties = p\<rparr> }"

definition test_credentials_from_value :: "json \<Rightarrow> test_credentials_req option" where
  "test_credentials_from_value v = do {
     f \<leftarrow> struct_view [(''data_connection_type_id'', False), (''credentials'', False)] v;
     t \<leftarrow> field_req dec_string f ''data_connection_type_id'';
     c \<leftarrow> field_req (dec_map dec_string) f ''credentials'';
     Some \<lparr>tc_data_connection_type_id = t, tc_credentials = c\<rparr> }"

text \<open>\<open>#[serde(untagged)]\<close>: the first variant that deserialises.\<close>

definition create_connection_request_from_value :: "json \<Rightarrow> create_connection_request option" where
  "create_connection_request_from_value v =
     (case data_connection_from_value v of
        Some c \<Rightarrow> Some (DataConnectionWithSecretRef c)
      | None \<Rightarrow> map_option DataConnectionWithInlineCreds (with_creds_from_value v))"

section \<open>Building blocks\<close>

type_synonym 'c handler = "'c api_service \<Rightarrow> (rest_error_response + http_response) \<times> 'c api_service"

text \<open>A read of the metadata store with \<open>?\<close>, and a plain answer.\<close>

definition store_read ::
    "(pg_meta_store \<Rightarrow> meta_store_error + 'a) \<Rightarrow> 'c api_service \<Rightarrow> (rest_error_response + 'a) \<times> 'c api_service" where
  "store_read f = slift (\<lambda>svc. map_err from_meta_store_error (f (as_meta_store svc)))"

definition store_call ::
    "(pg_meta_store \<Rightarrow> (meta_store_error + 'a) \<times> pg_meta_store) \<Rightarrow> 'c api_service \<Rightarrow>
     (rest_error_response + 'a) \<times> 'c api_service" where
  "store_call f = smap_err from_meta_store_error (on_store f)"

definition answer :: "http_response \<Rightarrow> 'c handler" where
  "answer resp = slift (\<lambda>_. Inr resp)"

definition authorize_secret_ref ::
    "('c, 'b) rest_world \<Rightarrow> api_context \<Rightarrow> string \<Rightarrow> 'c api_service \<Rightarrow>
     (rest_error_response + unit) \<times> 'c api_service" where
  "authorize_secret_ref w ctx secret_name svc =
     (case as_authorizer svc of
        None \<Rightarrow> (Inr (), svc)
      | Some authorizer \<Rightarrow>
          (case ctx_identity ctx of
             None \<Rightarrow> (Inl (from_auth_error (Unauthenticated ''no authenticated identity on request'')), svc)
           | Some identity \<Rightarrow>
               (let (r, c') = check_secret_access (rw_debug w) (rw_review w) authorizer identity
                                (ctx_tenant_id ctx) secret_name
                in (map_err from_auth_error r, svc\<lparr>as_authorizer := Some c'\<rparr>))))"

definition default_secret_labels :: "string hmap" where
  "default_secret_labels = [(''dataconnecthub.opendatahub.io/attached'', ''true'')]"

definition audit_types :: "('c, 'b) rest_world \<Rightarrow> nat \<Rightarrow> 'c api_service \<Rightarrow> (rest_error_response + unit) \<times> 'c api_service" where
  "audit_types w i = smap_err from_validation_error (audit_data_connection_types w i)"

section \<open>Connections\<close>

definition health :: "'c handler" where
  "health = answer (json_response 200 (JObject [(''service'', JString ''Data Connect Hub'')]))"

definition list_connections :: "('c, 'b) rest_world \<Rightarrow> api_context \<Rightarrow> 'c handler" where
  "list_connections w ctx =
     sbind (store_read (\<lambda>st. get_data_connections (rw_env w 0) st (ctx_tenant_id ctx))) (\<lambda>connections.
     answer (json_response 200 (resource_list_to_value data_connection_resource_to_value connections)))"

definition get_connection :: "('c, 'b) rest_world \<Rightarrow> api_context \<Rightarrow> string \<Rightarrow> 'c handler" where
  "get_connection w ctx uid =
     sbind (store_read (\<lambda>st. get_data_connection (rw_env w 0) st (ctx_tenant_id ctx) uid)) (\<lambda>connection.
     answer (json_response 200 (data_connection_resource_to_value connection)))"

definition new_secret :: "string \<Rightarrow> data_connection_with_creds \<Rightarrow> secret" where
  "new_secret tenant_id c =
     \<lparr>sec_name = ic_secret (dcc_credentials c), sec_namespace = tenant_id,
      sec_properties = ic_properties (dcc_credentials c), sec_labels = Some default_secret_labels,
      sec_annotations = Some []\<rparr>"

definition create_connection_with_creds ::
    "('c, 'b) rest_world \<Rightarrow> string \<Rightarrow> data_connection_with_creds \<Rightarrow> 'c handler" where
  "create_connection_with_creds w tenant_id dc_creds =
     sbind (store_read (\<lambda>st. get_data_connection_type (rw_env w 0) st tenant_id
              (dcc_data_connection_type_id dc_creds))) (\<lambda>dct.
     sbind (slift (\<lambda>_. map_err
              (\<lambda>e. from_validation_error (CredentialsCheckFailed (data_connection_type_error_to_string e)))
              (check_credentials_schema (dctr_resource dct) (ic_properties (dcc_credentials dc_creds))))) (\<lambda>_.
     sbind (smap_err from_secret_store_error
              (on_secrets (\<lambda>c. create_secret (rw_kube w) c (new_secret tenant_id dc_creds) False))) (\<lambda>_ svc.
     case on_store (\<lambda>st. create_data_connection (rw_env w 1) st tenant_id (to_data_connection dc_creds)) svc of
       (Inr connection, svc') \<Rightarrow>
         (Inr (json_response 201 (data_connection_resource_to_value connection)), svc')
     | (Inl e, svc') \<Rightarrow>
         (Inl (from_meta_store_error e),
          snd (on_secrets (\<lambda>c. delete_secret (rw_kube w) c tenant_id (sec_name (new_secret tenant_id dc_creds))) svc')))))"

definition create_connection ::
    "('c, 'b) rest_world \<Rightarrow> api_context \<Rightarrow> create_connection_request \<Rightarrow> 'c handler" where
  "create_connection w ctx body =
     (case body of
        DataConnectionWithInlineCreds dc_creds \<Rightarrow> create_connection_with_creds w (ctx_tenant_id ctx) dc_creds
      | DataConnectionWithSecretRef connection \<Rightarrow>
          sbind (store_call (\<lambda>st. create_data_connection (rw_env w 0) st (ctx_tenant_id ctx) connection)) (\<lambda>res.
          answer (json_response 201 (data_connection_resource_to_value res))))"

text \<open>\<open>json_patch::merge\<close> on the serialised value, then back.\<close>

definition merge_patch ::
    "('c, 'b) rest_world \<Rightarrow> ('a \<Rightarrow> json) \<Rightarrow> (json \<Rightarrow> 'a option) \<Rightarrow> json \<Rightarrow> 'a \<Rightarrow> meta_store_error + 'a" where
  "merge_patch w enc dec patch x =
     (let v = rw_merge w (enc x) patch in ok_or (Deserialization (rw_serde_error w v)) (dec v))"

definition patch_connection :: "('c, 'b) rest_world \<Rightarrow> api_context \<Rightarrow> string \<Rightarrow> json \<Rightarrow> 'c handler" where
  "patch_connection w ctx uid patch =
     sbind (store_call (\<lambda>st. update_data_connection (rw_env w 0) st (ctx_tenant_id ctx) uid
              (merge_patch w data_connection_to_value data_connection_from_value patch))) (\<lambda>connection.
     answer (json_response 200 (data_connection_resource_to_value connection)))"

definition delete_connection :: "('c, 'b) rest_world \<Rightarrow> api_context \<Rightarrow> string \<Rightarrow> 'c handler" where
  "delete_connection w ctx uid =
     sbind (store_call (\<lambda>st. delete_data_connection (rw_env w 0) st (ctx_tenant_id ctx) uid)) (\<lambda>_.
     answer no_content)"

section \<open>Connection types\<close>

definition list_connection_types :: "('c, 'b) rest_world \<Rightarrow> api_context \<Rightarrow> 'c handler" where
  "list_connection_types w ctx =
     sbind (store_read (\<lambda>st. get_data_connection_types (rw_env w 0) st (ctx_tenant_id ctx))) (\<lambda>types.
     answer (json_response 200 (resource_list_to_value data_connection_type_resource_to_value types)))"

definition get_connection_type :: "('c, 'b) rest_world \<Rightarrow> api_context \<Rightarrow> string \<Rightarrow> 'c handler" where
  "get_connection_type w ctx uid =
     sbind (store_read (\<lambda>st. get_data_connection_type (rw_env w 0) st (ctx_tenant_id ctx) uid)) (\<lambda>dct.
     answer (json_response 200 (data_connection_type_resource_to_value dct)))"

definition validate_type :: "data_connection_type \<Rightarrow> meta_store_error + unit" where
  "validate_type dct =
     map_err (\<lambda>e. MetaInvalidRequest (data_connection_type_error_to_string e))
       (rbind (validate_label dct) (\<lambda>_. validate_tags dct))"

definition create_connection_type ::
    "('c, 'b) rest_world \<Rightarrow> api_context \<Rightarrow> data_connection_type \<Rightarrow> 'c handler" where
  "create_connection_type w ctx dct =
     sbind (slift (\<lambda>_. map_err from_meta_store_error (validate_type dct))) (\<lambda>_.
     sbind (store_call (\<lambda>st. create_data_connection_type (rw_env w 0) st (ctx_tenant_id ctx) dct)) (\<lambda>res.
     sbind (audit_types w 1) (\<lambda>_.
     answer (json_response 201 (data_connection_type_resource_to_value res)))))"

definition patch_connection_type :: "('c, 'b) rest_world \<Rightarrow> api_context \<Rightarrow> string \<Rightarrow> json \<Rightarrow> 'c handler" where
  "patch_connection_type w ctx uid patch =
     sbind (store_call (\<lambda>st. update_data_connection_type (rw_env w 0) st (ctx_tenant_id ctx) uid (\<lambda>ct.
              rbind (merge_patch w data_connection_type_to_value data_connection_type_from_value patch ct)
                (\<lambda>updated. rbind (validate_type updated) (\<lambda>_. Inr updated))))) (\<lambda>res.
     sbind (audit_types w 1) (\<lambda>_.
     answer (json_response 200 (data_connection_type_resource_to_value res))))"

definition delete_connection_type :: "('c, 'b) rest_world \<Rightarrow> api_context \<Rightarrow> string \<Rightarrow> 'c handler" where
  "delete_connection_type w ctx uid =
     sbind (store_call (\<lambda>st. delete_data_connection_type (rw_env w 0) st (ctx_tenant_id ctx) uid)) (\<lambda>_.
     answer no_content)"

section \<open>Downloads\<close>

definition flight_service_by_connection ::
    "('c, 'b) rest_world \<Rightarrow> string \<Rightarrow> string \<Rightarrow> pg_meta_store \<Rightarrow> meta_store_error + flight_service_resource" where
  "flight_service_by_connection w tenant_id data_connection_id st =
     rbind (get_data_connection (rw_env w 0) st tenant_id data_connection_id) (\<lambda>dc.
     rbind (get_data_connection_type (rw_env w 1) st tenant_id (dc_data_connection_type_id (dcr_resource dc))) (\<lambda>dct.
     get_flight_service_by_connector (rw_env w 2) st (dct_provider (dctr_resource dct))))"

fun chunk_of_batch :: "grpc_status + bin_batch \<Rightarrow> body_chunk" where
  "chunk_of_batch (Inr batch) =
     (case map_of batch ''data'' of
        None \<Rightarrow> ChunkError (''missing '' @ quoted ''data'' @ '' column in response'')
      | Some (BinaryColumn vs) \<Rightarrow> Chunk (concat vs)
      | Some NotBinary \<Rightarrow> ChunkPanic)"
| "chunk_of_batch (Inl e) = ChunkError ''binary stream read failed''"

definition attachment :: "string \<Rightarrow> string" where
  "attachment path =
     ''attachment; filename='' @ [CHR 0x22] @ last (split_at (CHR ''/'') path) @ [CHR 0x22]"

definition get_binary_data :: "('c, bin_batch) rest_world \<Rightarrow> api_context \<Rightarrow> string \<Rightarrow> string \<Rightarrow> 'c handler" where
  "get_binary_data w ctx uid path =
     sbind (store_read (flight_service_by_connection w (ctx_tenant_id ctx) uid)) (\<lambda>flight.
     sbind (slift (\<lambda>svc. map_err from_tonic_status
              (download_binary (rw_net w) (flight_client_for svc (fs_internal_url (fsr_resource flight)))
                 (ctx_tenant_id ctx) uid path))) (\<lambda>batch_stream.
     answer (if rw_header_value_ok w (attachment path)
             then \<lparr>http_status = 200,
                   http_headers = [(''content-type'', ''application/octet-stream''),
                                   (''content-disposition'', attachment path)],
                   http_body = StreamBody (map chunk_of_batch batch_stream)\<rparr>
             else rw_header_error w)))"

section \<open>Flight services\<close>

text \<open>Registration may panic on a malformed answer of the flight service: \<open>None\<close>.\<close>

definition registered_flight :: "supported_connector list \<Rightarrow> flight_service \<Rightarrow> flight_service" where
  "registered_flight connectors flight =
     flight\<lparr>fs_connector_capabilities :=
              hextend [] (map (\<lambda>c. (scn_name c, scn_supported_formats c)) connectors),
            fs_supported_connectors := map scn_name connectors\<rparr>"

definition existent_connectors :: "flight_service_resource list \<Rightarrow> string set" where
  "existent_connectors fls = set (concat (map (\<lambda>fs. fs_supported_connectors (fsr_resource fs)) fls))"

definition register_flight ::
    "('c, 'b) rest_world \<Rightarrow> supported_connector list \<Rightarrow> flight_service \<Rightarrow> 'c handler" where
  "register_flight w connectors flight =
     sbind (store_read (get_all_flight_services (rw_env w 0))) (\<lambda>flight_services.
     let intersection = filter (\<lambda>n. n \<in> existent_connectors (items flight_services)) (map scn_name connectors)
     in if intersection \<noteq> [] then
          slift (\<lambda>_. Inl (from_validation_error
            (ConnectorsAlreadyExists (''connectors already exists: '' @ rw_debug w intersection))))
        else
          sbind (store_call (\<lambda>st. Meta_Store.create_flight_service (rw_env w 1) st
                   (registered_flight connectors flight))) (\<lambda>res.
          sbind (audit_types w 2) (\<lambda>_.
          answer (json_response 201 (flight_service_resource_to_value res)))))"

definition create_flight_service ::
    "('c, 'b) rest_world \<Rightarrow> flight_service \<Rightarrow> 'c api_service \<Rightarrow>
     ((rest_error_response + http_response) \<times> 'c api_service) option" where
  "create_flight_service w flight svc =
     (case get_supported_connectors (rw_ipc w) (rw_net w) (flight_client_for svc (fs_internal_url flight))
             (as_global_tenant_id svc) of
        None \<Rightarrow> None
      | Some (Inl e) \<Rightarrow> Some (Inl (from_tonic_status e), svc)
      | Some (Inr connectors) \<Rightarrow> Some (register_flight w connectors flight svc))"

definition delete_flight_service :: "('c, 'b) rest_world \<Rightarrow> string \<Rightarrow> 'c handler" where
  "delete_flight_service w uid =
     sbind (store_call (\<lambda>st. Meta_Store.delete_flight_service (rw_env w 0) st uid)) (\<lambda>_.
     sbind (audit_types w 1) (\<lambda>_.
     answer no_content))"

definition patch_flight_service :: "('c, 'b) rest_world \<Rightarrow> string \<Rightarrow> json \<Rightarrow> 'c handler" where
  "patch_flight_service w uid patch =
     sbind (store_call (\<lambda>st. update_flight_service (rw_env w 0) st uid
              (merge_patch w flight_service_to_value flight_service_from_value patch))) (\<lambda>_.
     sbind (audit_types w 1) (\<lambda>_.
     answer no_content))"

section \<open>Checks and exports\<close>

definition check_existent_connection :: "('c, 'b) rest_world \<Rightarrow> api_context \<Rightarrow> string \<Rightarrow> 'c handler" where
  "check_existent_connection w ctx uid =
     sbind (smap_err from_validation_error (audit_data_connection w (ctx_tenant_id ctx) uid)) (\<lambda>_.
     answer no_content)"

definition test_credentials_endpoint ::
    "('c, 'b) rest_world \<Rightarrow> api_context \<Rightarrow> test_credentials_req \<Rightarrow> 'c handler" where
  "test_credentials_endpoint w ctx body =
     sbind (store_read (\<lambda>st. get_data_connection_type (rw_env w 0) st (ctx_tenant_id ctx)
              (tc_data_connection_type_id body))) (\<lambda>dct.
     sbind (store_read (\<lambda>st. get_flight_service_by_connector (rw_env w 1) st
              (dct_provider (dctr_resource dct)))) (\<lambda>flight.
     sbind (slift (\<lambda>svc. map_err (\<lambda>e. from_validation_error (ConnectionCheckFailed (status_message e)))
              (test_credentials (rw_ipc w) (rw_net w)
                 (flight_client_for svc (fs_internal_url (fsr_resource flight))) (ctx_tenant_id ctx) body))) (\<lambda>_.
     answer no_content)))"

definition export_properties :: "data_connection_resource \<Rightarrow> string hmap \<Rightarrow> string hmap" where
  "export_properties connection existing =
     hextend
       (hinsert ''data_connection.format'' (data_format_to_string (dc_format (dcr_resource connection)))
         (hinsert ''data_connection.name'' (dc_name (dcr_resource connection))
           (hinsert ''data_connection_type.id'' (dc_data_connection_type_id (dcr_resource connection))
             (hinsert ''data_connection.id'' (md_id (dcr_metadata connection))
               (hextend [] existing)))))
       (map (\<lambda>(k, v). (''data_connection.properties.'' @ k, v)) (dc_properties (dcr_resource connection)))"

definition export_connection :: "('c, 'b) rest_world \<Rightarrow> api_context \<Rightarrow> string \<Rightarrow> string \<Rightarrow> 'c handler" where
  "export_connection w ctx uid secret_name =
     sbind (store_read (\<lambda>st. get_data_connection (rw_env w 0) st (ctx_tenant_id ctx) uid)) (\<lambda>connection.
     let source = cr_secret (dc_credentials_ref (dcr_resource connection)) in
     if source = [] then slift (\<lambda>_. Inl (from_validation_error InvalidSecret))
     else
     sbind (authorize_secret_ref w ctx source) (\<lambda>_.
     sbind (slift (\<lambda>svc. map_err from_secret_store_error
              (get_secret (rw_kube w) (as_secret_store svc) (ctx_tenant_id ctx) source))) (\<lambda>existing.
     sbind (smap_err from_secret_store_error (on_secrets (\<lambda>c. create_secret (rw_kube w) c
              \<lparr>sec_name = secret_name, sec_namespace = ctx_tenant_id ctx,
               sec_properties = export_properties connection (sec_properties existing),
               sec_labels = Some default_secret_labels, sec_annotations = None\<rparr> True))) (\<lambda>_.
     answer no_content))))"

definition not_found :: "'c handler" where
  "not_found = slift (\<lambda>_. Inl (from_endpoint_error PathNotFound))"

section \<open>Routes\<close>

text \<open>
  A request with its path as segments, the decoded query, and the body as JSON, or the message of
  the parser.  Every route of the scope is a resource of its own with the method as guard, so a
  known path with another method is not found; inside the scope the headers are validated first.
\<close>

record http_call =
  hc_method :: string
  hc_segments :: "string list"
  hc_query :: "string hmap"
  hc_headers :: headers
  hc_json :: "string + json"

definition with_body ::
    "('c, 'b) rest_world \<Rightarrow> http_call \<Rightarrow> (json \<Rightarrow> 'a option) \<Rightarrow> ('a \<Rightarrow> 'c handler) \<Rightarrow> 'c handler" where
  "with_body w req dec f =
     (case hc_json req of
        Inl msg \<Rightarrow> slift (\<lambda>_. Inl (extraction_error ''invalid_json'' msg))
      | Inr v \<Rightarrow> (case dec v of
            None \<Rightarrow> slift (\<lambda>_. Inl (extraction_error ''invalid_json'' (rw_extract_error w v)))
          | Some x \<Rightarrow> f x))"

definition type_routes :: "('c, 'b) rest_world \<Rightarrow> api_context \<Rightarrow> http_call \<Rightarrow> string list \<Rightarrow> 'c handler option" where
  "type_routes w ctx req path =
     (case path of
        [] \<Rightarrow>
          if hc_method req = ''GET'' then Some (list_connection_types w ctx)
          else if hc_method req = ''POST'' then
            Some (with_body w req data_connection_type_from_value (create_connection_type w ctx))
          else None
      | [uid] \<Rightarrow>
          if uid = [] then None
          else if hc_method req = ''GET'' then Some (get_connection_type w ctx uid)
          else if hc_method req = ''PATCH'' then Some (with_body w req Some (patch_connection_type w ctx uid))
          else if hc_method req = ''DELETE'' then Some (delete_connection_type w ctx uid)
          else None
      | _ \<Rightarrow> None)"

definition connection_routes ::
    "('c, bin_batch) rest_world \<Rightarrow> api_context \<Rightarrow> http_call \<Rightarrow> string list \<Rightarrow> 'c handler option" where
  "connection_routes w ctx req path =
     (case path of
        [] \<Rightarrow>
          if hc_method req = ''GET'' then Some (list_connections w ctx)
          else if hc_method req = ''POST'' then
            Some (with_body w req create_connection_request_from_value (create_connection w ctx))
          else None
      | uid # rest \<Rightarrow>
          if uid = [] then None
          else if rest = [] then
            if hc_method req = ''GET'' then Some (get_connection w ctx uid)
            else if hc_method req = ''PATCH'' then Some (with_body w req Some (patch_connection w ctx uid))
            else if hc_method req = ''DELETE'' then Some (delete_connection w ctx uid)
            else None
          else if rest = [''readiness''] \<and> hc_method req = ''POST'' then
            Some (check_existent_connection w ctx uid)
          else if rest = [''binary''] \<and> hc_method req = ''GET'' then
            Some (case hget (hc_query req) ''path'' of
                    None \<Rightarrow> slift (\<lambda>_. Inl (extraction_error ''invalid_query'' (rw_query_error w)))
                  | Some p \<Rightarrow> get_binary_data w ctx uid p)
          else (case rest of
                  [e, s, secret_name] \<Rightarrow>
                    if e = ''exports'' \<and> s = ''secrets'' \<and> secret_name \<noteq> [] \<and> hc_method req = ''PUT''
                    then Some (export_connection w ctx uid secret_name) else None
                | _ \<Rightarrow> None))"

text \<open>The flight routes, one of which may panic; every other handler returns.\<close>

type_synonym 'c endpoint = "'c api_service \<Rightarrow> ((rest_error_response + http_response) \<times> 'c api_service) option"

definition returns :: "'c handler \<Rightarrow> 'c endpoint" where
  "returns f svc = Some (f svc)"

definition flight_routes :: "('c, 'b) rest_world \<Rightarrow> http_call \<Rightarrow> string list \<Rightarrow> 'c endpoint option" where
  "flight_routes w req path =
     (case path of
        [] \<Rightarrow>
          if hc_method req = ''POST'' then
            Some (case hc_json req of
                    Inr v \<Rightarrow> (case flight_service_from_value v of
                        Some flight \<Rightarrow> create_flight_service w flight
                      | None \<Rightarrow> returns (slift (\<lambda>_. Inl (extraction_error ''invalid_json'' (rw_extract_error w v)))))
                  | Inl msg \<Rightarrow> returns (slift (\<lambda>_. Inl (extraction_error ''invalid_json'' msg))))
          else None
      | [uid] \<Rightarrow>
          if uid = [] then None
          else if hc_method req = ''DELETE'' then Some (returns (delete_flight_service w uid))
          else if hc_method req = ''PATCH'' then Some (returns (with_body w req Some (patch_flight_service w uid)))
          else None
      | _ \<Rightarrow> None)"

definition data_routes ::
    "('c, bin_batch) rest_world \<Rightarrow> api_context \<Rightarrow> http_call \<Rightarrow> string list \<Rightarrow> 'c endpoint option" where
  "data_routes w ctx req path =
     (case path of
        [] \<Rightarrow> None
      | s # rest \<Rightarrow>
          if s = ''connection-types'' then map_option returns (type_routes w ctx req rest)
          else if s = ''connections'' then map_option returns (connection_routes w ctx req rest)
          else if s = ''flights'' then flight_routes w req rest
          else if s = ''test'' \<and> rest = [''credentials''] \<and> hc_method req = ''POST'' then
            Some (returns (with_body w req test_credentials_from_value (test_credentials_endpoint w ctx)))
          else None)"

definition respond :: "((rest_error_response + http_response) \<times> 'c api_service) \<Rightarrow> http_response \<times> 'c api_service" where
  "respond out = (case out of
     (Inl e, svc) \<Rightarrow> (error_response e, svc)
   | (Inr resp, svc) \<Rightarrow> (resp, svc))"

definition api_routes ::
    "('c, bin_batch) rest_world \<Rightarrow> http_call \<Rightarrow> 'c api_service \<Rightarrow> (http_response \<times> 'c api_service) option" where
  "api_routes w req svc =
     (case hc_segments req of
        a # v # d # path \<Rightarrow>
          if a = ''api'' \<and> v = ''v1alpha1'' \<and> d = ''data'' then
            (case validate_headers (hc_headers req) of
               Inl resp \<Rightarrow> Some (resp, svc)
             | Inr ctx \<Rightarrow> (case data_routes w ctx req path of
                   None \<Rightarrow> Some (respond (not_found svc))
                 | Some f \<Rightarrow> map_option respond (f svc)))
          else Some (respond (not_found svc))
      | path \<Rightarrow>
          Some (respond (if path = [''health''] \<and> hc_method req = ''GET'' then health svc else not_found svc)))"

section \<open>What requests keep\<close>

definition keeps :: "('s \<Rightarrow> 's \<Rightarrow> bool) \<Rightarrow> ('s \<Rightarrow> 'r \<times> 's) \<Rightarrow> bool" where
  "keeps R f \<longleftrightarrow> (\<forall>s. R s (snd (f s)))"

lemma keeps_smap_err: "keeps R m \<Longrightarrow> keeps R (smap_err f m)"
  by (simp add: keeps_def)

text \<open>
  A relation between the states before and after that holds for every request of a tenant: it is
  reflexive and transitive, and the operations of the metadata store, the changes of the
  authorisation cache, and creating and deleting secrets in the tenant's namespace keep it.
\<close>

locale request_relation =
  fixes R :: "'c api_service \<Rightarrow> 'c api_service \<Rightarrow> bool" and api :: "'c kube_api" and t :: string
  assumes refl: "R svc svc"
    and trans: "R svc svc' \<Longrightarrow> R svc' svc'' \<Longrightarrow> R svc svc''"
    and store: "R svc (svc\<lparr>as_meta_store := snd (run_op en oper (as_meta_store svc))\<rparr>)"
    and cache: "R svc (svc\<lparr>as_authorizer := c\<rparr>)"
    and created: "sec_namespace s = t \<Longrightarrow> overwrite \<longrightarrow> distinct (map fst (sec_properties s)) \<Longrightarrow>
      R svc (svc\<lparr>as_secret_store := snd (create_secret api (as_secret_store svc) s overwrite)\<rparr>)"
    and deleted: "R svc (svc\<lparr>as_secret_store := snd (delete_secret api (as_secret_store svc) t n)\<rparr>)"
begin

lemma keeps_slift: "keeps R (slift f)"
  by (simp add: keeps_def refl)

lemma keeps_answer: "keeps R (answer resp)"
  by (simp add: answer_def keeps_slift)

lemma keeps_store_read: "keeps R (store_read f)"
  by (simp add: store_read_def keeps_slift)

lemma keeps_sbind:
  assumes "keeps R m" "\<And>a. keeps R (f a)"
  shows "keeps R (sbind m f)"
  unfolding keeps_def
proof
  fix svc
  obtain r svc' where m: "m svc = (r, svc')" by fastforce
  then have "R svc svc'" using assms(1) by (metis keeps_def snd_conv)
  moreover have "R svc' (snd (f a svc'))" for a using assms(2) by (simp add: keeps_def)
  ultimately show "R svc (snd (sbind m f svc))"
    using m trans by (cases r) (auto simp: sbind_def)
qed

lemma keeps_on_store:
  assumes "\<And>st. \<exists>en oper. snd (f st) = snd (run_op en oper st)"
  shows "keeps R (on_store f)"
  unfolding keeps_def
proof
  fix svc :: "'c api_service"
  obtain en oper where "snd (f (as_meta_store svc)) = snd (run_op en oper (as_meta_store svc))"
    using assms by blast
  then show "R svc (snd (on_store f svc))"
    using store [of svc en oper] by (simp add: on_store_def case_prod_beta)
qed

lemma keeps_store_ops:
  "keeps R (on_store (\<lambda>st. create_data_connection en st u dc))"
  "keeps R (on_store (\<lambda>st. update_data_connection en st u uid f))"
  "keeps R (on_store (\<lambda>st. update_data_connection_status en st u uid f2))"
  "keeps R (on_store (\<lambda>st. delete_data_connection en st u uid))"
  "keeps R (on_store (\<lambda>st. create_data_connection_type en st u dct))"
  "keeps R (on_store (\<lambda>st. update_data_connection_type en st u uid f3))"
  "keeps R (on_store (\<lambda>st. update_data_connection_type_status en st uid f4))"
  "keeps R (on_store (\<lambda>st. delete_data_connection_type en st u uid))"
  "keeps R (on_store (\<lambda>st. Meta_Store.create_flight_service en st fs))"
  "keeps R (on_store (\<lambda>st. update_flight_service en st uid f5))"
  "keeps R (on_store (\<lambda>st. Meta_Store.delete_flight_service en st uid))"
  by (rule keeps_on_store, metis snd_outcome run_op.simps)+

lemmas keeps_rules = keeps_slift keeps_answer keeps_store_read keeps_sbind keeps_smap_err keeps_store_ops

lemma keeps_set_status: "keeps R (set_data_connection_status w i u uid s m)"
  unfolding set_data_connection_status_def by (intro keeps_rules)

lemma keeps_audit: "keeps R (audit_data_connection w u uid)"
proof -
  have "keeps R (sbind (set_data_connection_status w i u uid s m) (\<lambda>_. slift (\<lambda>_. r)))"
    for i s m and r :: "validation_error + unit"
    by (intro keeps_sbind keeps_set_status keeps_slift)
  then show ?thesis
    using refl unfolding keeps_def audit_data_connection_verdict
    by (auto split: sum.splits prod.splits)
qed

lemma keeps_audit_each: "keeps R (audit_each w flights i types)"
  by (induction w flights i types rule: audit_each.induct) (auto intro!: keeps_rules)

lemma keeps_audit_types: "keeps R (audit_types w i)"
  unfolding audit_types_def audit_data_connection_types_def
  by (intro keeps_rules keeps_audit_each)

lemma keeps_on_secrets_create:
  assumes "sec_namespace s = t" "overwrite \<longrightarrow> distinct (map fst (sec_properties s))"
  shows "keeps R (on_secrets (\<lambda>c. create_secret api c s overwrite))"
  using created [OF assms] by (simp add: keeps_def on_secrets_def case_prod_beta)

lemma keeps_on_secrets_delete: "keeps R (on_secrets (\<lambda>c. delete_secret api c t n))"
  using deleted by (simp add: keeps_def on_secrets_def case_prod_beta)

lemma keeps_authorize: "keeps R (authorize_secret_ref w ctx n)"
  using refl cache by (auto simp: keeps_def authorize_secret_ref_def split: option.splits prod.splits)

lemma keeps_compensated:
  assumes "keeps R m" "keeps R d"
  shows "keeps R (\<lambda>svc. case m svc of (Inr a, svc') \<Rightarrow> (Inr (f a), svc') | (Inl e, svc') \<Rightarrow> (Inl (g e), snd (d svc')))"
  unfolding keeps_def
proof
  fix svc
  obtain r svc' where m: "m svc = (r, svc')" by fastforce
  then have "R svc svc'" using assms(1) by (metis keeps_def snd_conv)
  moreover have "R svc' (snd (d svc'))" using assms(2) by (simp add: keeps_def)
  ultimately show "R svc (snd (case m svc of (Inr a, svc') \<Rightarrow> (Inr (f a), svc')
      | (Inl e, svc') \<Rightarrow> (Inl (g e), snd (d svc'))))"
    using m trans by (cases r) auto
qed

lemma keeps_create_with_creds:
  assumes "rw_kube w = api"
  shows "keeps R (create_connection_with_creds w t c)"
  unfolding create_connection_with_creds_def assms
  by (intro keeps_rules keeps_compensated keeps_on_secrets_create keeps_on_secrets_delete)
    (simp_all add: new_secret_def)

lemma distinct_export_properties: "distinct (map fst (export_properties connection existing))"
  unfolding export_properties_def by (intro distinct_hextend distinct_update) simp

lemma keeps_export:
  assumes "rw_kube w = api" "ctx_tenant_id ctx = t"
  shows "keeps R (export_connection w ctx uid n)"
  unfolding export_connection_def Let_def assms
  by (auto intro!: keeps_rules keeps_authorize keeps_on_secrets_create simp: distinct_export_properties)

lemma keeps_register_flight: "keeps R (register_flight w connectors flight)"
  unfolding register_flight_def store_call_def Let_def
  by (auto intro!: keeps_rules keeps_audit_types)

lemma keeps_connection_handlers:
  assumes "rw_kube w = api" "ctx_tenant_id ctx = t"
  shows "keeps R (list_connections w ctx)" "keeps R (get_connection w ctx uid)"
    "keeps R (create_connection w ctx body)" "keeps R (patch_connection w ctx uid patch)"
    "keeps R (delete_connection w ctx uid)" "keeps R (check_existent_connection w ctx uid)"
    "keeps R (test_credentials_endpoint w ctx creds)"
  unfolding list_connections_def get_connection_def create_connection_def patch_connection_def
    delete_connection_def check_existent_connection_def test_credentials_endpoint_def store_call_def
  using keeps_create_with_creds [OF assms(1)] assms(2)
  by (auto intro!: keeps_rules keeps_audit split: create_connection_request.split)

lemma keeps_binary: "keeps R (get_binary_data w ctx uid p)"
  unfolding get_binary_data_def by (intro keeps_rules)

lemma keeps_type_handlers:
  "keeps R (list_connection_types w ctx)" "keeps R (get_connection_type w ctx uid)"
  "keeps R (create_connection_type w ctx dct)" "keeps R (patch_connection_type w ctx uid patch)"
  "keeps R (delete_connection_type w ctx uid)"
  "keeps R (delete_flight_service w uid)" "keeps R (patch_flight_service w uid patch)"
  unfolding list_connection_types_def get_connection_type_def create_connection_type_def
    patch_connection_type_def delete_connection_type_def delete_flight_service_def
    patch_flight_service_def store_call_def
  by (intro keeps_rules keeps_audit_types)+

lemma keeps_with_body: "(\<And>x. keeps R (f x)) \<Longrightarrow> keeps R (with_body w req dec f)"
  by (auto simp: with_body_def keeps_slift split: sum.splits option.splits)

lemma keeps_type_routes: "type_routes w ctx req path = Some f \<Longrightarrow> keeps R f"
  by (auto simp: type_routes_def keeps_type_handlers split: list.splits if_splits intro!: keeps_with_body)

lemma keeps_connection_routes:
  assumes "rw_kube w = api" "ctx_tenant_id ctx = t" "connection_routes w ctx req path = Some f"
  shows "keeps R f"
  using assms(3)
  by (auto simp: connection_routes_def keeps_connection_handlers [OF assms(1,2)] keeps_binary
      keeps_export [OF assms(1,2)] keeps_slift split: list.splits if_splits option.splits
      intro!: keeps_with_body)

lemma endpoint_create_flight:
  "create_flight_service w flight svc = Some out \<Longrightarrow> R svc (snd out)"
  using keeps_register_flight refl
  by (auto simp: create_flight_service_def keeps_def split: option.splits sum.splits)

lemma endpoint_returns: "keeps R f \<Longrightarrow> returns f svc = Some out \<Longrightarrow> R svc (snd out)"
  by (auto simp: returns_def keeps_def)

lemma endpoint_flight_routes:
  assumes "flight_routes w req path = Some f" "f svc = Some out"
  shows "R svc (snd out)"
  using assms
  by (auto simp: flight_routes_def intro: endpoint_create_flight endpoint_returns keeps_type_handlers
      keeps_with_body keeps_slift split: list.splits if_splits sum.splits option.splits)

lemma endpoint_data_routes:
  assumes "rw_kube w = api" "ctx_tenant_id ctx = t" "data_routes w ctx req path = Some f" "f svc = Some out"
  shows "R svc (snd out)"
  using assms(3,4)
  by (auto simp: data_routes_def intro: endpoint_flight_routes endpoint_returns keeps_type_routes
      keeps_connection_routes [OF assms(1,2)] keeps_with_body keeps_connection_handlers [OF assms(1,2)]
      split: list.splits if_splits)

lemma snd_respond: "snd (respond out) = snd out"
  by (simp add: respond_def split: prod.splits sum.splits)

lemma api_routes_keep:
  assumes "rw_kube w = api"
    and "\<And>ctx. validate_headers (hc_headers req) = Inr ctx \<Longrightarrow> ctx_tenant_id ctx = t"
    and "api_routes w req svc = Some (resp, svc')"
  shows "R svc svc'"
proof -
  have "R svc (snd (respond (not_found svc)))" "R svc (snd (respond (health svc)))"
    using refl by (simp_all add: snd_respond not_found_def health_def answer_def)
  moreover have "R svc (snd (respond out))"
    if "data_routes w ctx req path = Some f" "f svc = Some out" "validate_headers (hc_headers req) = Inr ctx"
    for ctx path f out
    using endpoint_data_routes [OF assms(1) assms(2) [OF that(3)] that(1,2)] by (simp add: snd_respond)
  ultimately show ?thesis
    using assms(3) refl unfolding api_routes_def
    by (auto split: list.splits if_splits sum.splits option.splits) (metis snd_conv)+
qed

end

interpretation reach: request_relation
  "\<lambda>svc svc'. reachable (as_meta_store svc) \<longrightarrow> reachable (as_meta_store svc')" api t
  for api :: "'c kube_api" and t :: string
  by unfold_locales (auto intro: reachable_op)

text \<open>Secrets outside a tenant's namespace, as long as the Kubernetes API does what it documents.\<close>

definition same_elsewhere :: "'c kube_api \<Rightarrow> string \<Rightarrow> 'c \<Rightarrow> 'c \<Rightarrow> bool" where
  "same_elsewhere api t c c' \<longleftrightarrow>
     (create_law api \<and> delete_law api \<and> apply_law api \<longrightarrow>
      (\<forall>ns n. ns \<noteq> t \<longrightarrow> api_get api c' ns n = api_get api c ns n))"

lemma create_law_elsewhere:
  assumes "create_law api" "api_create api c t k = (ok, c')" "ns \<noteq> t"
  shows "api_get api c' ns n = api_get api c ns n"
  using assms unfolding create_law_def by (cases ok) fastforce+

lemma apply_law_elsewhere:
  assumes "apply_law api" "distinct (map fst (unwrap_or_default (ks_string_data k)))"
    "api_apply api c t m k = (ok, c')" "ns \<noteq> t"
  shows "api_get api c' ns n = api_get api c ns n"
  using assms unfolding apply_law_def by (cases ok) fastforce+

lemma delete_law_elsewhere:
  assumes "delete_law api" "api_delete api c t m = (ok, c')" "ns \<noteq> t"
  shows "api_get api c' ns n = api_get api c ns n"
  using assms unfolding delete_law_def by (cases ok) fastforce+

lemma same_elsewhere_create:
  assumes "sec_namespace s = t" "overwrite \<longrightarrow> distinct (map fst (sec_properties s))"
  shows "same_elsewhere api t c (snd (create_secret api c s overwrite))"
proof -
  obtain ok c' where a: "(if overwrite then api_apply api c t (sec_name s) (k8s_secret_of s)
      else api_create api c t (k8s_secret_of s)) = (ok, c')" by fastforce
  have "distinct (map fst (unwrap_or_default (ks_string_data (k8s_secret_of s))))" if overwrite
    using assms(2) that by (simp add: k8s_secret_of_def unwrap_or_default_def)
  then have "same_elsewhere api t c c'"
    using a unfolding same_elsewhere_def
    by (cases overwrite) (auto intro: create_law_elsewhere apply_law_elsewhere)
  then show ?thesis using a assms(1) by (simp add: create_secret_def case_prod_beta split: if_splits)
qed

lemma same_elsewhere_delete: "same_elsewhere api t c (snd (delete_secret api c t n))"
  unfolding same_elsewhere_def delete_secret_def
  by (auto simp: case_prod_beta intro: delete_law_elsewhere [OF _ prod.collapse [symmetric]])

interpretation confined: request_relation
  "\<lambda>svc svc'. same_elsewhere api t (as_secret_store svc) (as_secret_store svc')" api t
  for api :: "'c kube_api" and t :: string
  by unfold_locales
    (auto simp: same_elsewhere_delete same_elsewhere_create, auto simp: same_elsewhere_def)

end
