(* ===== verification/Rest_Properties.thy ===== *)
theory Rest_Properties
  imports Rest_Api
begin

text \<open>
  The properties of the REST service as a whole: what every request keeps, inline credentials,
  exports, and the registration of flight services.
\<close>

section \<open>Every request\<close>


definition sample_call :: "string \<Rightarrow> string list \<Rightarrow> json \<Rightarrow> http_call" where
  "sample_call m segs body =
     \<lparr>hc_method = m, hc_segments = ''api'' # ''v1alpha1'' # ''data'' # segs, hc_query = [],
      hc_headers = [(''x-tenant-id'', ''acme''), (''x-remote-user'', ''alice'')], hc_json = Inr body\<rparr>"


text \<open>
  C18. A request touches no secret outside the namespace of its tenant, as long as the Kubernetes API
  creates, applies and deletes only the object it is asked to.
\<close>

theorem requests_confined_to_namespace:
  assumes "create_law (rw_kube w)" "delete_law (rw_kube w)" "apply_law (rw_kube w)"
    and "hget (hc_headers req) X_TENANT_ID = Some t" "ns \<noteq> t"
    and "api_routes w req svc = Some (resp, svc')"
  shows "api_get (rw_kube w) (as_secret_store svc') ns n = api_get (rw_kube w) (as_secret_store svc) ns n"
proof -
  have "ctx_tenant_id ctx = t" if "validate_headers (hc_headers req) = Inr ctx" for ctx
    using that assms(4)
    by (auto simp: validate_headers_def header_to_str_def split: if_splits)
  then have "same_elsewhere (rw_kube w) t (as_secret_store svc) (as_secret_store svc')"
    using confined.api_routes_keep [OF HOL.refl _ assms(6)] by blast
  then show ?thesis using assms by (simp add: same_elsewhere_def)
qed

theorem requests_confined_to_namespace_witness:
  "\<exists>resp svc'. api_routes sample_world (sample_call ''PUT'' [''connections'', ''u1'', ''exports'', ''secrets'', ''out''] JNull)
       sample_rest = Some (resp, svc') \<and> http_status resp = 204
     \<and> as_secret_store svc' (''other'', ''out'') = as_secret_store sample_rest (''other'', ''out'')"
proof -
  let ?r = "sample_call ''PUT'' [''connections'', ''u1'', ''exports'', ''secrets'', ''out''] JNull"
  let ?a = "api_routes sample_world ?r sample_rest"
  have "case ?a of Some (resp, svc') \<Rightarrow> http_status resp = 204 | None \<Rightarrow> False"
    by code_simp
  then obtain resp svc' where a: "?a = Some (resp, svc')" "http_status resp = 204"
    by (auto split: option.splits)
  have kube: "rw_kube sample_world = memory_api" by (simp add: sample_world_def)
  have "api_get memory_api (as_secret_store svc') ''other'' ''out''
      = api_get memory_api (as_secret_store sample_rest) ''other'' ''out''"
    using requests_confined_to_namespace [of sample_world ?r "''acme''" "''other''", unfolded kube,
        OF memory_create_law memory_delete_law memory_apply_law _ _ a(1)]
    by (simp add: sample_call_def X_TENANT_ID_def)
  then show ?thesis using a by (simp add: memory_api_def)
qed

section \<open>Connections with inline credentials\<close>

lemma create_secret_Inr:
  assumes "create_law api" "create_secret api c s False = (Inr (), c')"
  shows "api_get api c (sec_namespace s) (sec_name s) = None
    \<and> (\<exists>k. api_get api c' (sec_namespace s) (sec_name s) = Some k \<and> ks_data k = Some (sec_properties s))
    \<and> (\<forall>ns n. (ns, n) \<noteq> (sec_namespace s, sec_name s) \<longrightarrow> api_get api c' ns n = api_get api c ns n)"
proof -
  have "api_create api c (sec_namespace s) (k8s_secret_of s) = (True, c')"
    using assms(2) by (auto simp: create_secret_def split: prod.splits if_splits)
  with assms(1) show ?thesis
    unfolding create_law_def by (fastforce simp: k8s_secret_of_def)
qed

lemma create_secret_Inl:
  assumes "create_law api" "create_secret api c s False = (Inl e, c')"
  shows "api_get api c' ns n = api_get api c ns n"
proof -
  have "api_create api c (sec_namespace s) (k8s_secret_of s) = (False, c')"
    using assms(2) by (auto simp: create_secret_def split: prod.splits if_splits)
  with assms(1) show ?thesis unfolding create_law_def by fastforce
qed

text \<open>Creating and deleting a secret again leaves the cluster as it was.\<close>

lemma create_delete_secret:
  assumes "create_law api" "delete_law api" "create_secret api c s False = (Inr (), c')"
    and del: "api_delete api c' (sec_namespace s) (sec_name s) = (True, c'')"
  shows "api_get api c'' ns n = api_get api c ns n"
proof -
  have "api_get api c'' (sec_namespace s) (sec_name s) = None
      \<and> (\<forall>ns' n'. (ns', n') \<noteq> (sec_namespace s, sec_name s) \<longrightarrow> api_get api c'' ns' n' = api_get api c' ns' n')"
    using assms(2) del unfolding delete_law_def by fastforce
  then show ?thesis
    using create_secret_Inr [OF assms(1,3)] by (cases "(ns, n) = (sec_namespace s, sec_name s)") auto
qed

lemma transaction_Inl:
  "transaction en err body st = (r, st') \<Longrightarrow> r = Inl e \<Longrightarrow> \<not> ack_lost en \<Longrightarrow> st' = st"
  using transaction_error [of en err body st e] by simp

lemma on_secrets_eq':
  "on_secrets f svc = (fst (f (as_secret_store svc)), svc\<lparr>as_secret_store := snd (f (as_secret_store svc))\<rparr>)"
  by (simp add: on_secrets_def case_prod_beta)

lemma snd_delete_secret: "snd (delete_secret api c ns n) = snd (api_delete api c ns n)"
  by (simp add: delete_secret_def case_prod_beta)


definition sample_with_creds :: data_connection_with_creds where
  "sample_with_creds =
     \<lparr>dcc_name = ''inventory'', dcc_data_connection_type_id = ''t1'', dcc_format = Tabular,
      dcc_credentials = \<lparr>ic_secret = ''inv'', ic_properties = [(''url'', ''pg2'')]\<rparr>, dcc_properties = []\<rparr>"


section \<open>Exports\<close>

definition may_read_secret :: "('c, 'b) rest_world \<Rightarrow> api_context \<Rightarrow> 'c api_service \<Rightarrow> string \<Rightarrow> bool" where
  "may_read_secret w ctx svc n \<longleftrightarrow>
     (case as_authorizer svc of
        None \<Rightarrow> True
      | Some c \<Rightarrow>
          (case ctx_identity ctx of
             None \<Rightarrow> False
           | Some identity \<Rightarrow>
               fst (authorize_secret (rw_debug w) (rw_review w) c
                 \<lparr>ai_username = ri_username identity, ai_groups = []\<rparr> (ctx_tenant_id ctx) n) = Inr ()))"

lemma authorize_secret_ref_cases:
  "authorize_secret_ref w ctx n svc = (r, svc') \<Longrightarrow>
   (is_ok r \<longleftrightarrow> may_read_secret w ctx svc n)
   \<and> as_secret_store svc' = as_secret_store svc \<and> as_meta_store svc' = as_meta_store svc"
  by (auto simp: authorize_secret_ref_def may_read_secret_def check_secret_access_def is_ok_iff result_simps
      split: option.splits prod.splits)


definition guarded_rest :: "cluster api_service" where
  "guarded_rest = with_authorizer (new_client []) sample_rest"

definition alice_context :: api_context where
  "alice_context = \<lparr>ctx_tenant_id = ''acme'', ctx_identity = Some \<lparr>ri_username = ''alice''\<rparr>\<rparr>"


text \<open>What an exported secret has under a key: the source's credentials, overlaid with the connection.\<close>

definition exported :: "data_connection_resource \<Rightarrow> string hmap \<Rightarrow> string \<Rightarrow> string option" where
  "exported connection existing key =
     (case Option.bind (strip_prefix ''data_connection.properties.'' key)
             (hget (dc_properties (dcr_resource connection))) of
        Some v \<Rightarrow> Some v
      | None \<Rightarrow>
          if key = ''data_connection.id'' then Some (md_id (dcr_metadata connection))
          else if key = ''data_connection_type.id'' then Some (dc_data_connection_type_id (dcr_resource connection))
          else if key = ''data_connection.name'' then Some (dc_name (dcr_resource connection))
          else if key = ''data_connection.format'' then Some (data_format_to_string (dc_format (dcr_resource connection)))
          else hget existing key)"

lemma hget_prefixed:
  "hget (map (\<lambda>(k, v). (p @ k, v)) m) key = Option.bind (strip_prefix p key) (hget m)"
proof (cases "strip_prefix p key")
  case None
  then have "key \<notin> fst ` set (map (\<lambda>(k, v). (p @ k, v)) m)"
    by (auto simp: strip_prefix_def split: if_splits)
  then show ?thesis using None by (simp add: map_of_eq_None_iff)
next
  case (Some k)
  then have "key = p @ k" by (simp add: strip_prefix_eq_Some)
  then show ?thesis by (induction m) auto
qed

lemma hget_export_properties:
  assumes "distinct (map fst (dc_properties (dcr_resource connection)))" "distinct (map fst existing)"
  shows "hget (export_properties connection existing) key = exported connection existing key"
proof -
  define p where "p = ''data_connection.properties.''"
  have "distinct (map fst (map (\<lambda>(k, v). (p @ k, v)) (dc_properties (dcr_resource connection))))"
    unfolding keys_prefixed using assms(1) distinct_prefixed by blast
  then show ?thesis
    unfolding export_properties_def exported_def p_def [symmetric]
    by (simp add: hget_hextend hget_prefixed assms(2) hextend_distinct split: option.splits)
qed

lemma create_secret_overwrite:
  assumes "apply_law api" "distinct (map fst (sec_properties s))" "create_secret api c s True = (Inr (), c')"
    "hget (sec_properties s) key = Some v" "from_utf8 v = Some v"
  shows "\<exists>s'. get_secret api c' (sec_namespace s) (sec_name s) = Inr s' \<and> hget (sec_properties s') key = Some v"
proof -
  have a: "api_apply api c (sec_namespace s) (sec_name s) (k8s_secret_of s) = (True, c')"
    using assms(3) by (auto simp: create_secret_def split: prod.splits if_splits)
  moreover have k: "unwrap_or_default (ks_string_data (k8s_secret_of s)) = sec_properties s"
    by (simp add: k8s_secret_of_def unwrap_or_default_def)
  ultimately obtain k' where k': "api_get api c' (sec_namespace s) (sec_name s) = Some k'"
      "hget (unwrap_or_default (ks_data k')) key = Some v" "distinct (map fst (unwrap_or_default (ks_data k')))"
    using assms(1) [unfolded apply_law_def, rule_format, OF _ a] assms(2,4) by auto
  then show ?thesis
    using get_secret_properties [OF k'(1,3), of key] assms(5) by auto
qed

text \<open>
  C21. An exported secret can be read back: after a successful export, the new secret has, under each
  key, the value the connection and its source secret call for: the credentials of the source
  secret, the identifier, type, name and format of the connection, and its properties under their
  prefix, where the latter win over a credential of the same name.
\<close>

theorem export_then_read:
  assumes law: "apply_law (rw_kube w)"
    and run: "export_connection w ctx uid n svc = (Inr resp, svc')"
    and read: "get_data_connection (rw_env w 0) (as_meta_store svc) (ctx_tenant_id ctx) uid = Inr connection"
      "get_secret (rw_kube w) (as_secret_store svc) (ctx_tenant_id ctx)
         (cr_secret (dc_credentials_ref (dcr_resource connection))) = Inr existing"
    and maps: "distinct (map fst (dc_properties (dcr_resource connection)))" "distinct (map fst (sec_properties existing))"
    and key: "exported connection (sec_properties existing) key = Some v" "from_utf8 v = Some v"
  shows "\<exists>s'. get_secret (rw_kube w) (as_secret_store svc') (ctx_tenant_id ctx) n = Inr s'
    \<and> hget (sec_properties s') key = Some v"
proof -
  let ?n = "cr_secret (dc_credentials_ref (dcr_resource connection))"
  let ?s = "\<lparr>sec_name = n, sec_namespace = ctx_tenant_id ctx,
      sec_properties = export_properties connection (sec_properties existing),
      sec_labels = Some default_secret_labels, sec_annotations = None\<rparr>"
  obtain ra svc1 where auth: "authorize_secret_ref w ctx ?n svc = (ra, svc1)" by fastforce
  note a = authorize_secret_ref_cases [OF auth]
  have "fst (create_secret (rw_kube w) (as_secret_store svc) ?s True) = Inr ()
      \<and> as_secret_store svc' = snd (create_secret (rw_kube w) (as_secret_store svc) ?s True)"
    using run read auth a
    by (cases ra) (auto simp: export_connection_def store_read_def slift_def sbind_def smap_err_def on_secrets_eq'
        answer_def Let_def result_simps split: if_splits sum.splits)
  then have "create_secret (rw_kube w) (as_secret_store svc) ?s True = (Inr (), as_secret_store svc')"
    by (simp add: prod_eq_iff)
  from create_secret_overwrite [OF law _ this, of key v] show ?thesis
    using key by (simp add: reach.distinct_export_properties hget_export_properties [OF maps])
qed

theorem export_then_read_witness:
  "\<exists>resp svc' s'. export_connection sample_world alice_context ''u1'' ''out'' guarded_rest = (Inr resp, svc')
     \<and> get_secret memory_api (as_secret_store svc') ''acme'' ''out'' = Inr s'
     \<and> hget (sec_properties s') ''data_connection.id'' = Some ''u1''"
proof -
  let ?a = "export_connection sample_world alice_context ''u1'' ''out'' guarded_rest"
  have "is_ok (fst ?a)" by code_simp
  then obtain resp svc' where a: "?a = (Inr resp, svc')" by (cases ?a) (auto simp: is_ok_iff)
  define conn where "conn = projr (get_data_connection calm (as_meta_store guarded_rest) ''acme'' ''u1'')"
  define ex where "ex = projr (get_secret memory_api (as_secret_store guarded_rest) ''acme'' ''s'')"
  have w: "rw_kube sample_world = memory_api" "rw_env sample_world = (\<lambda>_. calm)"
    "ctx_tenant_id alice_context = ''acme''"
    by (simp_all add: sample_world_def alice_context_def)
  have "is_ok (get_data_connection calm (as_meta_store guarded_rest) ''acme'' ''u1'')"
    "is_ok (get_secret memory_api (as_secret_store guarded_rest) ''acme'' ''s'')" by code_simp+
  then have "get_data_connection calm (as_meta_store guarded_rest) ''acme'' ''u1'' = Inr conn"
    "get_secret memory_api (as_secret_store guarded_rest) ''acme'' ''s'' = Inr ex"
    by (auto simp: conn_def ex_def is_ok_iff)
  moreover have "cr_secret (dc_credentials_ref (dcr_resource conn)) = ''s''"
    "distinct (map fst (dc_properties (dcr_resource conn)))" "distinct (map fst (sec_properties ex))"
    "exported conn (sec_properties ex) ''data_connection.id'' = Some ''u1''" "from_utf8 ''u1'' = Some ''u1''"
    unfolding conn_def ex_def by code_simp+
  ultimately show ?thesis
    using export_then_read [OF _ a, unfolded w, OF memory_apply_law, of conn ex "''data_connection.id''" "''u1''"] a
    by auto
qed

section \<open>Registration of flight services\<close>

definition services :: "pg_meta_store \<Rightarrow> flight_service_resource list" where
  "services st = List.map_filter flight_service_resource_from_value (flight_services st)"

definition connectors_unique :: "pg_meta_store \<Rightarrow> bool" where
  "connectors_unique st \<longleftrightarrow>
     sorted_wrt (\<lambda>a b. set (fs_supported_connectors (fsr_resource a))
                       \<inter> set (fs_supported_connectors (fsr_resource b)) = {}) (services st)"

lemma map_filter_all: "map f xs = map Some ys \<Longrightarrow> List.map_filter f xs = ys"
  by (induction xs arbitrary: ys) (auto simp: map_filter_simps)

lemma services_listed: "get_all_flight_services en st = Inr l \<Longrightarrow> services st = items l"
  using get_all_flight_services_Inr by (simp add: services_def map_filter_all)

lemma create_flight_service_services:
  "\<exists>r. fsr_resource r = fs \<and>
     (services (snd (Meta_Store.create_flight_service en st fs)) = services st
      \<or> services (snd (Meta_Store.create_flight_service en st fs)) = services st @ [r])"
proof -
  define r where "r = \<lparr>fsr_metadata = \<lparr>md_id = new_uuid en, md_tenant_id = None, md_created_at = now en,
      md_updated_at = now en\<rparr>, fsr_resource = fs\<rparr>"
  let ?P = "\<lambda>st'. flight_services st' = flight_services st
      \<or> flight_services st' = flight_services st @ [flight_service_resource_to_value r]"
  have ins: "?P (snd (insert_named en FlightServices (flight_service_resource_to_value r) msg st))" for msg
    unfolding insert_named_def Let_def case_prod_beta snd_conv
    by (rule autocommit_keeps [where P = ?P]) (auto simp: result_simps sql_simps)
  have "?P (snd (Meta_Store.create_flight_service en st fs))"
    unfolding Meta_Store.create_flight_service_def Let_def case_prod_beta snd_conv r_def [symmetric]
    by (rule ins)
  then have "services (snd (Meta_Store.create_flight_service en st fs)) \<in> {services st, services st @ [r]}"
    by (auto simp: services_def List.map_filter_def flight_service_resource_codec.dec_enc)
  then show ?thesis by (intro exI [of _ r]) (auto simp: r_def)
qed

lemma type_status_update_flights:
  "flight_services (snd (update_data_connection_type_status en st uid f)) = flight_services st"
  unfolding update_data_connection_type_status_def
  by (rule transaction_keeps) (auto simp: result_simps sql_simps Let_def)

lemma audit_each_flights:
  "flight_services (as_meta_store (snd (audit_each w flights i types svc))) = flight_services (as_meta_store svc)"
proof (induction types arbitrary: i svc)
  case (Cons x types)
  show ?case
    unfolding audit_each.simps
    by (rule snd_sbind_keeps) (auto simp: on_store_def case_prod_beta type_status_update_flights Cons.IH
        result_simps)
qed simp

lemma audit_types_flights:
  "flight_services (as_meta_store (snd (audit_types w i svc))) = flight_services (as_meta_store svc)"
  unfolding audit_types_def audit_data_connection_types_def snd_smap_err sbind_slift
  by (auto simp: sbind_slift audit_each_flights split: sum.splits)

lemma registered_services:
  "services (as_meta_store (snd (sbind (store_call f) (\<lambda>res. sbind (audit_types w i) (\<lambda>_. answer (g res))) svc)))
     = services (snd (f (as_meta_store svc)))"
proof -
  let ?P = "\<lambda>svc'. flight_services (as_meta_store svc') = flight_services (snd (f (as_meta_store svc)))"
  have audit: "?P (snd (sbind (audit_types w i) (\<lambda>_. answer (g a)) svc1))" if "?P svc1" for a and svc1 :: "'a api_service"
    by (rule snd_sbind_keeps [where P = ?P])
      (use that audit_types_flights [of w i svc1] in \<open>auto simp: answer_def\<close>)
  have call: "?P (snd (store_call f svc))"
    by (simp add: store_call_def on_store_def case_prod_beta)
  have "?P (snd (sbind (store_call f) (\<lambda>res. sbind (audit_types w i) (\<lambda>_. answer (g res))) svc))"
    by (rule snd_sbind_keeps [where P = ?P], rule call, rule audit) (use call in simp)
  then show ?thesis by (simp add: services_def)
qed

text \<open>
  C20. Registration keeps connectors unique: if no two registered flight services share a connector,
  none do after a registration, however it ends; a service that offers a connector another one
  has is refused and nothing is written.
\<close>

theorem registration_keeps_connectors_unique:
  assumes "connectors_unique (as_meta_store svc)"
    and "create_flight_service w flight svc = Some (r, svc')"
  shows "connectors_unique (as_meta_store svc')"
proof -
  let ?st = "as_meta_store svc"
  have "svc' = svc \<or> (\<exists>connectors. register_flight w connectors flight svc = (r, svc'))"
    using assms(2) by (auto simp: Rest_Api.create_flight_service_def split: option.splits sum.splits)
  then show ?thesis
  proof (elim disjE exE)
    fix connectors assume reg: "register_flight w connectors flight svc = (r, svc')"
    let ?new = "registered_flight connectors flight"
    have "services (as_meta_store svc') = services ?st \<or>
        (\<exists>x. fsr_resource x = ?new \<and> services (as_meta_store svc') = services ?st @ [x]
          \<and> (\<forall>y \<in> set (services ?st). set (fs_supported_connectors (fsr_resource y))
                \<inter> set (fs_supported_connectors ?new) = {}))"
    proof (cases "get_all_flight_services (rw_env w 0) ?st")
      case (Inr l)
      let ?int = "filter (\<lambda>n. n \<in> existent_connectors (items l)) (map scn_name connectors)"
      let ?st1 = "snd (Meta_Store.create_flight_service (rw_env w 1) ?st ?new)"
      have "services (as_meta_store svc') = services ?st1" if "?int = []"
      proof -
        have "svc' = snd (sbind (store_call (\<lambda>st. Meta_Store.create_flight_service (rw_env w 1) st ?new))
            (\<lambda>res. sbind (audit_types w 2) (\<lambda>_.
              answer (json_response 201 (flight_service_resource_to_value res)))) svc)"
          using reg Inr that by (simp add: register_flight_def store_read_def sbind_slift)
        then show ?thesis using registered_services by simp
      qed
      moreover have "svc' = svc" if "?int \<noteq> []"
        using reg Inr that by (auto simp: register_flight_def store_read_def sbind_slift slift_def Let_def)
      moreover have "set (fs_supported_connectors (fsr_resource y)) \<inter> set (fs_supported_connectors ?new) = {}"
        if "?int = []" "y \<in> set (services ?st)" for y
        using that services_listed [OF Inr]
        by (auto simp: registered_flight_def existent_connectors_def filter_empty_conv)
      ultimately show ?thesis
        using create_flight_service_services [of ?new "rw_env w 1" ?st] by metis
    qed (use reg in \<open>auto simp: register_flight_def store_read_def sbind_slift\<close>)
    then show ?thesis
      using assms(1) by (auto simp: connectors_unique_def sorted_wrt_append)
  qed (use assms in simp)
qed

definition other_flight :: flight_service where
  "other_flight = sample_flight\<lparr>fs_name := ''flight2'', fs_supported_connectors := []\<rparr>"

definition empty_rest :: "cluster api_service" where
  "empty_rest = new_api_service store_with_connection (svc_cluster sample_service) None (Some ''/token'') ''acme''"

theorem registration_keeps_connectors_unique_witness:
  "\<exists>r svc'. create_flight_service sample_world other_flight empty_rest = Some (Inr r, svc')
     \<and> services (as_meta_store svc') \<noteq> [] \<and> connectors_unique (as_meta_store svc')"
proof -
  let ?a = "create_flight_service sample_world other_flight empty_rest"
  have "case ?a of Some (r, svc') \<Rightarrow> is_ok r \<and> services (as_meta_store svc') \<noteq> [] | None \<Rightarrow> False"
    by code_simp
  then obtain r svc' where a: "?a = Some (Inr r, svc')" "services (as_meta_store svc') \<noteq> []"
    by (auto simp: is_ok_iff split: option.splits)
  moreover have "connectors_unique (as_meta_store empty_rest)"
    by code_simp
  ultimately show ?thesis
    using registration_keeps_connectors_unique [OF _ a(1)] by blast
qed

text \<open>
  A patch is not checked: it can give a registered service the connector of another one.
\<close>

definition two_services :: pg_meta_store where
  "two_services = snd (Meta_Store.create_flight_service (calm\<lparr>new_uuid := ''f2''\<rparr>) sample_store other_flight)"

definition replace_world :: "(cluster, bin_batch) rest_world" where
  "replace_world = sample_world\<lparr>rw_merge := \<lambda>v p. p\<rparr>"

lemma patch_can_duplicate_connector:
  "connectors_unique two_services"
  "\<not> connectors_unique (as_meta_store (snd (patch_flight_service replace_world ''f2''
       (flight_service_to_value (other_flight\<lparr>fs_supported_connectors := [''postgres'']\<rparr>))
       (sample_rest\<lparr>as_meta_store := two_services\<rparr>))))"
  by code_simp+

end
