(* ===== verification/Meta_Locks.thy ===== *)
theory Meta_Locks
  imports Meta_Properties
begin

text \<open>
  Concurrent requests on the metadata store.  Every operation of \<open>PgMetaStore\<close> that runs a
  transaction is cut into the statements \<open>libs/pg-meta-store/src/store/meta.rs\<close> sends:
  the \<open>SELECT ... FOR UPDATE\<close> that locks the row, the check (\<open>SELECT ... FOR SHARE\<close> on the
  connection type, or the count of referencing connections), the write, and the commit.
  Statements of different requests interleave.  The database runs at \<open>READ COMMITTED\<close>: a
  statement reads what is committed; a row lock is held until its transaction ends; a statement
  waits while another transaction holds a conflicting lock on a row it selects, or has written,
  without having committed, a row that agrees with its own on a unique index.
\<close>

section \<open>The statements of a transaction\<close>

text \<open>The operations that are a single statement on the pool.\<close>

fun single_statement :: "store_op \<Rightarrow> bool" where
  "single_statement (DeleteDataConnection t uid) = True"
| "single_statement (CreateDataConnectionType t dct) = True"
| "single_statement (CreateFlightService fs) = True"
| "single_statement (DeleteFlightService uid) = True"
| "single_statement _ = False"

text \<open>The error of a failed \<open>begin\<close> or \<open>commit\<close>.\<close>

fun tx_error :: "store_op \<Rightarrow> meta_store_error" where
  "tx_error (CreateDataConnection t dc) = Query ''failed to create data connection''"
| "tx_error (UpdateDataConnection t uid f) = Query ''failed to update data connection''"
| "tx_error (UpdateDataConnectionStatus t uid f) = Query ''failed to update data connection status''"
| "tx_error (UpdateDataConnectionType t uid f) = Query ''failed to update connection type''"
| "tx_error (UpdateDataConnectionTypeStatus uid f) = Query ''failed to update connection type status''"
| "tx_error (UpdateFlightService uid f) = Query ''failed to update flight service''"
| "tx_error _ = Query ''failed to delete connection type''"

text \<open>The table an operation writes, and the rows its \<open>WHERE\<close> clause selects there.\<close>

fun op_table :: "store_op \<Rightarrow> table" where
  "op_table (CreateDataConnection t dc) = DataConnections"
| "op_table (UpdateDataConnection t uid f) = DataConnections"
| "op_table (UpdateDataConnectionStatus t uid f) = DataConnections"
| "op_table (DeleteDataConnection t uid) = DataConnections"
| "op_table (CreateFlightService fs) = FlightServices"
| "op_table (UpdateFlightService uid f) = FlightServices"
| "op_table (DeleteFlightService uid) = FlightServices"
| "op_table _ = DataConnectionTypes"

fun op_uid :: "store_op \<Rightarrow> string option" where
  "op_uid (CreateDataConnection t dc) = None"
| "op_uid (CreateDataConnectionType t dct) = None"
| "op_uid (CreateFlightService fs) = None"
| "op_uid (UpdateDataConnection t uid f) = Some uid"
| "op_uid (UpdateDataConnectionStatus t uid f) = Some uid"
| "op_uid (DeleteDataConnection t uid) = Some uid"
| "op_uid (UpdateDataConnectionType t uid f) = Some uid"
| "op_uid (UpdateDataConnectionTypeStatus uid f) = Some uid"
| "op_uid (DeleteDataConnectionType t uid) = Some uid"
| "op_uid (UpdateFlightService uid f) = Some uid"
| "op_uid (DeleteFlightService uid) = Some uid"

definition op_where :: "store_op \<Rightarrow> pg_meta_store \<Rightarrow> json \<Rightarrow> bool" where
  "op_where oper st =
     (case op_uid oper of
        None \<Rightarrow> (\<lambda>_. False)
      | Some uid \<Rightarrow>
          (case op_tenant oper of None \<Rightarrow> where_id st uid | Some t \<Rightarrow> where_id_tenant st uid t))"

text \<open>\<open>SELECT ... FOR UPDATE\<close>: the row to change.  A creation has none.\<close>

fun select_error :: "store_op \<Rightarrow> string \<Rightarrow> sqlx_error \<Rightarrow> meta_store_error" where
  "select_error (UpdateDataConnection t uid f) uid' =
     row_not_found_or (ResourceNotFound (not_found_message ''data connection'' uid'))
       ''failed to update data connection''"
| "select_error (UpdateDataConnectionStatus t uid f) uid' =
     row_not_found_or (ResourceNotFound (not_found_message ''data connection'' uid'))
       ''failed to update data connection status''"
| "select_error (UpdateDataConnectionType t uid f) uid' =
     row_not_found_or (ResourceNotFound (not_found_message ''connection type'' uid'))
       ''failed to update connection type''"
| "select_error (UpdateDataConnectionTypeStatus uid f) uid' =
     row_not_found_or (ResourceNotFound (not_found_message ''connection type'' uid'))
       ''failed to update connection type status''"
| "select_error (UpdateFlightService uid f) uid' =
     row_not_found_or (ResourceNotFound (not_found_message ''flight service'' uid'))
       ''failed to update flight service''"
| "select_error _ uid' =
     row_not_found_or (ResourceNotFound (not_found_message ''connection type'' uid'))
       ''failed to delete connection type''"

definition lock_stmt :: "env \<Rightarrow> store_op \<Rightarrow> pg_meta_store \<Rightarrow> meta_store_error + json" where
  "lock_stmt en oper tx =
     (case op_uid oper of
        None \<Rightarrow> Inr JNull
      | Some uid \<Rightarrow> map_err (select_error oper uid) (fetch_one en (op_table oper) (op_where oper tx) tx))"

text \<open>
  What the operation computes from the row before its next statement: the connection type it
  will refer to, if it validates one, and the document it will write.
\<close>

type_synonym work = "string option \<times> json"

fun plan :: "env \<Rightarrow> store_op \<Rightarrow> json \<Rightarrow> meta_store_error + work" where
  "plan en (CreateDataConnection t dc) d =
     Inr (Some (dc_data_connection_type_id dc),
          data_connection_resource_to_value (new_data_connection_resource en t dc))"
| "plan en (UpdateDataConnection t uid f) d =
     rbind (read_connection en 0 d) (\<lambda>existing.
     rbind (f (dcr_resource existing)) (\<lambda>dc.
     Inr (Some (dc_data_connection_type_id dc), data_connection_resource_to_value
       \<lparr>dcr_metadata = (dcr_metadata existing)\<lparr>md_updated_at := now en\<rparr>,
        dcr_resource = dc, dcr_status = dcr_status existing\<rparr>)))"
| "plan en (UpdateDataConnectionStatus t uid f) d =
     rbind (read_connection en 0 d) (\<lambda>existing.
     rbind (f (dcr_status existing)) (\<lambda>status.
     Inr (None, data_connection_resource_to_value
       \<lparr>dcr_metadata = (dcr_metadata existing)\<lparr>md_updated_at := now en\<rparr>,
        dcr_resource = dcr_resource existing, dcr_status = status\<rparr>)))"
| "plan en (UpdateDataConnectionType t uid f) d =
     rbind (read_connection_type en 0 d) (\<lambda>existing.
     rbind (f (dctr_resource existing)) (\<lambda>dct.
     Inr (None, data_connection_type_resource_to_value
       \<lparr>dctr_metadata = (dctr_metadata existing)\<lparr>md_updated_at := now en\<rparr>,
        dctr_resource = dct, dctr_status = dctr_status existing\<rparr>)))"
| "plan en (UpdateDataConnectionTypeStatus uid f) d =
     rbind (read_connection_type en 0 d) (\<lambda>existing.
     rbind (f (dctr_status existing)) (\<lambda>status.
     Inr (None, data_connection_type_resource_to_value
       \<lparr>dctr_metadata = (dctr_metadata existing)\<lparr>md_updated_at := now en\<rparr>,
        dctr_resource = dctr_resource existing, dctr_status = status\<rparr>)))"
| "plan en (UpdateFlightService uid f) d =
     rbind (read_flight_service en 0 d) (\<lambda>existing.
     rbind (f (fsr_resource existing)) (\<lambda>service.
     Inr (None, flight_service_resource_to_value
       (existing\<lparr>fsr_metadata := (fsr_metadata existing)\<lparr>md_updated_at := now en\<rparr>,
                 fsr_resource := service\<rparr>))))"
| "plan en _ d = Inr (None, JNull)"

text \<open>
  The check before the write: a connection's type is selected \<open>FOR SHARE\<close>; the connections that
  refer to a type are counted before it is deleted.
\<close>

fun check_stmt :: "env \<Rightarrow> store_op \<Rightarrow> work \<Rightarrow> pg_meta_store \<Rightarrow> meta_store_error + unit" where
  "check_stmt en (DeleteDataConnectionType t uid) w tx =
     rbind (map_err (\<lambda>_. Query ''failed to delete connection type'')
              (fetch_count en DataConnections (\<lambda>d. row_type_ref tx d = Some uid) tx)) (\<lambda>count.
     if 0 < count then Inl (Conflict (connection_type_in_use_message uid count)) else Inr ())"
| "check_stmt en oper (Some tid, d) tx =
     (case op_tenant oper of
        None \<Rightarrow> Inr ()
      | Some t \<Rightarrow> validate_connection_type en tx t tid)"
| "check_stmt en oper (None, d) tx = Inr ()"

fun write_stmt :: "env \<Rightarrow> store_op \<Rightarrow> work \<Rightarrow> pg_meta_store \<Rightarrow> meta_store_error + pg_meta_store" where
  "write_stmt en (CreateDataConnection t dc) w tx =
     map_err map_sqlx_error (execute_insert en DataConnections (snd w) tx)"
| "write_stmt en (DeleteDataConnectionType t uid) w tx =
     rbind (map_err (\<lambda>_. Query ''failed to delete connection type'')
              (execute_delete en DataConnectionTypes (where_id_tenant tx uid t) tx)) (\<lambda>(n, tx').
     if n = 0 then Inl (ResourceNotFound (not_found_message ''connection type'' uid)) else Inr tx')"
| "write_stmt en oper w tx =
     map_err (\<lambda>_. tx_error oper)
       (execute_update en (op_table oper) (op_where oper tx) (snd w) tx)"

section \<open>The statements make up the operation\<close>

definition statements ::
    "env \<Rightarrow> store_op \<Rightarrow> pg_meta_store \<Rightarrow> meta_store_error + (unit \<times> pg_meta_store)" where
  "statements en oper tx =
     rbind (lock_stmt en oper tx) (\<lambda>d.
     rbind (plan en oper d) (\<lambda>w.
     rbind (check_stmt en oper w tx) (\<lambda>_.
     rbind (write_stmt en oper w tx) (\<lambda>tx'. Inr ((), tx')))))"

lemma rbind_assoc: "rbind (rbind m f) g = rbind m (\<lambda>a. rbind (f a) g)"
  by (cases m) simp_all

lemma outcome_transaction:
  "outcome (transaction en err body st) =
     transaction en err (\<lambda>tx. rbind (body tx) (\<lambda>(a, tx'). Inr ((), tx'))) st"
  by (auto simp: transaction_def outcome_def rbind_def split: option.splits sum.splits)

lemma transaction_cong:
  "body st = body' st \<Longrightarrow> transaction en err body st = transaction en err body' st"
  by (simp add: transaction_def split: option.splits)

lemmas statement_defs = statements_def lock_stmt_def op_where_def rbind_assoc Let_def split_def

text \<open>The row an update of a flight service selects is the row it rewrites.\<close>

lemma fetched_flight_service:
  assumes "map_err g (fetch_one en FlightServices (where_id tx uid) tx) = Inr d"
    "read_flight_service en 0 d = Inr e"
  shows "md_id (fsr_metadata e) = uid"
proof -
  have "row_id tx d = Some uid"
    using assms(1) by (auto simp: result_simps dest!: fetch_one_rowD)
  then show ?thesis
    using assms(2) flight_service_doc.dec_row by (auto simp: sql_simps)
qed

lemma run_op_statements:
  assumes "\<not> single_statement oper"
  shows "run_op en oper st = transaction en (tx_error oper) (statements en oper) st"
proof (cases oper)
  case (UpdateFlightService uid f)
  then show ?thesis
    by (auto simp: update_flight_service_def outcome_transaction statement_defs
        intro!: transaction_cong rbind_cong dest: fetched_flight_service)
next
  case (DeleteDataConnectionType t uid)
  then show ?thesis
    by (auto simp: delete_data_connection_type_def outcome_transaction statement_defs
        intro!: transaction_cong rbind_cong)
qed (use assms in \<open>auto simp: create_data_connection_def update_data_connection_def
      update_data_connection_status_def update_data_connection_type_def
      update_data_connection_type_status_def outcome_transaction statement_defs
      intro!: transaction_cong\<close>)

section \<open>Sessions and locks\<close>

text \<open>
  A session is a request with its progress: not yet begun, inside the transaction after each of
  its statements, or finished with a result.
\<close>

datatype phase =
    Ready
  | Open
  | Locked work
  | Checked work
  | Written work
  | Finished "meta_store_error + unit"

type_synonym session = "env \<times> store_op \<times> phase"

text \<open>The rows a session has locked \<open>FOR UPDATE\<close>, and the ones it has locked \<open>FOR SHARE\<close>.\<close>

definition locked_row :: "table \<Rightarrow> string option \<Rightarrow> (table \<times> string) list" where
  "locked_row t u = (case u of None \<Rightarrow> [] | Some uid \<Rightarrow> [(t, uid)])"

fun row_locks :: "session \<Rightarrow> (table \<times> string) list" where
  "row_locks (en, oper, ph) =
     (case ph of
        Locked w \<Rightarrow> locked_row (op_table oper) (op_uid oper)
      | Checked w \<Rightarrow> locked_row (op_table oper) (op_uid oper)
      | Written w \<Rightarrow> locked_row (op_table oper) (op_uid oper)
      | _ \<Rightarrow> [])"

fun share_locks :: "session \<Rightarrow> (table \<times> string) list" where
  "share_locks (en, oper, ph) =
     (case ph of
        Checked w \<Rightarrow> locked_row DataConnectionTypes (fst w)
      | Written w \<Rightarrow> locked_row DataConnectionTypes (fst w)
      | _ \<Rightarrow> [])"

text \<open>Two rows that agree on a unique index.\<close>

definition clash :: "pg_meta_store \<Rightarrow> table \<Rightarrow> json \<Rightarrow> json \<Rightarrow> bool" where
  "clash st t d d' \<longleftrightarrow>
     list_ex (\<lambda>ix. index_key st ix d \<noteq> None \<and> index_key st ix d = index_key st ix d') (unique_indexes t)"

text \<open>The row versions of a transaction that has written and not committed: the old and the new.\<close>

fun new_rows :: "store_op \<Rightarrow> json \<Rightarrow> json list" where
  "new_rows (DeleteDataConnectionType t uid) d = []"
| "new_rows (DeleteDataConnection t uid) d = []"
| "new_rows (DeleteFlightService uid) d = []"
| "new_rows oper d = [d]"

fun versions :: "pg_meta_store \<Rightarrow> session \<Rightarrow> (table \<times> json) list" where
  "versions st (en, oper, Written (tid, d)) =
     map (Pair (op_table oper)) (new_rows oper d @ filter (op_where oper st) (rows (op_table oper) st))"
| "versions st _ = []"

text \<open>The document a single \<open>INSERT\<close> on the pool writes.\<close>

fun inserted_row :: "env \<Rightarrow> store_op \<Rightarrow> json" where
  "inserted_row en (CreateDataConnectionType t dct) =
     data_connection_type_resource_to_value
       \<lparr>dctr_metadata = \<lparr>md_id = new_uuid en, md_tenant_id = Some t,
                        md_created_at = now en, md_updated_at = now en\<rparr>,
        dctr_resource = dct, dctr_status = default_data_connection_type_status\<rparr>"
| "inserted_row en (CreateFlightService fs) =
     flight_service_resource_to_value
       \<lparr>fsr_metadata = \<lparr>md_id = new_uuid en, md_tenant_id = None,
                       md_created_at = now en, md_updated_at = now en\<rparr>,
        fsr_resource = fs\<rparr>"
| "inserted_row en _ = JNull"

text \<open>When a statement has to wait for the other sessions.\<close>

definition row_waits :: "session list \<Rightarrow> store_op \<Rightarrow> pg_meta_store \<Rightarrow> bool" where
  "row_waits others oper st \<longleftrightarrow>
     list_ex (op_where oper st) (rows (op_table oper) st)
     \<and> list_ex (\<lambda>s. list_ex (\<lambda>l. l \<in> set (row_locks s @ share_locks s))
          (locked_row (op_table oper) (op_uid oper))) others"

definition share_waits :: "session list \<Rightarrow> store_op \<Rightarrow> work \<Rightarrow> pg_meta_store \<Rightarrow> bool" where
  "share_waits others oper w st \<longleftrightarrow>
     (case (fst w, op_tenant oper) of
        (Some tid, Some t) \<Rightarrow>
          list_ex (where_id_tenant_or_global st tid t) (data_connection_types st)
          \<and> list_ex (\<lambda>s. (DataConnectionTypes, tid) \<in> set (row_locks s)) others
      | _ \<Rightarrow> False)"

definition write_waits :: "session list \<Rightarrow> store_op \<Rightarrow> json \<Rightarrow> pg_meta_store \<Rightarrow> bool" where
  "write_waits others oper d st \<longleftrightarrow>
     list_ex (\<lambda>s. list_ex (\<lambda>(t, v). t = op_table oper \<and> list_ex (\<lambda>n. clash st t n v) (new_rows oper d))
       (versions st s)) others"

section \<open>Interleaving\<close>

record db =
  db_store :: pg_meta_store
  db_sessions :: "session list"
  db_log :: "(env \<times> store_op \<times> (meta_store_error + unit)) list"

definition start :: "pg_meta_store \<Rightarrow> (env \<times> store_op) list \<Rightarrow> db" where
  "start st reqs = \<lparr>db_store = st, db_sessions = map (\<lambda>(en, oper). (en, oper, Ready)) reqs, db_log = []\<rparr>"

definition set_phase :: "nat \<Rightarrow> phase \<Rightarrow> db \<Rightarrow> db" where
  "set_phase i ph c =
     c\<lparr>db_sessions := (db_sessions c)[i := (case db_sessions c ! i of (en, oper, _) \<Rightarrow> (en, oper, ph))]\<rparr>"

text \<open>The request ends: its result goes to the caller, its locks are released.\<close>

definition finish :: "nat \<Rightarrow> (meta_store_error + unit) \<times> pg_meta_store \<Rightarrow> db \<Rightarrow> db" where
  "finish i = (\<lambda>(r, st') c.
     (set_phase i (Finished r) c)\<lparr>db_store := st',
       db_log := db_log c @ [case db_sessions c ! i of (en, oper, _) \<Rightarrow> (en, oper, r)]\<rparr>)"

text \<open>The next statement of a session; \<open>None\<close> when it waits or has ended.\<close>

definition next_stmt :: "nat \<Rightarrow> session list \<Rightarrow> session \<Rightarrow> db \<Rightarrow> db option" where
  "next_stmt i others s c =
     (let st = db_store c; (en, oper, ph) = s in
      case ph of
        Ready \<Rightarrow>
          if single_statement oper then
            if row_waits others oper st \<or> write_waits others oper (inserted_row en oper) st then None
            else Some (finish i (run_op en oper st) c)
          else if db_fault en Begin \<noteq> None then Some (finish i (Inl (tx_error oper), st) c)
          else Some (set_phase i Open c)
      | Open \<Rightarrow>
          if row_waits others oper st then None
          else (case rbind (lock_stmt en oper st) (plan en oper) of
              Inl e \<Rightarrow> Some (finish i (Inl e, st) c)
            | Inr w \<Rightarrow> Some (set_phase i (Locked w) c))
      | Locked w \<Rightarrow>
          if share_waits others oper w st then None
          else (case check_stmt en oper w st of
              Inl e \<Rightarrow> Some (finish i (Inl e, st) c)
            | Inr _ \<Rightarrow> Some (set_phase i (Checked w) c))
      | Checked w \<Rightarrow>
          if write_waits others oper (snd w) st then None
          else (case write_stmt en oper w st of
              Inl e \<Rightarrow> Some (finish i (Inl e, st) c)
            | Inr _ \<Rightarrow> Some (set_phase i (Written w) c))
      | Written w \<Rightarrow>
          (case write_stmt en oper w st of
              Inl e \<Rightarrow> None
            | Inr st' \<Rightarrow>
                (case db_fault en Commit of
                   Some _ \<Rightarrow> Some (finish i (Inl (tx_error oper), if ack_lost en then st' else st) c)
                 | None \<Rightarrow> Some (finish i (Inr (), st') c)))
      | Finished r \<Rightarrow> None)"

definition others_of :: "nat \<Rightarrow> 'a list \<Rightarrow> 'a list" where
  "others_of i xs = map (nth xs) (filter (\<lambda>j. j \<noteq> i) [0..<length xs])"

definition advance :: "nat \<Rightarrow> db \<Rightarrow> db option" where
  "advance i c =
     (if i < length (db_sessions c)
      then next_stmt i (others_of i (db_sessions c)) (db_sessions c ! i) c else None)"

text \<open>A schedule is the list of the sessions in the order in which their statements run.\<close>

fun run_schedule :: "nat list \<Rightarrow> db \<Rightarrow> db option" where
  "run_schedule [] c = Some c"
| "run_schedule (i # is) c = Option.bind (advance i c) (run_schedule is)"

text \<open>The requests one after the other, with the results a log promises.\<close>

fun replay :: "pg_meta_store \<Rightarrow> (env \<times> store_op \<times> (meta_store_error + unit)) list \<Rightarrow> pg_meta_store option" where
  "replay st [] = Some st"
| "replay st ((en, oper, r) # l) =
     (if fst (run_op en oper st) = r then replay (snd (run_op en oper st)) l else None)"

end
