(* ===== verification/Meta_Changes.thy ===== *)
theory Meta_Changes
  imports Meta_Locks "HOL-Library.Multiset"
begin

text \<open>
  The statements of the metadata store as changes of a list of rows, and what a session relies on
  between its statements.  Two changes that the locks allow commute on what the other needs: the
  row a session has locked, the connection type it has validated, the count it has taken and the
  unique indexes under its write stay as they were.
\<close>

section \<open>Changes of a list of rows\<close>

definition change :: "('a \<Rightarrow> bool) \<Rightarrow> 'a list \<Rightarrow> 'a list \<Rightarrow> 'a list \<Rightarrow> 'a list" where
  "change p rep ext xs = concat (map (\<lambda>x. if p x then rep else [x]) xs) @ ext"

lemma change_forms:
  "change (\<lambda>_. False) rep ext xs = xs @ ext"
  "change p [d] [] xs = map (\<lambda>x. if p x then d else x) xs"
  "change p [] [] xs = filter (\<lambda>x. \<not> p x) xs"
  by (induction xs) (auto simp: change_def)

lemma set_change: "set (change p rep ext xs) \<subseteq> set xs \<union> set rep \<union> set ext"
  by (auto simp: change_def split: if_splits)

lemma change_none: "\<forall>x \<in> set xs. \<not> p x \<Longrightarrow> change p rep ext xs = xs @ ext"
  by (induction xs) (simp_all add: change_def)

lemma change_append: "change p rep [] (xs @ ys) = change p rep [] xs @ change p rep [] ys"
  by (simp add: change_def)

lemma change_ext: "change p rep ext xs = change p rep [] xs @ ext"
  by (simp add: change_def)

lemma change_Cons: "change p rep [] (x # xs) = (if p x then rep else [x]) @ change p rep [] xs"
  by (simp add: change_def)

lemma change_commute:
  assumes "\<And>x. x \<in> set xs \<Longrightarrow> p x \<Longrightarrow> \<not> q x"
    and "\<And>x. x \<in> set pr \<union> set pe \<Longrightarrow> \<not> q x" "\<And>x. x \<in> set qr \<union> set qe \<Longrightarrow> \<not> p x"
  shows "mset (change p pr pe (change q qr qe xs)) = mset (change q qr qe (change p pr pe xs))"
proof -
  have fixed: "change q qr [] pe = pe" "change p pr [] qe = qe"
      "change q qr [] pr = pr" "change p pr [] qr = qr"
    using assms(2,3) by (simp_all add: change_none)
  have "mset (change p pr [] (change q qr [] xs)) = mset (change q qr [] (change p pr [] xs))"
    using assms(1)
  proof (induction xs)
    case (Cons x xs)
    have one: "\<not> q x \<Longrightarrow> change q qr [] [x] = [x]" "\<not> p x \<Longrightarrow> change p pr [] [x] = [x]"
      "q x \<Longrightarrow> change q qr [] [x] = qr" "p x \<Longrightarrow> change p pr [] [x] = pr"
      by (simp_all add: change_def)
    have IH: "mset (change p pr [] (change q qr [] xs)) = mset (change q qr [] (change p pr [] xs))"
      using Cons by simp
    show ?case
      using Cons.prems [of x] IH one fixed by (simp add: change_Cons change_append)
  qed (simp add: change_def)
  then show ?thesis
    using fixed change_ext [of p pr pe] change_ext [of q qr qe] by (simp add: change_append)
qed

lemma find_change:
  assumes "find P xs = Some d" "\<And>x. x \<in> set xs \<Longrightarrow> P x \<Longrightarrow> \<not> q x" "\<And>x. x \<in> set rep \<Longrightarrow> \<not> P x"
  shows "find P (change q rep ext xs) = Some d"
proof -
  have skip: "\<forall>x \<in> set ys. \<not> P x \<Longrightarrow> find P (ys @ zs) = find P zs" for ys zs
    by (induction ys) auto
  show ?thesis
    using assms(1,2)
  proof (induction xs)
    case (Cons x xs)
    show ?case
    proof (cases "P x")
      case True
      then show ?thesis using Cons.prems(1) Cons.prems(2) [of x] by (simp add: change_def)
    next
      case False
      then have "find P (change q rep ext xs) = Some d"
        using Cons by simp
      then show ?thesis
        using False assms(3) skip [of rep] by (simp add: change_def)
    qed
  qed simp
qed

text \<open>A key that at most one row has.\<close>

definition at_most_one :: "('a \<Rightarrow> 'k option) \<Rightarrow> 'a list \<Rightarrow> bool" where
  "at_most_one f xs \<longleftrightarrow> (\<forall>k. length (filter (\<lambda>x. f x = Some k) xs) \<le> 1)"

lemma filter_empty_iff_map_filter:
  "filter (\<lambda>x. f x = Some k) xs = [] \<longleftrightarrow> k \<notin> set (List.map_filter f xs)"
  by (auto simp: set_map_filter filter_empty_conv)

lemma distinct_map_filter_iff: "distinct (List.map_filter f xs) \<longleftrightarrow> at_most_one f xs"
proof (induction xs)
  case (Cons x xs)
  show ?case
  proof (cases "f x")
    case None
    then show ?thesis using Cons by (simp add: map_filter_simps at_most_one_def)
  next
    case (Some k)
    have "at_most_one f (x # xs) \<longleftrightarrow> filter (\<lambda>y. f y = Some k) xs = [] \<and> at_most_one f xs"
    proof
      assume one: "at_most_one f (x # xs)"
      have "length (filter (\<lambda>y. f y = Some k) (x # xs)) \<le> 1"
        using one unfolding at_most_one_def by (rule spec)
      then have none: "filter (\<lambda>y. f y = Some k) xs = []"
        using Some by simp
      have "length (filter (\<lambda>y. f y = Some j) xs) \<le> 1" for j
        using spec [OF one [unfolded at_most_one_def], of j] by (simp split: if_splits)
      then show "filter (\<lambda>y. f y = Some k) xs = [] \<and> at_most_one f xs"
        using none by (simp add: at_most_one_def)
    next
      assume "filter (\<lambda>y. f y = Some k) xs = [] \<and> at_most_one f xs"
      then show "at_most_one f (x # xs)"
        using Some by (simp add: at_most_one_def)
    qed
    then show ?thesis
      using Cons Some by (simp add: map_filter_simps filter_empty_iff_map_filter)
  qed
qed (simp add: map_filter_simps at_most_one_def)

lemma key_count_mset: "mset xs = mset ys \<Longrightarrow> length (filter P xs) = length (filter P ys)"
proof -
  assume "mset xs = mset ys"
  then have "mset (filter P xs) = mset (filter P ys)" by simp
  then show ?thesis by (rule mset_eq_length)
qed

lemma key_count_change:
  assumes "\<And>x. x \<in> set rep \<union> set ext \<Longrightarrow> f x \<noteq> Some k"
  shows "length (filter (\<lambda>x. f x = Some k) (change p rep ext xs)) \<le> length (filter (\<lambda>x. f x = Some k) xs)"
proof -
  have none: "filter (\<lambda>x. f x = Some k) rep = []" "filter (\<lambda>x. f x = Some k) ext = []"
    using assms by (auto simp: filter_empty_conv)
  show ?thesis
    by (induction xs) (auto simp: change_def none)
qed

lemma at_most_one_both:
  assumes p: "at_most_one f (change p pr pe xs)" and q: "at_most_one f (change q qr qe xs)"
    and disj: "\<And>x. x \<in> set xs \<Longrightarrow> p x \<Longrightarrow> \<not> q x"
      "\<And>x. x \<in> set pr \<union> set pe \<Longrightarrow> \<not> q x" "\<And>x. x \<in> set qr \<union> set qe \<Longrightarrow> \<not> p x"
    and free: "\<And>x y. x \<in> set pr \<union> set pe \<Longrightarrow> y \<in> set qr \<union> set qe \<Longrightarrow> f x = None \<or> f x \<noteq> f y"
  shows "at_most_one f (change p pr pe (change q qr qe xs))"
  unfolding at_most_one_def
proof
  fix k
  let ?n = "\<lambda>ys. length (filter (\<lambda>x. f x = Some k) ys)"
  have swap: "?n (change p pr pe (change q qr qe xs)) = ?n (change q qr qe (change p pr pe xs))"
    by (rule key_count_mset, rule change_commute [OF disj])
  show "?n (change p pr pe (change q qr qe xs)) \<le> 1"
  proof (cases "\<exists>x \<in> set pr \<union> set pe. f x = Some k")
    case True
    then have "f y \<noteq> Some k" if "y \<in> set qr \<union> set qe" for y
      using free that by fastforce
    then have "?n (change q qr qe (change p pr pe xs)) \<le> ?n (change p pr pe xs)"
      by (rule key_count_change)
    also have "\<dots> \<le> 1"
      using p by (simp add: at_most_one_def)
    finally show ?thesis using swap by simp
  next
    case False
    then have "?n (change p pr pe (change q qr qe xs)) \<le> ?n (change q qr qe xs)"
      by (intro key_count_change) blast
    also have "\<dots> \<le> 1"
      using q by (simp add: at_most_one_def)
    finally show ?thesis .
  qed
qed

section \<open>The change an operation makes\<close>

definition replaced :: "store_op \<Rightarrow> json \<Rightarrow> json list" where
  "replaced oper d = (if op_uid oper = None then [] else new_rows oper d)"

definition appended :: "store_op \<Rightarrow> json \<Rightarrow> json list" where
  "appended oper d = (if op_uid oper = None then [d] else [])"

definition rows_after :: "store_op \<Rightarrow> json \<Rightarrow> pg_meta_store \<Rightarrow> json list" where
  "rows_after oper d st =
     change (op_where oper st) (replaced oper d) (appended oper d) (rows (op_table oper) st)"

definition changed :: "store_op \<Rightarrow> json \<Rightarrow> pg_meta_store \<Rightarrow> pg_meta_store" where
  "changed oper d st = set_rows (op_table oper) (rows_after oper d st) st"

lemma where_set_rows [simp]:
  "where_id (set_rows t ds st) = where_id st"
  "where_id_tenant (set_rows t ds st) = where_id_tenant st"
  "where_id_tenant_or_global (set_rows t ds st) = where_id_tenant_or_global st"
  "op_where oper (set_rows t ds st) = op_where oper st"
  by (simp_all add: fun_eq_iff where_id_def where_id_tenant_def where_id_tenant_or_global_def
      op_where_def split: option.splits)

lemma clash_set_rows [simp]: "clash (set_rows t ds st) = clash st"
  by (simp add: fun_eq_iff clash_def)

lemma changed_simps [simp]:
  "doc_path (changed oper d st) = doc_path st"
  "op_where oper' (changed oper d st) = op_where oper' st"
  "where_id_tenant (changed oper d st) = where_id_tenant st"
  "where_id_tenant_or_global (changed oper d st) = where_id_tenant_or_global st"
  "unique_ok (changed oper d st) = unique_ok st"
  "clash (changed oper d st) = clash st"
  "rows t (changed oper d st) = (if t = op_table oper then rows_after oper d st else rows t st)"
  by (simp_all add: changed_def)

lemma op_where_id: "op_where oper st x \<Longrightarrow> op_uid oper = Some uid \<Longrightarrow> row_id st x = Some uid"
  by (auto simp: op_where_def split: option.splits)

lemma op_where_uid: "op_where oper st x \<Longrightarrow> \<exists>u. op_uid oper = Some u \<and> row_id st x = Some u"
  by (auto simp: op_where_def split: option.splits)

lemma op_where_disjoint:
  "(\<And>u. op_uid i = Some u \<Longrightarrow> op_uid j \<noteq> Some u) \<Longrightarrow> op_where i st x \<Longrightarrow> \<not> op_where j st x"
  by (auto dest!: op_where_uid)

lemma op_where_None [simp]: "op_uid oper = None \<Longrightarrow> op_where oper st = (\<lambda>_. False)"
  by (simp add: op_where_def)

lemma new_rows_split: "set (replaced oper d) \<union> set (appended oper d) = set (new_rows oper d)"
  by (cases oper) (simp_all add: replaced_def appended_def)

lemma rows_after_append: "op_uid oper = None \<Longrightarrow> rows_after oper d st = rows (op_table oper) st @ [d]"
  by (simp add: rows_after_def appended_def change_forms)

lemma set_rows_after: "set (rows_after oper d st) \<subseteq> set (rows (op_table oper) st) \<union> set (new_rows oper d)"
  using set_change [of "op_where oper st" "replaced oper d" "appended oper d"]
  unfolding rows_after_def new_rows_split [symmetric] by blast

lemma unique_ok_iff:
  "unique_ok st t ds \<longleftrightarrow> (\<forall>ix \<in> set (unique_indexes t). at_most_one (index_key st ix) ds)"
  by (simp add: unique_ok_def list_all_iff distinct_map_filter_iff)

lemma id_index: "[(''metadata'', ''id'')] \<in> set (unique_indexes t)"
  by (cases t) simp_all

lemma appended_id:
  assumes "unique_ok st t (ds @ [d])" "r \<in> set ds" "row_id st r = Some u"
  shows "row_id st d \<noteq> Some u"
proof
  assume "row_id st d = Some u"
  then have keys: "index_key st [(''metadata'', ''id'')] d = Some [u]"
      "index_key st [(''metadata'', ''id'')] r = Some [u]"
    using assms(3) by (simp_all add: index_key_def)
  let ?has = "\<lambda>x. index_key st [(''metadata'', ''id'')] x = Some [u]"
  have "length (filter ?has (ds @ [d])) \<le> 1"
    using assms(1) id_index [of t] unfolding unique_ok_iff at_most_one_def by blast
  then have "filter ?has ds = []"
    using keys(1) by simp
  then show False
    using assms(2) keys(2) by (simp add: filter_empty_conv)
qed

text \<open>The identifier of the row an operation writes.\<close>

definition aims :: "pg_meta_store \<Rightarrow> store_op \<Rightarrow> json \<Rightarrow> bool" where
  "aims st oper d \<longleftrightarrow>
     (\<forall>u. op_uid oper = Some u \<longrightarrow>
        (\<exists>r \<in> set (rows (op_table oper) st). row_id st r = Some u)
        \<and> (\<forall>x \<in> set (new_rows oper d). row_id st x = Some u))"

lemma aims_new:
  assumes "aims st i di" "unique_ok st t (rows_after i di st)" "aims st j dj"
    and "op_table i = t" "op_table j = t"
    and "\<And>u. op_uid i = Some u \<Longrightarrow> op_uid j \<noteq> Some u"
    and x: "x \<in> set (replaced i di) \<union> set (appended i di)"
  shows "\<not> op_where j st x"
proof
  assume q: "op_where j st x"
  then obtain u where u: "op_uid j = Some u" "row_id st x = Some u"
    using op_where_uid by blast
  show False
  proof (cases "op_uid i")
    case None
    obtain r where "r \<in> set (rows t st)" "row_id st r = Some u"
      using assms(3,5) u(1) unfolding aims_def by blast
    then have "row_id st di \<noteq> Some u"
      using appended_id [of st t "rows t st" di r u] assms(2,4) rows_after_append [OF None] by simp
    then show False
      using x None u(2) by (simp add: replaced_def appended_def)
  next
    case (Some v)
    then have "row_id st x = Some v"
      using assms(1) x unfolding new_rows_split aims_def by blast
    then show False
      using assms(6) Some u by simp
  qed
qed

lemma unique_ok_both:
  assumes ui: "unique_ok st (op_table i) (rows_after i di st)"
    and uj: "unique_ok st (op_table j) (rows_after j dj st)"
    and aims: "aims st i di" "aims st j dj"
    and target: "\<And>u. op_table i = op_table j \<Longrightarrow> op_uid i = Some u \<Longrightarrow> op_uid j \<noteq> Some u"
    and free: "\<And>x y. op_table i = op_table j \<Longrightarrow> x \<in> set (new_rows i di) \<Longrightarrow> y \<in> set (new_rows j dj)
      \<Longrightarrow> \<not> clash st (op_table i) x y"
  shows "unique_ok st (op_table i) (rows_after i di (changed j dj st))"
proof (cases "op_table i = op_table j")
  case False
  then show ?thesis using ui by (simp add: rows_after_def)
next
  case True
  have target': "op_uid i \<noteq> Some u" if "op_uid j = Some u" for u
    using target [OF True, of u] that by blast
  let ?t = "op_table i" and ?p = "op_where i st" and ?q = "op_where j st" and ?xs = "rows (op_table i) st"
  show ?thesis
    unfolding unique_ok_iff
  proof
    fix ix
    assume ix: "ix \<in> set (unique_indexes ?t)"
    have "at_most_one (index_key st ix) (change ?p (replaced i di) (appended i di)
        (change ?q (replaced j dj) (appended j dj) ?xs))"
    proof (rule at_most_one_both)
      show "at_most_one (index_key st ix) (change ?p (replaced i di) (appended i di) ?xs)"
        "at_most_one (index_key st ix) (change ?q (replaced j dj) (appended j dj) ?xs)"
        using ui uj ix True by (simp_all add: unique_ok_iff rows_after_def)
      show "\<not> ?q x" if "x \<in> set ?xs" "?p x" for x
        using op_where_disjoint [OF target [OF True]] that by blast
      show "\<not> ?q x" if "x \<in> set (replaced i di) \<union> set (appended i di)" for x
        using aims_new [OF aims(1) ui aims(2) refl _ target [OF True]] True that by simp
      show "\<not> ?p x" if "x \<in> set (replaced j dj) \<union> set (appended j dj)" for x
        using aims_new [OF aims(2) uj aims(1) refl _ target'] True that by simp
      show "index_key st ix x = None \<or> index_key st ix x \<noteq> index_key st ix y"
        if "x \<in> set (replaced i di) \<union> set (appended i di)" "y \<in> set (replaced j dj) \<union> set (appended j dj)" for x y
        using free [OF True, of x y] that ix unfolding new_rows_split clash_def list_ex_iff by blast
    qed
    then show "at_most_one (index_key st ix) (rows_after i di (changed j dj st))"
      using True by (simp add: rows_after_def)
  qed
qed

section \<open>The statements as changes\<close>

lemma write_stmt_Inr:
  assumes "\<not> single_statement oper" "write_stmt en oper w st = Inr st'" "indexes_ok st"
  shows "st' = changed oper (snd w) st \<and> unique_ok st (op_table oper) (rows_after oper (snd w) st)"
proof (cases oper)
  case (DeleteDataConnectionType t uid)
  have "unique_ok st DataConnectionTypes (filter p (data_connection_types st))" for p
    using indexes_ok_rows [OF assms(3), of DataConnectionTypes] by (simp add: unique_ok_filter)
  then show ?thesis
    using assms(2) DeleteDataConnectionType
    by (auto simp: result_simps sql_simps changed_def rows_after_def replaced_def appended_def
        change_forms op_where_def split: if_splits)
qed (use assms in \<open>auto simp: result_simps sql_simps changed_def rows_after_def replaced_def
      appended_def change_forms op_where_def\<close>)

lemma write_stmt_again:
  assumes "\<not> single_statement oper" "write_stmt en oper w st = Inr st'"
    and "unique_ok st2 (op_table oper) (rows_after oper (snd w) st2)"
    and "\<And>u. op_uid oper = Some u \<Longrightarrow> \<exists>r \<in> set (rows (op_table oper) st2). op_where oper st2 r"
  shows "\<exists>st2'. write_stmt en oper w st2 = Inr st2'"
proof (cases oper)
  case (DeleteDataConnectionType t uid)
  have "filter (where_id_tenant st2 uid t) (data_connection_types st2) \<noteq> []"
    using assms(4) [of uid] DeleteDataConnectionType by (simp add: op_where_def filter_empty_conv)
  then show ?thesis
    using assms(2) DeleteDataConnectionType
    by (auto simp: result_simps sql_simps split: if_splits)
qed (use assms(1-3) in \<open>auto simp: result_simps sql_simps rows_after_def replaced_def
      appended_def change_forms op_where_def\<close>)

lemma lock_stmt_found:
  assumes "lock_stmt en oper st = Inr d" "op_uid oper = Some u"
  shows "find (op_where oper st) (rows (op_table oper) st) = Some d"
    "d \<in> set (rows (op_table oper) st)" "op_where oper st d" "row_id st d = Some u"
proof -
  show f: "find (op_where oper st) (rows (op_table oper) st) = Some d"
    using assms by (simp add: lock_stmt_def result_simps sql_simps)
  show "d \<in> set (rows (op_table oper) st)" "op_where oper st d"
    using find_SomeD [OF f] by simp_all
  then show "row_id st d = Some u"
    using op_where_id assms(2) by blast
qed

lemma plan_aims:
  assumes "lock_stmt en oper st = Inr d" "plan en oper d = Inr w" "\<not> single_statement oper"
  shows "aims st oper (snd w)"
proof -
  have "row_id st x = Some u" if "op_uid oper = Some u" "x \<in> set (new_rows oper (snd w))" for u x
    using assms(2,3) that lock_stmt_found(4) [OF assms(1) that(1)]
    by (cases oper)
      (auto simp: result_simps sql_simps dest: connection_doc.dec_row connection_type_doc.dec_row
        flight_service_doc.dec_row)
  then show ?thesis
    using lock_stmt_found [OF assms(1)] unfolding aims_def by blast
qed

text \<open>
  A connection is written with a type that is locked, or with the type of the row it replaces.
\<close>

lemma plan_type_ref:
  assumes "lock_stmt en oper st = Inr d" "plan en oper d = Inr w" "\<not> single_statement oper"
    and "references_ok st" "op_table oper = DataConnections" "x \<in> set (new_rows oper (snd w))" "row_type_ref st x = Some tid"
  shows "fst w = Some tid \<or> (\<exists>r \<in> set (data_connections st). row_type_ref st r = Some tid)"
proof (cases oper)
  case (UpdateDataConnectionStatus t uid f)
  then obtain e s where e: "data_connection_resource_from_value d = Some e"
      "dc_data_connection_type_id (dcr_resource e) = tid"
    using assms(2,6,7) by (auto simp: result_simps sql_simps)
  have d: "d \<in> set (data_connections st)" "row_id st d = Some uid"
    using lock_stmt_found [OF assms(1)] UpdateDataConnectionStatus by simp_all
  then obtain tid' where "row_type_ref st d = Some tid'"
    using assms(4) unfolding references_ok_iff by blast
  then show ?thesis
    using dec_row_type_ref [OF e(1) d(2)] e(2) d(1) by auto
qed (use assms(2,3,5-7) in \<open>auto simp: result_simps new_data_connection_resource_def\<close>)

section \<open>What a session relies on\<close>

fun session_ok :: "pg_meta_store \<Rightarrow> session \<Rightarrow> bool" where
  "session_ok st (en, oper, ph) =
     (case ph of
        Ready \<Rightarrow> True
      | Open \<Rightarrow> db_fault en Begin = None \<and> \<not> single_statement oper
      | Locked w \<Rightarrow> db_fault en Begin = None \<and> \<not> single_statement oper
          \<and> rbind (lock_stmt en oper st) (plan en oper) = Inr w
      | Checked w \<Rightarrow> db_fault en Begin = None \<and> \<not> single_statement oper
          \<and> rbind (lock_stmt en oper st) (plan en oper) = Inr w \<and> check_stmt en oper w st = Inr ()
      | Written w \<Rightarrow> db_fault en Begin = None \<and> \<not> single_statement oper
          \<and> rbind (lock_stmt en oper st) (plan en oper) = Inr w \<and> check_stmt en oper w st = Inr ()
          \<and> is_ok (write_stmt en oper w st)
      | Finished r \<Rightarrow> True)"

text \<open>A change by another session that the locks of a session allow.\<close>

definition allowed :: "pg_meta_store \<Rightarrow> session \<Rightarrow> store_op \<Rightarrow> json \<Rightarrow> bool" where
  "allowed st s oper d \<longleftrightarrow>
     (\<forall>u. op_uid oper = Some u \<longrightarrow> (op_table oper, u) \<notin> set (row_locks s) \<union> set (share_locks s))
     \<and> (\<forall>x \<in> set (new_rows oper d). \<forall>tid. op_table oper = DataConnections \<longrightarrow>
          row_type_ref st x = Some tid \<longrightarrow>
          (DataConnectionTypes, tid) \<notin> set (row_locks s)
          \<or> (\<exists>r \<in> set (data_connections st). row_type_ref st r = Some tid))
     \<and> (\<forall>en i w. s = (en, i, Written w) \<longrightarrow> op_table i = op_table oper \<longrightarrow>
          (\<forall>x \<in> set (new_rows i (snd w)). \<forall>y \<in> set (new_rows oper d).
             \<not> clash st (op_table oper) x y))"

lemma lock_stable:
  assumes lock: "lock_stmt en i st = Inr d"
    and aims: "aims st j dj"
    and free: "\<And>u. op_table i = op_table j \<Longrightarrow> op_uid i = Some u \<Longrightarrow> op_uid j \<noteq> Some u"
  shows "lock_stmt en i (changed j dj st) = Inr d"
proof (cases "op_uid i")
  case None
  then show ?thesis using lock by (simp add: lock_stmt_def)
next
  case (Some u)
  note found = lock_stmt_found [OF lock Some]
  have "find (op_where i st) (rows (op_table i) (changed j dj st)) = Some d"
  proof (cases "op_table i = op_table j")
    case True
    have "\<not> op_where i st x" if x: "x \<in> set (replaced j dj)" for x
    proof
      assume "op_where i st x"
      then have "row_id st x = Some u" using op_where_id Some by blast
      moreover obtain v where v: "op_uid j = Some v"
        using x by (cases "op_uid j") (simp_all add: replaced_def)
      then have "row_id st x = Some v"
        using x aims unfolding aims_def replaced_def by simp
      ultimately show False using free [OF True Some] v by simp
    qed
    then have "find (op_where i st) (rows_after j dj st) = Some d"
      unfolding rows_after_def True [symmetric]
      using found(1) op_where_disjoint [OF free [OF True]]
      by (intro find_change) auto
    then show ?thesis using True by simp
  next
    case False
    then show ?thesis using found(1) by simp
  qed
  then show ?thesis
    using lock Some by (simp add: lock_stmt_def result_simps sql_simps)
qed

lemma check_stmt_other:
  assumes "\<And>t uid. i \<noteq> DeleteDataConnectionType t uid"
  shows "check_stmt en i w st =
    (case (fst w, op_tenant i) of
       (Some tid, Some t) \<Rightarrow> validate_connection_type en st t tid
     | _ \<Rightarrow> Inr ())"
  using assms by (cases w; cases "fst w"; cases i) auto

lemma validate_connection_type_iff:
  "validate_connection_type en st t tid = Inr () \<longleftrightarrow>
     db_fault en (Select DataConnectionTypes) = None
     \<and> (\<exists>d. find (where_id_tenant_or_global st tid t) (data_connection_types st) = Some d)"
  by (auto simp: validate_connection_type_def result_simps sql_simps)

lemma validate_stable:
  assumes ok: "validate_connection_type en st t tid = Inr ()"
    and aims: "aims st j dj" and free: "op_table j = DataConnectionTypes \<Longrightarrow> op_uid j \<noteq> Some tid"
  shows "validate_connection_type en (changed j dj st) t tid = Inr ()"
proof (cases "op_table j = DataConnectionTypes")
  case False
  then have "data_connection_types (changed j dj st) = data_connection_types st"
    using rows.simps(2) changed_simps(7) by metis
  then show ?thesis using ok by (simp add: validate_connection_type_iff)
next
  case True
  let ?P = "where_id_tenant_or_global st tid t"
  obtain d where d: "find ?P (data_connection_types st) = Some d"
    using ok by (auto simp: validate_connection_type_iff)
  have P: "?P x \<Longrightarrow> row_id st x = Some tid" for x
    by (simp add: where_id_tenant_or_global_def)
  have "\<not> op_where j st x" if "?P x" for x
    using op_where_uid [of j st x] P [OF that] free [OF True] by auto
  moreover have "\<not> ?P x" if x: "x \<in> set (replaced j dj)" for x
  proof -
    obtain v where v: "op_uid j = Some v"
      using x by (cases "op_uid j") (simp_all add: replaced_def)
    then have "row_id st x = Some v"
      using x aims unfolding aims_def replaced_def by simp
    then show ?thesis using P [of x] v free [OF True] by auto
  qed
  ultimately have "find ?P (rows_after j dj st) = Some d"
    unfolding rows_after_def True using d by (intro find_change) simp_all
  moreover have "data_connection_types (changed j dj st) = rows_after j dj st"
    using True rows.simps(2) [of "changed j dj st"] by simp
  ultimately show ?thesis using ok by (simp add: validate_connection_type_iff)
qed

lemma count_stable:
  assumes ok: "check_stmt en (DeleteDataConnectionType t uid) w st = Inr ()"
    and new: "\<And>x. x \<in> set (new_rows j dj) \<Longrightarrow> op_table j = DataConnections \<Longrightarrow>
      row_type_ref st x = Some uid \<Longrightarrow> \<exists>r \<in> set (data_connections st). row_type_ref st r = Some uid"
  shows "check_stmt en (DeleteDataConnectionType t uid) w (changed j dj st) = Inr ()"
proof -
  have none: "\<forall>r \<in> set (data_connections st). row_type_ref st r \<noteq> Some uid"
    using ok by (auto simp: result_simps sql_simps filter_empty_conv split: if_splits)
  have "set (rows DataConnections (changed j dj st)) \<subseteq>
      set (data_connections st) \<union> (if op_table j = DataConnections then set (new_rows j dj) else {})"
    using set_rows_after [of j dj st] by (cases "op_table j = DataConnections") auto
  then have "\<forall>r \<in> set (rows DataConnections (changed j dj st)). row_type_ref st r \<noteq> Some uid"
    using none new by (auto split: if_splits simp del: changed_simps(7) rows.simps)
  then show ?thesis
    using ok by (auto simp: result_simps sql_simps filter_empty_conv simp del: changed_simps(7)
        rows.simps split: if_splits)
qed

lemma locks_held:
  assumes "ph = Locked w \<or> ph = Checked w \<or> ph = Written w"
  shows "op_uid i = Some u \<Longrightarrow> (op_table i, u) \<in> set (row_locks (en, i, ph))"
    and "ph \<noteq> Locked w \<Longrightarrow> fst w = Some tid \<Longrightarrow> (DataConnectionTypes, tid) \<in> set (share_locks (en, i, ph))"
  using assms by (auto simp: locked_row_def)

lemma plan_stable:
  assumes "rbind (lock_stmt en i st) (plan en i) = Inr w" "aims st j dj" "allowed st (en, i, ph) j dj"
    and "ph = Locked w \<or> ph = Checked w \<or> ph = Written w"
  shows "rbind (lock_stmt en i (changed j dj st)) (plan en i) = Inr w"
proof -
  obtain d where d: "lock_stmt en i st = Inr d" "plan en i d = Inr w"
    using assms(1) by (auto simp: result_simps)
  have "op_uid j \<noteq> Some u" if "op_table i = op_table j" "op_uid i = Some u" for u
    using assms(3) locks_held(1) [OF assms(4) that(2), of en] that(1) unfolding allowed_def by auto
  then have "lock_stmt en i (changed j dj st) = Inr d"
    by (rule lock_stable [OF d(1) assms(2)])
  then show ?thesis using d(2) by simp
qed

lemma check_stable:
  assumes "check_stmt en i w st = Inr ()" "aims st j dj" "allowed st (en, i, ph) j dj"
    and "ph = Checked w \<or> ph = Written w"
  shows "check_stmt en i w (changed j dj st) = Inr ()"
proof (cases "\<exists>t uid. i = DeleteDataConnectionType t uid")
  case True
  then obtain t uid where i: "i = DeleteDataConnectionType t uid" by blast
  have held: "(DataConnectionTypes, uid) \<in> set (row_locks (en, i, ph))"
    using locks_held(1) [of ph w i uid en] assms(4) i by simp
  show ?thesis
    unfolding i
  proof (rule count_stable)
    show "check_stmt en (DeleteDataConnectionType t uid) w st = Inr ()"
      using assms(1) i by simp
    show "\<exists>r \<in> set (data_connections st). row_type_ref st r = Some uid"
      if "x \<in> set (new_rows j dj)" "op_table j = DataConnections" "row_type_ref st x = Some uid" for x
      using assms(3) that held unfolding allowed_def by blast
  qed
next
  case False
  show ?thesis
  proof (cases "\<exists>tid t. fst w = Some tid \<and> op_tenant i = Some t")
    case True
    then obtain tid t where w: "fst w = Some tid" "op_tenant i = Some t" by blast
    have "op_uid j \<noteq> Some tid" if "op_table j = DataConnectionTypes"
      using assms(3,4) locks_held(2) [of ph w tid en i] w(1) that unfolding allowed_def by auto
    then have "validate_connection_type en (changed j dj st) t tid = Inr ()"
      using validate_stable [OF _ assms(2)] assms(1) w check_stmt_other [of i] False by simp
    then show ?thesis
      using w check_stmt_other [of i] False by simp
  next
    case no: False
    then show ?thesis
      using check_stmt_other [of i en w "changed j dj st"] False
      by (auto split: option.splits)
  qed
qed

lemma write_stable:
  assumes inv: "indexes_ok st" and single: "\<not> single_statement i"
    and lock: "rbind (lock_stmt en i st) (plan en i) = Inr w" and ok: "is_ok (write_stmt en i w st)"
    and j: "aims st j dj" "unique_ok st (op_table j) (rows_after j dj st)"
    and allowed: "allowed st (en, i, Written w) j dj"
  shows "is_ok (write_stmt en i w (changed j dj st))"
proof -
  obtain d where d: "lock_stmt en i st = Inr d" "plan en i d = Inr w"
    using lock by (auto simp: result_simps)
  obtain st' where st': "write_stmt en i w st = Inr st'"
    using ok by (auto simp: is_ok_iff)
  have target: "op_uid j \<noteq> Some u" if "op_table i = op_table j" "op_uid i = Some u" for u
    using allowed locks_held(1) [of "Written w" w i u en] that unfolding allowed_def by auto
  have free: "\<not> clash st (op_table i) x y"
    if "op_table i = op_table j" "x \<in> set (new_rows i (snd w))" "y \<in> set (new_rows j dj)" for x y
    using allowed that unfolding allowed_def by (cases w) simp
  have "unique_ok st (op_table i) (rows_after i (snd w) st)"
    using write_stmt_Inr [OF single st' inv] by blast
  then have "unique_ok st (op_table i) (rows_after i (snd w) (changed j dj st))"
    by (rule unique_ok_both [OF _ j(2) plan_aims [OF d single] j(1)]) (fact target, fact free)
  then have u: "unique_ok (changed j dj st) (op_table i) (rows_after i (snd w) (changed j dj st))"
    by (simp only: changed_simps(5))
  have "lock_stmt en i (changed j dj st) = Inr d"
    by (rule lock_stable [OF d(1) j(1)]) (fact target)
  then have row: "\<exists>r \<in> set (rows (op_table i) (changed j dj st)). op_where i (changed j dj st) r"
    if "op_uid i = Some v" for v
    using lock_stmt_found(2,3) [OF _ that] by blast
  have "\<exists>st2'. write_stmt en i w (changed j dj st) = Inr st2'"
    by (rule write_stmt_again [OF single st' u]) (fact row)
  then show ?thesis by (simp only: is_ok_iff)
qed

lemma session_stable:
  assumes "indexes_ok st" "session_ok st s"
    and "aims st j dj" "unique_ok st (op_table j) (rows_after j dj st)" "allowed st s j dj"
  shows "session_ok (changed j dj st) s"
proof -
  obtain en i ph where s: "s = (en, i, ph)" by (cases s)
  show ?thesis
  proof (cases ph)
    case (Locked w)
    then show ?thesis
      using assms s plan_stable [of en i st w j dj ph] by simp
  next
    case (Checked w)
    then show ?thesis
      using assms s plan_stable [of en i st w j dj ph] check_stable [of en i w st j dj ph] by simp
  next
    case (Written w)
    then show ?thesis
      using assms s plan_stable [of en i st w j dj ph] check_stable [of en i w st j dj ph]
        write_stable [of st i en w j dj] by simp
  qed (use assms s in auto)
qed

end
