(* ===== verification/Meta_Serial.thy ===== *)
theory Meta_Serial
  imports Meta_Changes
begin

text \<open>
  What the locks of the metadata store buy.  Every interleaving of the statements of any number
  of requests has the effect and the results of the requests run one after the other, in the
  order in which they end; so every property of the sequential store holds for the concurrent
  one.  No schedule runs for ever, and none gets stuck: there are no deadlocks.
\<close>

section \<open>Single statements\<close>

lemma changed_idle:
  assumes "\<forall>r \<in> set (rows (op_table oper) st). \<not> op_where oper st r" "appended oper d = []"
  shows "changed oper d st = st"
  using assms by (simp add: changed_def rows_after_def change_none)

lemma autocommit_delete:
  fixes t :: table
  assumes "indexes_ok st" "\<And>s. op_where oper s = p s" "op_table oper = t" "new_rows oper d = []"
    "appended oper d = []"
  shows "snd (autocommit en (\<lambda>en' s. execute_delete en' t (p s) s) st) = st
    \<or> unique_ok st t (rows_after oper d st)
      \<and> snd (autocommit en (\<lambda>en' s. execute_delete en' t (p s) s) st) = changed oper d st"
proof -
  have r: "replaced oper d = []"
    using assms(4) by (simp add: replaced_def)
  have after: "rows_after oper d st = filter (\<lambda>x. \<not> p st x) (rows t st)"
    using assms(2,3,5) r by (simp add: rows_after_def change_forms)
  have "unique_ok st t (rows_after oper d st)"
    using indexes_ok_rows [OF assms(1), of t] unique_ok_filter after by simp
  then show ?thesis
    using after assms(3)
    by (auto simp: autocommit_def changed_def execute_delete_def db_call_result_def
        split: sum.splits option.splits)
qed

lemma insert_named_change:
  assumes "op_table oper = t" "op_uid oper = None"
  shows "snd (insert_named en t d msg st) = st
    \<or> unique_ok st t (rows_after oper d st) \<and> snd (insert_named en t d msg st) = changed oper d st"
  by (rule insert_named_keeps) (use assms in \<open>simp_all add: rows_after_append changed_def\<close>)

lemma run_op_single:
  assumes "single_statement oper" "indexes_ok st"
  shows "snd (run_op en oper st) = st
    \<or> unique_ok st (op_table oper) (rows_after oper (inserted_row en oper) st)
      \<and> snd (run_op en oper st) = changed oper (inserted_row en oper) st"
proof (cases oper)
  case (DeleteDataConnection t uid)
  then show ?thesis
    using autocommit_delete [of st oper "\<lambda>s. where_id_tenant s uid t" DataConnections JNull en] assms(2)
    by (simp add: delete_data_connection_def split_def Let_def op_where_def appended_def fun_eq_iff)
next
  case (DeleteFlightService uid)
  then show ?thesis
    using autocommit_delete [of st oper "\<lambda>s. where_id s uid" FlightServices JNull en] assms(2)
    by (simp add: delete_flight_service_def split_def Let_def op_where_def appended_def fun_eq_iff)
next
  case (CreateDataConnectionType t dct)
  then show ?thesis
    using insert_named_change [of oper DataConnectionTypes en "inserted_row en oper" _ st]
    by (simp add: create_data_connection_type_def split_def Let_def)
next
  case (CreateFlightService fs)
  then show ?thesis
    using insert_named_change [of oper FlightServices en "inserted_row en oper" _ st]
    by (simp add: create_flight_service_def split_def Let_def)
qed (use assms(1) in simp_all)

lemma single_new_rows: "single_statement oper \<Longrightarrow> op_uid oper = Some u \<Longrightarrow> new_rows oper d = []"
  by (cases oper) auto

lemma single_not_connection: "single_statement oper \<Longrightarrow> op_table oper = DataConnections \<Longrightarrow> new_rows oper d = []"
  by (cases oper) auto

lemma clash_sym: "clash st t x y \<longleftrightarrow> clash st t y x"
  unfolding clash_def
  by (rule arg_cong [where f = "\<lambda>P. list_ex P (unique_indexes t)"], rule ext, metis)

text \<open>
  A single statement that need not wait, and changes something, changes only what the other
  sessions allow.
\<close>

lemma single_allowed:
  assumes single: "single_statement oper"
    and waits: "\<not> row_waits others oper st" "\<not> write_waits others oper d st"
    and row: "op_uid oper = None \<or> (\<exists>r \<in> set (rows (op_table oper) st). op_where oper st r)"
  shows "aims st oper d" and "s \<in> set others \<Longrightarrow> allowed st s oper d"
proof -
  show "aims st oper d"
    using row single_new_rows [OF single] op_where_id unfolding aims_def by fastforce
  assume s: "s \<in> set others"
  have "(op_table oper, u) \<notin> set (row_locks s) \<union> set (share_locks s)" if "op_uid oper = Some u" for u
    using waits(1) row that s by (auto simp: row_waits_def list_ex_iff locked_row_def)
  moreover have "\<not> clash st (op_table oper) x y"
    if "s = (en, i, Written w)" "op_table i = op_table oper" "x \<in> set (new_rows i (snd w))"
      "y \<in> set (new_rows oper d)" for en i w x y
  proof -
    have "(op_table oper, x) \<in> set (versions st s)"
      using that(1-3) by (cases w) auto
    then have "\<not> clash st (op_table oper) y x"
      using waits(2) s that(4) unfolding write_waits_def list_ex_iff by auto
    then show ?thesis using clash_sym by blast
  qed
  ultimately show "allowed st s oper d"
    unfolding allowed_def using single_not_connection [OF single] by auto
qed

section \<open>The invariant of the interleaving\<close>

definition pair_ok :: "pg_meta_store \<Rightarrow> session \<Rightarrow> session \<Rightarrow> bool" where
  "pair_ok st s s' \<longleftrightarrow>
     set (row_locks s) \<inter> (set (row_locks s') \<union> set (share_locks s')) = {}
     \<and> (\<forall>en i w en' j w'. s = (en, i, Written w) \<longrightarrow> s' = (en', j, Written w') \<longrightarrow>
          op_table i = op_table j \<longrightarrow>
          (\<forall>x \<in> set (new_rows i (snd w)). \<forall>y \<in> set (new_rows j (snd w')).
             \<not> clash st (op_table j) x y))"

fun finished :: "session \<Rightarrow> (env \<times> store_op \<times> (meta_store_error + unit)) option" where
  "finished (en, oper, Finished r) = Some (en, oper, r)"
| "finished _ = None"

definition db_inv :: "pg_meta_store \<Rightarrow> db \<Rightarrow> bool" where
  "db_inv st0 c \<longleftrightarrow>
     meta_inv (db_store c)
     \<and> replay st0 (db_log c) = Some (db_store c)
     \<and> mset (db_log c) = mset (List.map_filter finished (db_sessions c))
     \<and> (\<forall>i < length (db_sessions c). session_ok (db_store c) (db_sessions c ! i))
     \<and> (\<forall>i < length (db_sessions c). \<forall>j < length (db_sessions c). i \<noteq> j \<longrightarrow>
          pair_ok (db_store c) (db_sessions c ! i) (db_sessions c ! j))"

lemma commit_allowed:
  assumes "pair_ok st (en, j, Written w) s" "pair_ok st s (en, j, Written w)"
    and "session_ok st (en, j, Written w)" "references_ok st"
  shows "aims st j (snd w)" and "allowed st s j (snd w)"
proof -
  obtain d where d: "lock_stmt en j st = Inr d" "plan en j d = Inr w" and single: "\<not> single_statement j"
    using assms(3) by (auto simp: result_simps)
  show "aims st j (snd w)"
    by (rule plan_aims [OF d single])
  have locks: "(op_table j, u) \<notin> set (row_locks s) \<union> set (share_locks s)" if "op_uid j = Some u" for u
    using assms(1) locks_held(1) [of "Written w" w j u en] that unfolding pair_ok_def by blast
  have share: "(DataConnectionTypes, tid) \<notin> set (row_locks s)" if "fst w = Some tid" for tid
    using assms(2) locks_held(2) [of "Written w" w tid en j] that unfolding pair_ok_def by blast
  have "(DataConnectionTypes, tid) \<notin> set (row_locks s)
      \<or> (\<exists>r \<in> set (data_connections st). row_type_ref st r = Some tid)"
    if "x \<in> set (new_rows j (snd w))" "op_table j = DataConnections" "row_type_ref st x = Some tid" for x tid
    using plan_type_ref [OF d single assms(4) that(2,1,3)] share by blast
  then show "allowed st s j (snd w)"
    using locks assms(2) unfolding allowed_def pair_ok_def by blast
qed

lemma replay_snoc:
  "replay st (l @ [(en, oper, r)]) =
     Option.bind (replay st l) (\<lambda>st'. if fst (run_op en oper st') = r then Some (snd (run_op en oper st')) else None)"
  by (induction l arbitrary: st) auto

lemma map_filter_append: "List.map_filter f (xs @ ys) = List.map_filter f xs @ List.map_filter f ys"
  by (simp add: List.map_filter_def)

lemma map_filter_update:
  assumes "i < length xs" "f (xs ! i) = None"
  shows "mset (List.map_filter f (xs[i := y])) =
    mset (List.map_filter f xs) + (case f y of None \<Rightarrow> {#} | Some z \<Rightarrow> {#z#})"
proof -
  have "List.map_filter f (take i xs @ xs ! i # drop (Suc i) xs)
      = List.map_filter f (take i xs) @ List.map_filter f (drop (Suc i) xs)"
    using assms(2) by (simp add: map_filter_append map_filter_simps)
  then have "List.map_filter f xs = List.map_filter f (take i xs) @ List.map_filter f (drop (Suc i) xs)"
    by (simp only: id_take_nth_drop [OF assms(1), symmetric])
  then show ?thesis
    using assms(1)
    by (simp add: upd_conv_take_nth_drop map_filter_append map_filter_simps split: option.splits)
qed

lemma no_locks:
  "row_locks (en, oper, Ready) = []" "row_locks (en, oper, Open) = []" "row_locks (en, oper, Finished r) = []"
  "share_locks (en, oper, Ready) = []" "share_locks (en, oper, Open) = []"
  "share_locks (en, oper, Finished r) = []" "share_locks (en, oper, Locked w) = []"
  by simp_all

lemma others_of_iff: "s \<in> set (others_of i xs) \<longleftrightarrow> (\<exists>j < length xs. j \<noteq> i \<and> xs ! j = s)"
  by (auto simp: others_of_def)

lemma nth_in_others: "j < length xs \<Longrightarrow> j \<noteq> i \<Longrightarrow> xs ! j \<in> set (others_of i xs)"
  by (auto simp: others_of_iff)

lemma phase_inv:
  assumes inv: "db_inv st0 c" and i: "i < length (db_sessions c)" "db_sessions c ! i = (en, oper, ph)"
    and ph: "finished (en, oper, ph) = None" "finished (en, oper, ph') = None"
    and ok: "session_ok (db_store c) (en, oper, ph')"
    and pairs: "\<And>s. s \<in> set (others_of i (db_sessions c)) \<Longrightarrow>
      pair_ok (db_store c) (en, oper, ph') s \<and> pair_ok (db_store c) s (en, oper, ph')"
  shows "db_inv st0 (set_phase i ph' c)"
proof -
  have other: "db_sessions c ! j \<in> set (others_of i (db_sessions c))"
    if "j < length (db_sessions c)" "j \<noteq> i" for j
    using that nth_in_others by blast
  have "mset (List.map_filter finished ((db_sessions c)[i := (en, oper, ph')])) =
      mset (List.map_filter finished (db_sessions c))"
    using map_filter_update [of i "db_sessions c" finished "(en, oper, ph')"] i ph by simp
  moreover have "session_ok (db_store c) ((db_sessions c)[i := (en, oper, ph')] ! j)"
    if "j < length (db_sessions c)" for j
    using inv ok that unfolding db_inv_def by (cases "j = i") simp_all
  moreover have "pair_ok (db_store c) ((db_sessions c)[i := (en, oper, ph')] ! j)
      ((db_sessions c)[i := (en, oper, ph')] ! k)"
    if jk: "j < length (db_sessions c)" "k < length (db_sessions c)" "j \<noteq> k" for j k
  proof (cases "j = i \<or> k = i")
    case True
    then show ?thesis using jk i(1) pairs other by (cases "j = i") simp_all
  next
    case False
    then show ?thesis using inv jk unfolding db_inv_def by simp
  qed
  ultimately show ?thesis
    using inv i(2) unfolding db_inv_def set_phase_def by simp
qed

lemma finish_inv:
  assumes inv: "db_inv st0 c" and i: "i < length (db_sessions c)" "db_sessions c ! i = (en, oper, ph)"
    and ph: "finished (en, oper, ph) = None"
    and run: "run_op en oper (db_store c) = (r, st')"
    and others: "\<And>s. s \<in> set (others_of i (db_sessions c)) \<Longrightarrow> session_ok st' s"
    and same: "clash st' = clash (db_store c)"
  shows "db_inv st0 (finish i (r, st') c)"
proof -
  have other: "session_ok st' (db_sessions c ! j)" if "j < length (db_sessions c)" "j \<noteq> i" for j
    using that nth_in_others others by blast
  have "meta_inv (db_store c)"
    using inv unfolding db_inv_def by blast
  then have "meta_inv st'"
    using store_step_meta_inv [OF run_op_step] run by (metis snd_conv)
  moreover have "replay st0 (db_log c @ [(en, oper, r)]) = Some st'"
    using inv run unfolding db_inv_def replay_snoc by simp
  moreover have "mset (db_log c @ [(en, oper, r)]) =
      mset (List.map_filter finished ((db_sessions c)[i := (en, oper, Finished r)]))"
    using map_filter_update [of i "db_sessions c" finished "(en, oper, Finished r)"] i ph inv
    unfolding db_inv_def by simp
  moreover have "pair_ok st' ((db_sessions c)[i := (en, oper, Finished r)] ! j)
      ((db_sessions c)[i := (en, oper, Finished r)] ! k)"
    if "j < length (db_sessions c)" "k < length (db_sessions c)" "j \<noteq> k" for j k
  proof (cases "j = i \<or> k = i")
    case True
    then show ?thesis using that i(1) by (auto simp: pair_ok_def)
  next
    case False
    then have "pair_ok (db_store c) (db_sessions c ! j) (db_sessions c ! k)"
      using inv that unfolding db_inv_def by blast
    then show ?thesis using False same by (simp add: pair_ok_def)
  qed
  moreover have "session_ok st' ((db_sessions c)[i := (en, oper, Finished r)] ! j)"
    if "j < length (db_sessions c)" for j
    using other that by (cases "j = i") simp_all
  ultimately show ?thesis
    using i(2) unfolding db_inv_def finish_def set_phase_def by simp
qed

section \<open>Every statement keeps the invariant\<close>

lemma run_op_body:
  assumes "\<not> single_statement oper" "db_fault en Begin = None"
  shows "statements en oper st = Inl e \<Longrightarrow> run_op en oper st = (Inl e, st)"
    and "statements en oper st = Inr (u, st') \<Longrightarrow> db_fault en Commit = None \<Longrightarrow>
      run_op en oper st = (Inr (), st')"
    and "statements en oper st = Inr (u, st') \<Longrightarrow> db_fault en Commit = Some f \<Longrightarrow>
      run_op en oper st = (Inl (tx_error oper), if ack_lost en then st' else st)"
  using assms by (simp_all add: run_op_statements transaction_def)

lemma statements_plan:
  "rbind (lock_stmt en oper st) (plan en oper) = Inl e \<Longrightarrow> statements en oper st = Inl e"
  "rbind (lock_stmt en oper st) (plan en oper) = Inr w \<Longrightarrow>
     statements en oper st = rbind (check_stmt en oper w st) (\<lambda>_.
       rbind (write_stmt en oper w st) (\<lambda>tx'. Inr ((), tx')))"
  unfolding statements_def by (cases "lock_stmt en oper st"; simp)+

lemma plan_type:
  "plan en oper d = Inr w \<Longrightarrow> fst w = Some tid \<Longrightarrow>
   (\<exists>t. op_tenant oper = Some t) \<and> (\<forall>t uid. oper \<noteq> DeleteDataConnectionType t uid)
   \<and> op_table oper = DataConnections"
  by (cases oper) (auto simp: result_simps)

lemma pair_ok_free:
  assumes "row_locks s = []" "share_locks s = []" "\<And>en i w. s \<noteq> (en, i, Written w)"
  shows "pair_ok st s s'" "pair_ok st s' s"
  using assms by (auto simp: pair_ok_def)

lemma inv_session:
  assumes "db_inv st0 c" "i < length (db_sessions c)" "db_sessions c ! i = s"
  shows "meta_inv (db_store c)" "session_ok (db_store c) s"
    and "s' \<in> set (others_of i (db_sessions c)) \<Longrightarrow> session_ok (db_store c) s'"
    and "s' \<in> set (others_of i (db_sessions c)) \<Longrightarrow> pair_ok (db_store c) s s'"
    and "s' \<in> set (others_of i (db_sessions c)) \<Longrightarrow> pair_ok (db_store c) s' s"
  using assms unfolding db_inv_def others_of_iff by auto

lemma single_step:
  assumes inv: "db_inv st0 c" and i: "i < length (db_sessions c)" "db_sessions c ! i = (en, oper, Ready)"
    and single: "single_statement oper"
    and waits: "\<not> row_waits (others_of i (db_sessions c)) oper (db_store c)"
      "\<not> write_waits (others_of i (db_sessions c)) oper (inserted_row en oper) (db_store c)"
  shows "db_inv st0 (finish i (run_op en oper (db_store c)) c)"
proof -
  let ?st = "db_store c" and ?d = "inserted_row en oper"
  note s = inv_session [OF inv i]
  have ix: "indexes_ok ?st" using s(1) by (simp add: meta_inv_def)
  obtain r st' where run: "run_op en oper ?st = (r, st')" by fastforce
  have "st' = ?st \<or> (st' = changed oper ?d ?st \<and> unique_ok ?st (op_table oper) (rows_after oper ?d ?st)
      \<and> (op_uid oper = None \<or> (\<exists>x \<in> set (rows (op_table oper) ?st). op_where oper ?st x)))"
    using run_op_single [OF single ix, of en] run changed_idle [of oper ?st ?d]
    by (cases "op_uid oper") (auto simp: appended_def)
  note change = this
  have "session_ok st' s'" if s': "s' \<in> set (others_of i (db_sessions c))" for s'
  proof (cases "st' = ?st")
    case True
    then show ?thesis using s(3) [OF s'] by simp
  next
    case False
    then have ch: "st' = changed oper ?d ?st" "unique_ok ?st (op_table oper) (rows_after oper ?d ?st)"
      "op_uid oper = None \<or> (\<exists>x \<in> set (rows (op_table oper) ?st). op_where oper ?st x)"
      using change by blast+
    show ?thesis
      unfolding ch(1)
      by (rule session_stable [OF ix s(3) [OF s'] single_allowed(1) [OF single waits ch(3)] ch(2)
            single_allowed(2) [OF single waits ch(3) s']])
  qed
  moreover have "clash st' = clash ?st"
    using run_op_single [OF single ix, of en] run by auto
  ultimately show ?thesis
    using finish_inv [OF inv i _ run] run by simp
qed

lemma commit_step:
  assumes inv: "db_inv st0 c" and i: "i < length (db_sessions c)" "db_sessions c ! i = (en, oper, Written w)"
    and w: "write_stmt en oper w (db_store c) = Inr st'"
    and r: "run_op en oper (db_store c) = (r, st'')" and st'': "st'' = st' \<or> st'' = db_store c"
  shows "db_inv st0 (finish i (r, st'') c)"
proof -
  let ?st = "db_store c"
  note s = inv_session [OF inv i]
  have ix: "indexes_ok ?st" "references_ok ?st" using s(1) by (simp_all add: meta_inv_def)
  have single: "\<not> single_statement oper" using s(2) by simp
  note ch = write_stmt_Inr [OF single w ix(1)]
  have "session_ok st' s'" if "s' \<in> set (others_of i (db_sessions c))" for s'
    using session_stable [OF ix(1) s(3) [OF that] commit_allowed(1) _ commit_allowed(2)]
      s(2) s(4,5) [OF that] ix(2) ch by blast
  then show ?thesis
    using finish_inv [OF inv i _ r] s(3) st'' ch by auto
qed

lemma lock_step:
  assumes inv: "db_inv st0 c" and i: "i < length (db_sessions c)" "db_sessions c ! i = (en, oper, Open)"
    and waits: "\<not> row_waits (others_of i (db_sessions c)) oper (db_store c)"
    and w: "rbind (lock_stmt en oper (db_store c)) (plan en oper) = Inr w"
  shows "db_inv st0 (set_phase i (Locked w) c)"
proof (rule phase_inv [OF inv i])
  note s = inv_session [OF inv i]
  obtain d where d: "lock_stmt en oper (db_store c) = Inr d"
    using w by (auto simp: result_simps)
  show "session_ok (db_store c) (en, oper, Locked w)"
    using s(2) w by simp
  fix s'
  assume s': "s' \<in> set (others_of i (db_sessions c))"
  have "(op_table oper, u) \<notin> set (row_locks s') \<union> set (share_locks s')" if "op_uid oper = Some u" for u
    using waits lock_stmt_found(2,3) [OF d that] that s'
    by (auto simp: row_waits_def list_ex_iff locked_row_def)
  then show "pair_ok (db_store c) (en, oper, Locked w) s' \<and> pair_ok (db_store c) s' (en, oper, Locked w)"
    by (auto simp: pair_ok_def locked_row_def split: option.splits)
qed simp_all

lemma check_step:
  assumes inv: "db_inv st0 c" and i: "i < length (db_sessions c)" "db_sessions c ! i = (en, oper, Locked w)"
    and waits: "\<not> share_waits (others_of i (db_sessions c)) oper w (db_store c)"
    and ok: "check_stmt en oper w (db_store c) = Inr ()"
  shows "db_inv st0 (set_phase i (Checked w) c)"
proof (rule phase_inv [OF inv i])
  note s = inv_session [OF inv i]
  show "session_ok (db_store c) (en, oper, Checked w)"
    using s(2) ok by simp
  obtain d where d: "plan en oper d = Inr w"
    using s(2) by (auto simp: result_simps)
  fix s'
  assume s': "s' \<in> set (others_of i (db_sessions c))"
  have "(DataConnectionTypes, tid) \<notin> set (row_locks s')" if tid: "fst w = Some tid" for tid
  proof -
    obtain t where t: "op_tenant oper = Some t"
      using plan_type [OF d tid] by blast
    have "validate_connection_type en (db_store c) t tid = Inr ()"
      using ok check_stmt_other [of oper] plan_type [OF d tid] tid t by simp
    then have "list_ex (where_id_tenant_or_global (db_store c) tid t) (data_connection_types (db_store c))"
      by (auto simp: validate_connection_type_iff list_ex_iff dest!: find_SomeD)
    then show ?thesis
      using waits tid t s' by (auto simp: share_waits_def list_ex_iff)
  qed
  then show "pair_ok (db_store c) (en, oper, Checked w) s' \<and> pair_ok (db_store c) s' (en, oper, Checked w)"
    using s(4,5) [OF s'] by (auto simp: pair_ok_def locked_row_def split: option.splits)
qed simp_all

lemma write_step:
  assumes inv: "db_inv st0 c" and i: "i < length (db_sessions c)" "db_sessions c ! i = (en, oper, Checked w)"
    and waits: "\<not> write_waits (others_of i (db_sessions c)) oper (snd w) (db_store c)"
    and ok: "is_ok (write_stmt en oper w (db_store c))"
  shows "db_inv st0 (set_phase i (Written w) c)"
proof (rule phase_inv [OF inv i])
  note s = inv_session [OF inv i]
  show "session_ok (db_store c) (en, oper, Written w)"
    using s(2) ok by simp
  fix s'
  assume s': "s' \<in> set (others_of i (db_sessions c))"
  have free: "\<not> clash (db_store c) (op_table oper) x y \<and> \<not> clash (db_store c) (op_table oper) y x"
    if "s' = (en', j, Written w')" "op_table oper = op_table j" "x \<in> set (new_rows oper (snd w))"
      "y \<in> set (new_rows j (snd w'))" for en' j w' x y
  proof -
    have "(op_table oper, y) \<in> set (versions (db_store c) s')"
      using that(1,2,4) by (cases w') auto
    then have "\<not> clash (db_store c) (op_table oper) x y"
      using waits s' that(3) unfolding write_waits_def list_ex_iff by auto
    then show ?thesis using clash_sym by blast
  qed
  have locks: "row_locks (en, oper, Written w) = row_locks (en, oper, Checked w)"
    "share_locks (en, oper, Written w) = share_locks (en, oper, Checked w)"
    by simp_all
  show "pair_ok (db_store c) (en, oper, Written w) s' \<and> pair_ok (db_store c) s' (en, oper, Written w)"
    using s(4,5) [OF s'] free unfolding pair_ok_def locks by auto
qed simp_all

lemma error_step:
  assumes inv: "db_inv st0 c" and i: "i < length (db_sessions c)" "db_sessions c ! i = (en, oper, ph)"
    and "finished (en, oper, ph) = None" "run_op en oper (db_store c) = (Inl e, db_store c)"
  shows "db_inv st0 (finish i (Inl e, db_store c) c)"
  using finish_inv [OF assms] inv_session(3) [OF inv i] by simp

lemma advance_ready:
  assumes inv: "db_inv st0 c" and i: "i < length (db_sessions c)" "db_sessions c ! i = (en, oper, Ready)"
    and nxt: "next_stmt i (others_of i (db_sessions c)) (en, oper, Ready) c = Some c'"
  shows "db_inv st0 c'"
proof (cases "single_statement oper")
  case True
  then show ?thesis
    using nxt single_step [OF inv i] by (auto simp: next_stmt_def Let_def split: if_splits)
next
  case False
  show ?thesis
  proof (cases "db_fault en Begin")
    case None
    then have "c' = set_phase i Open c"
      using nxt False by (simp add: next_stmt_def Let_def)
    then show ?thesis
      using phase_inv [OF inv i, of Open] None False pair_ok_free by simp
  next
    case (Some f)
    then show ?thesis
      using nxt False error_step [OF inv i]
      by (simp add: next_stmt_def Let_def run_op_statements transaction_def)
  qed
qed

lemma advance_open:
  assumes inv: "db_inv st0 c" and i: "i < length (db_sessions c)" "db_sessions c ! i = (en, oper, Open)"
    and nxt: "next_stmt i (others_of i (db_sessions c)) (en, oper, Open) c = Some c'"
  shows "db_inv st0 c'"
proof (cases "rbind (lock_stmt en oper (db_store c)) (plan en oper)")
  case (Inl e)
  then show ?thesis
    using nxt inv_session(2) [OF inv i] error_step [OF inv i] run_op_body(1) statements_plan(1)
    by (auto simp: next_stmt_def Let_def split: if_splits)
next
  case (Inr w)
  then show ?thesis
    using nxt lock_step [OF inv i, of w]
    by (simp add: next_stmt_def Let_def split: if_splits)
qed

lemma advance_locked:
  assumes inv: "db_inv st0 c" and i: "i < length (db_sessions c)" "db_sessions c ! i = (en, oper, Locked w)"
    and nxt: "next_stmt i (others_of i (db_sessions c)) (en, oper, Locked w) c = Some c'"
  shows "db_inv st0 c'"
proof (cases "check_stmt en oper w (db_store c)")
  case (Inl e)
  then have "run_op en oper (db_store c) = (Inl e, db_store c)"
    using inv_session(2) [OF inv i] by (intro run_op_body(1)) (simp_all add: statements_plan(2))
  then show ?thesis
    using nxt Inl error_step [OF inv i] by (simp add: next_stmt_def Let_def split: if_splits)
next
  case (Inr u)
  then show ?thesis
    using nxt check_step [OF inv i] by (simp add: next_stmt_def Let_def split: if_splits)
qed

lemma advance_checked:
  assumes inv: "db_inv st0 c" and i: "i < length (db_sessions c)" "db_sessions c ! i = (en, oper, Checked w)"
    and nxt: "next_stmt i (others_of i (db_sessions c)) (en, oper, Checked w) c = Some c'"
  shows "db_inv st0 c'"
proof (cases "write_stmt en oper w (db_store c)")
  case (Inl e)
  then have "run_op en oper (db_store c) = (Inl e, db_store c)"
    using inv_session(2) [OF inv i] by (intro run_op_body(1)) (simp_all add: statements_plan(2))
  then show ?thesis
    using nxt Inl error_step [OF inv i] by (simp add: next_stmt_def Let_def split: if_splits)
next
  case (Inr st')
  then show ?thesis
    using nxt write_step [OF inv i] by (simp add: next_stmt_def Let_def split: if_splits)
qed

lemma advance_written:
  assumes inv: "db_inv st0 c" and i: "i < length (db_sessions c)" "db_sessions c ! i = (en, oper, Written w)"
    and nxt: "next_stmt i (others_of i (db_sessions c)) (en, oper, Written w) c = Some c'"
  shows "db_inv st0 c'"
proof -
  note ok = inv_session(2) [OF inv i]
  obtain st' where w: "write_stmt en oper w (db_store c) = Inr st'"
    using ok by (auto simp: is_ok_iff)
  then have "statements en oper (db_store c) = Inr ((), st')"
    using ok by (simp add: statements_plan(2))
  then show ?thesis
    using nxt w commit_step [OF inv i w] ok run_op_body(2,3)
    by (auto simp: next_stmt_def Let_def split: option.splits if_splits)
qed

lemma advance_inv:
  assumes inv: "db_inv st0 c" and step: "advance i c = Some c'"
  shows "db_inv st0 c'"
proof -
  obtain en oper ph where ph: "db_sessions c ! i = (en, oper, ph)" by (metis prod_cases3)
  have i: "i < length (db_sessions c)"
    and nxt: "next_stmt i (others_of i (db_sessions c)) (en, oper, ph) c = Some c'"
    using step ph by (auto simp: advance_def split: if_splits)
  show ?thesis
    using ph nxt advance_ready [OF inv i] advance_open [OF inv i] advance_locked [OF inv i]
      advance_checked [OF inv i] advance_written [OF inv i]
    by (cases ph) (simp_all add: next_stmt_def [of _ _ "(en, oper, Finished _)"])
qed

lemma run_schedule_inv: "db_inv st0 c \<Longrightarrow> run_schedule is c = Some c' \<Longrightarrow> db_inv st0 c'"
proof (induction "is" arbitrary: c)
  case (Cons i js)
  then obtain d where "advance i c = Some d" "run_schedule js d = Some c'"
    by (auto simp: bind_eq_Some_conv)
  then show ?case using advance_inv [OF Cons.prems(1)] Cons.IH by blast
qed simp

lemma start_inv: "meta_inv st \<Longrightarrow> db_inv st (start st reqs)"
proof -
  assume "meta_inv st"
  moreover have "List.map_filter finished (map (\<lambda>(en, oper). (en, oper, Ready)) reqs) = []"
    by (induction reqs) (auto simp: map_filter_simps)
  ultimately show ?thesis
    by (auto simp: db_inv_def start_def pair_ok_def split_def)
qed

section \<open>No deadlock\<close>

fun remaining :: "phase \<Rightarrow> nat" where
  "remaining Ready = 5"
| "remaining Open = 4"
| "remaining (Locked w) = 3"
| "remaining (Checked w) = 2"
| "remaining (Written w) = 1"
| "remaining (Finished r) = 0"

definition work_left :: "db \<Rightarrow> nat" where
  "work_left c = sum_list (map (\<lambda>(en, oper, ph). remaining ph) (db_sessions c))"

definition all_finished :: "db \<Rightarrow> bool" where
  "all_finished c = list_all (\<lambda>s. finished s \<noteq> None) (db_sessions c)"

lemma sum_list_update_less:
  "i < length xs \<Longrightarrow> f y < f (xs ! i) \<Longrightarrow> sum_list (map f (xs[i := y])) < (sum_list (map f xs) :: nat)"
proof (induction xs arbitrary: i)
  case (Cons x xs)
  then show ?case by (cases i) auto
qed simp

lemma set_phase_work:
  assumes "i < length (db_sessions c)" "db_sessions c ! i = (en, oper, ph)" "remaining ph' < remaining ph"
  shows "work_left (set_phase i ph' c) < work_left c"
  using sum_list_update_less [of i "db_sessions c" "\<lambda>(en, oper, ph). remaining ph" "(en, oper, ph')"] assms
  by (simp add: work_left_def set_phase_def)

lemma work_left_finish [simp]: "work_left (finish i (r, st') c) = work_left (set_phase i (Finished r) c)"
  by (simp add: work_left_def finish_def set_phase_def)

lemma advance_work:
  assumes "advance i c = Some c'"
  shows "work_left c' < work_left c"
proof -
  obtain en oper ph where ph: "db_sessions c ! i = (en, oper, ph)" by (metis prod_cases3)
  have i: "i < length (db_sessions c)"
    and nxt: "next_stmt i (others_of i (db_sessions c)) (en, oper, ph) c = Some c'"
    using assms ph by (auto simp: advance_def split: if_splits)
  have fin: "work_left (finish i x c) < work_left c" if "finished (en, oper, ph) = None" for x
    using set_phase_work [OF i ph] that by (cases x; cases ph) simp_all
  obtain r st' where run: "run_op en oper (db_store c) = (r, st')" by fastforce
  show ?thesis
    using nxt fin run set_phase_work [OF i ph]
    by (cases ph) (auto simp: next_stmt_def Let_def split: if_splits sum.splits option.splits
        simp del: work_left_finish)
qed

lemma run_schedule_work: "run_schedule is c = Some c' \<Longrightarrow> length is + work_left c' \<le> work_left c"
proof (induction "is" arbitrary: c)
  case (Cons i js)
  then obtain d where "advance i c = Some d" "run_schedule js d = Some c'"
    by (auto simp: bind_eq_Some_conv)
  then show ?case using advance_work Cons.IH by fastforce
qed simp

lemma work_left_start: "work_left (start st reqs) = 5 * length reqs"
  by (induction reqs) (auto simp: work_left_def start_def)

text \<open>
  A session waits only for one that is further on: for a lock of a session that has locked its
  row, for the uncommitted row of one that has written.
\<close>

lemma locks_phase:
  "l \<in> set (row_locks s) \<union> set (share_locks s) \<Longrightarrow>
   \<exists>en i ph w. s = (en, i, ph) \<and> (ph = Locked w \<or> ph = Checked w \<or> ph = Written w)"
  by (cases s) (auto split: phase.splits)

lemma versions_phase: "v \<in> set (versions st s) \<Longrightarrow> \<exists>en i w. s = (en, i, Written w)"
  by (cases "(st, s)" rule: versions.cases) auto

lemma next_stmt_waits:
  "next_stmt i others (en, oper, Checked w) c = None \<Longrightarrow> write_waits others oper (snd w) (db_store c)"
  "next_stmt i others (en, oper, Locked w) c = None \<Longrightarrow> share_waits others oper w (db_store c)"
  "next_stmt i others (en, oper, Open) c = None \<Longrightarrow> row_waits others oper (db_store c)"
  "next_stmt i others (en, oper, Ready) c = None \<Longrightarrow>
     row_waits others oper (db_store c) \<or> write_waits others oper (inserted_row en oper) (db_store c)"
proof -
  show "next_stmt i others (en, oper, Checked w) c = None \<Longrightarrow> write_waits others oper (snd w) (db_store c)"
    by (cases "write_stmt en oper w (db_store c)") (simp_all add: next_stmt_def Let_def split: if_splits)
  show "next_stmt i others (en, oper, Locked w) c = None \<Longrightarrow> share_waits others oper w (db_store c)"
    by (cases "check_stmt en oper w (db_store c)") (simp_all add: next_stmt_def Let_def split: if_splits)
  show "next_stmt i others (en, oper, Open) c = None \<Longrightarrow> row_waits others oper (db_store c)"
    by (cases "rbind (lock_stmt en oper (db_store c)) (plan en oper)")
      (simp_all add: next_stmt_def Let_def split: if_splits)
  show "next_stmt i others (en, oper, Ready) c = None \<Longrightarrow>
     row_waits others oper (db_store c) \<or> write_waits others oper (inserted_row en oper) (db_store c)"
    by (auto simp: next_stmt_def Let_def split: if_splits)
qed

definition stuck :: "db \<Rightarrow> bool" where
  "stuck c \<longleftrightarrow> (\<forall>i. advance i c = None)"

lemma stuck_session:
  assumes "stuck c" "s \<in> set (db_sessions c)"
  shows "\<exists>i. next_stmt i (others_of i (db_sessions c)) s c = None
    \<and> set (others_of i (db_sessions c)) \<subseteq> set (db_sessions c)"
proof -
  obtain i where i: "i < length (db_sessions c)" "db_sessions c ! i = s"
    using assms(2) by (auto simp: in_set_conv_nth)
  have "advance i c = None"
    using assms(1) unfolding stuck_def by blast
  then have "next_stmt i (others_of i (db_sessions c)) s c = None"
    using i by (simp add: advance_def)
  moreover have "set (others_of i (db_sessions c)) \<subseteq> set (db_sessions c)"
    by (auto simp: others_of_def)
  ultimately show ?thesis by blast
qed

lemma inv_ok: "db_inv st0 c \<Longrightarrow> s \<in> set (db_sessions c) \<Longrightarrow> session_ok (db_store c) s"
  unfolding db_inv_def by (auto simp: in_set_conv_nth)

lemma stuck_written:
  assumes "db_inv st0 c" "stuck c"
  shows "(en, i, Written w) \<notin> set (db_sessions c)"
proof
  assume s: "(en, i, Written w) \<in> set (db_sessions c)"
  then obtain st' where "write_stmt en i w (db_store c) = Inr st'"
    using inv_ok [OF assms(1) s] by (auto simp: is_ok_iff)
  then show False
    using stuck_session [OF assms(2) s] by (auto simp: next_stmt_def Let_def split: option.splits)
qed

lemma stuck_no_write_wait:
  assumes "db_inv st0 c" "stuck c" "set others \<subseteq> set (db_sessions c)"
  shows "\<not> write_waits others oper d (db_store c)"
  using assms(3) stuck_written [OF assms(1,2)] versions_phase
  unfolding write_waits_def list_ex_iff by blast

lemma stuck_checked:
  assumes "db_inv st0 c" "stuck c"
  shows "(en, i, Checked w) \<notin> set (db_sessions c)"
  using stuck_session [OF assms(2)] stuck_no_write_wait [OF assms] next_stmt_waits(1) by blast

lemma stuck_type_lock:
  assumes "db_inv st0 c" "stuck c" and mem: "s \<in> set (db_sessions c)"
  shows "(DataConnectionTypes, tid) \<notin> set (row_locks s)"
proof
  assume l: "(DataConnectionTypes, tid) \<in> set (row_locks s)"
  then obtain en i w where s: "s = (en, i, Locked w)"
    using locks_phase [OF UnI1 [OF l]] stuck_checked [OF assms(1,2)] stuck_written [OF assms(1,2)] mem
    by auto
  have "op_table i = DataConnectionTypes"
    using l s by (auto simp: locked_row_def split: option.splits)
  moreover obtain d where "plan en i d = Inr w"
    using inv_ok [OF assms(1) mem] s by (auto simp: result_simps)
  ultimately have "fst w = None"
    using plan_type [of en i d w] by (cases "fst w") auto
  then have "\<not> share_waits others i w (db_store c)" for others
    by (simp add: share_waits_def)
  then show False
    using stuck_session [OF assms(2) mem] next_stmt_waits(2) s by blast
qed

lemma stuck_locked:
  assumes "db_inv st0 c" "stuck c"
  shows "(en, i, Locked w) \<notin> set (db_sessions c)"
proof
  assume s: "(en, i, Locked w) \<in> set (db_sessions c)"
  have "\<not> share_waits others i w (db_store c)" if "set others \<subseteq> set (db_sessions c)" for others
    using that stuck_type_lock [OF assms] by (auto simp: share_waits_def list_ex_iff split: option.splits)
  then show False
    using stuck_session [OF assms(2) s] next_stmt_waits(2) by blast
qed

lemma stuck_no_row_wait:
  assumes "db_inv st0 c" "stuck c" "set others \<subseteq> set (db_sessions c)"
  shows "\<not> row_waits others oper (db_store c)"
proof -
  have "row_locks s @ share_locks s = []" if mem: "s \<in> set (db_sessions c)" for s
  proof -
    obtain en i ph where s: "s = (en, i, ph)" by (cases s)
    then show ?thesis
      using mem stuck_checked [OF assms(1,2)] stuck_written [OF assms(1,2)] stuck_locked [OF assms(1,2)]
      by (cases ph) auto
  qed
  then show ?thesis
    using assms(3) unfolding row_waits_def list_ex_iff by fastforce
qed

lemma stuck_finished:
  assumes "db_inv st0 c" "stuck c"
  shows "all_finished c"
proof -
  have "finished s \<noteq> None" if s: "s \<in> set (db_sessions c)" for s
  proof -
    obtain en i ph where s': "s = (en, i, ph)" by (cases s)
    note waits = stuck_session [OF assms(2) s] stuck_no_row_wait [OF assms] stuck_no_write_wait [OF assms]
    show ?thesis
    proof (cases ph)
      case Ready
      then show ?thesis using waits s' next_stmt_waits(4) by blast
    next
      case Open
      then show ?thesis using waits s' next_stmt_waits(3) by blast
    qed (use s s' stuck_written [OF assms] stuck_checked [OF assms] stuck_locked [OF assms] in auto)
  qed
  then show ?thesis by (simp add: all_finished_def list_all_iff)
qed

lemma can_finish:
  assumes "db_inv st0 c"
  shows "\<exists>is c'. run_schedule is c = Some c' \<and> all_finished c'"
  using assms
proof (induction "work_left c" arbitrary: c rule: less_induct)
  case less
  show ?case
  proof (cases "stuck c")
    case True
    then have "run_schedule [] c = Some c \<and> all_finished c"
      using stuck_finished [OF less.prems] by simp
    then show ?thesis by blast
  next
    case False
    then obtain i d where d: "advance i c = Some d" by (auto simp: stuck_def)
    then obtain js c' where "run_schedule js d = Some c'" "all_finished c'"
      using less.hyps [OF advance_work [OF d] advance_inv [OF less.prems d]] by blast
    then have "run_schedule (i # js) c = Some c' \<and> all_finished c'"
      using d by simp
    then show ?thesis by blast
  qed
qed

section \<open>Properties of the concurrent store\<close>

lemma next_stmt_forms:
  "next_stmt i others s c = Some c' \<Longrightarrow> (\<exists>ph. c' = set_phase i ph c) \<or> (\<exists>x. c' = finish i x c)"
  by (cases s; cases "snd (snd s)")
    (auto simp: next_stmt_def Let_def simp del: split_paired_Ex split_paired_All
      split: if_splits sum.splits option.splits)

lemma sessions_keep_requests:
  assumes "run_schedule is c = Some c'"
  shows "map (\<lambda>(en, oper, ph). (en, oper)) (db_sessions c') = map (\<lambda>(en, oper, ph). (en, oper)) (db_sessions c)"
  using assms
proof (induction "is" arbitrary: c)
  case (Cons i js)
  let ?f = "\<lambda>(en, oper, ph). (en, oper)"
  obtain d where d: "advance i c = Some d" "run_schedule js d = Some c'"
    using Cons.prems by (auto simp: bind_eq_Some_conv)
  obtain en oper ph where ph: "db_sessions c ! i = (en, oper, ph)" by (metis prod_cases3)
  have i: "i < length (db_sessions c)"
    using d(1) by (simp add: advance_def split: if_splits)
  have keep: "map ?f ((db_sessions c)[i := (en, oper, ph')]) = map ?f (db_sessions c)" for ph'
    using ph i by (simp add: map_update list_update_same_conv)
  then have "map ?f (db_sessions (set_phase i ph' c)) = map ?f (db_sessions c)"
    "map ?f (db_sessions (finish i x c)) = map ?f (db_sessions c)" for ph' x
    using ph by (simp_all add: set_phase_def finish_def split_def)
  then have "map ?f (db_sessions d) = map ?f (db_sessions c)"
    using d(1) i next_stmt_forms unfolding advance_def by fastforce
  then show ?case using Cons.IH [OF d(2)] by simp
qed simp

text \<open>Two requests that meet on a connection type: one creates a connection, the other deletes the type.\<close>

definition racing :: db where
  "racing = start store_with_type
     [(calm, CreateDataConnection ''acme'' (sample_connection ''t1'')),
      (calm, DeleteDataConnectionType ''acme'' ''t1'')]"

definition racing_mid :: db where
  "racing_mid = the (run_schedule [0, 1, 0, 0] racing)"

definition racing_end :: db where
  "racing_end = the (run_schedule [0, 1, 0, 0, 0, 0, 1, 1] racing)"

lemma run_schedule_the: "\<not> Option.is_none (run_schedule is c) \<Longrightarrow> run_schedule is c = Some (the (run_schedule is c))"
  by (cases "run_schedule is c") simp_all

lemma racing_runs:
  "run_schedule [0, 1, 0, 0] racing = Some racing_mid"
  "run_schedule [0, 1, 0, 0, 0, 0, 1, 1] racing = Some racing_end"
proof -
  have "\<not> Option.is_none (run_schedule [0, 1, 0, 0] racing)"
    "\<not> Option.is_none (run_schedule [0, 1, 0, 0, 0, 0, 1, 1] racing)"
    by code_simp+
  then show "run_schedule [0, 1, 0, 0] racing = Some racing_mid"
    "run_schedule [0, 1, 0, 0, 0, 0, 1, 1] racing = Some racing_end"
    unfolding racing_mid_def racing_end_def by (blast intro: run_schedule_the)+
qed

text \<open>
  C23. Serialisability: however the statements of any number of requests interleave, and whatever
  fails, the requests that have ended have had the results and the effect they have when they are
  run one after the other, in the order in which they ended; what is committed is the store these
  sequential runs leave.
\<close>

theorem interleaving_serializable:
  assumes "meta_inv st" "run_schedule is (start st reqs) = Some c"
  shows "replay st (db_log c) = Some (db_store c)
    \<and> mset (db_log c) = mset (List.map_filter finished (db_sessions c))
    \<and> map (\<lambda>(en, oper, ph). (en, oper)) (db_sessions c) = reqs"
proof -
  have "db_inv st c"
    using run_schedule_inv [OF start_inv [OF assms(1)] assms(2)] .
  moreover have "map (\<lambda>(en, oper, ph). (en, oper)) (db_sessions (start st reqs)) = reqs"
    by (induction reqs) (auto simp: start_def)
  ultimately show ?thesis
    using sessions_keep_requests [OF assms(2)] unfolding db_inv_def by simp
qed

theorem interleaving_serializable_witness:
  "replay store_with_type (db_log racing_end) = Some (db_store racing_end)
   \<and> map (\<lambda>(en, oper, r). r) (db_log racing_end)
     = [Inr (), Inl (Conflict (connection_type_in_use_message ''t1'' 1))]"
proof -
  have "map (\<lambda>(en, oper, r). r) (db_log racing_end)
     = [Inr (), Inl (Conflict (connection_type_in_use_message ''t1'' 1))]"
    by code_simp
  then show ?thesis
    using interleaving_serializable [OF meta_inv_reachable [OF reachable_with_type]
        racing_runs(2) [unfolded racing_def]] by blast
qed

text \<open>
  C24. No orphans under concurrency: in every state an interleaving passes through, no two committed
  rows agree on a unique index and every committed connection refers to a connection type that
  exists and that its tenant can see; no deletion of a type slips in between the validation and
  the insertion of a connection.
\<close>

theorem interleaving_keeps_integrity:
  assumes "meta_inv st" "run_schedule is (start st reqs) = Some c"
  shows "indexes_ok (db_store c) \<and> references_ok (db_store c) \<and> docs_ok (db_store c)"
  using run_schedule_inv [OF start_inv [OF assms(1)] assms(2)] by (simp add: db_inv_def meta_inv_def)

theorem interleaving_keeps_integrity_witness:
  "references_ok (db_store racing_end) \<and> length (data_connections (db_store racing_end)) = 1"
proof -
  have "length (data_connections (db_store racing_end)) = 1"
    by code_simp
  then show ?thesis
    using interleaving_keeps_integrity [OF meta_inv_reachable [OF reachable_with_type]
        racing_runs(2) [unfolded racing_def]] by blast
qed

text \<open>
  C25. No deadlock: a schedule of \<open>n\<close> requests has at most \<open>5 * n\<close> statements; a state in which
  every session waits or has ended is one in which all have ended; and from every state that can
  arise all the requests can be brought to their end.
\<close>

theorem interleaving_progress:
  assumes "meta_inv st" "run_schedule is (start st reqs) = Some c"
  shows "length is \<le> 5 * length reqs
    \<and> ((\<forall>i. advance i c = None) \<longrightarrow> all_finished c)
    \<and> (\<exists>js c'. run_schedule js c = Some c' \<and> all_finished c')"
proof -
  have inv: "db_inv st c"
    using run_schedule_inv [OF start_inv [OF assms(1)] assms(2)] .
  show ?thesis
    using run_schedule_work [OF assms(2)] work_left_start [of st reqs] can_finish [OF inv]
      stuck_finished [OF inv, unfolded stuck_def] by auto
qed

theorem interleaving_progress_witness:
  "advance 1 racing_mid = None \<and> (\<exists>js c'. run_schedule js racing_mid = Some c' \<and> all_finished c')"
proof -
  have "Option.is_none (advance 1 racing_mid)"
    by code_simp
  then have "advance 1 racing_mid = None"
    by (simp add: Option.is_none_def)
  then show ?thesis
    using interleaving_progress [OF meta_inv_reachable [OF reachable_with_type]
        racing_runs(1) [unfolded racing_def]] by blast
qed

end
