(* ===== verification/Connector_Base.thy ===== *)
theory Connector_Base
  imports Flight_Service
begin

text \<open>
  What the connectors share: their configuration (\<open>libs/commons/src/utils/config.rs\<close> and
  \<open>services/flight/src/utils/mod.rs\<close>) and the cache of clients.  The locale \<open>client_connector\<close> is
  the contract of \<open>get_reader\<close>: a client is taken from the cache or built from the credentials of
  the connection at hand, then a reader is made of it.
\<close>

section \<open>Configuration\<close>

text \<open>The timeouts are in seconds.\<close>

record connector_config =
  cc_enabled :: bool
  cc_connection_timeout :: "64 word"
  cc_request_timeout :: "64 word"
  cc_read_timeout :: "64 word"
  cc_chunk_size :: "64 word"

definition default_connector_config :: connector_config where
  "default_connector_config =
     \<lparr>cc_enabled = True, cc_connection_timeout = 10, cc_request_timeout = 30, cc_read_timeout = 30,
      cc_chunk_size = 4 * 1024 * 1024\<rparr>"

record connector_config_override =
  ov_enabled :: "bool option"
  ov_connection_timeout :: "64 word option"
  ov_request_timeout :: "64 word option"
  ov_read_timeout :: "64 word option"
  ov_chunk_size :: "64 word option"

definition with_default :: "'a option \<Rightarrow> 'a \<Rightarrow> 'a" where
  "with_default x d = (case x of None \<Rightarrow> d | Some a \<Rightarrow> a)"

definition merge_config :: "connector_config \<Rightarrow> connector_config_override \<Rightarrow> connector_config" where
  "merge_config cfg ov =
     \<lparr>cc_enabled = with_default (ov_enabled ov) (cc_enabled cfg),
      cc_connection_timeout = with_default (ov_connection_timeout ov) (cc_connection_timeout cfg),
      cc_request_timeout = with_default (ov_request_timeout ov) (cc_request_timeout cfg),
      cc_read_timeout = with_default (ov_read_timeout ov) (cc_read_timeout cfg),
      cc_chunk_size = with_default (ov_chunk_size ov) (cc_chunk_size cfg)\<rparr>"

record connectors_config =
  cs_default :: connector_config
  cs_postgres :: connector_config_override
  cs_sqlite :: connector_config_override
  cs_elasticsearch :: connector_config_override
  cs_neo4j :: connector_config_override
  cs_milvus :: connector_config_override
  cs_s3 :: connector_config_override
  cs_uri :: connector_config_override

text \<open>\<open>QueryConfig::validate\<close>, checked before the service starts.\<close>

definition validate_query_config :: "64 word \<Rightarrow> string + unit" where
  "validate_query_config batch_size =
     (if batch_size = 0 then Inl ''query.batch_size must be greater than 0'' else Inr ())"

text \<open>\<open>TlsConfig::validate\<close>: the certificate and the key, both or neither.\<close>

definition validate_tls_config :: "string option \<Rightarrow> string option \<Rightarrow> string + unit" where
  "validate_tls_config cert_file key_file =
     (case (cert_file, key_file) of
        (Some _, None) \<Rightarrow> Inl ''Both tls.cert_file and tls.key_file must be provided to enable TLS''
      | (None, Some _) \<Rightarrow> Inl ''Both tls.cert_file and tls.key_file must be provided to enable TLS''
      | _ \<Rightarrow> Inr ())"

section \<open>Clients\<close>

text \<open>
  \<open>cache.try_get_with(id, async { build(&resolver.resolve(connection).await?) })\<close>: \<open>held\<close> is what
  the cache holds; a client is built only when it holds none for the connection.
\<close>

definition client_for ::
    "(string \<Rightarrow> 'cl option) \<Rightarrow> (string hmap \<Rightarrow> connector_error + 'cl) \<Rightarrow> data_connection_resource \<Rightarrow>
     credentials_resolver \<Rightarrow> connector_error + 'cl" where
  "client_for held build connection resolver =
     (case held (md_id (dcr_metadata connection)) of
        Some cl \<Rightarrow> Inr cl
      | None \<Rightarrow> rbind (resolver connection) build)"

text \<open>A required field of the credentials.\<close>

definition required_credential :: "string hmap \<Rightarrow> string \<Rightarrow> connector_error + string" where
  "required_credential credentials key = ok_or (ConfigError (key @ '' is required'')) (hget credentials key)"

text \<open>\<open>credentials.get(key).map(|v| v.trim()).filter(|v| !v.is_empty())\<close>.\<close>

definition trimmed_credential :: "string hmap \<Rightarrow> string \<Rightarrow> string option" where
  "trimmed_credential credentials key =
     Option.bind (hget credentials key) (\<lambda>v. if trim v = [] then None else Some (trim v))"

section \<open>The contract of a connector\<close>

locale client_connector =
  fixes connector :: "('s, 'b) flight_connector"
    and held :: "string \<Rightarrow> 'cl option"
    and build :: "data_connection_resource \<Rightarrow> string hmap \<Rightarrow> connector_error + 'cl"
    and make_reader :: "data_connection_resource \<Rightarrow> 'cl \<Rightarrow> ('s, 'b) data_reader"
  assumes get_reader: "fc_get_reader connector connection resolver =
    rbind (client_for held (build connection) connection resolver) (\<lambda>cl. Inr (make_reader connection cl))"
begin

text \<open>The reader depends on no other connection's credentials.\<close>

lemma own_credentials: "resolves_own connector"
  by (simp add: resolves_own_def get_reader client_for_def split: option.split)

text \<open>While a client is cached, the credentials are not read again.\<close>

lemma cached_credentials:
  "held (md_id (dcr_metadata connection)) = Some cl \<Longrightarrow>
     fc_get_reader connector connection resolver = Inr (make_reader connection cl)"
  by (simp add: get_reader client_for_def)

text \<open>Without one, failing to resolve or to build fails the request with that error.\<close>

lemma fresh_credentials:
  assumes "held (md_id (dcr_metadata connection)) = None"
  shows "resolver connection = Inl e \<Longrightarrow> fc_get_reader connector connection resolver = Inl e"
    and "resolver connection = Inr cs \<Longrightarrow> fc_get_reader connector connection resolver =
      rbind (build connection cs) (\<lambda>cl. Inr (make_reader connection cl))"
  using assms by (simp_all add: get_reader client_for_def)

end

end
