(* ===== verification/Paging.thy ===== *)
theory Paging
  imports Api_Types
begin

text \<open>
  Streams that are read in pages: the chunks of a list (\<open>slice::chunks\<close>), the items of a stream up to
  its first error (\<open>try_stream!\<close>), and the arithmetic of a page within the rows that were asked
  for, which the loops of the Milvus and Elasticsearch connectors share.
\<close>

type_synonym 'b batch_stream = "(connector_error + 'b) list"

text \<open>\<open>slice::chunks\<close>; the callers handle the size 0, for which it panics.\<close>

function chunks_of :: "nat \<Rightarrow> 'a list \<Rightarrow> 'a list list" where
  "chunks_of n xs = (if n = 0 \<or> xs = [] then [] else take n xs # chunks_of n (drop n xs))"
  by auto
termination
  by (relation "measure (\<lambda>(n, xs). length xs)") auto

declare chunks_of.simps [simp del]

lemma chunks_of_Nil [simp]: "chunks_of n [] = []"
  by (simp add: chunks_of.simps)

lemma chunks_of_step: "0 < n \<Longrightarrow> xs \<noteq> [] \<Longrightarrow> chunks_of n xs = take n xs # chunks_of n (drop n xs)"
  by (subst chunks_of.simps) simp

lemma concat_chunks_of: "0 < n \<Longrightarrow> concat (chunks_of n xs) = xs"
proof (induction n xs rule: chunks_of.induct)
  case (1 n xs)
  then show ?case
    by (cases "xs = []") (simp_all add: chunks_of_step)
qed

text \<open>The loops of \<open>try_stream!\<close>: everything up to the first error.\<close>

fun until_error :: "'b batch_stream \<Rightarrow> 'b batch_stream" where
  "until_error [] = []"
| "until_error (Inl e # xs) = [Inl e]"
| "until_error (Inr b # xs) = Inr b # until_error xs"

lemma until_error_prefix: "prefix (until_error xs) xs"
  by (induction xs rule: until_error.induct) simp_all

section \<open>Pages of a slice\<close>

definition slice_of :: "nat option \<Rightarrow> 'a list \<Rightarrow> 'a list" where
  "slice_of limit xs = (case limit of None \<Rightarrow> xs | Some l \<Rightarrow> take l xs)"

definition page_len :: "nat option \<Rightarrow> nat \<Rightarrow> nat \<Rightarrow> nat" where
  "page_len limit n f = (case limit of None \<Rightarrow> n | Some l \<Rightarrow> min (l - f) n)"

text \<open>The page after \<open>f\<close> rows against what is left of the slice.\<close>

lemma slice_exhausted: "0 < n \<Longrightarrow> page_len limit n f = 0 \<Longrightarrow> drop f (slice_of limit xs) = []"
  by (auto simp: page_len_def slice_of_def min_def split: option.splits if_splits)

lemma page_of_slice:
  assumes page: "page = take (page_len limit n f) (drop f xs)" and rest: "rest = drop f (slice_of limit xs)"
  shows "page = take n rest \<and> (length page < page_len limit n f \<longrightarrow> drop n rest = [])
    \<and> (length page = page_len limit n f \<longrightarrow> drop (f + length page) (slice_of limit xs) = drop n rest)"
proof -
  have next_rest: "drop (f + length page) (slice_of limit xs) = drop (length page) rest"
    by (simp add: rest add.commute)
  show ?thesis
  proof (cases "\<exists>l. limit = Some l \<and> l - f \<le> n")
    case True
    then obtain l where l: "limit = Some l" "l - f \<le> n" by blast
    then have "page = rest" "length rest \<le> n"
      using page rest by (simp_all add: page_len_def slice_of_def drop_take min.absorb1 min.coboundedI2)
    then show ?thesis
      unfolding next_rest by simp
  next
    case False
    then have "page_len limit n f = n" "take n rest = take n (drop f xs)" "length rest \<le> length xs - f"
      using rest by (auto simp: page_len_def slice_of_def drop_take min_def split: option.splits)
    then show ?thesis
      unfolding next_rest using page by auto
  qed
qed

text \<open>How the batches of the rest follow from those after the page.\<close>

lemma batches_of_rest:
  assumes n: "0 < n" and page: "page = take (page_len limit n f) (drop f xs)" and "page \<noteq> []"
    and rest: "rest = drop f (slice_of limit xs)"
  shows "map g (chunks_of n rest) = g page # map g (chunks_of n (drop n rest))"
proof -
  have p: "page = take n rest"
    using page_of_slice [OF page rest] by blast
  moreover from this have "rest \<noteq> []"
    using assms(3) by auto
  ultimately show ?thesis
    using chunks_of_step [OF n, of rest] by simp
qed

text \<open>
  A loop that reads a page, converts it, yields it and goes on until a page is short or empty:
  \<open>f\<close> is the number of rows read so far, \<open>ok\<close> what the loop keeps of its other state.
  It ends, and yields the batches of the slice up to the first one that cannot be converted.
\<close>

definition page_step ::
    "('a list \<Rightarrow> connector_error + 'b) \<Rightarrow> nat \<Rightarrow> 'a list \<Rightarrow> 't \<Rightarrow> ('b batch_stream \<times> 't) option \<Rightarrow>
     ('b batch_stream \<times> 't) option" where
  "page_step convert len page stopped continued =
     (if page = [] then Some ([], stopped)
      else case convert page of
          Inl e \<Rightarrow> Some ([Inl e], stopped)
        | Inr batch \<Rightarrow>
            if length page < len then Some ([Inr batch], stopped)
            else Option.bind continued (\<lambda>(bs, t). Some (Inr batch # bs, t)))"

lemma paged_slice:
  fixes loop :: "nat \<Rightarrow> 's \<Rightarrow> ('b batch_stream \<times> 't) option"
  assumes n: "0 < n" and start: "ok f s"
    and stop: "\<And>f s. ok f s \<Longrightarrow> page_len limit n f = 0 \<Longrightarrow> \<exists>t. loop f s = Some ([], t)"
    and step: "\<And>f s page. ok f s \<Longrightarrow> 0 < page_len limit n f \<Longrightarrow> page = take (page_len limit n f) (drop f xs) \<Longrightarrow>
      \<exists>t s'. (page \<noteq> [] \<longrightarrow> ok (f + length page) s')
        \<and> loop f s = page_step convert (page_len limit n f) page t (loop (f + length page) s')"
  shows "\<exists>t. loop f s = Some (until_error (map convert (chunks_of n (drop f (slice_of limit xs)))), t)"
  using start
proof (induction "length xs - f" arbitrary: f s rule: less_induct)
  case less
  define len where "len = page_len limit n f"
  define page where "page = take len (drop f xs)"
  note facts = page_of_slice [OF page_def [unfolded len_def] refl, folded len_def]
  consider "len = 0" | "0 < len" "page = []" | "0 < len" "page \<noteq> []" by auto
  then show ?case
  proof cases
    case 1
    then show ?thesis
      using stop [OF less.prems] slice_exhausted [OF n, of limit f xs] by (auto simp: len_def)
  next
    case 2
    then have "drop f (slice_of limit xs) = []"
      using facts n by (metis take_eq_Nil less_numeral_extra(3))
    then show ?thesis
      using step [OF less.prems _ page_def [unfolded len_def]] 2 by (auto simp: len_def page_step_def)
  next
    case 3
    obtain t s' where ok: "ok (f + length page) s'"
      and loop: "loop f s = page_step convert len page t (loop (f + length page) s')"
      using step [OF less.prems _ page_def [unfolded len_def]] 3 by (auto simp: len_def)
    have "length page \<le> len" "length xs - (f + length page) < length xs - f"
      using 3 by (auto simp: page_def)
    moreover from this obtain t' where "loop (f + length page) s' =
        Some (until_error (map convert (chunks_of n (drop (f + length page) (slice_of limit xs)))), t')"
      using less.hyps [OF _ ok] by blast
    ultimately show ?thesis
      unfolding loop batches_of_rest [OF n page_def [unfolded len_def] 3(2) refl] page_step_def
      using 3 facts by (cases "convert page") auto
  qed
qed

end
