(* ===== verification/Format_Readers.thy ===== *)
theory Format_Readers
  imports Paging
begin

text \<open>
  The readers of file formats, \<open>libs/format-readers/src\<close>, which the S3 and URI connectors share:
  the choice of a format, the sample a schema is inferred from, the streaming decoders for CSV
  and JSON lines, JSON documents and the byte source given to the Parquet library.

  A stream is the list of what its polls return; a stream written with \<open>try_stream!\<close> ends with its
  first error.  Arrow, Parquet, the JSON parser, the parser of media types and the Unicode
  lower-casing of text are the record \<open>format_ops\<close>; a storage object is the record \<open>reader\<close>.
\<close>

section \<open>What the readers are given\<close>

datatype opendal_kind = ODNotFound | ODPermissionDenied | ODOther

record opendal_error =
  od_kind :: opendal_kind
  od_text :: string

datatype byte_range = ByteRange nat nat | ByteSuffix nat

text \<open>\<open>opendal::Reader\<close>: the stream over the whole object (opening it may fail) and ranged reads.\<close>

record reader =
  rdr_into_stream :: "opendal_error + (opendal_error + string) list"
  rdr_read :: "byte_range \<Rightarrow> opendal_error + string"
  rdr_fetch :: "byte_range list \<Rightarrow> opendal_error + string list"

record mime =
  mime_type :: string
  mime_subtype :: string
  mime_suffix :: "string option"

text \<open>\<open>OpendalAsyncReader\<close>: the byte source of the Parquet library.\<close>

record parquet_source =
  get_bytes :: "nat \<Rightarrow> nat \<Rightarrow> opendal_error + string"
  get_byte_ranges :: "(nat \<times> nat) list \<Rightarrow> opendal_error + string list"
  fetch_suffix :: "nat \<Rightarrow> opendal_error + string"

record ('s, 'b, 'c, 'j, 'p) format_ops =
  fo_to_lowercase :: "string \<Rightarrow> string"
  fo_mime :: "string \<Rightarrow> string + mime"
  fo_json_from_slice :: "string \<Rightarrow> string + json"
  fo_json_text :: "json \<Rightarrow> string"
  fo_infer_json :: "json list \<Rightarrow> string + 's"
  fo_json_reader :: "'s \<Rightarrow> nat \<Rightarrow> string \<Rightarrow> string + (string + 'b) list"
  fo_infer_csv :: "string \<Rightarrow> string + 's"
  fo_infer_jsonl :: "string \<Rightarrow> string + 's"
  fo_csv_decoder :: "'s \<Rightarrow> nat \<Rightarrow> 'c"
  fo_csv_decode :: "'c \<Rightarrow> string \<Rightarrow> string + (nat \<times> 'c)"
  fo_csv_flush :: "'c \<Rightarrow> string + ('b option \<times> 'c)"
  fo_jsonl_decoder :: "'s \<Rightarrow> nat \<Rightarrow> string + 'j"
  fo_jsonl_decode :: "'j \<Rightarrow> string \<Rightarrow> string + (nat \<times> 'j)"
  fo_jsonl_flush :: "'j \<Rightarrow> string + ('b option \<times> 'j)"
  fo_parquet_open :: "parquet_source \<Rightarrow> string + 'p"
  fo_parquet_schema :: "'p \<Rightarrow> 's"
  fo_parquet_build :: "'p \<Rightarrow> nat \<Rightarrow> string + (string + 'b) list"

section \<open>Formats\<close>

datatype file_format = Parquet | Csv | JsonLines | JsonFile

definition from_format_str :: "('s, 'b, 'c, 'j, 'p) format_ops \<Rightarrow> string \<Rightarrow> connector_error + file_format" where
  "from_format_str fo fmt =
     (let lower = fo_to_lowercase fo fmt in
      if lower = ''parquet'' then Inr Parquet
      else if lower = ''csv'' then Inr Csv
      else if lower \<in> {''jsonl'', ''ndjson'', ''jsonlines''} then Inr JsonLines
      else if lower = ''json'' then Inr JsonFile
      else Inl (InvalidRequest (''Unsupported format: '' @ lower)))"

definition ends_with :: "string \<Rightarrow> string \<Rightarrow> bool" where
  "ends_with s suf \<longleftrightarrow> length suf \<le> length s \<and> drop (length s - length suf) s = suf"

definition detect ::
    "('s, 'b, 'c, 'j, 'p) format_ops \<Rightarrow> string \<Rightarrow> string option \<Rightarrow> connector_error + file_format" where
  "detect fo path properties =
     (case properties of
        Some fmt \<Rightarrow> from_format_str fo fmt
      | None \<Rightarrow>
          let path_only = hd (split_at CHR ''?'' path); lower = fo_to_lowercase fo path_only in
          if ends_with lower ''.parquet'' then Inr Parquet
          else if ends_with lower ''.csv'' then Inr Csv
          else if ends_with lower ''.jsonl'' \<or> ends_with lower ''.ndjson'' \<or> ends_with lower ''.jsonlines''
          then Inr JsonLines
          else if ends_with lower ''.json'' then Inr JsonFile
          else Inl (InvalidRequest (''Cannot detect format for path: '' @ path
                      @ ''. Set '' @ quoted ''format'' @ '' in connection properties.'')))"

definition from_content_type ::
    "('s, 'b, 'c, 'j, 'p) format_ops \<Rightarrow> string \<Rightarrow> connector_error + file_format" where
  "from_content_type fo content_type =
     rbind (map_err (\<lambda>e. InvalidRequest (''Invalid Content-Type '' @ quoted content_type @ '': '' @ e))
              (fo_mime fo content_type)) (\<lambda>m.
     if mime_suffix m = Some ''json'' then Inr JsonFile
     else if mime_type m = ''text'' \<and> mime_subtype m = ''csv'' then Inr Csv
     else if mime_type m = ''application'' \<and> mime_subtype m = ''json'' then Inr JsonFile
     else if mime_type m = ''application''
       \<and> mime_subtype m \<in> {''x-ndjson'', ''ndjson'', ''jsonl'', ''jsonlines'', ''x-jsonlines''} then Inr JsonLines
     else if mime_type m = ''application''
       \<and> mime_subtype m \<in> {''vnd.apache.parquet'', ''x-parquet''} then Inr Parquet
     else Inl (InvalidRequest (''Cannot determine format from Content-Type '' @ quoted content_type)))"

section \<open>The sample of a schema\<close>

definition MAX_SCHEMA_SAMPLE :: nat where
  "MAX_SCHEMA_SAMPLE = 1048576"

text \<open>The loop over the stream: the bytes so far, and whether the limit was hit.\<close>

fun sample_loop :: "string \<Rightarrow> (opendal_error + string) list \<Rightarrow> connector_error + (string \<times> bool)" where
  "sample_loop buf [] = Inr (buf, False)"
| "sample_loop buf (Inl e # polls) = Inl (IOError (''Stream read error: '' @ od_text e))"
| "sample_loop buf (Inr chunk # polls) =
     (let buf' = buf @ chunk in
      if MAX_SCHEMA_SAMPLE \<le> length buf' then Inr (buf', True) else sample_loop buf' polls)"

text \<open>\<open>rposition\<close> of a newline and \<open>truncate(pos + 1)\<close>; without a newline nothing is cut.\<close>

definition cut_last_line :: "string \<Rightarrow> string" where
  "cut_last_line buf =
     (if CHR 0x0A \<in> set buf then rev (dropWhile (\<lambda>c. c \<noteq> CHR 0x0A) (rev buf)) else buf)"

definition read_sample :: "reader \<Rightarrow> connector_error + string" where
  "read_sample rdr =
     rbind (map_err (\<lambda>e. IOError (''Failed to open stream: '' @ od_text e)) (rdr_into_stream rdr)) (\<lambda>polls.
     rbind (sample_loop [] polls) (\<lambda>(buf, hit_limit).
     Inr (if hit_limit then cut_last_line buf else buf)))"

section \<open>Decoding a stream\<close>

datatype ('c, 'j) decoder = CsvDecoder 'c | JsonDecoder 'j

fun decoder_decode ::
    "('s, 'b, 'c, 'j, 'p) format_ops \<Rightarrow> ('c, 'j) decoder \<Rightarrow> string \<Rightarrow> string + (nat \<times> ('c, 'j) decoder)" where
  "decoder_decode fo (CsvDecoder d) buf = rbind (fo_csv_decode fo d buf) (\<lambda>(n, d'). Inr (n, CsvDecoder d'))"
| "decoder_decode fo (JsonDecoder d) buf = rbind (fo_jsonl_decode fo d buf) (\<lambda>(n, d'). Inr (n, JsonDecoder d'))"

fun decoder_flush ::
    "('s, 'b, 'c, 'j, 'p) format_ops \<Rightarrow> ('c, 'j) decoder \<Rightarrow> string + ('b option \<times> ('c, 'j) decoder)" where
  "decoder_flush fo (CsvDecoder d) = rbind (fo_csv_flush fo d) (\<lambda>(b, d'). Inr (b, CsvDecoder d'))"
| "decoder_flush fo (JsonDecoder d) = rbind (fo_jsonl_flush fo d) (\<lambda>(b, d'). Inr (b, JsonDecoder d'))"

text \<open>
  The inner loop over one chunk: the batches it yields, then an error or the decoder.  \<open>None\<close> is
  a loop that does not end.
\<close>

partial_function (option) decode_chunk ::
    "('s, 'b, 'c, 'j, 'p) format_ops \<Rightarrow> string \<Rightarrow> string \<Rightarrow> nat \<Rightarrow> ('c, 'j) decoder \<Rightarrow>
     ('b list \<times> (connector_error + ('c, 'j) decoder)) option" where
  "decode_chunk fo format chunk offset d =
     (if offset < length chunk then
        (case decoder_decode fo d (drop offset chunk) of
           Inl e \<Rightarrow> Some ([], Inl (IOError (format @ '' decode error: '' @ e)))
         | Inr (consumed, d') \<Rightarrow>
             if consumed = 0 then
               (case decoder_flush fo d' of
                  Inl e \<Rightarrow> Some ([], Inl (IOError (format @ '' flush error: '' @ e)))
                | Inr (Some batch, d'') \<Rightarrow>
                    Option.bind (decode_chunk fo format chunk offset d'') (\<lambda>(bs, r). Some (batch # bs, r))
                | Inr (None, d'') \<Rightarrow> Some ([], Inr d''))
             else decode_chunk fo format chunk (offset + consumed) d')
      else Some ([], Inr d))"

fun decode_chunks ::
    "('s, 'b, 'c, 'j, 'p) format_ops \<Rightarrow> string \<Rightarrow> (opendal_error + string) list \<Rightarrow> ('c, 'j) decoder \<Rightarrow>
     ('b list \<times> (connector_error + ('c, 'j) decoder)) option" where
  "decode_chunks fo format [] d = Some ([], Inr d)"
| "decode_chunks fo format (Inl e # polls) d =
     Some ([], Inl (IOError (format @ '' stream read error: '' @ od_text e)))"
| "decode_chunks fo format (Inr chunk # polls) d =
     Option.bind (decode_chunk fo format chunk 0 d) (\<lambda>(bs, r).
       case r of
         Inl e \<Rightarrow> Some (bs, Inl e)
       | Inr d' \<Rightarrow> Option.bind (decode_chunks fo format polls d') (\<lambda>(bs', r'). Some (bs @ bs', r')))"

text \<open>The end of the input: the decoder finishes a partial record and the last batch is flushed.\<close>

definition decode_end ::
    "('s, 'b, 'c, 'j, 'p) format_ops \<Rightarrow> string \<Rightarrow> ('c, 'j) decoder \<Rightarrow> connector_error + 'b option" where
  "decode_end fo format d =
     rbind (map_err (\<lambda>e. IOError (format @ '' decode error: '' @ e)) (decoder_decode fo d [])) (\<lambda>(_, d').
     rbind (map_err (\<lambda>e. IOError (format @ '' flush error: '' @ e)) (decoder_flush fo d')) (\<lambda>(batch, _).
     Inr batch))"

definition decode_stream ::
    "('s, 'b, 'c, 'j, 'p) format_ops \<Rightarrow> reader \<Rightarrow> ('c, 'j) decoder \<Rightarrow> string \<Rightarrow>
     (connector_error + 'b batch_stream) option" where
  "decode_stream fo rdr d format =
     (case rdr_into_stream rdr of
        Inl e \<Rightarrow> Some (Inl (IOError (''Failed to open '' @ format @ '' stream: '' @ od_text e)))
      | Inr polls \<Rightarrow>
          Option.bind (decode_chunks fo format polls d) (\<lambda>(bs, r).
            Some (Inr (map Inr bs @
              (case rbind r (decode_end fo format) of
                 Inl e \<Rightarrow> [Inl e]
               | Inr (Some batch) \<Rightarrow> [Inr batch]
               | Inr None \<Rightarrow> [])))))"

section \<open>CSV, JSON lines, JSON and Parquet\<close>

definition read_csv_schema :: "('s, 'b, 'c, 'j, 'p) format_ops \<Rightarrow> reader \<Rightarrow> connector_error + 's" where
  "read_csv_schema fo rdr =
     rbind (read_sample rdr) (\<lambda>buf.
     map_err (\<lambda>e. IOError (''Failed to infer CSV schema: '' @ e)) (fo_infer_csv fo buf))"

definition read_csv_batches ::
    "('s, 'b, 'c, 'j, 'p) format_ops \<Rightarrow> reader \<Rightarrow> 's \<Rightarrow> nat \<Rightarrow> (connector_error + 'b batch_stream) option" where
  "read_csv_batches fo rdr schema batch_size =
     decode_stream fo rdr (CsvDecoder (fo_csv_decoder fo schema batch_size)) ''CSV''"

definition ascii_whitespace :: "char \<Rightarrow> bool" where
  "ascii_whitespace c \<longleftrightarrow> c \<in> {CHR 0x20, CHR 0x09, CHR 0x0A, CHR 0x0C, CHR 0x0D}"

definition read_jsonl_schema :: "('s, 'b, 'c, 'j, 'p) format_ops \<Rightarrow> reader \<Rightarrow> connector_error + 's" where
  "read_jsonl_schema fo rdr =
     rbind (read_sample rdr) (\<lambda>buf.
     if list_all ascii_whitespace buf then Inl NoDataError
     else map_err (\<lambda>e. IOError (''Failed to infer JSONL schema: '' @ e)) (fo_infer_jsonl fo buf))"

definition read_jsonl_batches ::
    "('s, 'b, 'c, 'j, 'p) format_ops \<Rightarrow> reader \<Rightarrow> 's \<Rightarrow> nat \<Rightarrow> (connector_error + 'b batch_stream) option" where
  "read_jsonl_batches fo rdr schema batch_size =
     (case fo_jsonl_decoder fo schema batch_size of
        Inl e \<Rightarrow> Some (Inl (IOError (''Failed to build JSONL decoder: '' @ e)))
      | Inr d \<Rightarrow> decode_stream fo rdr (JsonDecoder d) ''JSONL'')"

fun resolve_segments :: "json \<Rightarrow> string list \<Rightarrow> json option" where
  "resolve_segments current [] = Some current"
| "resolve_segments current (segment # segments) =
     Option.bind (json_get current segment) (\<lambda>v. resolve_segments v segments)"

definition resolve_data_path :: "json \<Rightarrow> string \<Rightarrow> json option" where
  "resolve_data_path v path = resolve_segments v (split_at CHR ''.'' path)"

definition extract_rows :: "json \<Rightarrow> string option \<Rightarrow> connector_error + json list" where
  "extract_rows response data_path =
     rbind (case data_path of
         Some path \<Rightarrow>
           ok_or (InvalidRequest (''data_path '' @ quoted path @ '' not found in response''))
             (resolve_data_path response path)
       | None \<Rightarrow> Inr response) (\<lambda>target.
     ok_or (InvalidRequest ''Response data is not a JSON array'') (as_array target))"

definition build_reader ::
    "('s, 'b, 'c, 'j, 'p) format_ops \<Rightarrow> json list \<Rightarrow> 's \<Rightarrow> nat \<Rightarrow> connector_error + (string + 'b) list" where
  "build_reader fo rows schema batch_size =
     map_err (\<lambda>e. IOError (''Failed to build JSON reader: '' @ e))
       (fo_json_reader fo schema batch_size (concat (map (\<lambda>row. fo_json_text fo row @ [CHR 0x0A]) rows)))"

definition read_json_schema ::
    "('s, 'b, 'c, 'j, 'p) format_ops \<Rightarrow> string \<Rightarrow> string option \<Rightarrow> connector_error + 's" where
  "read_json_schema fo data data_path =
     rbind (map_err (\<lambda>e. IOError (''Failed to parse JSON: '' @ e)) (fo_json_from_slice fo data)) (\<lambda>json.
     rbind (extract_rows json data_path) (\<lambda>rows.
     if rows = [] then Inl NoDataError
     else map_err (\<lambda>e. IOError (''Failed to infer JSON schema: '' @ e)) (fo_infer_json fo rows)))"

definition json_chunk_batches ::
    "('s, 'b, 'c, 'j, 'p) format_ops \<Rightarrow> 's \<Rightarrow> nat \<Rightarrow> json list \<Rightarrow> 'b batch_stream" where
  "json_chunk_batches fo schema batch_size rows =
     (case build_reader fo rows schema batch_size of
        Inl e \<Rightarrow> [Inl e]
      | Inr bs \<Rightarrow> map (map_err (\<lambda>e. IOError (''JSON decode error: '' @ e))) bs)"

text \<open>\<open>None\<close> is the panic of \<open>chunks(0)\<close>.\<close>

definition read_json_batches ::
    "('s, 'b, 'c, 'j, 'p) format_ops \<Rightarrow> string \<Rightarrow> 's \<Rightarrow> nat \<Rightarrow> string option \<Rightarrow> 'b batch_stream option" where
  "read_json_batches fo data schema batch_size data_path =
     (case rbind (map_err (\<lambda>e. IOError (''Failed to parse JSON: '' @ e)) (fo_json_from_slice fo data))
             (\<lambda>json. extract_rows json data_path) of
        Inl e \<Rightarrow> Some [Inl e]
      | Inr rows \<Rightarrow>
          if batch_size = 0 then None
          else Some (until_error
            (concat (map (json_chunk_batches fo schema batch_size) (chunks_of batch_size rows)))))"

definition opendal_async_reader :: "reader \<Rightarrow> parquet_source" where
  "opendal_async_reader rdr =
     \<lparr>get_bytes = (\<lambda>a b. rdr_read rdr (ByteRange a b)),
      get_byte_ranges = (\<lambda>rs. rdr_fetch rdr (map (\<lambda>(a, b). ByteRange a b) rs)),
      fetch_suffix = (\<lambda>n. rdr_read rdr (ByteSuffix n))\<rparr>"

definition read_parquet_schema :: "('s, 'b, 'c, 'j, 'p) format_ops \<Rightarrow> reader \<Rightarrow> connector_error + 's" where
  "read_parquet_schema fo rdr =
     rbind (map_err (\<lambda>e. IOError (''Failed to read Parquet metadata: '' @ e))
              (fo_parquet_open fo (opendal_async_reader rdr))) (\<lambda>p.
     Inr (fo_parquet_schema fo p))"

definition read_parquet_batches ::
    "('s, 'b, 'c, 'j, 'p) format_ops \<Rightarrow> reader \<Rightarrow> nat \<Rightarrow> connector_error + 'b batch_stream" where
  "read_parquet_batches fo rdr batch_size =
     rbind (map_err (\<lambda>e. IOError (''Failed to open Parquet reader: '' @ e))
              (fo_parquet_open fo (opendal_async_reader rdr))) (\<lambda>p.
     rbind (map_err (\<lambda>e. IOError (''Failed to build Parquet reader: '' @ e))
              (fo_parquet_build fo p batch_size)) (\<lambda>bs.
     Inr (map (map_err (\<lambda>e. IOError (''Parquet read error: '' @ e))) bs)))"

section \<open>The sample is a prefix of the file\<close>

lemma sample_loop_prefix:
  assumes "sample_loop buf polls = Inr (r, hit)"
  shows "\<exists>cs rest. polls = map Inr cs @ rest \<and> r = buf @ concat cs
    \<and> (\<not> hit \<longrightarrow> rest = []) \<and> (hit \<longrightarrow> MAX_SCHEMA_SAMPLE \<le> length r)"
  using assms
proof (induction buf polls arbitrary: r hit rule: sample_loop.induct)
  case (3 buf chunk polls)
  show ?case
  proof (cases "MAX_SCHEMA_SAMPLE \<le> length (buf @ chunk)")
    case True
    then have "r = buf @ chunk" "hit"
      using "3.prems" by (auto simp: Let_def)
    then show ?thesis
      using True by (intro exI [of _ "[chunk]"]) auto
  next
    case False
    then obtain cs rest where "polls = map Inr cs @ rest \<and> r = (buf @ chunk) @ concat cs
        \<and> (\<not> hit \<longrightarrow> rest = []) \<and> (hit \<longrightarrow> MAX_SCHEMA_SAMPLE \<le> length r)"
      using "3.IH" [of "buf @ chunk" r hit] "3.prems" by (auto simp: Let_def)
    then show ?thesis
      by (intro exI [of _ "chunk # cs"] exI [of _ rest]) auto
  qed
qed auto

lemma cut_last_line_prefix: "\<exists>rest. buf = cut_last_line buf @ rest \<and> CHR 0x0A \<notin> set rest \<or> cut_last_line buf = buf"
proof -
  have "rev buf = takeWhile (\<lambda>c. c \<noteq> CHR 0x0A) (rev buf) @ dropWhile (\<lambda>c. c \<noteq> CHR 0x0A) (rev buf)"
    by simp
  then have "buf = rev (dropWhile (\<lambda>c. c \<noteq> CHR 0x0A) (rev buf)) @ rev (takeWhile (\<lambda>c. c \<noteq> CHR 0x0A) (rev buf))"
    by (metis rev_append rev_rev_ident)
  moreover have "CHR 0x0A \<notin> set (rev (takeWhile (\<lambda>c. c \<noteq> CHR 0x0A) (rev buf)))"
    by (auto dest: set_takeWhileD)
  ultimately show ?thesis
    by (auto simp: cut_last_line_def)
qed

lemma cut_last_line_last:
  assumes "CHR 0x0A \<in> set buf"
  shows "cut_last_line buf \<noteq> [] \<and> last (cut_last_line buf) = CHR 0x0A"
proof -
  have "dropWhile (\<lambda>c. c \<noteq> CHR 0x0A) (rev buf) \<noteq> []"
    using assms by (simp add: dropWhile_eq_Nil_conv)
  then show ?thesis
    using assms hd_dropWhile [of "\<lambda>c. c \<noteq> CHR 0x0A" "rev buf"] by (simp add: cut_last_line_def last_rev)
qed

section \<open>Streams are decoded completely\<close>

text \<open>
  What arrow documents of its decoders.  \<open>seen\<close> is the input a decoder has taken, \<open>given\<close> the rows
  it has given out in batches, \<open>parse\<close> the rows of a whole text under its configuration.  A decoder
  takes no more than it is offered, and stops early only when a batch is full; a flush then gives
  the batch and makes room.  Once told the end of the input, a flush gives what is left.
\<close>

definition decoder_laws ::
    "('s, 'b, 'c, 'j, 'p) format_ops \<Rightarrow> (('c, 'j) decoder \<Rightarrow> string) \<Rightarrow> (('c, 'j) decoder \<Rightarrow> 'row list) \<Rightarrow>
     (('c, 'j) decoder \<Rightarrow> string \<Rightarrow> 'row list) \<Rightarrow> ('b \<Rightarrow> 'row list) \<Rightarrow> bool" where
  "decoder_laws fo seen given parse batch_rows \<longleftrightarrow>
     (\<forall>d buf n d'. decoder_decode fo d buf = Inr (n, d') \<longrightarrow>
        n \<le> length buf \<and> seen d' = seen d @ take n buf \<and> given d' = given d \<and> parse d' = parse d)
     \<and> (\<forall>d buf d' d''. buf \<noteq> [] \<longrightarrow> decoder_decode fo d buf = Inr (0, d') \<longrightarrow>
        decoder_flush fo d' \<noteq> Inr (None, d''))
     \<and> (\<forall>d b d'. decoder_flush fo d = Inr (b, d') \<longrightarrow>
        seen d' = seen d \<and> parse d' = parse d
        \<and> given d' = given d @ (case b of Some x \<Rightarrow> batch_rows x | None \<Rightarrow> []))
     \<and> (\<forall>d b d' buf n d''. decoder_flush fo d = Inr (Some b, d') \<longrightarrow> buf \<noteq> [] \<longrightarrow>
        decoder_decode fo d' buf = Inr (n, d'') \<longrightarrow> 0 < n)
     \<and> (\<forall>d n d' b d''. decoder_decode fo d [] = Inr (n, d') \<longrightarrow> decoder_flush fo d' = Inr (b, d'') \<longrightarrow>
        given d'' = parse d (seen d))"

lemma decode_law:
  assumes "decoder_laws fo seen given parse batch_rows" "decoder_decode fo d buf = Inr (n, d')"
  shows "n \<le> length buf \<and> seen d' = seen d @ take n buf \<and> given d' = given d \<and> parse d' = parse d"
  using assms unfolding decoder_laws_def by simp

lemma full_law:
  assumes "decoder_laws fo seen given parse batch_rows" "buf \<noteq> []" "decoder_decode fo d buf = Inr (0, d')"
  shows "decoder_flush fo d' \<noteq> Inr (None, d'')"
  using assms unfolding decoder_laws_def by blast

lemma flush_law:
  assumes "decoder_laws fo seen given parse batch_rows" "decoder_flush fo d = Inr (b, d')"
  shows "seen d' = seen d \<and> parse d' = parse d
    \<and> given d' = given d @ (case b of Some x \<Rightarrow> batch_rows x | None \<Rightarrow> [])"
  using assms unfolding decoder_laws_def by blast

lemma room_law:
  assumes "decoder_laws fo seen given parse batch_rows" "decoder_flush fo d = Inr (Some x, d')" "buf \<noteq> []"
    "decoder_decode fo d' buf = Inr (n, d'')"
  shows "0 < n"
  using assms unfolding decoder_laws_def by blast

lemma end_law:
  assumes "decoder_laws fo seen given parse batch_rows" "decoder_decode fo d [] = Inr (n, d')"
    "decoder_flush fo d' = Inr (b, d'')"
  shows "given d'' = parse d (seen d)"
  using assms unfolding decoder_laws_def by blast

text \<open>What a run of the loops over \<open>text\<close> owes: it returns, and unless it fails it has fed \<open>text\<close>
  to the decoder and yielded every row given out.\<close>

definition feeds ::
    "(('c, 'j) decoder \<Rightarrow> string) \<Rightarrow> (('c, 'j) decoder \<Rightarrow> 'row list) \<Rightarrow>
     (('c, 'j) decoder \<Rightarrow> string \<Rightarrow> 'row list) \<Rightarrow> ('b \<Rightarrow> 'row list) \<Rightarrow> string \<Rightarrow> ('c, 'j) decoder \<Rightarrow>
     ('b list \<times> (connector_error + ('c, 'j) decoder)) option \<Rightarrow> bool" where
  "feeds seen given parse batch_rows text d out \<longleftrightarrow>
     (\<exists>bs r. out = Some (bs, r)
       \<and> (\<forall>d'. r = Inr d' \<longrightarrow> seen d' = seen d @ text \<and> parse d' = parse d
            \<and> given d' = given d @ concat (map batch_rows bs)))"

lemma feeds_simps:
  "feeds seen given parse br text d (Some (bs, Inl e))"
  "feeds seen given parse br text d (Some (bs, Inr d')) \<longleftrightarrow>
     seen d' = seen d @ text \<and> parse d' = parse d \<and> given d' = given d @ concat (map br bs)"
  by (simp_all add: feeds_def)

lemma feeds_after:
  assumes "feeds seen given parse br text d' out" "seen d' = seen d @ pre" "parse d' = parse d" "given d' = given d"
  shows "feeds seen given parse br (pre @ text) d out"
  using assms by (auto simp: feeds_def)

lemma feeds_batch:
  assumes "feeds seen given parse br text d' out" "seen d' = seen d" "parse d' = parse d"
    "given d' = given d @ br b"
  shows "feeds seen given parse br text d (Option.bind out (\<lambda>(bs, r). Some (b # bs, r)))"
  using assms by (auto simp: feeds_def)

text \<open>A step that takes input leaves less of the chunk; a decoder with room always takes some.\<close>

lemma decode_chunk_step:
  assumes laws: "decoder_laws fo seen given parse br"
    and later: "\<And>o' d. offset < o' \<Longrightarrow>
      feeds seen given parse br (drop o' chunk) d (decode_chunk fo format chunk o' d)"
    and o: "offset < length chunk"
    and room: "\<And>n d'. decoder_decode fo d (drop offset chunk) = Inr (n, d') \<Longrightarrow> 0 < n"
  shows "feeds seen given parse br (drop offset chunk) d (decode_chunk fo format chunk offset d)"
proof (cases "decoder_decode fo d (drop offset chunk)")
  case (Inl e)
  then show ?thesis using o by (subst decode_chunk.simps) (simp add: feeds_simps)
next
  case (Inr p)
  then obtain n d' where dec: "decoder_decode fo d (drop offset chunk) = Inr (n, d')" by (cases p) auto
  then have n: "0 < n" by (rule room)
  have "decode_chunk fo format chunk offset d = decode_chunk fo format chunk (offset + n) d'"
    using o dec n by (subst decode_chunk.simps) simp
  moreover have "drop offset chunk = take n (drop offset chunk) @ drop (offset + n) chunk"
    by (metis append_take_drop_id drop_drop add.commute)
  moreover have "feeds seen given parse br (drop (offset + n) chunk) d' (decode_chunk fo format chunk (offset + n) d')"
    using n by (intro later) simp
  ultimately show ?thesis
    using feeds_after [of seen given parse br "drop (offset + n) chunk" d' _ d "take n (drop offset chunk)"]
      decode_law [OF laws dec] by simp
qed

lemma decode_chunk_feeds:
  assumes laws: "decoder_laws fo seen given parse br"
  shows "feeds seen given parse br (drop offset chunk) d (decode_chunk fo format chunk offset d)"
proof (induction "length chunk - offset" arbitrary: offset d rule: less_induct)
  case less
  note step = decode_chunk_step [OF laws]
  have past: "feeds seen given parse br (drop o' chunk) d (decode_chunk fo format chunk o' d)"
    if "length chunk \<le> o'" for o' d
    using that by (subst decode_chunk.simps) (simp add: feeds_simps)
  have later: "feeds seen given parse br (drop o' chunk) d (decode_chunk fo format chunk o' d)"
    if "offset < o'" for o' d
    using that less [of o' d] past [of o' d] by linarith
  show ?case
  proof (cases "offset < length chunk \<and> (\<exists>d'. decoder_decode fo d (drop offset chunk) = Inr (0, d'))")
    case False
    then show ?thesis
      using step [OF later] past [of offset d] by (metis gr0I not_less)
  next
    case True
    then obtain d' where o: "offset < length chunk"
        and dec: "decoder_decode fo d (drop offset chunk) = Inr (0, d')" by blast
    then have ne: "drop offset chunk \<noteq> []" by simp
    show ?thesis
    proof (cases "decoder_flush fo d'")
      case (Inl e)
      then show ?thesis using o dec by (subst decode_chunk.simps) (simp add: feeds_simps)
    next
      case (Inr p)
      then obtain b d'' where fl: "decoder_flush fo d' = Inr (Some b, d'')"
        using full_law [OF laws ne dec] by (cases p) (metis not_None_eq)
      have "feeds seen given parse br (drop offset chunk) d'' (decode_chunk fo format chunk offset d'')"
        by (rule step [OF later o], assumption) (rule room_law [OF laws fl ne])
      then show ?thesis
        using o dec fl decode_law [OF laws dec] flush_law [OF laws fl]
        by (subst decode_chunk.simps) (simp add: feeds_batch)
    qed
  qed
qed

lemma decode_chunks_feeds:
  assumes laws: "decoder_laws fo seen given parse br"
  shows "\<exists>bs r. decode_chunks fo format polls d = Some (bs, r)
    \<and> (\<forall>d'. r = Inr d' \<longrightarrow> (\<exists>cs. polls = map Inr cs \<and> seen d' = seen d @ concat cs) \<and> parse d' = parse d
            \<and> given d' = given d @ concat (map br bs))"
proof (induction polls arbitrary: d)
  case (Cons p polls)
  show ?case
  proof (cases p)
    case (Inr chunk)
    obtain bs r where chunk: "decode_chunk fo format chunk 0 d = Some (bs, r)"
        "\<And>d'. r = Inr d' \<Longrightarrow> seen d' = seen d @ chunk \<and> parse d' = parse d
            \<and> given d' = given d @ concat (map br bs)"
      using decode_chunk_feeds [OF laws, of 0 chunk d format] by (auto simp: feeds_def)
    show ?thesis
    proof (cases r)
      case r: (Inr d')
      obtain bs' r' where rest: "decode_chunks fo format polls d' = Some (bs', r')"
          "\<And>d''. r' = Inr d'' \<Longrightarrow> (\<exists>cs. polls = map Inr cs \<and> seen d'' = seen d' @ concat cs)
            \<and> parse d'' = parse d' \<and> given d'' = given d' @ concat (map br bs')"
        using Cons.IH [of d'] by blast
      have "\<exists>cs. p # polls = map Inr cs \<and> seen d'' = seen d @ concat cs" if d'': "r' = Inr d''" for d''
      proof -
        obtain cs where "polls = map Inr cs" "seen d'' = seen d' @ concat cs"
          using rest(2) [OF d''] by blast
        then show ?thesis
          using chunk(2) [OF r] Inr by (intro exI [of _ "chunk # cs"]) simp
      qed
      then show ?thesis
        using chunk r rest Inr by simp
    qed (use chunk Inr in simp)
  qed simp
qed simp

text \<open>
  C26. Decoding a stream of CSV or JSON lines always ends, however the file is cut into chunks,
  and reports at most one error, as its last item; unless it reports an error, the rows of its
  batches are exactly the rows of the whole file, in order.
\<close>

theorem decode_stream_complete:
  assumes laws: "decoder_laws fo seen given parse batch_rows"
    and polls: "rdr_into_stream rdr = Inr polls" and fresh: "seen d = []" "given d = []"
  shows "\<exists>out. decode_stream fo rdr d format = Some (Inr out) \<and> list_all is_ok (butlast out)
    \<and> (list_all is_ok out \<longrightarrow>
         (\<exists>cs. polls = map Inr cs \<and> concat (map (batch_rows \<circ> projr) out) = parse d (concat cs)))"
proof -
  obtain bs r where run: "decode_chunks fo format polls d = Some (bs, r)"
      "\<And>d'. r = Inr d' \<Longrightarrow> (\<exists>cs. polls = map Inr cs \<and> seen d' = seen d @ concat cs) \<and> parse d' = parse d
            \<and> given d' = given d @ concat (map batch_rows bs)"
    using decode_chunks_feeds [OF laws, of format polls d] by blast
  have ok: "list_all is_ok (map Inr bs)" "list_all is_ok (butlast (map Inr bs))"
    by (auto simp: list_all_iff map_butlast [symmetric])
  show ?thesis
  proof (cases "rbind r (decode_end fo format)")
    case (Inl e)
    then show ?thesis
      using polls run(1) ok by (simp add: decode_stream_def)
  next
    case (Inr b)
    then obtain d' n d2 d3 where r: "r = Inr d'" and dec: "decoder_decode fo d' [] = Inr (n, d2)"
        and fl: "decoder_flush fo d2 = Inr (b, d3)"
      by (auto simp: decode_end_def result_simps)
    then obtain cs where cs: "polls = map Inr cs" "seen d' = concat cs" "parse d' = parse d"
        "given d' = concat (map batch_rows bs)"
      using run(2) fresh by auto
    have "given d3 = parse d (concat cs)"
      using end_law [OF laws dec fl] cs by simp
    moreover have "given d3 = concat (map batch_rows bs) @ (case b of Some x \<Rightarrow> batch_rows x | None \<Rightarrow> [])"
      using flush_law [OF laws fl] decode_law [OF laws dec] cs by simp
    ultimately show ?thesis
      using polls run(1) ok Inr cs(1)
      by (cases b) (auto simp: decode_stream_def comp_def)
  qed
qed

text \<open>A decoder that makes a row of every byte, in batches of two.\<close>

definition bytes_decode :: "string \<times> string \<Rightarrow> string \<Rightarrow> string + (nat \<times> string \<times> string)" where
  "bytes_decode = (\<lambda>(out, pending) buf.
     let n = min (2 - length pending) (length buf) in Inr (n, out, pending @ take n buf))"

definition bytes_flush :: "string \<times> string \<Rightarrow> string + (string option \<times> string \<times> string)" where
  "bytes_flush = (\<lambda>(out, pending). Inr (if pending = [] then None else Some pending, out @ pending, []))"

definition bytes_ops :: "(unit, string, string \<times> string, string \<times> string, unit) format_ops" where
  "bytes_ops =
     \<lparr>fo_to_lowercase = to_ascii_lowercase, fo_mime = Inl, fo_json_from_slice = Inl, fo_json_text = (\<lambda>_. []),
      fo_infer_json = (\<lambda>_. Inr ()), fo_json_reader = (\<lambda>_ _ s. Inr [Inr s]),
      fo_infer_csv = (\<lambda>_. Inr ()), fo_infer_jsonl = (\<lambda>_. Inr ()),
      fo_csv_decoder = (\<lambda>_ _. ([], [])), fo_csv_decode = bytes_decode, fo_csv_flush = bytes_flush,
      fo_jsonl_decoder = (\<lambda>_ _. Inr ([], [])), fo_jsonl_decode = bytes_decode, fo_jsonl_flush = bytes_flush,
      fo_parquet_open = (\<lambda>_. Inr ()), fo_parquet_schema = (\<lambda>_. ()), fo_parquet_build = (\<lambda>_ _. Inr [])\<rparr>"

fun bytes_state :: "(string \<times> string, string \<times> string) decoder \<Rightarrow> string \<times> string" where
  "bytes_state (CsvDecoder d) = d"
| "bytes_state (JsonDecoder d) = d"

lemma bytes_ops_step:
  "decoder_decode bytes_ops d buf = Inr (n, d') \<Longrightarrow>
     n = min (2 - length (snd (bytes_state d))) (length buf)
     \<and> bytes_state d' = (fst (bytes_state d), snd (bytes_state d) @ take n buf)"
  "decoder_flush bytes_ops d = Inr (b, d') \<Longrightarrow>
     b = (if snd (bytes_state d) = [] then None else Some (snd (bytes_state d)))
     \<and> bytes_state d' = (fst (bytes_state d) @ snd (bytes_state d), [])"
  by (cases d; auto simp: bytes_ops_def bytes_decode_def bytes_flush_def Let_def split: prod.splits)+

lemma bytes_ops_laws:
  "decoder_laws bytes_ops (\<lambda>d. fst (bytes_state d) @ snd (bytes_state d)) (fst \<circ> bytes_state) (\<lambda>_ t. t) (\<lambda>b. b)"
  unfolding decoder_laws_def
  by (intro conjI allI impI) (auto simp: min_def dest!: bytes_ops_step split: if_splits)

definition abc_reader :: reader where
  "abc_reader = \<lparr>rdr_into_stream = Inr [Inr ''abc'', Inr ''de''],
     rdr_read = (\<lambda>_. Inr []), rdr_fetch = (\<lambda>_. Inr [])\<rparr>"

theorem decode_stream_complete_witness:
  "\<exists>out. decode_stream bytes_ops abc_reader (CsvDecoder ([], [])) ''CSV'' = Some (Inr out)
     \<and> list_all is_ok (butlast out)
     \<and> (list_all is_ok out \<longrightarrow> concat (map projr out) = ''abcde'')"
proof -
  have "rdr_into_stream abc_reader = Inr [Inr ''abc'', Inr ''de'']"
    by (simp add: abc_reader_def)
  from decode_stream_complete [OF bytes_ops_laws this, of "CsvDecoder ([], [])" "''CSV''"]
  show ?thesis
    by (auto simp: comp_def)
qed

end
