(* ===== verification/Sql_Like.thy ===== *)
theory Sql_Like
  imports Rust_Strings
begin

text \<open>
  The pattern matcher of the S3 connector, \<open>sql_like_match\<close> and \<open>like_prefix\<close> of
  \<open>connectors/s3/src/connector.rs\<close>, against the meaning of the SQL predicate \<open>LIKE\<close>.
\<close>

section \<open>The characters of a string\<close>

text \<open>\<open>str::chars\<close>: a character is a leading byte with the continuation bytes that follow it.\<close>

function chars :: "string \<Rightarrow> string list" where
  "chars [] = []"
| "chars (b # s) = (b # takeWhile cont_byte s) # chars (dropWhile cont_byte s)"
  by pat_completeness auto
termination
  by (relation "measure length") (auto simp: less_Suc_eq_le length_dropWhile_le)

lemma concat_chars [simp]: "concat (chars s) = s"
  by (induction s rule: chars.induct) simp_all

declare chars.simps(2) [simp del]

section \<open>The matcher\<close>

text \<open>
  The first loop, with the position of the last \<open>%\<close> and where its match begins.  \<open>None\<close> inside
  the result is the early \<open>return false\<close>; \<open>None\<close> outside is a loop that does not end.
\<close>

partial_function (option) like_loop ::
    "string list \<Rightarrow> string list \<Rightarrow> nat \<Rightarrow> nat \<Rightarrow> nat option \<Rightarrow> nat \<Rightarrow> nat option option" where
  "like_loop v p vi pi star_pi star_vi =
     (if vi < length v then
        if pi < length p \<and> (p ! pi = ''_'' \<or> p ! pi = v ! vi) then
          like_loop v p (vi + 1) (pi + 1) star_pi star_vi
        else if pi < length p \<and> p ! pi = ''%'' then
          like_loop v p vi (pi + 1) (Some pi) vi
        else (case star_pi of
            Some sp \<Rightarrow> like_loop v p (star_vi + 1) (sp + 1) (Some sp) (star_vi + 1)
          | None \<Rightarrow> Some None)
      else Some (Some pi))"

function skip_percents :: "string list \<Rightarrow> nat \<Rightarrow> nat" where
  "skip_percents p pi = (if pi < length p \<and> p ! pi = ''%'' then skip_percents p (pi + 1) else pi)"
  by auto
termination
  by (relation "measure (\<lambda>(p, pi). length p - pi)") auto

declare skip_percents.simps [simp del]

definition sql_like_match :: "string \<Rightarrow> string \<Rightarrow> bool option" where
  "sql_like_match val pattern =
     (let v = chars val; p = chars pattern in
      map_option (\<lambda>r. case r of None \<Rightarrow> False | Some pi \<Rightarrow> skip_percents p pi = length p)
        (like_loop v p 0 0 None 0))"

definition like_prefix :: "string \<Rightarrow> string" where
  "like_prefix pattern = takeWhile (\<lambda>c. c \<noteq> CHR ''%'' \<and> c \<noteq> CHR ''_'') pattern"

section \<open>The predicate \<open>LIKE\<close>\<close>

text \<open>\<open>%\<close> stands for any characters, \<open>_\<close> for one, every other character for itself.\<close>

fun like :: "string list \<Rightarrow> string list \<Rightarrow> bool" where
  "like v [] \<longleftrightarrow> v = []"
| "like [] (c # p) \<longleftrightarrow> c = ''%'' \<and> like [] p"
| "like (x # v) (c # p) \<longleftrightarrow>
     (if c = ''%'' then like (x # v) p \<or> like v (c # p) else (c = ''_'' \<or> c = x) \<and> like v p)"

lemma like_percent: "like v (''%'' # p) \<longleftrightarrow> (\<exists>k \<le> length v. like (drop k v) p)"
proof (induction v)
  case (Cons x v)
  have "(\<exists>k \<le> length (x # v). like (drop k (x # v)) p) \<longleftrightarrow>
      like (x # v) p \<or> (\<exists>k \<le> length v. like (drop k v) p)"
    by (metis (no_types, lifting) drop0 drop_Suc_Cons length_Cons not_less_eq_eq old.nat.exhaust zero_le)
  then show ?case using Cons by simp
qed simp

definition char_match :: "string \<Rightarrow> string \<Rightarrow> bool" where
  "char_match c x \<longleftrightarrow> c = ''_'' \<or> c = x"

lemma like_segment:
  "''%'' \<notin> set seg \<Longrightarrow> like v (seg @ p) \<longleftrightarrow>
     length seg \<le> length v \<and> list_all2 char_match seg (take (length seg) v) \<and> like (drop (length seg) v) p"
proof (induction seg arbitrary: v)
  case (Cons c seg)
  then show ?case by (cases v) (auto simp: char_match_def)
qed simp

lemma skip_percents_like: "pi \<le> length p \<Longrightarrow> skip_percents p pi = length p \<longleftrightarrow> like [] (drop pi p)"
proof (induction p pi rule: skip_percents.induct)
  case (1 p pi)
  show ?case
  proof (cases "pi < length p")
    case True
    then have "drop pi p = p ! pi # drop (pi + 1) p"
      by (simp add: Cons_nth_drop_Suc)
    then show ?thesis
      using 1 True by (subst skip_percents.simps) auto
  qed (use 1 in \<open>simp add: skip_percents.simps\<close>)
qed

section \<open>The matcher decides \<open>LIKE\<close>\<close>

text \<open>
  The invariant of the loop.  Before a \<open>%\<close> the rest of the value has to match the rest of the
  pattern.  After one, the value matches if what follows the last \<open>%\<close> matches from some position on;
  the pattern between that \<open>%\<close> and \<open>pi\<close> matches the value between \<open>star_vi\<close> and \<open>vi\<close>.
\<close>

definition segment :: "string list \<Rightarrow> nat \<Rightarrow> nat \<Rightarrow> string list" where
  "segment xs a b = take (b - a) (drop a xs)"

fun like_inv :: "string list \<Rightarrow> string list \<Rightarrow> nat \<Rightarrow> nat \<Rightarrow> nat option \<Rightarrow> nat \<Rightarrow> bool" where
  "like_inv v p vi pi None star_vi \<longleftrightarrow>
     vi \<le> length v \<and> pi \<le> length p \<and> star_vi = 0 \<and> (like v p \<longleftrightarrow> like (drop vi v) (drop pi p))"
| "like_inv v p vi pi (Some sp) star_vi \<longleftrightarrow>
     vi \<le> length v \<and> pi \<le> length p \<and> sp < pi \<and> star_vi \<le> vi \<and> vi - star_vi = pi - Suc sp
     \<and> ''%'' \<notin> set (segment p (Suc sp) pi)
     \<and> list_all2 char_match (segment p (Suc sp) pi) (segment v star_vi vi)
     \<and> (like v p \<longleftrightarrow> (\<exists>k. star_vi \<le> k \<and> k \<le> length v \<and> like (drop k v) (drop (Suc sp) p)))"

lemma segment_Suc: "a \<le> b \<Longrightarrow> b < length xs \<Longrightarrow> segment xs a (Suc b) = segment xs a b @ [xs ! b]"
  by (simp add: segment_def Suc_diff_le take_Suc_conv_app_nth)

lemma segment_Nil [simp]: "segment xs a a = []"
  by (simp add: segment_def)

lemma like_after_star:
  assumes inv: "like_inv v p vi pi (Some sp) sv" and k: "k \<le> length v"
  shows "like (drop k v) (drop (Suc sp) p) \<longleftrightarrow>
    k + (vi - sv) \<le> length v \<and> list_all2 char_match (segment p (Suc sp) pi) (segment v k (k + (vi - sv)))
    \<and> like (drop (k + (vi - sv)) v) (drop pi p)"
proof -
  let ?s = "segment p (Suc sp) pi"
  have len: "length ?s = vi - sv" and nop: "''%'' \<notin> set ?s"
    using inv by (auto simp: segment_def min_def)
  have "drop (Suc sp) p = ?s @ drop pi p"
    using inv by (metis append_take_drop_id drop_drop le_add_diff_inverse2 less_eq_Suc_le like_inv.simps(2) segment_def)
  then show ?thesis
    using like_segment [OF nop, of "drop k v" "drop pi p"] len k
    by (auto simp: segment_def add.commute)
qed

lemma like_star_here:
  assumes "like_inv v p vi pi (Some sp) sv"
  shows "like (drop sv v) (drop (Suc sp) p) \<longleftrightarrow> like (drop vi v) (drop pi p)"
proof -
  have e: "sv + (vi - sv) = vi"
    using assms by auto
  show ?thesis
    using like_after_star [OF assms, of sv] assms unfolding e by fastforce
qed

lemma like_inv_literal:
  assumes "like_inv v p vi pi star sv" "vi < length v" "pi < length p" "char_match (p ! pi) (v ! vi)"
    and "p ! pi \<noteq> ''%''"
  shows "like_inv v p (Suc vi) (Suc pi) star sv"
proof (cases star)
  case None
  have "drop vi v = v ! vi # drop (Suc vi) v" "drop pi p = p ! pi # drop (Suc pi) p"
    using assms by (simp_all add: Cons_nth_drop_Suc)
  then show ?thesis
    using assms None by (auto simp: char_match_def)
next
  case (Some sp)
  then show ?thesis
    using assms by (auto simp: segment_Suc list_all2_appendI Suc_diff_le)
qed

lemma like_percent_from:
  assumes "j \<le> length v"
  shows "like (drop j v) (''%'' # p) \<longleftrightarrow> (\<exists>k. j \<le> k \<and> k \<le> length v \<and> like (drop k v) p)"
proof -
  have "\<exists>k. j \<le> k \<and> k \<le> length v \<and> like (drop k v) p" if "i \<le> length v - j" "like (drop (i + j) v) p" for i
    using that assms by (intro exI [of _ "i + j"]) auto
  moreover have "\<exists>i \<le> length v - j. like (drop (i + j) v) p" if "j \<le> k" "k \<le> length v" "like (drop k v) p" for k
    using that by (intro exI [of _ "k - j"]) auto
  ultimately show ?thesis
    by (auto simp: like_percent)
qed

lemma like_inv_percent:
  assumes inv: "like_inv v p vi pi star sv" and "vi < length v" "pi < length p" "p ! pi = ''%''"
  shows "like_inv v p vi (Suc pi) (Some pi) vi"
proof -
  have d: "drop pi p = ''%'' # drop (Suc pi) p"
    using assms by (metis Cons_nth_drop_Suc)
  have here: "like (drop j v) (drop pi p) \<longleftrightarrow> (\<exists>k. j \<le> k \<and> k \<le> length v \<and> like (drop k v) (drop (Suc pi) p))"
    if "j \<le> length v" for j
    unfolding d by (rule like_percent_from [OF that])
  have "like v p \<longleftrightarrow> like (drop vi v) (drop pi p)"
  proof (cases star)
    case (Some sp)
    show ?thesis
    proof
      assume "like v p"
      then obtain k where k: "sv \<le> k" "k \<le> length v" "like (drop k v) (drop (Suc sp) p)"
        using inv Some by auto
      then have "k + (vi - sv) \<le> length v" "like (drop (k + (vi - sv)) v) (drop pi p)"
        using like_after_star [of v p vi pi sp sv k] inv Some by auto
      then obtain k' where "k + (vi - sv) \<le> k'" "k' \<le> length v" "like (drop k' v) (drop (Suc pi) p)"
        using here by blast
      then show "like (drop vi v) (drop pi p)"
        using here [of vi] k(1) inv Some by fastforce
    next
      assume "like (drop vi v) (drop pi p)"
      then show "like v p"
        using like_star_here [of v p vi pi sp sv] inv Some by auto
    qed
  qed (use inv in auto)
  then show ?thesis
    using here [of vi] assms by simp
qed

lemma like_inv_retry:
  assumes inv: "like_inv v p vi pi (Some sp) sv" and "vi < length v" and no: "\<not> like (drop vi v) (drop pi p)"
  shows "like_inv v p (Suc sv) (Suc sp) (Some sp) (Suc sv)"
proof -
  have "\<not> like (drop sv v) (drop (Suc sp) p)"
    using like_star_here [OF inv] no by simp
  then have "(\<exists>k. sv \<le> k \<and> k \<le> length v \<and> like (drop k v) (drop (Suc sp) p)) \<longleftrightarrow>
      (\<exists>k. Suc sv \<le> k \<and> k \<le> length v \<and> like (drop k v) (drop (Suc sp) p))"
    by (metis Suc_leD le_antisym not_less_eq_eq)
  then show ?thesis
    using assms by auto
qed

lemma like_inv_end:
  assumes inv: "like_inv v p vi pi star sv" and e: "vi = length v"
  shows "like v p \<longleftrightarrow> like [] (drop pi p)"
proof (cases star)
  case (Some sp)
  show ?thesis
  proof
    assume "like v p"
    then obtain k where k: "sv \<le> k" "k \<le> length v" "like (drop k v) (drop (Suc sp) p)"
      using inv Some by auto
    then have "k + (vi - sv) \<le> length v" "like (drop (k + (vi - sv)) v) (drop pi p)"
      using like_after_star [of v p vi pi sp sv k] inv Some by auto
    then show "like [] (drop pi p)"
      using k(1) e inv Some by (metis drop_all le_add_diff_inverse le_antisym add_le_cancel_right like_inv.simps(2))
  next
    assume "like [] (drop pi p)"
    then show "like v p"
      using like_star_here [of v p vi pi sp sv] inv Some e by auto
  qed
qed (use inv e in auto)


lemma like_mismatch:
  assumes "vi < length v" "\<not> (pi < length p \<and> char_match (p ! pi) (v ! vi))" "\<not> (pi < length p \<and> p ! pi = ''%'')"
  shows "\<not> like (drop vi v) (drop pi p)"
proof (cases "pi < length p")
  case True
  have "drop vi v = v ! vi # drop (Suc vi) v" "drop pi p = p ! pi # drop (Suc pi) p"
    using assms True by (simp_all add: Cons_nth_drop_Suc)
  then show ?thesis
    using assms True by (simp add: char_match_def)
qed (use assms in simp)

lemma like_loop_over: "like_loop v p (length v) pi star sv = Some (Some pi)"
  by (subst like_loop.simps) simp

lemma like_loop_literal:
  assumes "vi < length v" "pi < length p" "char_match (p ! pi) (v ! vi)"
  shows "like_loop v p vi pi star sv = like_loop v p (Suc vi) (Suc pi) star sv"
  using assms by (subst like_loop.simps) (simp add: char_match_def)

lemma like_loop_percent:
  assumes "vi < length v" "pi < length p" "\<not> char_match (p ! pi) (v ! vi)" "p ! pi = ''%''"
  shows "like_loop v p vi pi star sv = like_loop v p vi (Suc pi) (Some pi) vi"
  using assms by (subst like_loop.simps) (simp add: char_match_def)

lemma like_loop_none:
  assumes "vi < length v" "\<not> (pi < length p \<and> char_match (p ! pi) (v ! vi))"
    "\<not> (pi < length p \<and> p ! pi = ''%'')"
  shows "like_loop v p vi pi star sv = (case star of
      Some sp \<Rightarrow> like_loop v p (Suc sv) (Suc sp) (Some sp) (Suc sv) | None \<Rightarrow> Some None)"
  using assms by (subst like_loop.simps) (auto simp: char_match_def split: option.split)

lemma like_loop_correct:
  assumes nop: "''%'' \<notin> set v" and "like_inv v p vi pi star sv"
  shows "\<exists>r. like_loop v p vi pi star sv = Some r
    \<and> (like v p \<longleftrightarrow> (case r of None \<Rightarrow> False | Some pi' \<Rightarrow> skip_percents p pi' = length p))"
  using assms(2)
proof (induction "(length v - sv, length p - pi)" arbitrary: vi pi star sv
    rule: wf_induct_rule [OF wf_lex_prod [OF wf_less_than wf_less_than]])
  case 1
  note inv = 1(2)
  have less: "((length v - sv', length p - pi'), length v - sv, length p - pi) \<in> less_than <*lex*> less_than"
    if "sv < sv' \<and> sv < length v \<or> sv \<le> sv' \<and> pi < pi' \<and> pi < length p" for sv' pi'
    using that by auto
  have le: "pi \<le> length p" "vi \<le> length v" "sv \<le> vi"
    using inv by (cases star; simp)+
  consider (over) "vi = length v" | (lit) "vi < length v" "pi < length p" "char_match (p ! pi) (v ! vi)"
    | (percent) "vi < length v" "pi < length p" "\<not> char_match (p ! pi) (v ! vi)" "p ! pi = ''%''"
    | (none) "vi < length v" "\<not> (pi < length p \<and> char_match (p ! pi) (v ! vi))"
        "\<not> (pi < length p \<and> p ! pi = ''%'')"
    using le_neq_implies_less [OF le(2)] by blast
  then show ?case
  proof cases
    case over
    then show ?thesis
      using like_inv_end [OF inv] skip_percents_like [OF le(1)] by (simp add: like_loop_over)
  next
    case lit
    have "v ! vi \<noteq> ''%''"
      using nop nth_mem [OF lit(1)] by metis
    then have "p ! pi \<noteq> ''%''"
      using lit(3) by (auto simp: char_match_def)
    from 1(1) [OF less like_inv_literal [OF inv lit this]] show ?thesis
      using lit by (simp add: like_loop_literal [OF lit])
  next
    case percent
    from 1(1) [OF less like_inv_percent [OF inv percent(1,2,4)]] show ?thesis
      using percent le by (simp add: like_loop_percent [OF percent])
  next
    case none
    show ?thesis
    proof (cases star)
      case None
      then show ?thesis
        using like_mismatch [OF none] inv by (simp add: like_loop_none [OF none])
    next
      case (Some sp)
      have "like_inv v p (Suc sv) (Suc sp) (Some sp) (Suc sv)"
        using like_inv_retry [of v p vi pi sp sv] like_mismatch [OF none] none(1) inv Some by blast
      from 1(1) [OF less this] show ?thesis
        using none(1) le Some by (simp add: like_loop_none [OF none])
    qed
  qed
qed

lemma percent_char: "''%'' \<in> set (chars s) \<Longrightarrow> CHR ''%'' \<in> set s"
proof (induction s rule: chars.induct)
  case (2 b s)
  then show ?case by (auto simp: chars.simps dest: set_dropWhileD)
qed simp

lemma sql_like_match_like:
  assumes "CHR ''%'' \<notin> set val"
  shows "sql_like_match val pattern = Some (like (chars val) (chars pattern))"
proof -
  have "''%'' \<notin> set (chars val)"
    using assms percent_char by blast
  then show ?thesis
    using like_loop_correct [of "chars val" "chars pattern" 0 0 None 0]
    by (auto simp: sql_like_match_def Let_def)
qed

text \<open>
  C27. The matcher of the S3 connector always returns, and for a value without a percent sign it
  decides the predicate \<open>LIKE\<close>.
\<close>

theorem sql_like_match_correct:
  assumes "CHR ''%'' \<notin> set val"
  shows "sql_like_match val pattern = Some (like (chars val) (chars pattern))"
  using assms by (rule sql_like_match_like)

theorem sql_like_match_correct_witness:
  "sql_like_match ''d/a.csv'' ''d/%.c_v'' = Some True"
proof -
  have "like (chars ''d/a.csv'') (chars ''d/%.c_v'') = True"
    by code_simp
  then show ?thesis
    by (subst sql_like_match_correct) (code_simp, simp only:)
qed

text \<open>
  The hypothesis is needed: a percent sign of the value is taken to match the wildcard as a
  literal, so that the pattern that matches everything does not match this value.
\<close>

lemma percent_in_value_is_literal:
  "sql_like_match ''%ab'' ''%'' = Some False" "like (chars ''%ab'') (chars ''%'')"
proof -
  have c: "chars ''%ab'' = [''%'', ''a'', ''b'']" "chars ''%'' = [''%'']"
    by code_simp+
  have "like_loop [''%'', ''a'', ''b''] [''%''] 0 0 None 0 = Some None"
    by (simp add: like_loop_literal like_loop_none char_match_def)
  then show "sql_like_match ''%ab'' ''%'' = Some False"
    by (simp add: sql_like_match_def c)
  show "like (chars ''%ab'') (chars ''%'')"
    by (simp add: c)
qed

section \<open>The literal prefix\<close>

text \<open>A value can only match a pattern whose literal prefix it starts with.\<close>

lemma not_cont_wildcard: "cont_byte c \<Longrightarrow> c \<noteq> CHR ''%'' \<and> c \<noteq> CHR ''_''"
  by (auto simp: cont_byte_def)

lemma takeWhile_prefix_all: "(\<And>x. x \<in> set xs \<Longrightarrow> P x) \<Longrightarrow> takeWhile P (xs @ ys) = xs @ takeWhile P ys"
  by (induction xs) auto

lemma like_chars_prefix: "like v (chars pattern) \<Longrightarrow> prefix (like_prefix pattern) (concat v)"
proof (induction pattern arbitrary: v rule: chars.induct)
  case (2 b s)
  let ?t = "takeWhile cont_byte s" and ?d = "dropWhile cont_byte s"
  show ?case
  proof (cases "b = CHR ''%'' \<or> b = CHR ''_''")
    case False
    then have nw: "b # ?t \<noteq> ''%''" "b # ?t \<noteq> ''_''" by auto
    then obtain v' where v: "v = (b # ?t) # v'" and l: "like v' (chars ?d)"
      using "2.prems" by (cases v) (auto simp: chars.simps)
    have "like_prefix (b # s) = b # ?t @ like_prefix ?d"
      using False takeWhile_prefix_all [of ?t "\<lambda>c. c \<noteq> CHR ''%'' \<and> c \<noteq> CHR ''_''" ?d] not_cont_wildcard
      by (auto simp: like_prefix_def dest: set_takeWhileD)
    then show ?thesis
      using v "2.IH" [OF l] by (simp add: prefix_def)
  qed (auto simp: like_prefix_def)
qed (simp add: like_prefix_def)

lemma like_prefix_sound: "like (chars val) (chars pattern) \<Longrightarrow> prefix (like_prefix pattern) val"
  using like_chars_prefix [of "chars val" pattern] by simp


end
