(* ===== verification/S3_Connector.thy ===== *)
theory S3_Connector
  imports Connector_Base Format_Readers Sql_Like
begin

text \<open>
  The S3 connector, \<open>connectors/s3/src/connector.rs\<close>.  The storage library is the record \<open>s3_api\<close>;
  what the bucket holds at the time of a call is the record \<open>storage\<close>, so that two calls on a
  reader may see different objects.  The \<open>json_cache\<close> of a reader is passed explicitly.
\<close>

section \<open>The storage library\<close>

record s3_builder =
  sb_bucket :: string
  sb_access_key_id :: string
  sb_secret_access_key :: string
  sb_region :: string
  sb_endpoint :: "string option"

record ('op, 'tr) s3_api =
  s3_operator_new :: "s3_builder \<Rightarrow> string + 'op"
  s3_from_pem_bundle :: "string \<Rightarrow> string + string list"
  s3_http_client :: "string list \<Rightarrow> string + 'tr"
  s3_with_http_transport :: "'op \<Rightarrow> 'tr \<Rightarrow> 'op"
  s3_timeout_layer :: "'op \<Rightarrow> 64 word \<Rightarrow> 64 word \<Rightarrow> 'op"

datatype entry_mode = FileEntry | DirEntry | UnknownEntry

record entry =
  en_path :: string
  en_mode :: entry_mode

text \<open>\<open>st_reader\<close> has the chunk size of \<open>reader_with(path).chunk(n)\<close>, if one is set.\<close>

record 'op storage =
  st_reader :: "'op \<Rightarrow> string \<Rightarrow> 64 word option \<Rightarrow> opendal_error + reader"
  st_stat :: "'op \<Rightarrow> string \<Rightarrow> opendal_error + unit"
  st_check :: "'op \<Rightarrow> opendal_error + unit"
  st_list :: "'op \<Rightarrow> string \<Rightarrow> opendal_error + entry list"

section \<open>Credentials\<close>

definition KEY_CA_CERT :: string where
  "KEY_CA_CERT = ''AWS_S3_CA_CERT''"

definition build_http_transport :: "('op, 'tr) s3_api \<Rightarrow> string \<Rightarrow> connector_error + 'tr" where
  "build_http_transport api ca_cert =
     rbind (map_err (\<lambda>e. ConfigError (KEY_CA_CERT @ '' contains invalid PEM data: '' @ e))
              (s3_from_pem_bundle api ca_cert)) (\<lambda>certificates.
     if certificates = [] then Inl (ConfigError (KEY_CA_CERT @ '' must contain at least one certificate''))
     else map_err (\<lambda>e. ConfigError (''failed to configure S3 TLS client: '' @ e))
            (s3_http_client api certificates))"

definition resolve_region :: "string hmap \<Rightarrow> string" where
  "resolve_region credentials = with_default (trimmed_credential credentials ''AWS_DEFAULT_REGION'') ''us-east-1''"

definition build_operator ::
    "('op, 'tr) s3_api \<Rightarrow> 64 word \<Rightarrow> 64 word \<Rightarrow> string hmap \<Rightarrow> connector_error + 'op" where
  "build_operator api connection_timeout io_timeout credentials =
     rbind (required_credential credentials ''AWS_S3_BUCKET'') (\<lambda>bucket.
     rbind (required_credential credentials ''AWS_ACCESS_KEY_ID'') (\<lambda>access_key.
     rbind (required_credential credentials ''AWS_SECRET_ACCESS_KEY'') (\<lambda>secret_key.
     rbind (map_err (\<lambda>e. ConnectionError (''failed to create S3 operator: '' @ e))
              (s3_operator_new api
                 \<lparr>sb_bucket = bucket, sb_access_key_id = access_key, sb_secret_access_key = secret_key,
                  sb_region = resolve_region credentials,
                  sb_endpoint = trimmed_credential credentials ''AWS_S3_ENDPOINT''\<rparr>)) (\<lambda>oper.
     rbind (case Option.bind (hget credentials KEY_CA_CERT) (\<lambda>v. if trim v = [] then None else Some v) of
         Some ca_cert \<Rightarrow>
           rbind (build_http_transport api ca_cert) (\<lambda>tr. Inr (s3_with_http_transport api oper tr))
       | None \<Rightarrow> Inr oper) (\<lambda>oper'.
     Inr (s3_timeout_layer api oper' connection_timeout io_timeout))))))"

section \<open>Reading an object\<close>

definition map_opendal_error :: "string \<Rightarrow> string \<Rightarrow> opendal_error \<Rightarrow> connector_error" where
  "map_opendal_error context path e =
     (case od_kind e of
        ODNotFound \<Rightarrow> NotFound (quoted path @ '' not found'')
      | ODPermissionDenied \<Rightarrow> ConnectionError (''access denied for '' @ quoted path)
      | ODOther \<Rightarrow> IOError (context @ '' '' @ quoted path))"

definition MAX_JSON_BYTES :: nat where
  "MAX_JSON_BYTES = 128 * 1024 * 1024"

fun json_read_loop :: "string \<Rightarrow> string \<Rightarrow> (opendal_error + string) list \<Rightarrow> connector_error + string" where
  "json_read_loop path bytes [] = Inr bytes"
| "json_read_loop path bytes (Inl e # polls) = Inl (map_opendal_error ''Failed to read'' path e)"
| "json_read_loop path bytes (Inr chunk # polls) =
     (if MAX_JSON_BYTES < length bytes + length chunk then
        Inl (IOError (''JSON file too large (limit '' @ show_nat MAX_JSON_BYTES @ '' bytes)''))
      else json_read_loop path (bytes @ chunk) polls)"

definition read_json_checked :: "'op storage \<Rightarrow> 'op \<Rightarrow> string \<Rightarrow> connector_error + string" where
  "read_json_checked st oper path =
     rbind (map_err (map_opendal_error ''Failed to create reader for'' path) (st_reader st oper path None)) (\<lambda>rdr.
     rbind (map_err (map_opendal_error ''Failed to open stream for'' path) (rdr_into_stream rdr)) (\<lambda>polls.
     json_read_loop path [] polls))"

section \<open>The reader\<close>

record 'op s3_reader =
  s3r_operator :: 'op
  s3r_format_hint :: "string option"
  s3r_config :: connector_config

type_synonym json_cache = "(string \<times> string) option"

definition s3_detect_format ::
    "('s, 'b, 'c, 'j, 'p) format_ops \<Rightarrow> 'op s3_reader \<Rightarrow> string \<Rightarrow> connector_error + file_format" where
  "s3_detect_format fo self path = detect fo path (s3r_format_hint self)"

definition s3_make_reader :: "'op storage \<Rightarrow> 'op s3_reader \<Rightarrow> string \<Rightarrow> connector_error + reader" where
  "s3_make_reader st self path =
     map_err (map_opendal_error ''Failed to create S3 reader for'' path)
       (st_reader st (s3r_operator self) path (Some (cc_chunk_size (s3r_config self))))"

definition s3_schema ::
    "('s, 'b, 'c, 'j, 'p) format_ops \<Rightarrow> 'op storage \<Rightarrow> 'op s3_reader \<Rightarrow> string \<Rightarrow> json_cache \<Rightarrow>
     (connector_error + 's query) \<times> json_cache" where
  "s3_schema fo st self q cache =
     (let done = (\<lambda>r. rbind r (\<lambda>schema. Inr \<lparr>q_query = q, q_schema = schema\<rparr>)) in
      case s3_detect_format fo self q of
        Inl e \<Rightarrow> (Inl e, cache)
      | Inr Parquet \<Rightarrow> (done (rbind (s3_make_reader st self q) (read_parquet_schema fo)), cache)
      | Inr Csv \<Rightarrow> (done (rbind (s3_make_reader st self q) (read_csv_schema fo)), cache)
      | Inr JsonLines \<Rightarrow> (done (rbind (s3_make_reader st self q) (read_jsonl_schema fo)), cache)
      | Inr JsonFile \<Rightarrow>
          (case rbind (read_json_checked st (s3r_operator self) q) (\<lambda>data.
                rbind (read_json_schema fo data None) (\<lambda>schema. Inr (data, schema))) of
             Inl e \<Rightarrow> (Inl e, cache)
           | Inr (data, schema) \<Rightarrow> (done (Inr schema), Some (q, data))))"

text \<open>The cached document is taken when it is the one of the path; otherwise it stays.\<close>

definition take_cached :: "string \<Rightarrow> json_cache \<Rightarrow> string option \<times> json_cache" where
  "take_cached path cache =
     (case cache of
        Some (p, d) \<Rightarrow> if p = path then (Some d, None) else (None, cache)
      | None \<Rightarrow> (None, cache))"

text \<open>\<open>None\<close> is a read that panics or does not end.\<close>

definition s3_read_tabular ::
    "('s, 'b, 'c, 'j, 'p) format_ops \<Rightarrow> 'op storage \<Rightarrow> 'op s3_reader \<Rightarrow> 's query \<Rightarrow> nat \<Rightarrow> json_cache \<Rightarrow>
     (connector_error + 'b batch_stream) option \<times> json_cache" where
  "s3_read_tabular fo st self view batch_size cache =
     (let path = q_query view; rdr = s3_make_reader st self path in
      case s3_detect_format fo self path of
        Inl e \<Rightarrow> (Some (Inl e), cache)
      | Inr Parquet \<Rightarrow> (Some (rbind rdr (\<lambda>r. read_parquet_batches fo r batch_size)), cache)
      | Inr Csv \<Rightarrow>
          (case rdr of Inl e \<Rightarrow> Some (Inl e) | Inr r \<Rightarrow> read_csv_batches fo r (q_schema view) batch_size, cache)
      | Inr JsonLines \<Rightarrow>
          (case rdr of Inl e \<Rightarrow> Some (Inl e) | Inr r \<Rightarrow> read_jsonl_batches fo r (q_schema view) batch_size, cache)
      | Inr JsonFile \<Rightarrow>
          (let (cached, cache') = take_cached path cache in
           (case (case cached of Some d \<Rightarrow> Inr d | None \<Rightarrow> read_json_checked st (s3r_operator self) path) of
              Inl e \<Rightarrow> Some (Inl e)
            | Inr data \<Rightarrow> map_option Inr (read_json_batches fo data (q_schema view) batch_size None), cache')))"

definition s3_can_read_binary :: "'op storage \<Rightarrow> 'op s3_reader \<Rightarrow> string \<Rightarrow> connector_error + unit" where
  "s3_can_read_binary st self path =
     map_err (map_opendal_error ''Cannot read'' path) (st_stat st (s3r_operator self) path)"

text \<open>
  The binary stream: every chunk is a batch of one column with one entry.  \<open>mk\<close> is
  \<open>RecordBatch::try_new\<close> on that column.
\<close>

fun binary_stream ::
    "(opendal_error \<Rightarrow> connector_error) \<Rightarrow> (string \<Rightarrow> string + 'b) \<Rightarrow> (opendal_error + string) list \<Rightarrow> 'b batch_stream" where
  "binary_stream err mk [] = []"
| "binary_stream err mk (Inl e # polls) = [Inl (err e)]"
| "binary_stream err mk (Inr chunk # polls) =
     (case mk chunk of
        Inl e \<Rightarrow> [Inl (IOError (''Failed to create batch: '' @ e))]
      | Inr b \<Rightarrow> Inr b # binary_stream err mk polls)"

definition s3_read_binary ::
    "(string \<Rightarrow> string + 'b) \<Rightarrow> 'op storage \<Rightarrow> 'op s3_reader \<Rightarrow> string \<Rightarrow> connector_error + 'b batch_stream" where
  "s3_read_binary mk st self path =
     rbind (s3_make_reader st self path) (\<lambda>rdr.
     rbind (map_err (map_opendal_error ''Failed to open stream for'' path) (rdr_into_stream rdr)) (\<lambda>polls.
     Inr (binary_stream (map_opendal_error ''Stream read error for'' path) mk polls)))"

definition s3_check_connection :: "'op storage \<Rightarrow> 'op s3_reader \<Rightarrow> connector_error + unit" where
  "s3_check_connection st self =
     map_err (\<lambda>e. ConnectionError (''S3 connection check failed: '' @ od_text e)) (st_check st (s3r_operator self))"

section \<open>Listing tables\<close>

text \<open>The filter on one path; \<open>None\<close> is a matcher that does not return.\<close>

definition path_wanted :: "string option \<Rightarrow> string \<Rightarrow> bool option" where
  "path_wanted table_name_filter path =
     (case table_name_filter of None \<Rightarrow> Some True | Some pattern \<Rightarrow> sql_like_match path pattern)"

definition s3_table_schema ::
    "('s, 'b, 'c, 'j, 'p) format_ops \<Rightarrow> 's \<Rightarrow> 'op storage \<Rightarrow> 'op s3_reader \<Rightarrow> bool \<Rightarrow> string \<Rightarrow> json_cache \<Rightarrow>
     's \<times> json_cache" where
  "s3_table_schema fo no_fields st self include_schema path cache =
     (if include_schema \<and> s3_detect_format fo self path \<noteq> Inr JsonFile then
        (case s3_schema fo st self path cache of
           (Inr view, cache') \<Rightarrow> (q_schema view, cache')
         | (Inl e, cache') \<Rightarrow> (no_fields, cache'))
      else (no_fields, cache))"

fun s3_tables ::
    "('s, 'b, 'c, 'j, 'p) format_ops \<Rightarrow> 's \<Rightarrow> 'op storage \<Rightarrow> 'op s3_reader \<Rightarrow> string option \<Rightarrow> bool \<Rightarrow>
     json_cache \<Rightarrow> string list \<Rightarrow> ('s table_info list \<times> json_cache) option" where
  "s3_tables fo no_fields st self filt include_schema cache [] = Some ([], cache)"
| "s3_tables fo no_fields st self filt include_schema cache (path # paths) =
     Option.bind (path_wanted filt path) (\<lambda>wanted.
       if wanted then
         let (table_schema, cache') = s3_table_schema fo no_fields st self include_schema path cache;
             t = \<lparr>ti_catalog = [], ti_schema_name = [], ti_table_name = path, ti_table_type = ''TABLE'',
                 ti_table_schema = table_schema\<rparr> in
         map_option (\<lambda>(ts, cache''). (t # ts, cache''))
           (s3_tables fo no_fields st self filt include_schema cache' paths)
       else s3_tables fo no_fields st self filt include_schema cache paths)"

definition s3_list_tables ::
    "('s, 'b, 'c, 'j, 'p) format_ops \<Rightarrow> 's \<Rightarrow> 'op storage \<Rightarrow> 'op s3_reader \<Rightarrow> string option \<Rightarrow> bool \<Rightarrow>
     json_cache \<Rightarrow> (connector_error + ('s table_info list \<times> json_cache)) option" where
  "s3_list_tables fo no_fields st self filt include_schema cache =
     (case st_list st (s3r_operator self) (with_default (map_option like_prefix filt) []) of
        Inl e \<Rightarrow> Some (Inl (IOError ''failed to list S3 objects''))
      | Inr entries \<Rightarrow>
          map_option Inr (s3_tables fo no_fields st self filt include_schema cache
            (filter (\<lambda>p. is_ok (s3_detect_format fo self p))
              (map en_path (filter (\<lambda>e. en_mode e = FileEntry) entries)))))"

section \<open>The connector\<close>

text \<open>
  \<open>wrap\<close> makes the trait object of a reader: the functions above on the storage the calls find.
\<close>

definition s3_connector ::
    "('op, 'tr) s3_api \<Rightarrow> connector_config \<Rightarrow> (string \<Rightarrow> 'op option) \<Rightarrow> ('op s3_reader \<Rightarrow> ('s, 'b) data_reader) \<Rightarrow>
     ('s, 'b) flight_connector" where
  "s3_connector api config held wrap =
     \<lparr>fc_provider = ''s3'', fc_description = ''Amazon compatible S3 connector'',
      fc_supported_formats = [Tabular, Binary],
      fc_get_reader = (\<lambda>connection resolver.
        rbind (client_for held (build_operator api (cc_connection_timeout config) (cc_read_timeout config))
                 connection resolver) (\<lambda>oper.
        Inr (wrap \<lparr>s3r_operator = oper,
                   s3r_format_hint = hget (dc_properties (dcr_resource connection)) ''format'',
                   s3r_config = config\<rparr>)))\<rparr>"

interpretation s3: client_connector "s3_connector api config held wrap" held
  "\<lambda>_. build_operator api (cc_connection_timeout config) (cc_read_timeout config)"
  "\<lambda>connection oper. wrap \<lparr>s3r_operator = oper,
     s3r_format_hint = hget (dc_properties (dcr_resource connection)) ''format'', s3r_config = config\<rparr>"
  for api config held wrap
  by unfold_locales (simp add: s3_connector_def)


section \<open>What the reader guarantees\<close>

lemma s3_table_schema_cache: "snd (s3_table_schema fo no_fields st self inc path cache) = cache"
  by (auto simp: s3_table_schema_def s3_schema_def Let_def split: sum.splits file_format.splits)

text \<open>
  A JSON document is parsed from the bytes its schema was inferred from, even when the object
  changes between the two calls.
\<close>

lemma s3_json_snapshot:
  assumes "s3_detect_format fo self q = Inr JsonFile" "s3_schema fo st self q cache = (Inr view, cache')"
  shows "\<exists>data. read_json_checked st (s3r_operator self) q = Inr data
    \<and> read_json_schema fo data None = Inr (q_schema view)
    \<and> s3_read_tabular fo st' self view n cache' =
        (map_option Inr (read_json_batches fo data (q_schema view) n None), None)"
  using assms
  by (auto simp: s3_schema_def s3_read_tabular_def take_cached_def Let_def result_simps split: sum.splits)

text \<open>No JSON document above the limit is held in memory.\<close>

lemma json_read_loop_bound:
  "json_read_loop path bytes polls = Inr data \<Longrightarrow> length bytes \<le> MAX_JSON_BYTES \<Longrightarrow>
     length data \<le> MAX_JSON_BYTES \<and> (\<exists>cs. polls = map Inr cs \<and> data = bytes @ concat cs)"
proof (induction path bytes polls rule: json_read_loop.induct)
  case (3 path bytes chunk polls)
  then obtain cs where "length data \<le> MAX_JSON_BYTES" "polls = map Inr cs" "data = (bytes @ chunk) @ concat cs"
    by (auto split: if_splits)
  then show ?case
    by (intro conjI exI [of _ "chunk # cs"]) auto
qed auto

lemma read_json_checked_bound:
  "read_json_checked st oper path = Inr data \<Longrightarrow> length data \<le> MAX_JSON_BYTES"
  by (auto simp: read_json_checked_def result_simps dest: json_read_loop_bound)

lemma s3_tables_names:
  assumes "\<And>p. p \<in> set paths \<Longrightarrow> path_wanted filt p = Some (wanted p)"
  shows "\<exists>ts. s3_tables fo no_fields st self filt inc cache paths = Some (ts, cache)
    \<and> map ti_table_name ts = filter wanted paths"
  using assms
proof (induction paths)
  case (Cons p ps)
  then obtain ts where "s3_tables fo no_fields st self filt inc cache ps = Some (ts, cache)"
      "map ti_table_name ts = filter wanted ps"
    by auto
  moreover obtain s where "s3_table_schema fo no_fields st self inc p cache = (s, cache)"
    using s3_table_schema_cache [of fo no_fields st self inc p cache] by (metis prod.collapse)
  ultimately show ?case
    using Cons.prems [of p] by simp
qed simp

text \<open>
  What the storage library documents of a recursive listing: the entries of the bucket whose path
  starts with the prefix.
\<close>

definition list_law :: "'op storage \<Rightarrow> 'op \<Rightarrow> entry list \<Rightarrow> bool" where
  "list_law st oper entries \<longleftrightarrow> (\<forall>pre. st_list st oper pre = Inr (filter (\<lambda>e. prefix pre (en_path e)) entries))"

text \<open>The paths a listing has to give: the files of a known format that match the filter.\<close>

definition table_paths ::
    "('s, 'b, 'c, 'j, 'p) format_ops \<Rightarrow> 'op s3_reader \<Rightarrow> string option \<Rightarrow> entry list \<Rightarrow> string list" where
  "table_paths fo self filt entries =
     filter (\<lambda>p. is_ok (s3_detect_format fo self p)
         \<and> (case filt of None \<Rightarrow> True | Some pattern \<Rightarrow> like (chars p) (chars pattern)))
       (map en_path (filter (\<lambda>e. en_mode e = FileEntry) entries))"

lemma path_wanted_like:
  "CHR ''%'' \<notin> set p \<Longrightarrow> path_wanted filt p =
     Some (case filt of None \<Rightarrow> True | Some pattern \<Rightarrow> like (chars p) (chars pattern))"
  by (simp add: path_wanted_def sql_like_match_like split: option.split)

lemma table_paths_narrowed:
  "table_paths fo self (Some pattern) (filter (\<lambda>e. prefix (like_prefix pattern) (en_path e)) entries)
     = table_paths fo self (Some pattern) entries"
  by (induction entries) (auto simp: table_paths_def dest: like_prefix_sound)


definition sample_entries :: "entry list" where
  "sample_entries =
     [\<lparr>en_path = ''d/'', en_mode = DirEntry\<rparr>, \<lparr>en_path = ''d/a.csv'', en_mode = FileEntry\<rparr>,
      \<lparr>en_path = ''d/b.txt'', en_mode = FileEntry\<rparr>, \<lparr>en_path = ''e/c.csv'', en_mode = FileEntry\<rparr>]"

definition sample_storage :: "unit storage" where
  "sample_storage =
     \<lparr>st_reader = (\<lambda>_ _ _. Inr abc_reader), st_stat = (\<lambda>_ _. Inr ()), st_check = (\<lambda>_. Inr ()),
      st_list = (\<lambda>_ pre. Inr (filter (\<lambda>e. prefix pre (en_path e)) sample_entries))\<rparr>"

definition sample_s3_reader :: "unit s3_reader" where
  "sample_s3_reader = \<lparr>s3r_operator = (), s3r_format_hint = None, s3r_config = default_connector_config\<rparr>"


end
