(* ===== verification/Http_Client.thy ===== *)
theory Http_Client
  imports Connector_Base
begin

text \<open>
  HTTP as the URI, Elasticsearch and Milvus connectors use it.  The library reqwest is the record
  \<open>http_api\<close>.  A server is a function from the requests sent so far and the next one to the answer;
  a call that sends requests takes the requests sent so far and returns them with its own added.
\<close>

datatype http_method = GET | HEAD | POST | DELETE

datatype http_auth = NoAuth | BearerAuth string | BasicAuth string string | ApiKeyAuth string

record 'u http_request =
  rq_method :: http_method
  rq_url :: 'u
  rq_auth :: http_auth
  rq_json :: "json option"
  rq_timeout :: "nat option"

record http_response =
  rs_status :: nat
  rs_status_text :: string
  rs_content_type :: "string option"
  rs_content_length :: "nat option"
  rs_text :: "string + string"
  rs_json :: "string + json"
  rs_bytes :: "string + string"
  rs_bytes_stream :: "(string + string) list"

definition is_success :: "http_response \<Rightarrow> bool" where
  "is_success rs \<longleftrightarrow> 200 \<le> rs_status rs \<and> rs_status rs < 300"

text \<open>\<open>response.text().await.unwrap_or_default()\<close>.\<close>

definition text_or_default :: "http_response \<Rightarrow> string" where
  "text_or_default rs = (case rs_text rs of Inl e \<Rightarrow> [] | Inr t \<Rightarrow> t)"

type_synonym 'u server = "'u http_request list \<Rightarrow> 'u http_request \<Rightarrow> string + http_response"

definition send :: "'u server \<Rightarrow> 'u http_request \<Rightarrow> 'u http_request list \<Rightarrow>
    (string + http_response) \<times> 'u http_request list" where
  "send srv rq sent = (srv sent rq, sent @ [rq])"

record ('h, 'cert) http_api =
  ha_from_pem :: "string \<Rightarrow> string + 'cert"
  ha_build :: "64 word \<Rightarrow> 64 word \<Rightarrow> 64 word \<Rightarrow> 'cert option \<Rightarrow> string + 'h"

text \<open>The HTTP client of the three connectors: timeouts and the CA certificate of the credentials.\<close>

definition build_http ::
    "('h, 'cert) http_api \<Rightarrow> connector_config \<Rightarrow> string hmap \<Rightarrow> connector_error + 'h" where
  "build_http api config credentials =
     rbind (case hget credentials ''CA_CERT'' of
         Some ca_pem \<Rightarrow>
           rbind (map_err (\<lambda>e. ConnectionError (''Invalid CA certificate: '' @ e)) (ha_from_pem api ca_pem))
             (\<lambda>cert. Inr (Some cert))
       | None \<Rightarrow> Inr None) (\<lambda>cert.
     map_err (\<lambda>e. ConnectionError (''Failed to build HTTP client: '' @ e))
       (ha_build api (cc_connection_timeout config) (cc_read_timeout config) (cc_request_timeout config) cert))"

text \<open>The field \<open>URI\<close> of the credentials.\<close>

definition required_uri :: "string hmap \<Rightarrow> connector_error + string" where
  "required_uri credentials =
     ok_or (ConnectionError (quoted ''URI'' @ '' credential is required'')) (hget credentials ''URI'')"

text \<open>\<open>base_url.trim_end_matches('/')\<close> followed by a path.\<close>

definition trim_end_matches :: "char \<Rightarrow> string \<Rightarrow> string" where
  "trim_end_matches c s = rev (dropWhile (\<lambda>x. x = c) (rev s))"

definition join_url :: "string \<Rightarrow> string \<Rightarrow> string" where
  "join_url base_url path = trim_end_matches (CHR ''/'') base_url @ path"

text \<open>The number of a JSON value made of an \<open>i64\<close>.\<close>

definition json_of_i64 :: "int \<Rightarrow> json" where
  "json_of_i64 n = JNumber (if 0 \<le> n then PosInt (word_of_int n) else NegInt (word_of_int n))"

lemma as_i64_json_of_i64: "- (2 ^ 63) \<le> n \<Longrightarrow> n < 2 ^ 63 \<Longrightarrow> as_i64 (json_of_i64 n) = Some n"
proof -
  assume n: "- (2 ^ 63) \<le> n" "n < 2 ^ 63"
  have "uint (word_of_int n :: 64 word) = n" if "0 \<le> n"
    using that n by (simp add: unsigned_of_int take_bit_int_eq_self)
  moreover have "sint (word_of_int n :: 64 word) = n"
    using n by (simp add: signed_of_int signed_take_bit_int_eq_self)
  ultimately show ?thesis
    using n by (auto simp: json_of_i64_def unat_eq_nat_uint nat_less_iff)
qed

end
