(* ===== verification/Uri_Connector.thy ===== *)
theory Uri_Connector
  imports Http_Client Format_Readers
begin

text \<open>
  The URI connector, \<open>connectors/uri/src\<close>.  URLs are the record \<open>url_ops\<close>; an HTTP answer is read
  through the in-memory storage \<open>mem_ops\<close>.  The \<open>cached_response\<close> of a reader is passed explicitly.
\<close>

section \<open>Queries\<close>

record uri_request =
  ur_path :: string
  ur_data_path :: "string option"
  ur_format :: "string option"

definition str_field :: "json \<Rightarrow> string \<Rightarrow> string option" where
  "str_field v k = Option.bind (json_get v k) as_str"

definition uri_parse :: "('s, 'b, 'c, 'j, 'p) format_ops \<Rightarrow> string \<Rightarrow> connector_error + uri_request" where
  "uri_parse fo q =
     rbind (map_err (\<lambda>e. InvalidRequest (''Invalid JSON: '' @ e)) (fo_json_from_slice fo q)) (\<lambda>v.
     rbind (ok_or (InvalidRequest ''Query must be a JSON object'') (as_object v)) (\<lambda>_.
     rbind (ok_or (InvalidRequest (quoted ''path'' @ '' is required'')) (str_field v ''path'')) (\<lambda>raw_path.
     let request = \<lparr>ur_path = dropWhile (\<lambda>c. c = CHR ''/'') raw_path,
                    ur_data_path = str_field v ''data_path'', ur_format = str_field v ''format''\<rparr> in
     case str_field v ''method'' of
       Some meth \<Rightarrow>
         if eq_ignore_ascii_case meth ''GET'' then Inr request
         else Inl (InvalidRequest (''Only GET is supported, got '' @ quoted meth))
     | None \<Rightarrow> Inr request)))"

section \<open>The client\<close>

text \<open>\<open>uo_same_origin\<close> compares \<open>Url::origin()\<close>; an opaque origin equals no other one.\<close>

record 'u url_ops =
  uo_parse :: "string \<Rightarrow> string + 'u"
  uo_without_query :: "'u \<Rightarrow> 'u"
  uo_without_fragment :: "'u \<Rightarrow> 'u"
  uo_path :: "'u \<Rightarrow> string"
  uo_set_path :: "'u \<Rightarrow> string \<Rightarrow> 'u"
  uo_join :: "'u \<Rightarrow> string \<Rightarrow> string + 'u"
  uo_same_origin :: "'u \<Rightarrow> 'u \<Rightarrow> bool"

record ('u, 'h) uri_client =
  uc_http :: 'h
  uc_base_url :: 'u
  uc_auth :: http_auth

definition client_request ::
    "'u url_ops \<Rightarrow> ('u, 'h) uri_client \<Rightarrow> http_method \<Rightarrow> string \<Rightarrow> connector_error + 'u http_request" where
  "client_request uo self meth path =
     rbind (map_err (\<lambda>e. InvalidRequest (''Invalid path '' @ quoted path @ '': '' @ e))
              (uo_join uo (uc_base_url self) path)) (\<lambda>url.
     if \<not> uo_same_origin uo url (uc_base_url self)
        \<or> \<not> prefix (uo_path uo (uc_base_url self)) (uo_path uo url)
     then Inl (InvalidRequest (''Path '' @ quoted path @ '' must not escape the base URI''))
     else Inr \<lparr>rq_method = meth, rq_url = url, rq_auth = uc_auth self, rq_json = None, rq_timeout = None\<rparr>)"

definition uri_auth :: "string hmap \<Rightarrow> http_auth" where
  "uri_auth credentials =
     (case hget credentials ''TOKEN'' of
        Some token \<Rightarrow> BearerAuth token
      | None \<Rightarrow>
          (case (hget credentials ''USERNAME'', hget credentials ''PASSWORD'') of
             (Some username, Some password) \<Rightarrow> BasicAuth username password
           | _ \<Rightarrow> NoAuth))"

definition normalize_base :: "'u url_ops \<Rightarrow> 'u \<Rightarrow> 'u" where
  "normalize_base uo url =
     (let base = uo_without_fragment uo (uo_without_query uo url) in
      if ends_with (uo_path uo base) ''/'' then base
      else uo_set_path uo base (uo_path uo base @ ''/''))"

definition uri_build_client ::
    "'u url_ops \<Rightarrow> ('h, 'cert) http_api \<Rightarrow> connector_config \<Rightarrow> string hmap \<Rightarrow>
     connector_error + ('u, 'h) uri_client" where
  "uri_build_client uo api config credentials =
     rbind (required_uri credentials) (\<lambda>raw_url.
     rbind (map_err (\<lambda>e. ConnectionError (''Invalid URI: '' @ e)) (uo_parse uo raw_url)) (\<lambda>url.
     rbind (build_http api config credentials) (\<lambda>http.
     Inr \<lparr>uc_http = http, uc_base_url = normalize_base uo url, uc_auth = uri_auth credentials\<rparr>)))"

section \<open>Fetching a response\<close>

record cached_response =
  cr_format :: file_format
  cr_bytes :: string

definition MAX_RESPONSE_BYTES :: nat where
  "MAX_RESPONSE_BYTES = 128 * 1024 * 1024"

definition uri_detect_format ::
    "('s, 'b, 'c, 'j, 'p) format_ops \<Rightarrow> string option \<Rightarrow> uri_request \<Rightarrow> connector_error + file_format" where
  "uri_detect_format fo content_type request =
     (let by_path =
        (case detect fo (ur_path request) None of
           Inr f \<Rightarrow> Inr f
         | Inl _ \<Rightarrow> Inl (ConnectionError (''Cannot determine response format. Set '' @ quoted ''format'' @
             '' in query or ensure the server returns a recognized Content-Type header.''))) in
      case ur_format request of
        Some fmt \<Rightarrow> from_format_str fo fmt
      | None \<Rightarrow>
          (case content_type of
             None \<Rightarrow> by_path
           | Some ct \<Rightarrow>
               rbind (ok_or (ConnectionError
                   ''Invalid HTTP Content-Type header: failed to convert header to a str'') (header_to_str ct)) (\<lambda>ct_str.
               case from_content_type fo ct_str of Inr f \<Rightarrow> Inr f | Inl _ \<Rightarrow> by_path)))"

definition too_large :: "nat \<Rightarrow> connector_error" where
  "too_large len = ConnectionError (''Response too large ('' @ show_nat len @ '' bytes, limit ''
     @ show_nat MAX_RESPONSE_BYTES @ '')'')"

definition failed_status :: "http_response \<Rightarrow> connector_error" where
  "failed_status rs =
     ConnectionError (''HTTP request failed (status '' @ rs_status_text rs @ ''): '' @ text_or_default rs)"

definition response_body ::
    "('s, 'b, 'c, 'j, 'p) format_ops \<Rightarrow> uri_request \<Rightarrow> http_response \<Rightarrow> connector_error + cached_response" where
  "response_body fo request rs =
     (if \<not> is_success rs then Inl (failed_status rs)
      else
        rbind (uri_detect_format fo (rs_content_type rs) request) (\<lambda>format.
        rbind (case rs_content_length rs of
            Some len \<Rightarrow> if MAX_RESPONSE_BYTES < len then Inl (too_large len) else Inr ()
          | None \<Rightarrow> Inr ()) (\<lambda>_.
        rbind (map_err (\<lambda>e. ConnectionError (''Failed to read response: '' @ e)) (rs_bytes rs)) (\<lambda>bytes.
        if MAX_RESPONSE_BYTES < length bytes then Inl (too_large (length bytes))
        else Inr \<lparr>cr_format = format, cr_bytes = bytes\<rparr>))))"

text \<open>A request that is sent if its path is allowed; \<open>f\<close> reads the answer.\<close>

definition uri_call ::
    "'u url_ops \<Rightarrow> 'u server \<Rightarrow> ('u, 'h) uri_client \<Rightarrow> http_method \<Rightarrow> string \<Rightarrow> nat option \<Rightarrow> string \<Rightarrow>
     (http_response \<Rightarrow> connector_error + 'a) \<Rightarrow> 'u http_request list \<Rightarrow>
     (connector_error + 'a) \<times> 'u http_request list" where
  "uri_call uo srv client meth path timeout msg f sent =
     (case client_request uo client meth path of
        Inl e \<Rightarrow> (Inl e, sent)
      | Inr rq \<Rightarrow>
          (let (r, sent') = send srv (rq\<lparr>rq_timeout := timeout\<rparr>) sent in
           (rbind (map_err (\<lambda>e. ConnectionError (msg @ e)) r) f, sent')))"

definition fetch_response ::
    "('s, 'b, 'c, 'j, 'p) format_ops \<Rightarrow> 'u url_ops \<Rightarrow> 'u server \<Rightarrow> ('u, 'h) uri_client \<Rightarrow> uri_request \<Rightarrow>
     'u http_request list \<Rightarrow> (connector_error + cached_response) \<times> 'u http_request list" where
  "fetch_response fo uo srv client request =
     uri_call uo srv client GET (ur_path request) None ''HTTP request failed: '' (response_body fo request)"

record mem_ops =
  mo_new :: "string + unit"
  mo_write :: "string \<Rightarrow> string + unit"
  mo_reader :: "string \<Rightarrow> string + reader"

definition bytes_to_opendal_reader :: "mem_ops \<Rightarrow> string \<Rightarrow> connector_error + reader" where
  "bytes_to_opendal_reader mo data =
     rbind (map_err (\<lambda>e. IOError (''Failed to create memory operator: '' @ e)) (mo_new mo)) (\<lambda>_.
     rbind (map_err (\<lambda>e. IOError (''Failed to buffer response: '' @ e)) (mo_write mo data)) (\<lambda>_.
     map_err (\<lambda>e. IOError (''Failed to create reader: '' @ e)) (mo_reader mo data)))"

section \<open>The reader\<close>

definition response_schema ::
    "('s, 'b, 'c, 'j, 'p) format_ops \<Rightarrow> mem_ops \<Rightarrow> uri_request \<Rightarrow> cached_response \<Rightarrow> connector_error + 's" where
  "response_schema fo mo request cached =
     (let rdr = bytes_to_opendal_reader mo (cr_bytes cached) in
      case cr_format cached of
        JsonFile \<Rightarrow> read_json_schema fo (cr_bytes cached) (ur_data_path request)
      | Csv \<Rightarrow> rbind rdr (read_csv_schema fo)
      | JsonLines \<Rightarrow> rbind rdr (read_jsonl_schema fo)
      | Parquet \<Rightarrow> rbind rdr (read_parquet_schema fo))"

text \<open>The state of a reader and its calls: the cached response and the requests sent.\<close>

type_synonym 'u uri_state = "cached_response option \<times> 'u http_request list"

definition uri_schema ::
    "('s, 'b, 'c, 'j, 'p) format_ops \<Rightarrow> 'u url_ops \<Rightarrow> mem_ops \<Rightarrow> 'u server \<Rightarrow> ('u, 'h) uri_client \<Rightarrow> string \<Rightarrow>
     'u uri_state \<Rightarrow> (connector_error + 's query) \<times> 'u uri_state" where
  "uri_schema fo uo mo srv client q = (\<lambda>(cache, sent).
     case uri_parse fo q of
       Inl e \<Rightarrow> (Inl e, cache, sent)
     | Inr request \<Rightarrow>
         (case fetch_response fo uo srv client request sent of
            (Inl e, sent') \<Rightarrow> (Inl e, cache, sent')
          | (Inr cached, sent') \<Rightarrow>
              (case response_schema fo mo request cached of
                 Inl e \<Rightarrow> (Inl e, cache, sent')
               | Inr schema \<Rightarrow> (Inr \<lparr>q_query = q, q_schema = schema\<rparr>, Some cached, sent'))))"

definition response_batches ::
    "('s, 'b, 'c, 'j, 'p) format_ops \<Rightarrow> mem_ops \<Rightarrow> uri_request \<Rightarrow> 's \<Rightarrow> nat \<Rightarrow> cached_response \<Rightarrow>
     (connector_error + 'b batch_stream) option" where
  "response_batches fo mo request schema batch_size resp =
     (let rdr = bytes_to_opendal_reader mo (cr_bytes resp) in
      case cr_format resp of
        JsonFile \<Rightarrow> map_option Inr (read_json_batches fo (cr_bytes resp) schema batch_size (ur_data_path request))
      | Csv \<Rightarrow> (case rdr of Inl e \<Rightarrow> Some (Inl e) | Inr r \<Rightarrow> read_csv_batches fo r schema batch_size)
      | JsonLines \<Rightarrow> (case rdr of Inl e \<Rightarrow> Some (Inl e) | Inr r \<Rightarrow> read_jsonl_batches fo r schema batch_size)
      | Parquet \<Rightarrow> Some (rbind rdr (\<lambda>r. read_parquet_batches fo r batch_size)))"

definition uri_read_tabular ::
    "('s, 'b, 'c, 'j, 'p) format_ops \<Rightarrow> 'u url_ops \<Rightarrow> mem_ops \<Rightarrow> 'u server \<Rightarrow> ('u, 'h) uri_client \<Rightarrow> 's query \<Rightarrow>
     nat \<Rightarrow> 'u uri_state \<Rightarrow> (connector_error + 'b batch_stream) option \<times> 'u uri_state" where
  "uri_read_tabular fo uo mo srv client view batch_size = (\<lambda>(cache, sent).
     case uri_parse fo (q_query view) of
       Inl e \<Rightarrow> (Some (Inl e), cache, sent)
     | Inr request \<Rightarrow>
         (case (case cache of Some c \<Rightarrow> (Inr c, sent) | None \<Rightarrow> fetch_response fo uo srv client request sent) of
            (Inl e, sent') \<Rightarrow> (Some (Inl e), None, sent')
          | (Inr resp, sent') \<Rightarrow>
              (response_batches fo mo request (q_schema view) batch_size resp, None, sent')))"

definition uri_can_read_binary ::
    "'u url_ops \<Rightarrow> 'u server \<Rightarrow> ('u, 'h) uri_client \<Rightarrow> string \<Rightarrow> 'u http_request list \<Rightarrow>
     (connector_error + unit) \<times> 'u http_request list" where
  "uri_can_read_binary uo srv client path =
     uri_call uo srv client HEAD path None ''HTTP HEAD failed: '' (\<lambda>rs.
       if rs_status rs = 404 then Inl (NotFound (quoted path @ '' not found''))
       else if \<not> is_success rs then
         Inl (IOError (''Cannot read '' @ quoted path @ '': HTTP '' @ rs_status_text rs))
       else Inr ())"

fun uri_binary_stream :: "(string \<Rightarrow> string + 'b) \<Rightarrow> (string + string) list \<Rightarrow> 'b batch_stream" where
  "uri_binary_stream mk [] = []"
| "uri_binary_stream mk (Inl e # polls) = [Inl (IOError (''Stream read error: '' @ e))]"
| "uri_binary_stream mk (Inr chunk # polls) =
     (case mk chunk of
        Inl e \<Rightarrow> [Inl (IOError (''Failed to create batch: '' @ e))]
      | Inr b \<Rightarrow> Inr b # uri_binary_stream mk polls)"

definition uri_read_binary ::
    "(string \<Rightarrow> string + 'b) \<Rightarrow> 'u url_ops \<Rightarrow> 'u server \<Rightarrow> ('u, 'h) uri_client \<Rightarrow> string \<Rightarrow> 'u http_request list \<Rightarrow>
     (connector_error + 'b batch_stream) \<times> 'u http_request list" where
  "uri_read_binary mk uo srv client path =
     uri_call uo srv client GET path (Some (24 * 60 * 60)) ''HTTP request failed: '' (\<lambda>rs.
       if rs_status rs = 404 then Inl (NotFound (quoted path @ '' not found''))
       else if \<not> is_success rs then Inl (failed_status rs)
       else Inr (uri_binary_stream mk (rs_bytes_stream rs)))"

definition uri_check_connection ::
    "'u url_ops \<Rightarrow> 'u server \<Rightarrow> ('u, 'h) uri_client \<Rightarrow> 'u http_request list \<Rightarrow>
     (connector_error + unit) \<times> 'u http_request list" where
  "uri_check_connection uo srv client =
     uri_call uo srv client HEAD [] None ''Connection test failed: '' (\<lambda>rs.
       if rs_status rs = 401 \<or> rs_status rs = 403 then
         Inl (ConnectionError (''Authentication failed (HTTP '' @ rs_status_text rs @ '')''))
       else Inr ())"

definition uri_connector ::
    "'u url_ops \<Rightarrow> ('h, 'cert) http_api \<Rightarrow> connector_config \<Rightarrow> (string \<Rightarrow> ('u, 'h) uri_client option) \<Rightarrow>
     (('u, 'h) uri_client \<Rightarrow> ('s, 'b) data_reader) \<Rightarrow> ('s, 'b) flight_connector" where
  "uri_connector uo api config held wrap =
     \<lparr>fc_provider = ''uri'', fc_description = ''URI connector'', fc_supported_formats = [Tabular, Binary],
      fc_get_reader = (\<lambda>connection resolver.
        rbind (client_for held (uri_build_client uo api config) connection resolver) (\<lambda>client.
        Inr (wrap client)))\<rparr>"

interpretation uri: client_connector "uri_connector uo api config held wrap" held
  "\<lambda>_. uri_build_client uo api config" "\<lambda>_. wrap" for uo api config held wrap
  by unfold_locales (simp add: uri_connector_def)

section \<open>Requests stay below the base URI\<close>

text \<open>A sequence of calls on a reader.\<close>

datatype 's uri_op =
    UriSchema string
  | UriReadTabular "'s query" nat
  | UriCanReadBinary string
  | UriReadBinary string
  | UriCheckConnection

fun run_uri_op ::
    "('s, 'b, 'c, 'j, 'p) format_ops \<Rightarrow> (string \<Rightarrow> string + 'b) \<Rightarrow> 'u url_ops \<Rightarrow> mem_ops \<Rightarrow> 'u server \<Rightarrow>
     ('u, 'h) uri_client \<Rightarrow> 's uri_op \<Rightarrow> 'u uri_state \<Rightarrow> 'u uri_state" where
  "run_uri_op fo mk uo mo srv client (UriSchema q) st = snd (uri_schema fo uo mo srv client q st)"
| "run_uri_op fo mk uo mo srv client (UriReadTabular view n) st = snd (uri_read_tabular fo uo mo srv client view n st)"
| "run_uri_op fo mk uo mo srv client (UriCanReadBinary path) st =
     (fst st, snd (uri_can_read_binary uo srv client path (snd st)))"
| "run_uri_op fo mk uo mo srv client (UriReadBinary path) st =
     (fst st, snd (uri_read_binary mk uo srv client path (snd st)))"
| "run_uri_op fo mk uo mo srv client UriCheckConnection st =
     (fst st, snd (uri_check_connection uo srv client (snd st)))"

definition confined :: "'u url_ops \<Rightarrow> ('u, 'h) uri_client \<Rightarrow> 'u http_request \<Rightarrow> bool" where
  "confined uo client rq \<longleftrightarrow>
     uo_same_origin uo (rq_url rq) (uc_base_url client)
     \<and> prefix (uo_path uo (uc_base_url client)) (uo_path uo (rq_url rq))
     \<and> rq_auth rq = uc_auth client \<and> rq_method rq \<in> {GET, HEAD}"

lemma uri_call_confined:
  assumes "list_all (confined uo client) sent" "meth \<in> {GET, HEAD}"
  shows "list_all (confined uo client) (snd (uri_call uo srv client meth path t msg f sent))"
  using assms
  by (auto simp: uri_call_def send_def confined_def client_request_def result_simps
      split: sum.splits if_splits)

lemma fetch_response_confined:
  "list_all (confined uo client) sent \<Longrightarrow>
     list_all (confined uo client) (snd (fetch_response fo uo srv client request sent))"
  unfolding fetch_response_def by (rule uri_call_confined) simp_all

lemma run_uri_op_confined:
  assumes "list_all (confined uo client) (snd st)"
  shows "list_all (confined uo client) (snd (run_uri_op fo mk uo mo srv client oper st))"
proof (cases oper)
  case (UriSchema q)
  then show ?thesis
    using assms fetch_response_confined [of uo client "snd st" fo srv]
    by (auto simp: uri_schema_def split_def split: sum.splits)
next
  case (UriReadTabular view n)
  then show ?thesis
    using assms fetch_response_confined [of uo client "snd st" fo srv]
    by (auto simp: uri_read_tabular_def split_def split: sum.splits option.splits)
next
  case (UriCanReadBinary path)
  then show ?thesis
    using uri_call_confined [OF assms, of HEAD] by (simp add: uri_can_read_binary_def)
next
  case (UriReadBinary path)
  then show ?thesis
    using uri_call_confined [OF assms, of GET] by (simp add: uri_read_binary_def)
next
  case UriCheckConnection
  then show ?thesis
    using uri_call_confined [OF assms, of HEAD] by (simp add: uri_check_connection_def)
qed

text \<open>
  What the library documents of \<open>set_path\<close>: it sets the path; a URL that has none to set cannot be
  joined with anything.
\<close>

definition set_path_law :: "'u url_ops \<Rightarrow> bool" where
  "set_path_law uo \<longleftrightarrow>
     (\<forall>u p. uo_path uo (uo_set_path uo u p) = p \<or> (\<forall>q. \<exists>e. uo_join uo (uo_set_path uo u p) q = Inl e))"

lemma normalize_base_path:
  assumes "set_path_law uo" "uo_join uo (normalize_base uo url) path = Inr u"
  shows "ends_with (uo_path uo (normalize_base uo url)) ''/''"
proof (cases "ends_with (uo_path uo (uo_without_fragment uo (uo_without_query uo url))) ''/''")
  case True
  then show ?thesis by (simp add: normalize_base_def Let_def)
next
  case False
  let ?base = "uo_without_fragment uo (uo_without_query uo url)"
  have e: "normalize_base uo url = uo_set_path uo ?base (uo_path uo ?base @ ''/'')"
    using False by (simp add: normalize_base_def Let_def)
  then have "\<not> (\<exists>e. uo_join uo (uo_set_path uo ?base (uo_path uo ?base @ ''/'')) path = Inl e)"
    using assms(2) by simp
  then have "uo_path uo (normalize_base uo url) = uo_path uo ?base @ ''/''"
    using assms(1) unfolding set_path_law_def e by blast
  then show ?thesis
    by (simp add: ends_with_def)
qed

lemma uri_call_sent:
  assumes "set_path_law uo" "uc_base_url client = normalize_base uo url"
    "rq \<in> set (snd (uri_call uo srv client meth path t msg f sent))"
  shows "rq \<in> set sent \<or> ends_with (uo_path uo (uc_base_url client)) ''/''"
proof (cases "client_request uo client meth path")
  case (Inr r)
  then have "ends_with (uo_path uo (normalize_base uo url)) ''/''"
    using normalize_base_path [OF assms(1)] assms(2) by (auto simp: client_request_def result_simps)
  then show ?thesis
    using assms(2) by simp
qed (use assms(3) in \<open>simp add: uri_call_def\<close>)

lemma run_uri_op_sent:
  assumes law: "set_path_law uo" and base: "uc_base_url client = normalize_base uo url"
    and rq: "rq \<in> set (snd (run_uri_op fo mk uo mo srv client oper st))"
  shows "rq \<in> set (snd st) \<or> ends_with (uo_path uo (uc_base_url client)) ''/''"
proof -
  note sent = uri_call_sent [OF law base]
  have fetch: "rq \<in> set (snd st) \<or> ends_with (uo_path uo (uc_base_url client)) ''/''"
    if "rq \<in> set (snd (fetch_response fo uo srv client request (snd st)))" for request
    using that unfolding fetch_response_def by (rule sent)
  show ?thesis
  proof (cases oper)
    case (UriSchema q)
    then show ?thesis
      using rq fetch by (auto simp: uri_schema_def split_def split: sum.splits)
  next
    case (UriReadTabular view n)
    then show ?thesis
      using rq fetch by (auto simp: uri_read_tabular_def split_def split: sum.splits option.splits)
  qed (use rq sent in \<open>auto simp: uri_can_read_binary_def uri_read_binary_def uri_check_connection_def\<close>)
qed


text \<open>URLs as an origin with a path.\<close>

definition sample_urls :: "(string \<times> string) url_ops" where
  "sample_urls =
     \<lparr>uo_parse = (\<lambda>s. Inr (s, ''/api'')), uo_without_query = id, uo_without_fragment = id, uo_path = snd,
      uo_set_path = (\<lambda>u p. (fst u, p)), uo_join = (\<lambda>u q. Inr (fst u, snd u @ q)),
      uo_same_origin = (\<lambda>u v. fst u = fst v)\<rparr>"

definition sample_http :: "(unit, unit) http_api" where
  "sample_http = \<lparr>ha_from_pem = (\<lambda>_. Inr ()), ha_build = (\<lambda>_ _ _ _. Inr ())\<rparr>"

definition sample_mem :: mem_ops where
  "sample_mem = \<lparr>mo_new = Inr (), mo_write = (\<lambda>_. Inr ()), mo_reader = (\<lambda>_. Inr abc_reader)\<rparr>"


text \<open>
  The cached response is not tied to its query: a read for another query than the one whose
  schema was asked for gets the response of the earlier one and sends no request.
\<close>

lemma uri_cache_ignores_query:
  assumes "uri_parse fo (q_query view) = Inr request"
  shows "uri_read_tabular fo uo mo srv client view n (Some resp, sent) =
    (response_batches fo mo request (q_schema view) n resp, None, sent)"
  using assms by (simp add: uri_read_tabular_def)

text \<open>Read with the query of its schema, it is the response the schema was inferred from.\<close>

lemma uri_snapshot:
  assumes "uri_schema fo uo mo srv client q (cache, sent) = (Inr view, st)"
  shows "\<exists>request resp. uri_parse fo q = Inr request \<and> response_schema fo mo request resp = Inr (q_schema view)
    \<and> fst (uri_read_tabular fo uo mo srv' client view n st)
        = response_batches fo mo request (q_schema view) n resp"
  using assms by (auto simp: uri_schema_def uri_read_tabular_def split: sum.splits prod.splits)

lemma response_body_bound: "response_body fo request rs = Inr c \<Longrightarrow> length (cr_bytes c) \<le> MAX_RESPONSE_BYTES"
  by (auto simp: response_body_def result_simps split: if_splits)

end
