(* ===== verification/Arrow_Convert.thy ===== *)
theory Arrow_Convert
  imports Api_Types
begin

text \<open>
  Arrow arrays built from JSON values: \<open>libs/commons/src/api/arrow_convert.rs\<close>, which the
  Elasticsearch and Milvus connectors share.  An array is the list of its entries with its
  element type; the floating point conversions of the processor, the date parser of arrow, the
  text of a JSON value and the checks of \<open>RecordBatch::try_new\<close> are the record \<open>arrow_ops\<close>.
\<close>

section \<open>Types and arrays\<close>

datatype time_unit = Second | Millisecond | Microsecond | Nanosecond

datatype arrow_type =
    ABoolean | AInt8 | AInt16 | AInt32 | AInt64 | AFloat32 | AFloat64
  | ATimestamp time_unit "string option"
  | ADate32
  | ATime64 time_unit
  | AUtf8
  | ABinary
  | AFloat32List

datatype arrow_array =
    BooleanArray "bool option list"
  | Int8Array "8 word option list"
  | Int16Array "16 word option list"
  | Int32Array "32 word option list"
  | Int64Array "64 word option list"
  | Float32Array "32 word option list"
  | Float64Array "64 word option list"
  | TimestampArray time_unit "string option" "64 word option list"
  | Date32Array "32 word option list"
  | Time64Array time_unit "64 word option list"
  | StringArray "string option list"
  | BinaryArray "string option list"
  | Float32ListArray "32 word list option list"

fun array_type :: "arrow_array \<Rightarrow> arrow_type" where
  "array_type (BooleanArray xs) = ABoolean"
| "array_type (Int8Array xs) = AInt8"
| "array_type (Int16Array xs) = AInt16"
| "array_type (Int32Array xs) = AInt32"
| "array_type (Int64Array xs) = AInt64"
| "array_type (Float32Array xs) = AFloat32"
| "array_type (Float64Array xs) = AFloat64"
| "array_type (TimestampArray u tz xs) = ATimestamp u tz"
| "array_type (Date32Array xs) = ADate32"
| "array_type (Time64Array u xs) = ATime64 u"
| "array_type (StringArray xs) = AUtf8"
| "array_type (BinaryArray xs) = ABinary"
| "array_type (Float32ListArray xs) = AFloat32List"

fun array_len :: "arrow_array \<Rightarrow> nat" where
  "array_len (BooleanArray xs) = length xs"
| "array_len (Int8Array xs) = length xs"
| "array_len (Int16Array xs) = length xs"
| "array_len (Int32Array xs) = length xs"
| "array_len (Int64Array xs) = length xs"
| "array_len (Float32Array xs) = length xs"
| "array_len (Float64Array xs) = length xs"
| "array_len (TimestampArray u tz xs) = length xs"
| "array_len (Date32Array xs) = length xs"
| "array_len (Time64Array u xs) = length xs"
| "array_len (StringArray xs) = length xs"
| "array_len (BinaryArray xs) = length xs"
| "array_len (Float32ListArray xs) = length xs"

text \<open>\<open>Field::new(name, data_type, true)\<close>: every field the connectors declare is nullable.\<close>

record arrow_field =
  af_name :: string
  af_type :: arrow_type

type_synonym arrow_schema = "arrow_field list"

record record_batch =
  rb_schema :: arrow_schema
  rb_columns :: "arrow_array list"

text \<open>
  A parsed instant gives its epoch values; the one in nanoseconds may not fit.  \<open>ao_try_new\<close> is
  the message with which \<open>RecordBatch::try_new\<close> refuses the columns, if it does.
\<close>

record 'dt arrow_ops =
  ao_as_f64 :: "json_number \<Rightarrow> 64 word option"
  ao_f32_of_f64 :: "64 word \<Rightarrow> 32 word"
  ao_i64_of_f64 :: "64 word \<Rightarrow> 64 word"
  ao_json_text :: "json \<Rightarrow> string"
  ao_parse_datetime :: "string \<Rightarrow> string + 'dt"
  ao_timestamp :: "'dt \<Rightarrow> 64 word"
  ao_timestamp_millis :: "'dt \<Rightarrow> 64 word"
  ao_timestamp_micros :: "'dt \<Rightarrow> 64 word"
  ao_timestamp_nanos :: "'dt \<Rightarrow> 64 word option"
  ao_datetime_text :: "'dt \<Rightarrow> string"
  ao_try_new :: "arrow_schema \<Rightarrow> arrow_array list \<Rightarrow> string option"

fun as_f64 :: "'dt arrow_ops \<Rightarrow> json \<Rightarrow> 64 word option" where
  "as_f64 ops (JNumber n) = ao_as_f64 ops n"
| "as_f64 ops _ = None"

section \<open>Conversions\<close>

text \<open>\<open>T::try_from(n)\<close> for a signed integer type of \<open>w\<close> bits.\<close>

definition fits_signed :: "nat \<Rightarrow> int \<Rightarrow> bool" where
  "fits_signed w n \<longleftrightarrow> - (2 ^ (w - 1)) \<le> n \<and> n < 2 ^ (w - 1)"

definition checked_int_array ::
    "nat \<Rightarrow> string \<Rightarrow> string \<Rightarrow> json option list \<Rightarrow> connector_error + 'w::len word option list" where
  "checked_int_array w field_name type_name values =
     rmapM (\<lambda>v. case Option.bind v as_i64 of
         Some n \<Rightarrow>
           if fits_signed w n then Inr (Some (word_of_int n))
           else Inl (SQLError (''field '' @ quoted field_name @ '': value '' @ show_int n
                      @ '' overflows '' @ type_name))
       | None \<Rightarrow> Inr None) values"

definition datetime_value ::
    "'dt arrow_ops \<Rightarrow> string \<Rightarrow> time_unit \<Rightarrow> 'dt \<Rightarrow> connector_error + 64 word" where
  "datetime_value ops field_name u dt =
     (case u of
        Second \<Rightarrow> Inr (ao_timestamp ops dt)
      | Millisecond \<Rightarrow> Inr (ao_timestamp_millis ops dt)
      | Microsecond \<Rightarrow> Inr (ao_timestamp_micros ops dt)
      | Nanosecond \<Rightarrow>
          ok_or (SQLError (''field '' @ quoted field_name @ '': '' @ ao_datetime_text ops dt
                   @ '' overflows nanosecond timestamps''))
            (ao_timestamp_nanos ops dt))"

definition checked_timestamp_values ::
    "'dt arrow_ops \<Rightarrow> string \<Rightarrow> time_unit \<Rightarrow> json option list \<Rightarrow> connector_error + 64 word option list" where
  "checked_timestamp_values ops field_name u values =
     rmapM (\<lambda>v. case v of
         None \<Rightarrow> Inr None
       | Some JNull \<Rightarrow> Inr None
       | Some (JNumber n) \<Rightarrow>
           ok_or (SQLError (''field '' @ quoted field_name @ '': cannot parse ''
                    @ ao_json_text ops (JNumber n) @ '' as epoch timestamp''))
             (map_option Some
                (case as_i64 (JNumber n) of
                   Some i \<Rightarrow> Some (word_of_int i)
                 | None \<Rightarrow> map_option (ao_i64_of_f64 ops) (ao_as_f64 ops n)))
       | Some (JString s) \<Rightarrow>
           rbind (map_err (\<lambda>e. SQLError (''field '' @ quoted field_name @ '': '' @ e))
                    (ao_parse_datetime ops s)) (\<lambda>dt.
           rbind (datetime_value ops field_name u dt) (\<lambda>x. Inr (Some x)))
       | Some other \<Rightarrow>
           Inl (SQLError (''field '' @ quoted field_name @ '': cannot parse ''
                  @ ao_json_text ops other @ '' as Timestamp''))) values"

text \<open>The entry of a column for which there is no better type than text.\<close>

fun text_entry :: "'dt arrow_ops \<Rightarrow> json \<Rightarrow> string option" where
  "text_entry ops JNull = None"
| "text_entry ops (JString s) = Some s"
| "text_entry ops other = Some (ao_json_text ops other)"

fun json_values_to_array ::
    "'dt arrow_ops \<Rightarrow> string \<Rightarrow> arrow_type \<Rightarrow> json option list \<Rightarrow> connector_error + arrow_array" where
  "json_values_to_array ops field_name ABoolean values =
     Inr (BooleanArray (map (\<lambda>v. Option.bind v as_bool) values))"
| "json_values_to_array ops field_name AInt8 values =
     rbind (checked_int_array 8 field_name ''Int8'' values) (\<lambda>xs. Inr (Int8Array xs))"
| "json_values_to_array ops field_name AInt16 values =
     rbind (checked_int_array 16 field_name ''Int16'' values) (\<lambda>xs. Inr (Int16Array xs))"
| "json_values_to_array ops field_name AInt32 values =
     rbind (checked_int_array 32 field_name ''Int32'' values) (\<lambda>xs. Inr (Int32Array xs))"
| "json_values_to_array ops field_name AInt64 values =
     Inr (Int64Array (map (\<lambda>v. map_option word_of_int (Option.bind v as_i64)) values))"
| "json_values_to_array ops field_name AFloat32 values =
     Inr (Float32Array (map (\<lambda>v. map_option (ao_f32_of_f64 ops) (Option.bind v (as_f64 ops))) values))"
| "json_values_to_array ops field_name AFloat64 values =
     Inr (Float64Array (map (\<lambda>v. Option.bind v (as_f64 ops)) values))"
| "json_values_to_array ops field_name (ATimestamp u tz) values =
     rbind (checked_timestamp_values ops field_name u values) (\<lambda>xs. Inr (TimestampArray u tz xs))"
| "json_values_to_array ops field_name _ values =
     Inr (StringArray (map (\<lambda>v. Option.bind v (text_entry ops)) values))"

text \<open>\<open>RecordBatch::try_new(schema, arrays).map_err(|e| SQLError(e.to_string()))\<close>.\<close>

definition try_new :: "'dt arrow_ops \<Rightarrow> arrow_schema \<Rightarrow> arrow_array list \<Rightarrow> connector_error + record_batch" where
  "try_new ops schema arrays =
     (case ao_try_new ops schema arrays of
        Some e \<Rightarrow> Inl (SQLError e)
      | None \<Rightarrow> Inr \<lparr>rb_schema = schema, rb_columns = arrays\<rparr>)"

section \<open>Columns have the type they are declared with\<close>

text \<open>The types for which the conversion has a case of its own.\<close>

fun json_type :: "arrow_type \<Rightarrow> bool" where
  "json_type ADate32 = False"
| "json_type (ATime64 u) = False"
| "json_type ABinary = False"
| "json_type AFloat32List = False"
| "json_type _ = True"

lemma rmapM_length: "rmapM f xs = Inr ys \<Longrightarrow> length ys = length xs"
  by (metis length_map rmapM_eq_Inr)

lemma checked_int_array_length:
  "checked_int_array w name tname values = Inr xs \<Longrightarrow> length xs = length values"
  unfolding checked_int_array_def by (rule rmapM_length)

lemma checked_timestamp_values_length:
  "checked_timestamp_values ops name u values = Inr xs \<Longrightarrow> length xs = length values"
  unfolding checked_timestamp_values_def by (rule rmapM_length)

lemma json_values_to_array_type:
  assumes "json_values_to_array ops name ty values = Inr a"
  shows "array_type a = (if json_type ty then ty else AUtf8) \<and> array_len a = length values"
  using assms
  by (cases ty)
    (auto simp: rbind_eq_Inr dest: checked_int_array_length checked_timestamp_values_length)

lemma checked_int_array_entries:
  assumes "checked_int_array w name tname values = Inr xs" "i < length values"
  shows "xs ! i = map_option word_of_int (Option.bind (values ! i) as_i64)
    \<and> (\<forall>n. Option.bind (values ! i) as_i64 = Some n \<longrightarrow> fits_signed w n)"
proof -
  let ?f = "\<lambda>v. case Option.bind v as_i64 of
         Some n \<Rightarrow>
           if fits_signed w n then Inr (Some (word_of_int n))
           else Inl (SQLError (''field '' @ quoted name @ '': value '' @ show_int n
                      @ '' overflows '' @ tname))
       | None \<Rightarrow> Inr None"
  have m: "map ?f values = map Inr xs"
    using assms(1) unfolding checked_int_array_def rmapM_eq_Inr .
  have "map ?f values ! i = map Inr xs ! i"
    by (simp only: m)
  moreover have "length xs = length values"
    using assms(1) by (rule checked_int_array_length)
  ultimately have "?f (values ! i) = Inr (xs ! i)"
    using assms(2) by (simp only: nth_map)
  then show ?thesis
    by (auto split: option.splits if_splits)
qed

text \<open>
  What \<open>RecordBatch::try_new\<close> documents: columns that agree with a schema of nullable fields in
  number and type, that are of the same length, and of which there is at least one, make a batch.
\<close>

definition columns_fit :: "arrow_schema \<Rightarrow> arrow_array list \<Rightarrow> nat \<Rightarrow> bool" where
  "columns_fit schema arrays n \<longleftrightarrow>
     map array_type arrays = map af_type schema \<and> list_all (\<lambda>a. array_len a = n) arrays"

definition batch_law :: "'dt arrow_ops \<Rightarrow> bool" where
  "batch_law ops \<longleftrightarrow>
     (\<forall>schema arrays n. schema \<noteq> [] \<longrightarrow> columns_fit schema arrays n \<longrightarrow> ao_try_new ops schema arrays = None)"

lemma columns_of_fields:
  assumes "rmapM (\<lambda>f. json_values_to_array ops (af_name f) (af_type f) (vals f)) schema = Inr arrays"
    and "list_all (\<lambda>f. json_type (af_type f)) schema" "\<And>f. length (vals f) = n"
  shows "columns_fit schema arrays n"
  using assms(1,2)
proof (induction schema arbitrary: arrays)
  case (Cons f fs)
  from Cons.prems(1) obtain a as where
      a: "json_values_to_array ops (af_name f) (af_type f) (vals f) = Inr a"
    and as: "rmapM (\<lambda>f. json_values_to_array ops (af_name f) (af_type f) (vals f)) fs = Inr as"
    and arrays: "arrays = a # as"
    by (auto simp: rbind_eq_Inr)
  have "columns_fit fs as n"
    by (rule Cons.IH [OF as]) (use Cons.prems(2) in simp)
  moreover have "array_type a = af_type f \<and> array_len a = n"
    using json_values_to_array_type [OF a] Cons.prems(2) assms(3) [of f] by simp
  ultimately show ?case
    by (simp add: columns_fit_def arrays)
qed (simp add: columns_fit_def)

text \<open>A library in which numbers are their own bits and no text is a date.\<close>

definition plain_arrow_ops :: "unit arrow_ops" where
  "plain_arrow_ops =
     \<lparr>ao_as_f64 = (\<lambda>n. case n of PosInt w \<Rightarrow> Some w | NegInt w \<Rightarrow> Some w | Float w \<Rightarrow> Some w),
      ao_f32_of_f64 = ucast, ao_i64_of_f64 = id, ao_json_text = (\<lambda>_. ''{}''),
      ao_parse_datetime = (\<lambda>_. Inl ''not a date''), ao_timestamp = (\<lambda>_. 0), ao_timestamp_millis = (\<lambda>_. 0),
      ao_timestamp_micros = (\<lambda>_. 0), ao_timestamp_nanos = (\<lambda>_. None), ao_datetime_text = (\<lambda>_. []),
      ao_try_new = (\<lambda>schema arrays.
        if map array_type arrays = map af_type schema then None else Some ''column types must match schema types'')\<rparr>"

lemma plain_batch_law: "batch_law plain_arrow_ops"
  by (simp add: batch_law_def plain_arrow_ops_def columns_fit_def)

end
