(* ===== verification/Milvus_Connector.thy ===== *)
theory Milvus_Connector
  imports Http_Client Paging Arrow_Convert
begin

text \<open>
  The Milvus connector, \<open>connectors/milvus/src\<close>: the REST calls, the schema of a collection, and the
  pages of a query.  \<open>jp\<close> is the JSON parser.  The counters of the pages are \<open>i64\<close> values that wrap
  around.
\<close>

section \<open>Queries\<close>

datatype milvus_operation = MilvusQuery | MilvusSearch | MilvusGet

record milvus_request =
  mr_collection_name :: string
  mr_operation :: milvus_operation
  mr_limit :: "int option"
  mr_offset :: "int option"
  mr_body :: json

definition milvus_parse :: "(string \<Rightarrow> string + json) \<Rightarrow> string \<Rightarrow> connector_error + milvus_request" where
  "milvus_parse jp q =
     rbind (map_err (\<lambda>e. InvalidRequest (''Invalid Milvus JSON query: '' @ e)) (jp q)) (\<lambda>v.
     rbind (ok_or (InvalidRequest ''Query must be a JSON object'') (as_object v)) (\<lambda>obj.
     rbind (ok_or (InvalidRequest (quoted ''collectionName'' @ '' is required''))
              (Option.bind (hget obj ''collectionName'') as_str)) (\<lambda>collection_name.
     Inr \<lparr>mr_collection_name = collection_name,
          mr_operation =
            (if hget obj ''data'' \<noteq> None then MilvusSearch
             else if hget obj ''id'' \<noteq> None then MilvusGet else MilvusQuery),
          mr_limit = Option.bind (hget obj ''limit'') as_i64,
          mr_offset = Option.bind (hget obj ''offset'') as_i64,
          mr_body = v\<rparr>)))"

definition output_fields :: "milvus_request \<Rightarrow> string list option" where
  "output_fields request =
     map_option (\<lambda>arr. map the (filter (\<lambda>s. s \<noteq> None) (map as_str arr)))
       (Option.bind (json_get (mr_body request) ''outputFields'') as_array)"

section \<open>The client\<close>

record 'h milvus_client =
  mc_http :: 'h
  mc_base_url :: string
  mc_token :: "string option"
  mc_database :: "string option"

definition milvus_build_client ::
    "('h, 'cert) http_api \<Rightarrow> connector_config \<Rightarrow> string hmap \<Rightarrow> connector_error + 'h milvus_client" where
  "milvus_build_client api config credentials =
     rbind (required_uri credentials) (\<lambda>base_url.
     rbind (build_http api config credentials) (\<lambda>http.
     Inr \<lparr>mc_http = http, mc_base_url = base_url, mc_token = hget credentials ''TOKEN'',
          mc_database = hget credentials ''DATABASE''\<rparr>))"

text \<open>\<open>obj.entry("dbName").or_insert(db)\<close>.\<close>

definition with_database :: "string option \<Rightarrow> json \<Rightarrow> json" where
  "with_database database body =
     (case (database, body) of
        (Some db, JObject obj) \<Rightarrow>
          (if hget obj ''dbName'' = None then JObject (hinsert ''dbName'' (JString db) obj) else body)
      | _ \<Rightarrow> body)"

definition milvus_code :: "json \<Rightarrow> int" where
  "milvus_code v = with_default (Option.bind (json_get v ''code'') as_i64) 0"

definition milvus_answer :: "(string \<Rightarrow> string + json) \<Rightarrow> http_response \<Rightarrow> connector_error + json" where
  "milvus_answer jp rs =
     rbind (map_err (\<lambda>e. ConnectionError (''Failed to read Milvus response body: '' @ e)) (rs_text rs)) (\<lambda>body.
     if \<not> is_success rs then
       Inl (ConnectionError (''Milvus error (HTTP '' @ rs_status_text rs @ ''): '' @ body))
     else
       rbind (map_err (\<lambda>e. ConnectionError (''Failed to parse Milvus response: '' @ e)) (jp body)) (\<lambda>v.
       if milvus_code v \<noteq> 0 then
         Inl (ConnectionError (''Milvus error (code '' @ show_int (milvus_code v) @ ''): ''
           @ with_default (Option.bind (json_get v ''message'') as_str) ''unknown error''))
       else Inr v))"

definition milvus_execute ::
    "(string \<Rightarrow> string + json) \<Rightarrow> string server \<Rightarrow> 'h milvus_client \<Rightarrow> string \<Rightarrow> json \<Rightarrow> string http_request list \<Rightarrow>
     (connector_error + json) \<times> string http_request list" where
  "milvus_execute jp srv self path body sent =
     (let rq = \<lparr>rq_method = POST, rq_url = join_url (mc_base_url self) path,
                rq_auth = (case mc_token self of Some token \<Rightarrow> BearerAuth token | None \<Rightarrow> NoAuth),
                rq_json = Some (with_database (mc_database self) body), rq_timeout = None\<rparr>;
          (r, sent') = send srv rq sent in
      (rbind (map_err (\<lambda>e. ConnectionError (''Milvus request failed: '' @ e)) r) (milvus_answer jp), sent'))"

section \<open>The schema of a collection\<close>

record milvus_field_desc =
  mf_name :: string
  mf_type :: string

definition field_desc :: "json \<Rightarrow> milvus_field_desc option" where
  "field_desc f =
     (case (Option.bind (json_get f ''name'') as_str, Option.bind (json_get f ''type'') as_str) of
        (Some name, Some t) \<Rightarrow> Some \<lparr>mf_name = name, mf_type = t\<rparr>
      | _ \<Rightarrow> None)"

definition describe_collection ::
    "(string \<Rightarrow> string + json) \<Rightarrow> string server \<Rightarrow> 'h milvus_client \<Rightarrow> string \<Rightarrow> string http_request list \<Rightarrow>
     (connector_error + milvus_field_desc list) \<times> string http_request list" where
  "describe_collection jp srv client collection_name sent =
     (let (r, sent') = milvus_execute jp srv client ''/v2/vectordb/collections/describe''
            (JObject [(''collectionName'', JString collection_name)]) sent in
      (rbind r (\<lambda>response.
       rbind (ok_or (ConnectionError ''Invalid describe response: missing fields'')
                (Option.bind (Option.bind (json_get response ''data'') (\<lambda>d. json_get d ''fields'')) as_array)) (\<lambda>fields.
       Inr (map the (filter (\<lambda>d. d \<noteq> None) (map field_desc fields))))), sent'))"

definition milvus_type_to_arrow :: "string \<Rightarrow> arrow_type" where
  "milvus_type_to_arrow t =
     (if t = ''Bool'' then ABoolean
      else if t = ''Int8'' then AInt8
      else if t = ''Int16'' then AInt16
      else if t = ''Int32'' then AInt32
      else if t = ''Int64'' then AInt64
      else if t = ''Float'' then AFloat32
      else if t = ''Double'' then AFloat64
      else AUtf8)"

definition is_vector_type :: "string \<Rightarrow> bool" where
  "is_vector_type t \<longleftrightarrow>
     t \<in> {''FloatVector'', ''Float16Vector'', ''BFloat16Vector'', ''BinaryVector'', ''SparseFloatVector''}"

definition build_schema ::
    "milvus_field_desc list \<Rightarrow> string list option \<Rightarrow> milvus_operation \<Rightarrow> arrow_schema" where
  "build_schema field_descs output operation =
     (let type_of = map_of (rev (map (\<lambda>f. (mf_name f, mf_type f)) field_descs));
          arrow_fields =
            (case output of
               Some names \<Rightarrow>
                 map (\<lambda>name. \<lparr>af_name = name,
                               af_type = with_default (map_option milvus_type_to_arrow (type_of name)) AUtf8\<rparr>)
                   (concat (map (\<lambda>name. if name = ''*'' then map mf_name field_descs else [name]) names))
             | None \<Rightarrow>
                 map (\<lambda>f. \<lparr>af_name = mf_name f, af_type = milvus_type_to_arrow (mf_type f)\<rparr>)
                   (filter (\<lambda>f. \<not> is_vector_type (mf_type f)) field_descs)) in
      if operation = MilvusSearch \<and> ''distance'' \<notin> set (map af_name arrow_fields)
      then arrow_fields @ [\<lparr>af_name = ''distance'', af_type = AFloat64\<rparr>] else arrow_fields)"

definition milvus_schema ::
    "(string \<Rightarrow> string + json) \<Rightarrow> string server \<Rightarrow> 'h milvus_client \<Rightarrow> string \<Rightarrow> string http_request list \<Rightarrow>
     (connector_error + arrow_schema query) \<times> string http_request list" where
  "milvus_schema jp srv client q sent =
     (case milvus_parse jp q of
        Inl e \<Rightarrow> (Inl e, sent)
      | Inr request \<Rightarrow>
          (let (r, sent') = describe_collection jp srv client (mr_collection_name request) sent in
           (rbind r (\<lambda>field_descs.
            Inr \<lparr>q_query = q,
                 q_schema = build_schema field_descs (output_fields request) (mr_operation request)\<rparr>), sent')))"

section \<open>Reading rows\<close>

fun operation_endpoint :: "milvus_operation \<Rightarrow> string" where
  "operation_endpoint MilvusQuery = ''/v2/vectordb/entities/query''"
| "operation_endpoint MilvusSearch = ''/v2/vectordb/entities/search''"
| "operation_endpoint MilvusGet = ''/v2/vectordb/entities/get''"

definition extract_data_rows :: "json \<Rightarrow> json list" where
  "extract_data_rows response =
     (case json_get response ''data'' of Some (JArray arr) \<Rightarrow> arr | _ \<Rightarrow> [])"

definition rows_to_record_batch ::
    "'dt arrow_ops \<Rightarrow> arrow_schema \<Rightarrow> json list \<Rightarrow> connector_error + record_batch" where
  "rows_to_record_batch ops schema docs =
     rbind (rmapM (\<lambda>f. json_values_to_array ops (af_name f) (af_type f)
              (map (\<lambda>row. json_get row (af_name f)) docs)) schema) (\<lambda>arrays.
     try_new ops schema arrays)"

text \<open>The loop over the rows of a search; \<open>None\<close> is a loop that does not end.\<close>

partial_function (option) row_slices ::
    "'dt arrow_ops \<Rightarrow> arrow_schema \<Rightarrow> nat \<Rightarrow> json list \<Rightarrow> nat \<Rightarrow> record_batch batch_stream option" where
  "row_slices ops schema batch_size docs offset =
     (if offset < length docs then
        let upto = min (offset + batch_size) (length docs) in
        case rows_to_record_batch ops schema (take (upto - offset) (drop offset docs)) of
          Inl e \<Rightarrow> Some [Inl e]
        | Inr batch \<Rightarrow>
            Option.bind (row_slices ops schema batch_size docs upto) (\<lambda>bs. Some (Inr batch # bs))
      else Some [])"

definition wrap_i64 :: "int \<Rightarrow> int" where
  "wrap_i64 n = sint (word_of_int n :: 64 word)"

definition page_body :: "json \<Rightarrow> int \<Rightarrow> int \<Rightarrow> json" where
  "page_body body limit offset =
     (case body of
        JObject obj \<Rightarrow> JObject (hinsert ''offset'' (json_of_i64 offset) (hinsert ''limit'' (json_of_i64 limit) obj))
      | _ \<Rightarrow> body)"

partial_function (option) query_pages ::
    "(string \<Rightarrow> string + json) \<Rightarrow> 'dt arrow_ops \<Rightarrow> string server \<Rightarrow> 'h milvus_client \<Rightarrow> milvus_request \<Rightarrow>
     arrow_schema \<Rightarrow> int \<Rightarrow> int \<Rightarrow> string http_request list \<Rightarrow>
     (record_batch batch_stream \<times> string http_request list) option" where
  "query_pages jp ops srv client request schema page_size fetched sent =
     (let remaining = map_option (\<lambda>l. wrap_i64 (l - fetched)) (mr_limit request) in
      if (case remaining of Some r \<Rightarrow> r \<le> 0 | None \<Rightarrow> False) then Some ([], sent)
      else
        let this_page = (case remaining of Some r \<Rightarrow> min r page_size | None \<Rightarrow> page_size);
            body = page_body (mr_body request) this_page (wrap_i64 (with_default (mr_offset request) 0 + fetched)) in
        case milvus_execute jp srv client ''/v2/vectordb/entities/query'' body sent of
          (Inl e, sent') \<Rightarrow> Some ([Inl e], sent')
        | (Inr response, sent') \<Rightarrow>
            (let docs = extract_data_rows response in
             if docs = [] then Some ([], sent')
             else
               case rows_to_record_batch ops schema docs of
                 Inl e \<Rightarrow> Some ([Inl e], sent')
               | Inr batch \<Rightarrow>
                   if int (length docs) < this_page then Some ([Inr batch], sent')
                   else Option.bind
                     (query_pages jp ops srv client request schema page_size
                        (wrap_i64 (fetched + int (length docs))) sent')
                     (\<lambda>(bs, sent''). Some (Inr batch # bs, sent''))))"

definition milvus_read_tabular ::
    "(string \<Rightarrow> string + json) \<Rightarrow> 'dt arrow_ops \<Rightarrow> string server \<Rightarrow> 'h milvus_client \<Rightarrow> arrow_schema query \<Rightarrow>
     nat \<Rightarrow> string http_request list \<Rightarrow>
     ((connector_error + record_batch batch_stream) \<times> string http_request list) option" where
  "milvus_read_tabular jp ops srv client view batch_size sent =
     (case milvus_parse jp (q_query view) of
        Inl e \<Rightarrow> Some (Inl e, sent)
      | Inr request \<Rightarrow>
          if mr_operation request = MilvusQuery then
            map_option (\<lambda>(bs, sent'). (Inr bs, sent'))
              (query_pages jp ops srv client request (q_schema view) (wrap_i64 (int batch_size)) 0 sent)
          else
            (case milvus_execute jp srv client (operation_endpoint (mr_operation request)) (mr_body request) sent of
               (Inl e, sent') \<Rightarrow> Some (Inl e, sent')
             | (Inr response, sent') \<Rightarrow>
                 map_option (\<lambda>bs. (Inr bs, sent'))
                   (row_slices ops (q_schema view) batch_size (extract_data_rows response) 0)))"

definition milvus_check_connection ::
    "(string \<Rightarrow> string + json) \<Rightarrow> string server \<Rightarrow> 'h milvus_client \<Rightarrow> string http_request list \<Rightarrow>
     (connector_error + unit) \<times> string http_request list" where
  "milvus_check_connection jp srv client sent =
     (let (r, sent') = milvus_execute jp srv client ''/v2/vectordb/collections/list'' (JObject []) sent in
      (rbind r (\<lambda>_. Inr ()), sent'))"

definition milvus_connector ::
    "('h, 'cert) http_api \<Rightarrow> connector_config \<Rightarrow> (string \<Rightarrow> 'h milvus_client option) \<Rightarrow>
     ('h milvus_client \<Rightarrow> ('s, 'b) data_reader) \<Rightarrow> ('s, 'b) flight_connector" where
  "milvus_connector api config held wrap =
     \<lparr>fc_provider = ''milvus'', fc_description = ''Milvus vector database connector'',
      fc_supported_formats = [Tabular],
      fc_get_reader = (\<lambda>connection resolver.
        rbind (client_for held (milvus_build_client api config) connection resolver) (\<lambda>client.
        Inr (wrap client)))\<rparr>"

interpretation milvus: client_connector "milvus_connector api config held wrap" held
  "\<lambda>_. milvus_build_client api config" "\<lambda>_. wrap" for api config held wrap
  by unfold_locales (simp add: milvus_connector_def)


section \<open>Columns\<close>

lemma milvus_json_type: "json_type (milvus_type_to_arrow t)"
  by (simp add: milvus_type_to_arrow_def)

lemma build_schema_json_types: "list_all (\<lambda>f. json_type (af_type f)) (build_schema descs output operation)"
  by (auto simp: build_schema_def Let_def list_all_iff milvus_json_type with_default_def split: option.split)

lemma milvus_schema_json_types:
  "milvus_schema jp srv client q sent = (Inr view, sent') \<Longrightarrow> list_all (\<lambda>f. json_type (af_type f)) (q_schema view)"
  by (auto simp: milvus_schema_def split_def Let_def result_simps build_schema_json_types split: sum.splits)

lemma rows_to_record_batch_columns:
  assumes "list_all (\<lambda>f. json_type (af_type f)) schema" "rows_to_record_batch ops schema docs = Inr batch"
  shows "rb_schema batch = schema \<and> columns_fit schema (rb_columns batch) (length docs)"
  using assms columns_of_fields [of ops "\<lambda>f. map (\<lambda>row. json_get row (af_name f)) docs" schema _ "length docs"]
  by (auto simp: rows_to_record_batch_def try_new_def rbind_eq_Inr split: option.splits)

section \<open>The pages of a query make up the slice that was asked for\<close>

text \<open>
  What Milvus documents of a query with a limit and an offset: the rows from the offset on, at
  most as many as the limit says.  \<open>all\<close> are the entities that match, in the order of the server.
\<close>

definition query_law :: "(string \<Rightarrow> string + json) \<Rightarrow> string server \<Rightarrow> string \<Rightarrow> json list \<Rightarrow> bool" where
  "query_law jp srv url all \<longleftrightarrow>
     (\<forall>sent rq obj l k. rq_url rq = url \<longrightarrow> rq_json rq = Some (JObject obj) \<longrightarrow>
        hget obj ''limit'' = Some (json_of_i64 l) \<longrightarrow> 0 < l \<longrightarrow> l < 2 ^ 63 \<longrightarrow>
        hget obj ''offset'' = Some (json_of_i64 k) \<longrightarrow> 0 \<le> k \<longrightarrow> k < 2 ^ 63 \<longrightarrow>
        (\<exists>rs t v. srv sent rq = Inr rs \<and> is_success rs \<and> rs_text rs = Inr t \<and> jp t = Inr v
          \<and> milvus_code v = 0 \<and> json_get v ''data'' = Some (JArray (take (nat l) (drop (nat k) all)))))"

lemma wrap_i64_id: "- (2 ^ 63) \<le> n \<Longrightarrow> n < 2 ^ 63 \<Longrightarrow> wrap_i64 n = n"
  by (simp add: wrap_i64_def signed_of_int signed_take_bit_int_eq_self)

lemma query_page:
  assumes law: "query_law jp srv (join_url (mc_base_url client) ''/v2/vectordb/entities/query'') all"
    and l: "0 < l" "l < 2 ^ 63" and k: "0 \<le> k" "k < 2 ^ 63"
  shows "\<exists>v sent'. milvus_execute jp srv client ''/v2/vectordb/entities/query'' (page_body (JObject obj) l k) sent
      = (Inr v, sent') \<and> extract_data_rows v = take (nat l) (drop (nat k) all)"
proof -
  let ?url = "join_url (mc_base_url client) ''/v2/vectordb/entities/query''"
  let ?obj = "hinsert ''offset'' (json_of_i64 k) (hinsert ''limit'' (json_of_i64 l) obj)"
  obtain obj' where obj': "with_database (mc_database client) (JObject ?obj) = JObject obj'"
      "hget obj' ''limit'' = Some (json_of_i64 l)" "hget obj' ''offset'' = Some (json_of_i64 k)"
    by (cases "mc_database client"; cases "hget obj ''dbName'' = None") (auto simp: with_database_def)
  let ?rq = "\<lparr>rq_method = POST, rq_url = ?url,
    rq_auth = (case mc_token client of Some token \<Rightarrow> BearerAuth token | None \<Rightarrow> NoAuth),
    rq_json = Some (JObject obj'), rq_timeout = None\<rparr>"
  obtain rs t v where "srv sent ?rq = Inr rs" "is_success rs" "rs_text rs = Inr t" "jp t = Inr v"
      "milvus_code v = 0" "json_get v ''data'' = Some (JArray (take (nat l) (drop (nat k) all)))"
    using law [unfolded query_law_def, rule_format, of ?rq obj' l k sent] obj' l k by auto
  then show ?thesis
    using obj' by (auto simp: milvus_execute_def page_body_def send_def milvus_answer_def extract_data_rows_def)
qed

text \<open>The rows a query asks for, and the place of a page in them after \<open>f\<close> rows.\<close>

definition query_offset :: "milvus_request \<Rightarrow> int" where
  "query_offset request = with_default (mr_offset request) 0"

definition query_limit :: "milvus_request \<Rightarrow> nat option" where
  "query_limit request = map_option nat (mr_limit request)"

definition query_slice :: "milvus_request \<Rightarrow> json list \<Rightarrow> json list" where
  "query_slice request all = slice_of (query_limit request) (drop (nat (query_offset request)) all)"

text \<open>The counters stay in range, so a page asks for what its place in the slice says.\<close>

definition in_range :: "milvus_request \<Rightarrow> json list \<Rightarrow> nat \<Rightarrow> bool" where
  "in_range request all f \<longleftrightarrow>
     (\<forall>l. mr_limit request = Some l \<longrightarrow> - (2 ^ 63) \<le> l \<and> l < 2 ^ 63 \<and> (f = 0 \<or> int f \<le> l))
     \<and> 0 \<le> query_offset request \<and> query_offset request + int (length all) < 2 ^ 63 \<and> f \<le> length all"

lemma in_range_wrap:
  assumes "in_range request all f"
  shows "mr_limit request = Some l \<Longrightarrow> wrap_i64 (l - int f) = l - int f"
    and "wrap_i64 (query_offset request + int f) = query_offset request + int f"
    and "f + m \<le> length all \<Longrightarrow> wrap_i64 (int f + int m) = int (f + m)"
proof -
  have off: "0 \<le> query_offset request" "query_offset request + int (length all) < 2 ^ 63" "f \<le> length all"
    using assms by (simp_all add: in_range_def)
  show "mr_limit request = Some l \<Longrightarrow> wrap_i64 (l - int f) = l - int f"
    using assms by (intro wrap_i64_id) (auto simp: in_range_def)
  show "wrap_i64 (query_offset request + int f) = query_offset request + int f"
    using off by (intro wrap_i64_id) auto
  show "f + m \<le> length all \<Longrightarrow> wrap_i64 (int f + int m) = int (f + m)"
    using off by (subst wrap_i64_id) auto
qed

lemma query_pages_end:
  assumes r: "in_range request all f" and "page_len (query_limit request) n f = 0" "0 < n"
  shows "query_pages jp ops srv client request schema (int n) (int f) sent = Some ([], sent)"
proof -
  obtain l where "mr_limit request = Some l" "l - int f \<le> 0"
    using assms(2,3) by (auto simp: page_len_def query_limit_def min_def split: option.splits if_splits)
  then show ?thesis
    using in_range_wrap(1) [OF r] by (subst query_pages.simps) simp
qed

lemma query_pages_step:
  assumes r: "in_range request all f" and len: "len = page_len (query_limit request) n f" "0 < len"
    and n: "int n < 2 ^ 63"
    and law: "query_law jp srv (join_url (mc_base_url client) ''/v2/vectordb/entities/query'') all"
    and body: "mr_body request = JObject obj"
    and page: "page = take len (drop f (drop (nat (query_offset request)) all))"
  shows "\<exists>sent'. query_pages jp ops srv client request schema (int n) (int f) sent =
    page_step (rows_to_record_batch ops schema) len page sent'
      (query_pages jp ops srv client request schema (int n) (int (f + length page)) sent')"
proof -
  let ?off = "query_offset request"
  have lims: "(case map_option (\<lambda>l. wrap_i64 (l - int f)) (mr_limit request) of
        Some r \<Rightarrow> min r (int n) | None \<Rightarrow> int n) = int len"
      "\<not> (case map_option (\<lambda>l. wrap_i64 (l - int f)) (mr_limit request) of Some r \<Rightarrow> r \<le> 0 | None \<Rightarrow> False)"
    using in_range_wrap(1) [OF r] len
    by (auto simp: page_len_def query_limit_def min_def split: option.splits if_splits)
  have bound: "0 < int len" "int len < 2 ^ 63"
    using n len by (auto simp: page_len_def split: option.splits)
  have k: "0 \<le> ?off + int f" "?off + int f < 2 ^ 63" "nat (?off + int f) = nat ?off + f"
    using r by (auto simp: in_range_def nat_add_distrib)
  obtain v sent' where ex: "milvus_execute jp srv client ''/v2/vectordb/entities/query''
        (page_body (mr_body request) (int len) (?off + int f)) sent = (Inr v, sent')"
      and v: "extract_data_rows v = page"
    using query_page [OF law bound, of "?off + int f" obj sent] k body page by (auto simp: add.commute)
  have "length page \<le> length all - f"
    by (simp add: page)
  then have "wrap_i64 (int f + int (length page)) = int (f + length page)"
    using r by (intro in_range_wrap(3) [OF r]) (auto simp: in_range_def)
  then show ?thesis
    using lims ex v in_range_wrap(2) [OF r]
    by (intro exI [of _ sent'], subst query_pages.simps)
      (simp add: Let_def query_offset_def page_step_def del: of_nat_add split: sum.split)
qed

lemma query_pages_slice:
  assumes law: "query_law jp srv (join_url (mc_base_url client) ''/v2/vectordb/entities/query'') all"
    and body: "mr_body request = JObject obj" and n: "0 < n" "int n < 2 ^ 63" and r: "in_range request all f"
  shows "\<exists>sent'. query_pages jp ops srv client request schema (int n) (int f) sent =
      Some (until_error (map (rows_to_record_batch ops schema) (chunks_of n (drop f (query_slice request all)))), sent')"
  unfolding query_slice_def
proof (rule paged_slice [where ok = "\<lambda>f _. in_range request all f"
      and loop = "\<lambda>f sent. query_pages jp ops srv client request schema (int n) (int f) sent", OF n(1) r])
  fix f and sent :: "string http_request list"
  assume r: "in_range request all f"
  show "\<exists>sent'. query_pages jp ops srv client request schema (int n) (int f) sent = Some ([], sent')"
    if "page_len (query_limit request) n f = 0"
    using query_pages_end [OF r that n(1)] by blast
  fix page
  assume len: "0 < page_len (query_limit request) n f"
    and page: "page = take (page_len (query_limit request) n f) (drop f (drop (nat (query_offset request)) all))"
  then have "length page \<le> length all - f" "length page \<le> page_len (query_limit request) n f"
    by simp_all
  then have "in_range request all (f + length page)"
    using r len by (auto simp: in_range_def page_len_def query_limit_def)
  then show "\<exists>t s'. (page \<noteq> [] \<longrightarrow> in_range request all (f + length page))
      \<and> query_pages jp ops srv client request schema (int n) (int f) sent =
        page_step (rows_to_record_batch ops schema) (page_len (query_limit request) n f) page t
          (query_pages jp ops srv client request schema (int n) (int (f + length page)) s')"
    using query_pages_step [OF r refl len n(2) law body page] by blast
qed

lemma as_i64_range:
  assumes "as_i64 v = Some n"
  shows "- (2 ^ 63) \<le> n \<and> n < 2 ^ 63"
  using assms
proof (cases v rule: as_i64.cases)
  case (1 w)
  then have n: "unat w < 2 ^ 63" "n = int (unat w)"
    using assms by (auto split: if_splits)
  then have "n < int (2 ^ 63)"
    by (simp only: of_nat_less_iff)
  moreover have "0 \<le> n"
    by (simp add: n(2))
  ultimately show ?thesis
    by simp
next
  case (2 w)
  then have "n = sint w"
    using assms by simp
  moreover have "- (2 ^ 63) \<le> sint w" "sint w < 2 ^ 63"
    using sint_ge [of w] sint_lt [of w] by simp_all
  ultimately show ?thesis
    by blast
qed auto

lemma milvus_parse_range:
  assumes "milvus_parse jp q = Inr request" "0 \<le> query_offset request"
    "query_offset request + int (length all) < 2 ^ 63"
  shows "in_range request all 0 \<and> (\<exists>obj. mr_body request = JObject obj)"
proof -
  have "- (2 ^ 63) \<le> l \<and> l < 2 ^ 63" if l: "mr_limit request = Some l" for l
  proof -
    obtain v where "as_i64 v = Some l"
      using assms(1) l by (auto simp: milvus_parse_def result_simps Option.bind_eq_Some_conv)
    then show ?thesis
      by (rule as_i64_range)
  qed
  moreover have "\<exists>obj. mr_body request = JObject obj"
    using assms(1) by (auto simp: milvus_parse_def result_simps elim: as_object.elims)
  ultimately show ?thesis
    using assms(2,3) by (auto simp: in_range_def)
qed


text \<open>A server with one entity, which it gives at offset 0.\<close>

definition one_row :: json where
  "one_row = JObject [(''id'', json_of_i64 7)]"

definition one_row_parser :: "string \<Rightarrow> string + json" where
  "one_row_parser t =
     (if t = ''q'' then Inr (JObject [(''collectionName'', JString ''c'')])
      else Inr (JObject [(''data'', JArray (if t = ''first'' then [one_row] else []))]))"

definition one_row_server :: "string server" where
  "one_row_server sent rq =
     Inr \<lparr>rs_status = 200, rs_status_text = ''200 OK'', rs_content_type = None, rs_content_length = None,
          rs_text = Inr (if Option.bind (rq_json rq) (\<lambda>b. json_get b ''offset'') = Some (json_of_i64 0)
            then ''first'' else ''next''),
          rs_json = Inl [], rs_bytes = Inl [], rs_bytes_stream = []\<rparr>"

definition sample_milvus :: "unit milvus_client" where
  "sample_milvus = \<lparr>mc_http = (), mc_base_url = ''http://m/'', mc_token = None, mc_database = None\<rparr>"

lemma json_of_i64_zero: "0 \<le> k \<Longrightarrow> k < 2 ^ 63 \<Longrightarrow> json_of_i64 k = json_of_i64 0 \<longleftrightarrow> k = 0"
  using as_i64_json_of_i64 [of k] as_i64_json_of_i64 [of 0] by fastforce

lemma one_row_law: "query_law one_row_parser one_row_server url [one_row]"
  unfolding query_law_def
proof (intro allI impI)
  fix sent :: "string http_request list" and rq :: "string http_request" and obj and l k :: int
  assume "rq_json rq = Some (JObject obj)" "hget obj ''offset'' = Some (json_of_i64 k)" "0 < l" "0 \<le> k" "k < 2 ^ 63"
  moreover from this have "take (nat l) (drop (nat k) [one_row]) = (if k = 0 then [one_row] else [])"
    by (auto simp: take_Cons' drop_Cons')
  ultimately show "\<exists>rs t v. one_row_server sent rq = Inr rs \<and> is_success rs \<and> rs_text rs = Inr t
      \<and> one_row_parser t = Inr v \<and> milvus_code v = 0
      \<and> json_get v ''data'' = Some (JArray (take (nat l) (drop (nat k) [one_row])))"
    by (auto simp: one_row_server_def one_row_parser_def is_success_def milvus_code_def with_default_def json_of_i64_zero)
qed


end
