(* ===== verification/Elasticsearch_Connector.thy ===== *)
theory Elasticsearch_Connector
  imports Http_Client Paging Arrow_Convert
begin

text \<open>
  The Elasticsearch connector, \<open>connectors/elasticsearch/src\<close>: queries, the schema of an index from
  its mapping, and reading the hits of a search page by page over a point in time (PIT).  \<open>jp\<close> is the
  JSON parser.
\<close>

section \<open>Queries\<close>

record es_request =
  er_index :: "string option"
  er_body :: json
  er_size :: "nat option"
  er_has_user_sort :: bool

definition es_parse :: "(string \<Rightarrow> string + json) \<Rightarrow> string \<Rightarrow> connector_error + es_request" where
  "es_parse jp q =
     rbind (map_err (\<lambda>e. InvalidRequest (''Invalid JSON: '' @ e)) (jp q)) (\<lambda>v.
     rbind (ok_or (InvalidRequest ''Query must be a JSON object'') (as_object v)) (\<lambda>obj.
     let obj' = hremove ''index'' obj in
     if hget obj' ''_source'' = Some (JBool False) then
       Inl (InvalidRequest (''\"_source\": false is not supported; this connector reads data from _source''))
     else
       Inr \<lparr>er_index = Option.bind (hget obj ''index'') as_str, er_body = JObject obj',
            er_size = Option.bind (hget obj' ''size'') as_u64,
            er_has_user_sort = (hget obj' ''sort'' \<noteq> None)\<rparr>))"

definition resolve_index :: "es_request \<Rightarrow> string option \<Rightarrow> connector_error + string" where
  "resolve_index request default_index =
     ok_or (InvalidRequest (''No index specified: set '' @ quoted ''index''
              @ '' in the query or configure a default index in connection properties''))
       (case er_index request of Some i \<Rightarrow> Some i | None \<Rightarrow> default_index)"

definition json_of_u64 :: "nat \<Rightarrow> json" where
  "json_of_u64 n = JNumber (PosInt (of_nat n))"

definition shard_doc_asc :: json where
  "shard_doc_asc = JObject [(''_shard_doc'', JString ''asc'')]"

fun is_shard_doc :: "json \<Rightarrow> bool" where
  "is_shard_doc (JObject m) = (hget m ''_shard_doc'' \<noteq> None)"
| "is_shard_doc (JString s) = (s = ''_shard_doc'')"
| "is_shard_doc _ = False"

text \<open>The order of the hits always ends with the tie-breaker \<open>_shard_doc\<close>.\<close>

definition with_sort :: "bool \<Rightarrow> json hmap \<Rightarrow> json hmap" where
  "with_sort has_user_sort obj =
     (if \<not> has_user_sort then hinsert ''sort'' (JArray [shard_doc_asc]) obj
      else (case hget obj ''sort'' of
          Some (JArray sort_arr) \<Rightarrow>
            if list_ex is_shard_doc sort_arr then obj
            else hinsert ''sort'' (JArray (sort_arr @ [shard_doc_asc])) obj
        | _ \<Rightarrow> obj))"

text \<open>\<open>None\<close> is the panic of \<open>as_object_mut().unwrap()\<close>.\<close>

definition build_pit_search_body :: "es_request \<Rightarrow> string \<Rightarrow> nat \<Rightarrow> json option \<Rightarrow> json option" where
  "build_pit_search_body request pit_id page_size search_after =
     (case er_body request of
        JObject obj \<Rightarrow>
          (let obj1 = hinsert ''pit'' (JObject [(''id'', JString pit_id), (''keep_alive'', JString ''5m'')]) obj;
               obj2 = hinsert ''size'' (json_of_u64 page_size) obj1;
               obj3 = with_sort (er_has_user_sort request) obj2;
               obj4 = (case search_after of Some sa \<Rightarrow> hinsert ''search_after'' sa obj3 | None \<Rightarrow> obj3) in
           Some (JObject obj4))
      | _ \<Rightarrow> None)"

section \<open>Mappings\<close>

definition es_type_to_arrow :: "string \<Rightarrow> arrow_type" where
  "es_type_to_arrow t =
     (if t = ''boolean'' then ABoolean
      else if t = ''byte'' then AInt8
      else if t = ''short'' then AInt16
      else if t = ''integer'' then AInt32
      else if t = ''long'' then AInt64
      else if t = ''half_float'' \<or> t = ''float'' then AFloat32
      else if t = ''double'' \<or> t = ''scaled_float'' then AFloat64
      else if t = ''date'' \<or> t = ''date_nanos'' then ATimestamp Millisecond (Some ''UTC'')
      else AUtf8)"

record es_mapping_field =
  em_path :: string
  em_type :: string

text \<open>The fields found so far, and the position of each path among them.\<close>

type_synonym mapping_state = "es_mapping_field list \<times> nat hmap"

definition add_field :: "string \<Rightarrow> string \<Rightarrow> mapping_state \<Rightarrow> mapping_state" where
  "add_field path t = (\<lambda>(flds, seen).
     case hget seen path of
       None \<Rightarrow> (flds @ [\<lparr>em_path = path, em_type = t\<rparr>], hinsert path (length flds) seen)
     | Some pos \<Rightarrow>
         if em_type (flds ! pos) \<noteq> t then (flds[pos := (flds ! pos)\<lparr>em_type := ''text''\<rparr>], seen)
         else (flds, seen))"

lemma json_member_smaller: "map_of m k = Some v \<Longrightarrow> size v < size (JObject m)"
  by (induction m) (auto split: if_splits)

lemma json_get_smaller: "json_get v k = Some w \<Longrightarrow> size w < size v"
  by (cases v) (auto dest: json_member_smaller)

function merge_properties :: "json \<Rightarrow> string \<Rightarrow> mapping_state \<Rightarrow> mapping_state"
  and merge_entries :: "(string \<times> json) list \<Rightarrow> string \<Rightarrow> mapping_state \<Rightarrow> mapping_state" where
  "merge_properties properties pre st =
     (case as_object properties of None \<Rightarrow> st | Some obj \<Rightarrow> merge_entries obj pre st)"
| "merge_entries [] pre st = st"
| "merge_entries ((name, v) # entries) pre st =
     (let path = (if pre = [] then name else pre @ ''.'' @ name) in
      merge_entries entries pre
        (case json_get v ''properties'' of
           Some sub \<Rightarrow> merge_properties sub path st
         | None \<Rightarrow>
             (case Option.bind (json_get v ''type'') as_str of
                Some t \<Rightarrow> add_field path t st
              | None \<Rightarrow> st)))"
  by pat_completeness auto
termination
  by (relation "measure (\<lambda>x. case x of Inl (v, _) \<Rightarrow> size v | Inr (es, _) \<Rightarrow> size_list (size_prod (\<lambda>_. 0) size) es)")
    (auto dest!: json_get_smaller elim!: as_object.elims)

definition index_properties :: "json \<Rightarrow> json option" where
  "index_properties v = Option.bind (json_get v ''mappings'') (\<lambda>m. json_get m ''properties'')"

definition parse_mapping :: "json \<Rightarrow> es_mapping_field list" where
  "parse_mapping mapping_json =
     (let st1 =
        (case as_object mapping_json of
           Some obj \<Rightarrow>
             if list_ex (\<lambda>(_, v). json_get v ''mappings'' \<noteq> None) obj
             then fold (\<lambda>(_, v) st. case index_properties v of Some props \<Rightarrow> merge_properties props [] st | None \<Rightarrow> st)
                    obj ([], [])
             else ([], [])
         | None \<Rightarrow> ([], [])) in
      if fst st1 = [] then
        (case index_properties mapping_json of
           Some props \<Rightarrow> fst (merge_properties props [] st1)
         | None \<Rightarrow> fst st1)
      else fst st1)"

definition mapping_fields_to_schema :: "es_mapping_field list \<Rightarrow> arrow_schema" where
  "mapping_fields_to_schema flds =
     map (\<lambda>f. \<lparr>af_name = em_path f, af_type = es_type_to_arrow (em_type f)\<rparr>) flds"


section \<open>The client\<close>

record 'h es_client =
  ec_http :: 'h
  ec_base_url :: string
  ec_auth :: http_auth

definition es_auth :: "string hmap \<Rightarrow> http_auth" where
  "es_auth credentials =
     (case hget credentials ''API_KEY'' of
        Some encoded \<Rightarrow> ApiKeyAuth encoded
      | None \<Rightarrow>
          (case (hget credentials ''USERNAME'', hget credentials ''PASSWORD'') of
             (Some username, Some password) \<Rightarrow> BasicAuth username password
           | _ \<Rightarrow> NoAuth))"

definition es_build_client ::
    "('h, 'cert) http_api \<Rightarrow> connector_config \<Rightarrow> string hmap \<Rightarrow> connector_error + 'h es_client" where
  "es_build_client api config credentials =
     rbind (required_uri credentials) (\<lambda>base_url.
     rbind (build_http api config credentials) (\<lambda>http.
     Inr \<lparr>ec_http = http, ec_base_url = base_url, ec_auth = es_auth credentials\<rparr>))"

definition es_http_request :: "'h es_client \<Rightarrow> http_method \<Rightarrow> string \<Rightarrow> json option \<Rightarrow> string http_request" where
  "es_http_request self meth path js =
     \<lparr>rq_method = meth, rq_url = join_url (ec_base_url self) path, rq_auth = ec_auth self, rq_json = js,
      rq_timeout = None\<rparr>"

section \<open>The reader\<close>

record 'h es_reader =
  es_client :: "'h es_client"
  es_default_index :: "string option"

definition mapping_answer :: "http_response \<Rightarrow> connector_error + json" where
  "mapping_answer rs =
     (if \<not> is_success rs then
        Inl (ConnectionError (''Mapping request failed (HTTP '' @ rs_status_text rs @ ''): '' @ text_or_default rs))
      else map_err (\<lambda>e. ConnectionError (''Failed to parse mapping response: '' @ e)) (rs_json rs))"

definition es_schema ::
    "(string \<Rightarrow> string + json) \<Rightarrow> string server \<Rightarrow> 'h es_reader \<Rightarrow> string \<Rightarrow> string http_request list \<Rightarrow>
     (connector_error + arrow_schema query) \<times> string http_request list" where
  "es_schema jp srv self q sent =
     (case rbind (es_parse jp q) (\<lambda>request. resolve_index request (es_default_index self)) of
        Inl e \<Rightarrow> (Inl e, sent)
      | Inr index \<Rightarrow>
          (let (r, sent') = send srv (es_http_request (es_client self) GET (''/'' @ index @ ''/_mapping'') None) sent in
           (rbind (map_err (\<lambda>e. ConnectionError (''Failed to get mapping: '' @ e)) r) (\<lambda>rs.
            rbind (mapping_answer rs) (\<lambda>mapping_json.
            let flds = parse_mapping mapping_json in
            if flds = [] then Inl NoDataError
            else Inr \<lparr>q_query = q, q_schema = mapping_fields_to_schema flds\<rparr>)), sent')))"

fun follow_path :: "json \<Rightarrow> string list \<Rightarrow> json option" where
  "follow_path current [] = Some current"
| "follow_path current (segment # segments) =
     Option.bind (json_get current segment) (\<lambda>v. follow_path v segments)"

definition resolve_path :: "json \<Rightarrow> string \<Rightarrow> json option" where
  "resolve_path v path = follow_path v (split_at CHR ''.'' path)"

definition extract_column_from_hits ::
    "'dt arrow_ops \<Rightarrow> string \<Rightarrow> arrow_type \<Rightarrow> json list \<Rightarrow> connector_error + arrow_array" where
  "extract_column_from_hits ops field_path data_type hits =
     json_values_to_array ops field_path data_type
       (map (\<lambda>hit. Option.bind (json_get hit ''_source'') (\<lambda>source. resolve_path source field_path)) hits)"

definition hits_to_record_batch ::
    "'dt arrow_ops \<Rightarrow> arrow_schema \<Rightarrow> json list \<Rightarrow> connector_error + record_batch" where
  "hits_to_record_batch ops schema hits =
     rbind (rmapM (\<lambda>f. extract_column_from_hits ops (af_name f) (af_type f) hits) schema) (\<lambda>arrays.
     try_new ops schema arrays)"

definition search_answer :: "http_response \<Rightarrow> connector_error + json" where
  "search_answer rs =
     rbind (map_err (\<lambda>e. ConnectionError (''Failed to parse search response: '' @ e)) (rs_json rs)) (\<lambda>v.
     if \<not> is_success rs then
       Inl (SQLError (''Search failed (HTTP '' @ rs_status_text rs @ ''): ''
         @ with_default (Option.bind (Option.bind (json_get v ''error'') (\<lambda>e. json_get e ''reason'')) as_str)
             ''unknown error''))
     else Inr v)"

definition fetch_search_page ::
    "string server \<Rightarrow> 'h es_client \<Rightarrow> json \<Rightarrow> string http_request list \<Rightarrow>
     (connector_error + json) \<times> string http_request list" where
  "fetch_search_page srv client body sent =
     (let (r, sent') = send srv (es_http_request client POST ''/_search'' (Some body)) sent in
      (rbind (map_err (\<lambda>e. ConnectionError (''Search failed: '' @ e)) r) search_answer, sent'))"

definition response_hits :: "json \<Rightarrow> json list option" where
  "response_hits response =
     Option.bind (Option.bind (json_get response ''hits'') (\<lambda>h. json_get h ''hits'')) as_array"

text \<open>
  The loop of \<open>read_tabular\<close>: the batches it yields, the error it leaves with, the identifier of the
  point in time at that moment, and the requests sent.
\<close>

partial_function (option) pit_loop ::
    "'dt arrow_ops \<Rightarrow> string server \<Rightarrow> 'h es_client \<Rightarrow> es_request \<Rightarrow> arrow_schema \<Rightarrow> nat \<Rightarrow> json option \<Rightarrow>
     string \<Rightarrow> nat \<Rightarrow> string http_request list \<Rightarrow>
     (record_batch list \<times> connector_error option \<times> string \<times> string http_request list) option" where
  "pit_loop ops srv client request schema batch_size search_after pit_id total_fetched sent =
     (let remaining = map_option (\<lambda>limit. limit - total_fetched) (er_size request) in
      if remaining = Some 0 then Some ([], None, pit_id, sent)
      else
        let page_size = (case remaining of Some r \<Rightarrow> min r batch_size | None \<Rightarrow> batch_size) in
        case build_pit_search_body request pit_id page_size search_after of
          None \<Rightarrow> None
        | Some body \<Rightarrow>
            (case fetch_search_page srv client body sent of
               (Inl e, sent') \<Rightarrow> Some ([], Some e, pit_id, sent')
             | (Inr response, sent') \<Rightarrow>
                 (let pit_id' = with_default (Option.bind (json_get response ''pit_id'') as_str) pit_id in
                  case response_hits response of
                    None \<Rightarrow> Some ([], None, pit_id', sent')
                  | Some hits \<Rightarrow>
                      if hits = [] then Some ([], None, pit_id', sent')
                      else
                        (case hits_to_record_batch ops schema hits of
                           Inl e \<Rightarrow> Some ([], Some e, pit_id', sent')
                         | Inr batch \<Rightarrow>
                             (case json_get (last hits) ''sort'' of
                                None \<Rightarrow> Some ([batch], None, pit_id', sent')
                              | Some sa \<Rightarrow>
                                  if length hits < page_size then Some ([batch], None, pit_id', sent')
                                  else Option.bind
                                    (pit_loop ops srv client request schema batch_size (Some sa) pit_id'
                                       (total_fetched + length hits) sent')
                                    (\<lambda>(bs, r). Some (batch # bs, r)))))))"

definition open_pit_request :: "'h es_client \<Rightarrow> string \<Rightarrow> string http_request" where
  "open_pit_request client index = es_http_request client POST (''/'' @ index @ ''/_pit?keep_alive=5m'') None"

definition close_pit_request :: "'h es_client \<Rightarrow> string \<Rightarrow> string http_request" where
  "close_pit_request client pit_id = es_http_request client DELETE ''/_pit'' (Some (JObject [(''id'', JString pit_id)]))"

text \<open>\<open>close_pit\<close>: a failure is only logged.\<close>

definition close_pit :: "string server \<Rightarrow> 'h es_client \<Rightarrow> string \<Rightarrow> string http_request list \<Rightarrow> string http_request list" where
  "close_pit srv client pit_id sent = snd (send srv (close_pit_request client pit_id) sent)"

definition pit_answer :: "string + http_response \<Rightarrow> connector_error + string" where
  "pit_answer r =
     rbind (map_err (\<lambda>e. ConnectionError (''Failed to open PIT: '' @ e)) r) (\<lambda>rs.
     rbind (map_err (\<lambda>e. ConnectionError (''Failed to parse PIT response: '' @ e)) (rs_json rs)) (\<lambda>v.
     ok_or (ConnectionError (''PIT response missing '' @ quoted ''id'')) (Option.bind (json_get v ''id'') as_str)))"

definition es_stream ::
    "'dt arrow_ops \<Rightarrow> string server \<Rightarrow> 'h es_client \<Rightarrow> es_request \<Rightarrow> string \<Rightarrow> arrow_schema \<Rightarrow> nat \<Rightarrow>
     string http_request list \<Rightarrow> (record_batch batch_stream \<times> string http_request list) option" where
  "es_stream ops srv client request index schema batch_size sent =
     (let (r, sent1) = send srv (open_pit_request client index) sent in
      case pit_answer r of
        Inl e \<Rightarrow> Some ([Inl e], sent1)
      | Inr pit_id \<Rightarrow>
          map_option (\<lambda>(bs, loop_error, pit_id_current, sent2).
              (map Inr bs @ (case loop_error of Some e \<Rightarrow> [Inl e] | None \<Rightarrow> []),
               close_pit srv client pit_id_current sent2))
            (pit_loop ops srv client request schema batch_size None pit_id 0 sent1))"

definition es_read_tabular ::
    "(string \<Rightarrow> string + json) \<Rightarrow> 'dt arrow_ops \<Rightarrow> string server \<Rightarrow> 'h es_reader \<Rightarrow> arrow_schema query \<Rightarrow> nat \<Rightarrow>
     string http_request list \<Rightarrow>
     ((connector_error + record_batch batch_stream) \<times> string http_request list) option" where
  "es_read_tabular jp ops srv self view batch_size sent =
     (case rbind (es_parse jp (q_query view)) (\<lambda>request.
           rbind (resolve_index request (es_default_index self)) (\<lambda>index. Inr (request, index))) of
        Inl e \<Rightarrow> Some (Inl e, sent)
      | Inr (request, index) \<Rightarrow>
          map_option (\<lambda>(bs, sent'). (Inr bs, sent'))
            (es_stream ops srv (es_client self) request index (q_schema view) batch_size sent))"

definition es_check_connection ::
    "string server \<Rightarrow> 'h es_reader \<Rightarrow> string http_request list \<Rightarrow>
     (connector_error + unit) \<times> string http_request list" where
  "es_check_connection srv self sent =
     (let (r, sent') = send srv (es_http_request (es_client self) GET ''/'' None) sent in
      (rbind (map_err (\<lambda>e. ConnectionError (''Connection test failed: '' @ e)) r) (\<lambda>rs.
       if \<not> is_success rs then Inl (ConnectionError (''Elasticsearch returned HTTP '' @ rs_status_text rs))
       else Inr ()), sent'))"

definition es_connector ::
    "('h, 'cert) http_api \<Rightarrow> connector_config \<Rightarrow> (string \<Rightarrow> 'h es_client option) \<Rightarrow>
     ('h es_reader \<Rightarrow> ('s, 'b) data_reader) \<Rightarrow> ('s, 'b) flight_connector" where
  "es_connector api config held wrap =
     \<lparr>fc_provider = ''elasticsearch'', fc_description = ''Elasticsearch connector'',
      fc_supported_formats = [Tabular],
      fc_get_reader = (\<lambda>connection resolver.
        rbind (client_for held (es_build_client api config) connection resolver) (\<lambda>client.
        Inr (wrap \<lparr>es_client = client,
                   es_default_index = hget (dc_properties (dcr_resource connection)) ''index''\<rparr>)))\<rparr>"

interpretation es: client_connector "es_connector api config held wrap" held
  "\<lambda>_. es_build_client api config"
  "\<lambda>connection client. wrap \<lparr>es_client = client,
     es_default_index = hget (dc_properties (dcr_resource connection)) ''index''\<rparr>" for api config held wrap
  by unfold_locales (simp add: es_connector_def)

section \<open>Schemas\<close>

text \<open>Every path is a column once: the positions recorded are those of the fields.\<close>

definition mapping_inv :: "mapping_state \<Rightarrow> bool" where
  "mapping_inv st \<longleftrightarrow> distinct (map em_path (fst st))
     \<and> (\<forall>path pos. hget (snd st) path = Some pos \<longrightarrow> pos < length (fst st) \<and> em_path (fst st ! pos) = path)
     \<and> em_path ` set (fst st) \<subseteq> dom (hget (snd st))"

lemma add_field_inv: "mapping_inv st \<Longrightarrow> mapping_inv (add_field path t st)"
proof -
  assume inv: "mapping_inv st"
  obtain flds seen where st: "st = (flds, seen)" by (cases st)
  show ?thesis
  proof (cases "hget seen path")
    case None
    then have fresh: "path \<notin> em_path ` set flds"
      using inv by (auto simp: mapping_inv_def st)
    have old: "pos < length flds \<and> em_path (flds ! pos) = p" if "hget seen p = Some pos" for p pos
      using inv that by (simp add: mapping_inv_def st)
    show ?thesis
      using inv None fresh
      by (auto simp: mapping_inv_def st add_field_def update_conv nth_append dest: old split: if_splits)
  next
    case (Some pos)
    then have pos: "pos < length flds"
      using inv by (auto simp: mapping_inv_def st)
    have "map em_path (flds[pos := (flds ! pos)\<lparr>em_type := ''text''\<rparr>]) = map em_path flds"
      by (simp add: map_update pos list_update_same_conv)
    moreover from this have "em_path (flds[pos := (flds ! pos)\<lparr>em_type := ''text''\<rparr>] ! i) = em_path (flds ! i)"
      if "i < length flds" for i
      using that by (metis length_list_update nth_map)
    moreover have "em_path ` set (flds[pos := (flds ! pos)\<lparr>em_type := ''text''\<rparr>]) = em_path ` set flds"
      using calculation(1) by (metis list.set_map)
    ultimately show ?thesis
      using inv Some by (auto simp: mapping_inv_def st add_field_def)
  qed
qed

lemma merge_inv:
  "mapping_inv st \<Longrightarrow> mapping_inv (merge_properties v pre st)"
  "mapping_inv st \<Longrightarrow> mapping_inv (merge_entries es pre st)"
proof (induction v pre st and es pre st rule: merge_properties_merge_entries.induct)
  case (3 name v entries pre st)
  show ?case
  proof (cases "json_get v ''properties''")
    case None
    then show ?thesis
      using 3 by (simp add: Let_def add_field_inv split: option.split del: merge_properties.simps)
  next
    case (Some sub)
    then show ?thesis
      using 3 by (simp add: Let_def del: merge_properties.simps)
  qed
qed (auto split: option.splits)

lemma merge_indices_inv:
  "mapping_inv st \<Longrightarrow> mapping_inv
     (fold (\<lambda>(_, v) st. case index_properties v of Some props \<Rightarrow> merge_properties props [] st | None \<Rightarrow> st) obj st)"
proof (induction obj arbitrary: st)
  case (Cons iv obj)
  then show ?case
    by (cases iv) (simp add: merge_inv split: option.split del: merge_properties.simps)
qed simp

lemma parse_mapping_distinct: "distinct (map em_path (parse_mapping v))"
proof -
  have start: "mapping_inv ([], [])"
    by (simp add: mapping_inv_def)
  have paths: "distinct (map em_path (fst st))" if "mapping_inv st" for st
    using that by (simp add: mapping_inv_def)
  show ?thesis
    unfolding parse_mapping_def Let_def
    by (auto simp del: merge_properties.simps split: option.split
        intro!: paths merge_inv merge_indices_inv start)
qed

section \<open>Columns\<close>

lemma es_json_type: "json_type (es_type_to_arrow t)"
  by (simp add: es_type_to_arrow_def)

lemma es_schema_json_types:
  "es_schema jp srv self q sent = (Inr view, sent') \<Longrightarrow> list_all (\<lambda>f. json_type (af_type f)) (q_schema view)"
  by (auto simp: es_schema_def split_def Let_def result_simps mapping_fields_to_schema_def es_json_type list_all_iff
      split: sum.splits if_splits)

lemma hits_to_record_batch_columns:
  assumes "list_all (\<lambda>f. json_type (af_type f)) schema" "hits_to_record_batch ops schema hits = Inr batch"
  shows "rb_schema batch = schema \<and> columns_fit schema (rb_columns batch) (length hits)"
  using assms columns_of_fields [of ops
      "\<lambda>f. map (\<lambda>hit. Option.bind (json_get hit ''_source'') (\<lambda>source. resolve_path source (af_name f))) hits"
      schema _ "length hits"]
  by (auto simp: hits_to_record_batch_def extract_column_from_hits_def try_new_def rbind_eq_Inr split: option.splits)

section \<open>Points in time are closed\<close>

definition pit_ref :: "string \<Rightarrow> json" where
  "pit_ref pit_id = JObject [(''id'', JString pit_id), (''keep_alive'', JString ''5m'')]"

text \<open>A search over a point in time.\<close>

definition pit_search :: "'h es_client \<Rightarrow> string http_request \<Rightarrow> bool" where
  "pit_search client rq \<longleftrightarrow> (\<exists>obj pit_id. hget obj ''pit'' = Some (pit_ref pit_id)
     \<and> rq = es_http_request client POST ''/_search'' (Some (JObject obj)))"

lemma with_sort_other: "k \<noteq> ''sort'' \<Longrightarrow> hget (with_sort b obj) k = hget obj k"
  by (auto simp: with_sort_def update_conv split: option.splits json.splits)

lemma pit_search_body:
  assumes "build_pit_search_body request pit_id n sa = Some body"
  shows "\<exists>o1 obj. er_body request = JObject o1 \<and> body = JObject obj
    \<and> hget obj ''pit'' = Some (pit_ref pit_id) \<and> hget obj ''size'' = Some (json_of_u64 n)
    \<and> hget obj ''search_after'' = (case sa of None \<Rightarrow> hget o1 ''search_after'' | Some v \<Rightarrow> Some v)
    \<and> (\<forall>k. k \<notin> {''pit'', ''size'', ''sort'', ''search_after''} \<longrightarrow> hget obj k = hget o1 k)"
  using assms
  by (auto simp: build_pit_search_body_def Let_def update_conv with_sort_other pit_ref_def
      split: json.splits option.splits)

lemma fetch_search_page_sent:
  assumes "build_pit_search_body request pit_id n sa = Some body" "fetch_search_page srv client body sent = (r, sent')"
  shows "\<exists>rq. pit_search client rq \<and> sent' = sent @ [rq]"
  using pit_search_body [OF assms(1)] assms(2)
  by (auto simp: fetch_search_page_def send_def pit_search_def)

definition converted :: "'dt arrow_ops \<Rightarrow> arrow_schema \<Rightarrow> record_batch \<Rightarrow> bool" where
  "converted ops schema batch \<longleftrightarrow> (\<exists>hits. hits \<noteq> [] \<and> hits_to_record_batch ops schema hits = Inr batch)"

text \<open>What the loop sends and yields, whatever the server answers.\<close>

definition loop_run ::
    "'dt arrow_ops \<Rightarrow> 'h es_client \<Rightarrow> arrow_schema \<Rightarrow> string http_request list \<Rightarrow>
     record_batch list \<times> connector_error option \<times> string \<times> string http_request list \<Rightarrow> bool" where
  "loop_run ops client schema sent = (\<lambda>(bs, e, pit_id, sent').
     (\<exists>mid. sent' = sent @ mid \<and> list_all (pit_search client) mid) \<and> list_all (converted ops schema) bs)"

lemma loop_run_end:
  "pit_search client rq \<Longrightarrow> list_all (converted ops schema) bs \<Longrightarrow>
     loop_run ops client schema sent (bs, e, pit_id, sent @ [rq])"
  by (simp add: loop_run_def)

lemma loop_run_step:
  assumes "pit_search client rq" "converted ops schema batch" "loop_run ops client schema (sent @ [rq]) (bs, r)"
  shows "loop_run ops client schema sent (batch # bs, r)"
proof -
  obtain mid where "snd (snd r) = sent @ rq # mid" "list_all (pit_search client) mid" "list_all (converted ops schema) bs"
    using assms(3) by (auto simp: loop_run_def split_def)
  then have "snd (snd r) = sent @ (rq # mid) \<and> list_all (pit_search client) (rq # mid)
      \<and> list_all (converted ops schema) (batch # bs)"
    using assms(1,2) by simp
  then show ?thesis
    by (auto simp: loop_run_def split_def)
qed

lemma pit_loop_run:
  assumes "pit_loop ops srv client request schema n sa pit_id f sent = Some y"
  shows "loop_run ops client schema sent y"
proof (rule pit_loop.raw_induct [OF _ assms], goal_cases)
  case (1 loop ops srv client request schema n sa pit_id f sent y)
  let ?len = "case map_option (\<lambda>limit. limit - f) (er_size request) of Some r \<Rightarrow> min r n | None \<Rightarrow> n"
  show ?case
  proof (cases "map_option (\<lambda>limit. limit - f) (er_size request) = Some 0")
    case True
    then show ?thesis using 1(2) by (auto simp: Let_def loop_run_def)
  next
    case False
    then obtain body where body: "build_pit_search_body request pit_id ?len sa = Some body"
      using 1(2) by (auto simp: Let_def split: option.splits)
    obtain r sent1 where fetch: "fetch_search_page srv client body sent = (r, sent1)"
      by (cases "fetch_search_page srv client body sent")
    obtain rq where rq: "pit_search client rq" "sent1 = sent @ [rq]"
      using fetch_search_page_sent [OF body fetch] by blast
    show ?thesis
    proof (cases "\<exists>v hits batch. r = Inr v \<and> response_hits v = Some hits \<and> hits \<noteq> []
        \<and> hits_to_record_batch ops schema hits = Inr batch")
      case True
      then obtain v hits batch where v: "r = Inr v" "response_hits v = Some hits" "hits \<noteq> []"
          "hits_to_record_batch ops schema hits = Inr batch" by blast
      then have batch: "converted ops schema batch"
        by (auto simp: converted_def)
      consider e pit where "y = ([batch], e, pit, sent1)"
        | sa pit f bs r where "loop ops srv client request schema n sa pit f sent1 = Some (bs, r)" "y = (batch # bs, r)"
        using 1(2) False body fetch v by (auto simp: Let_def bind_eq_Some_conv split: option.splits if_splits)
      then show ?thesis
        by cases (use rq 1(1) batch in \<open>auto intro!: loop_run_end intro: loop_run_step\<close>)
    next
      case none: False
      have "\<exists>e pit. y = ([], e, pit, sent1)"
        using 1(2) False body fetch none by (auto simp: Let_def split: sum.splits option.splits if_splits)
      then show ?thesis
        using rq by (auto intro: loop_run_end)
    qed
  qed
qed

lemma es_stream_run:
  assumes "es_read_tabular jp ops srv self view batch_size sent = Some (Inr stream, sent')"
  shows "\<exists>index. let opening = open_pit_request (es_client self) index in
    (\<exists>e. stream = [Inl e] \<and> sent' = sent @ [opening])
    \<or> (\<exists>bs e mid pit_id. stream = map Inr bs @ (case e of Some e \<Rightarrow> [Inl e] | None \<Rightarrow> [])
        \<and> sent' = sent @ opening # mid @ [close_pit_request (es_client self) pit_id]
        \<and> list_all (pit_search (es_client self)) mid \<and> list_all (converted ops (q_schema view)) bs)"
proof -
  obtain request index where run: "es_stream ops srv (es_client self) request index (q_schema view) batch_size sent =
      Some (stream, sent')"
    using assms by (auto simp: es_read_tabular_def split: sum.splits)
  let ?open = "open_pit_request (es_client self) index"
  show ?thesis
  proof (cases "pit_answer (srv sent ?open)")
    case (Inl e)
    then show ?thesis
      using run by (auto simp: es_stream_def send_def)
  next
    case (Inr pit_id)
    then obtain bs e pit sent2 where
        "pit_loop ops srv (es_client self) request (q_schema view) batch_size None pit_id 0 (sent @ [?open]) =
          Some (bs, e, pit, sent2)"
      and stream: "stream = map Inr bs @ (case e of Some e \<Rightarrow> [Inl e] | None \<Rightarrow> [])"
        "sent' = sent2 @ [close_pit_request (es_client self) pit]"
      using run by (auto simp: es_stream_def send_def close_pit_def)
    from pit_loop_run [OF this(1)] obtain mid where
        "sent2 = sent @ ?open # mid" "list_all (pit_search (es_client self)) mid"
        "list_all (converted ops (q_schema view)) bs"
      by (auto simp: loop_run_def)
    then show ?thesis
      using stream by (auto simp: Let_def)
  qed
qed


section \<open>Batches have the declared columns\<close>

text \<open>
  Every batch that is read from Elasticsearch has the columns of the schema that was read from the mapping of
  the index: the same names, which are all different, in the same order, each column of the declared type, and all of them with
  one entry per hit, of which there is at least one.
\<close>

theorem es_batches_have_schema:
  assumes "es_schema jp srv self q sent0 = (Inr view, sent1)"
    and "es_read_tabular jp ops srv' self view batch_size sent = Some (Inr stream, sent')"
    and "Inr batch \<in> set stream"
  shows "rb_schema batch = q_schema view \<and> distinct (map af_name (q_schema view))
    \<and> (\<exists>k > 0. columns_fit (q_schema view) (rb_columns batch) k)"
proof -
  have "converted ops (q_schema view) batch"
    using es_stream_run [OF assms(2)] assms(3)
    by (auto simp: Let_def list_all_iff split: option.splits)
  then obtain hits where "hits \<noteq> []" "hits_to_record_batch ops (q_schema view) hits = Inr batch"
    by (auto simp: converted_def)
  moreover have "distinct (map af_name (q_schema view))"
    using assms(1) parse_mapping_distinct
    by (auto simp: es_schema_def split_def Let_def result_simps mapping_fields_to_schema_def comp_def
        split: sum.splits if_splits)
  ultimately show ?thesis
    using hits_to_record_batch_columns [OF es_schema_json_types [OF assms(1)]] by auto
qed

section \<open>The pages of a search make up what was asked for\<close>

text \<open>
  What Elasticsearch documents of a search over a point in time that has a size: the hits after the
  one whose sort values are given, in the order of the search, at most as many as the size says.
  \<open>all\<close> are the hits of the query, each with its sort values.
\<close>

definition search_start :: "json list \<Rightarrow> json option \<Rightarrow> nat \<Rightarrow> bool" where
  "search_start all sa k \<longleftrightarrow>
     (case sa of None \<Rightarrow> k = 0 | Some v \<Rightarrow> 0 < k \<and> k \<le> length all \<and> json_get (all ! (k - 1)) ''sort'' = Some v)"

definition search_law :: "string server \<Rightarrow> 'h es_client \<Rightarrow> json hmap \<Rightarrow> json list \<Rightarrow> bool" where
  "search_law srv client query all \<longleftrightarrow>
     list_all (\<lambda>hit. json_get hit ''sort'' \<noteq> None) all
     \<and> (\<forall>sent obj pit_id n k.
          (\<forall>key. key \<notin> {''pit'', ''size'', ''sort'', ''search_after''} \<longrightarrow> hget obj key = hget query key) \<longrightarrow>
          hget obj ''pit'' = Some (pit_ref pit_id) \<longrightarrow>
          hget obj ''size'' = Some (json_of_u64 n) \<longrightarrow> 0 < n \<longrightarrow> n < 2 ^ 64 \<longrightarrow>
          search_start all (hget obj ''search_after'') k \<longrightarrow>
          (\<exists>rs v. srv sent (es_http_request client POST ''/_search'' (Some (JObject obj))) = Inr rs
             \<and> is_success rs \<and> rs_json rs = Inr v \<and> response_hits v = Some (take n (drop k all))))"

definition loop_stream ::
    "(record_batch list \<times> connector_error option \<times> string \<times> string http_request list) option \<Rightarrow>
     (record_batch batch_stream \<times> string \<times> string http_request list) option" where
  "loop_stream = map_option (\<lambda>(bs, e, rest). (map Inr bs @ (case e of Some e \<Rightarrow> [Inl e] | None \<Rightarrow> []), rest))"

lemma search_page:
  assumes law: "search_law srv client query all" and n: "0 < n" "n < 2 ^ 64"
    and body: "er_body request = JObject query" "hget query ''search_after'' = None"
    and start: "search_start all sa k"
  shows "\<exists>body v. build_pit_search_body request pit_id n sa = Some body
    \<and> fetch_search_page srv client body sent = (Inr v, sent @ [es_http_request client POST ''/_search'' (Some body)])
    \<and> response_hits v = Some (take n (drop k all))"
proof -
  obtain b where b: "build_pit_search_body request pit_id n sa = Some b"
    using body by (simp add: build_pit_search_body_def Let_def)
  obtain obj where obj: "b = JObject obj" "hget obj ''pit'' = Some (pit_ref pit_id)"
      "hget obj ''size'' = Some (json_of_u64 n)" "hget obj ''search_after'' = sa"
      "\<forall>key. key \<notin> {''pit'', ''size'', ''sort'', ''search_after''} \<longrightarrow> hget obj key = hget query key"
    using pit_search_body [OF b] body by (auto split: option.splits)
  obtain rs v where "srv sent (es_http_request client POST ''/_search'' (Some (JObject obj))) = Inr rs"
      "is_success rs" "rs_json rs = Inr v" "response_hits v = Some (take n (drop k all))"
    using law obj n start unfolding search_law_def by blast
  then show ?thesis
    using b obj(1) by (auto simp: fetch_search_page_def send_def search_answer_def)
qed

lemma pit_loop_step:
  assumes law: "search_law srv client query all" and n: "n < 2 ^ 64"
    and body: "er_body request = JObject query" "hget query ''search_after'' = None"
    and start: "search_start all sa f" and len: "0 < page_len (er_size request) n f"
    and page: "page = take (page_len (er_size request) n f) (drop f all)"
  shows "\<exists>t sa' pit' sent'. (page \<noteq> [] \<longrightarrow> search_start all sa' (f + length page))
    \<and> loop_stream (pit_loop ops srv client request schema n sa pit_id f sent) =
      page_step (hits_to_record_batch ops schema) (page_len (er_size request) n f) page t
        (loop_stream (pit_loop ops srv client request schema n sa' pit' (f + length page) sent'))"
proof -
  let ?len = "page_len (er_size request) n f"
  have lens: "(case map_option (\<lambda>limit. limit - f) (er_size request) of Some r \<Rightarrow> min r n | None \<Rightarrow> n) = ?len"
      "map_option (\<lambda>limit. limit - f) (er_size request) \<noteq> Some 0"
    using len by (auto simp: page_len_def split: option.splits)
  have "?len < 2 ^ 64"
    using n by (auto simp: page_len_def split: option.splits)
  then obtain b v where v: "build_pit_search_body request pit_id ?len sa = Some b"
      "fetch_search_page srv client b sent = (Inr v, sent @ [es_http_request client POST ''/_search'' (Some b)])"
      "response_hits v = Some page"
    using search_page [OF law len _ body start] page by blast
  let ?pit = "with_default (Option.bind (json_get v ''pit_id'') as_str) pit_id"
  let ?sent = "sent @ [es_http_request client POST ''/_search'' (Some b)]"
  have sort: "\<exists>s. json_get (last page) ''sort'' = Some s \<and> search_start all (Some s) (f + length page)" if "page \<noteq> []"
  proof -
    have "f + length page \<le> length all" "last page = all ! (f + length page - 1)"
      using that page by (auto simp: last_conv_nth)
    moreover from this have "last page \<in> set all"
      using that by (metis nth_mem length_greater_0_conv add_gr_0 diff_less less_le_trans less_one)
    ultimately show ?thesis
      using law that by (auto simp: search_law_def search_start_def list_all_iff)
  qed
  have loop: "pit_loop ops srv client request schema n sa pit_id f sent =
      (if page = [] then Some ([], None, ?pit, ?sent)
       else case hits_to_record_batch ops schema page of
           Inl e \<Rightarrow> Some ([], Some e, ?pit, ?sent)
         | Inr batch \<Rightarrow>
             (case json_get (last page) ''sort'' of
                None \<Rightarrow> Some ([batch], None, ?pit, ?sent)
              | Some sa \<Rightarrow>
                  if length page < ?len then Some ([batch], None, ?pit, ?sent)
                  else Option.bind (pit_loop ops srv client request schema n (Some sa) ?pit (f + length page) ?sent)
                    (\<lambda>(bs, r). Some (batch # bs, r))))"
    by (subst pit_loop.simps) (simp only: Let_def lens v if_False option.case prod.case sum.case)
  show ?thesis
  proof (cases "page = []")
    case True
    then show ?thesis
      by (simp add: loop page_step_def loop_stream_def)
  next
    case False
    then obtain s where s: "json_get (last page) ''sort'' = Some s" "search_start all (Some s) (f + length page)"
      using sort by blast
    show ?thesis
    proof (intro exI [of _ "(?pit, ?sent)"] exI [of _ "Some s"] exI [of _ ?pit] exI [of _ ?sent] conjI impI)
      show "loop_stream (pit_loop ops srv client request schema n sa pit_id f sent) =
          page_step (hits_to_record_batch ops schema) ?len page (?pit, ?sent)
            (loop_stream (pit_loop ops srv client request schema n (Some s) ?pit (f + length page) ?sent))"
        unfolding loop
        by (cases "hits_to_record_batch ops schema page")
          (auto simp: s False page_step_def loop_stream_def Option.bind_map_option comp_def split: Option.bind_split)
    qed (rule s(2))
  qed
qed

lemma pit_loop_slice:
  assumes law: "search_law srv client query all" and n: "0 < n" "n < 2 ^ 64"
    and body: "er_body request = JObject query" "hget query ''search_after'' = None"
  shows "\<exists>t. loop_stream (pit_loop ops srv client request schema n None pit_id 0 sent) =
    Some (until_error (map (hits_to_record_batch ops schema) (chunks_of n (slice_of (er_size request) all))), t)"
proof -
  let ?loop = "\<lambda>f (sa, pit, sent). loop_stream (pit_loop ops srv client request schema n sa pit f sent)"
  have "\<exists>t. ?loop 0 (None, pit_id, sent) = Some (until_error (map (hits_to_record_batch ops schema)
      (chunks_of n (drop 0 (slice_of (er_size request) all)))), t)"
  proof (rule paged_slice [where ok = "\<lambda>f (sa, _). search_start all sa f" and loop = ?loop, OF n(1)])
    fix f and s :: "json option \<times> string \<times> string http_request list"
    assume ok: "(\<lambda>(sa, _). search_start all sa f) s"
    obtain sa pit sent where s: "s = (sa, pit, sent)" by (cases s) auto
    show "\<exists>t. ?loop f s = Some ([], t)" if "page_len (er_size request) n f = 0"
      using that n(1) by (subst s, simp only: split_conv, subst pit_loop.simps)
        (auto simp: page_len_def loop_stream_def min_def split: option.splits if_splits)
    fix page
    assume "0 < page_len (er_size request) n f" "page = take (page_len (er_size request) n f) (drop f all)"
    from pit_loop_step [OF law n(2) body _ this, of sa ops schema pit sent] ok
    show "\<exists>t s'. (page \<noteq> [] \<longrightarrow> (\<lambda>(sa, _). search_start all sa (f + length page)) s')
        \<and> ?loop f s = page_step (hits_to_record_batch ops schema) (page_len (er_size request) n f) page t
            (?loop (f + length page) s')"
      unfolding s by fastforce
  qed (simp add: search_start_def)
  then show ?thesis by simp
qed


text \<open>A server with an index of one document, and a read of it.\<close>

definition one_hit :: json where
  "one_hit = JObject [(''_source'', JObject [(''n'', json_of_u64 7)]), (''sort'', JArray [json_of_u64 0])]"

definition one_hit_server :: "string server" where
  "one_hit_server sent rq =
     (let first = (Option.bind (rq_json rq) (\<lambda>b. json_get b ''search_after'') = None) in
      Inr \<lparr>rs_status = 200, rs_status_text = ''200 OK'', rs_content_type = None, rs_content_length = None,
           rs_text = Inl [],
           rs_json = Inr (JObject
             [(''mappings'', JObject [(''properties'', JObject [(''n'', JObject [(''type'', JString ''long'')])])]),
              (''id'', JString ''p''),
              (''hits'', JObject [(''hits'', JArray (if first then [one_hit] else []))])]),
           rs_bytes = Inl [], rs_bytes_stream = []\<rparr>)"

definition one_hit_parser :: "string \<Rightarrow> string + json" where
  "one_hit_parser _ = Inr (JObject [(''index'', JString ''i'')])"

definition sample_es :: "unit es_reader" where
  "sample_es = \<lparr>es_client = \<lparr>ec_http = (), ec_base_url = ''http://e/'', ec_auth = NoAuth\<rparr>, es_default_index = None\<rparr>"

definition sample_view :: "arrow_schema query" where
  "sample_view = \<lparr>q_query = ''q'', q_schema = [\<lparr>af_name = ''n'', af_type = AInt64\<rparr>]\<rparr>"

definition sample_batch :: record_batch where
  "sample_batch = \<lparr>rb_schema = q_schema sample_view, rb_columns = [Int64Array [Some 7]]\<rparr>"

definition sample_requests :: "string http_request list" where
  "sample_requests =
     [open_pit_request (es_client sample_es) ''i'',
      es_http_request (es_client sample_es) POST ''/_search'' (Some (JObject
        [(''pit'', pit_ref ''p''), (''size'', json_of_u64 2), (''sort'', JArray [shard_doc_asc])])),
      close_pit_request (es_client sample_es) ''p'']"

lemma sample_read:
  "es_read_tabular one_hit_parser plain_arrow_ops one_hit_server sample_es sample_view 2 [] =
     Some (Inr [Inr sample_batch], sample_requests)"
proof -
  let ?request = "\<lparr>er_index = Some ''i'', er_body = JObject [], er_size = None, er_has_user_sort = False\<rparr>"
  have parse: "es_parse one_hit_parser (q_query sample_view) = Inr ?request"
      "resolve_index ?request (es_default_index sample_es) = Inr ''i''"
    by (simp_all add: es_parse_def one_hit_parser_def resolve_index_def)
  have body: "build_pit_search_body ?request ''p'' 2 None = Some (JObject
      [(''pit'', pit_ref ''p''), (''size'', json_of_u64 2), (''sort'', JArray [shard_doc_asc])])"
    by code_simp
  have hits: "hits_to_record_batch plain_arrow_ops (q_schema sample_view) [one_hit] = Inr sample_batch"
    by (simp add: hits_to_record_batch_def extract_column_from_hits_def resolve_path_def one_hit_def sample_view_def
        sample_batch_def try_new_def plain_arrow_ops_def json_of_u64_def)
  have sort: "json_get one_hit ''sort'' = Some (JArray [json_of_u64 0])"
    by (simp add: one_hit_def)
  have "pit_loop plain_arrow_ops one_hit_server (es_client sample_es) ?request (q_schema sample_view) 2 None ''p'' 0 sent =
      Some ([sample_batch], None, ''p'', sent @ [sample_requests ! 1])" for sent
    by (subst pit_loop.simps)
      (simp add: body hits sort fetch_search_page_def send_def one_hit_server_def es_http_request_def search_answer_def
        is_success_def response_hits_def with_default_def sample_requests_def)
  then show ?thesis
    by (simp add: es_read_tabular_def parse es_stream_def send_def pit_answer_def one_hit_server_def close_pit_def
        sample_requests_def)
qed

lemma sample_schema:
  "fst (es_schema one_hit_parser one_hit_server sample_es ''q'' []) = Inr sample_view"
  by code_simp


theorem es_batches_have_schema_witness:
  "rb_schema sample_batch = q_schema sample_view \<and> distinct (map af_name (q_schema sample_view))
    \<and> (\<exists>k > 0. columns_fit (q_schema sample_view) (rb_columns sample_batch) k)"
proof -
  have "es_schema one_hit_parser one_hit_server sample_es ''q'' [] =
      (Inr sample_view, snd (es_schema one_hit_parser one_hit_server sample_es ''q'' []))"
    using sample_schema by (metis prod.collapse)
  from es_batches_have_schema [OF this sample_read] show ?thesis by simp
qed

lemma one_hit_law: "search_law one_hit_server client query [one_hit]"
  unfolding search_law_def
proof (intro conjI allI impI)
  show "list_all (\<lambda>hit. json_get hit ''sort'' \<noteq> None) [one_hit]"
    by (simp add: one_hit_def)
  fix sent obj and n k :: nat
  assume n: "0 < n" and start: "search_start [one_hit] (hget obj ''search_after'') k"
  from start have "take n (drop k [one_hit]) = (if hget obj ''search_after'' = None then [one_hit] else [])"
    using n by (auto simp: search_start_def take_Cons' split: option.splits)
  then show "\<exists>rs v. one_hit_server sent (es_http_request client POST ''/_search'' (Some (JObject obj))) = Inr rs
      \<and> is_success rs \<and> rs_json rs = Inr v \<and> response_hits v = Some (take n (drop k [one_hit]))"
    by (simp add: one_hit_server_def es_http_request_def response_hits_def is_success_def Let_def)
qed


section \<open>Indices and paths\<close>

text \<open>
  The index of a query is put into the path of the request as it is, with the credentials of the
  connection: an index that holds a path and a query string names another endpoint of the server.
\<close>

lemma index_is_not_escaped:
  "rq_method (open_pit_request (es_client sample_es) ''logs/_delete_by_query?q=*&x='') = POST
   \<and> rq_url (open_pit_request (es_client sample_es) ''logs/_delete_by_query?q=*&x='') =
     ''http://e/logs/_delete_by_query?q=*&x=/_pit?keep_alive=5m''"
  by code_simp

text \<open>
  A document may have been indexed with a dot in a key, which Elasticsearch maps as an object; in
  its source the key is as it was written, and the column has no value for it.
\<close>

lemma dotted_key_not_found: "resolve_path (JObject [(''a.b'', v)]) ''a.b'' = None"
  by (simp add: resolve_path_def)

end
