(* ===== verification/Row_Reader.thy ===== *)
theory Row_Reader
  imports Paging Arrow_Convert Http_Client
begin

text \<open>
  What the readers of the PostgreSQL, SQLite and Neo4j connectors share: collecting the rows of a
  result into batches of a fixed size, quoting identifiers, and the contract of a
  reader that may not write.  A result is the list of what
  polling it gives, each a row or an error.
\<close>

section \<open>Chunks of rows\<close>

text \<open>
  The loop over the rows.  The second component tells whether it came to its end, so that what
  stands after the loop is executed.
\<close>

fun read_rows ::
    "('row list \<Rightarrow> connector_error + 'b) \<Rightarrow> nat \<Rightarrow> 'row list \<Rightarrow> (connector_error + 'row) list \<Rightarrow>
     'b batch_stream \<times> bool" where
  "read_rows to_batch batch_size chunk [] =
     (if chunk = [] then ([], True)
      else case to_batch chunk of Inl e \<Rightarrow> ([Inl e], False) | Inr batch \<Rightarrow> ([Inr batch], True))"
| "read_rows to_batch batch_size chunk (Inl e # polls) = ([Inl e], False)"
| "read_rows to_batch batch_size chunk (Inr row # polls) =
     (let chunk' = chunk @ [row] in
      if batch_size \<le> length chunk' then
        (case to_batch chunk' of
           Inl e \<Rightarrow> ([Inl e], False)
         | Inr batch \<Rightarrow>
             (let (bs, ended) = read_rows to_batch batch_size [] polls in (Inr batch # bs, ended)))
      else read_rows to_batch batch_size chunk' polls)"

definition batches_of :: "('row list \<Rightarrow> connector_error + 'b) \<Rightarrow> nat \<Rightarrow> 'row list \<Rightarrow> 'b batch_stream" where
  "batches_of to_batch n xs = map to_batch (chunks_of (max 1 n) xs)"

lemma batches_of_full:
  assumes "length xs = max 1 n"
  shows "batches_of to_batch n (xs @ ys) = to_batch xs # batches_of to_batch n ys"
proof -
  have "xs \<noteq> []" using assms by auto
  then show ?thesis
    using chunks_of_step [of "max 1 n" "xs @ ys"] assms by (simp add: batches_of_def)
qed

lemma batches_of_short: "xs \<noteq> [] \<Longrightarrow> length xs < max 1 n \<Longrightarrow> batches_of to_batch n xs = [to_batch xs]"
  using chunks_of_step [of "max 1 n" xs] by (simp add: batches_of_def)

text \<open>Rows that all arrive.\<close>

lemma read_rows_all:
  "length chunk < max 1 n \<Longrightarrow> read_rows to_batch n chunk (map Inr xs) =
     (until_error (batches_of to_batch n (chunk @ xs)), list_all is_ok (batches_of to_batch n (chunk @ xs)))"
proof (induction xs arbitrary: chunk)
  case Nil
  then show ?case
    by (cases "chunk = []") (auto simp: batches_of_short batches_of_def [of _ _ "[]"] split: sum.split)
next
  case (Cons x xs)
  show ?case
  proof (cases "n \<le> length (chunk @ [x])")
    case True
    then have "length (chunk @ [x]) = max 1 n"
      using Cons.prems by auto
    from batches_of_full [OF this, of to_batch xs] show ?thesis
      using True Cons.IH [of "[]"] by (simp add: Let_def split: sum.split)
  next
    case False
    then show ?thesis
      using Cons.IH [of "chunk @ [x]"] by (simp add: Let_def)
  qed
qed

text \<open>
  Rows followed by an error: the batches that were complete, and then the error; the rows of the
  chunk that was being collected are not delivered.
\<close>

definition complete_part :: "nat \<Rightarrow> 'row list \<Rightarrow> 'row list" where
  "complete_part n xs = take (length xs div max 1 n * max 1 n) xs"

lemma complete_part_full:
  assumes "length xs = max 1 n"
  shows "complete_part n (xs @ ys) = xs @ complete_part n ys"
proof -
  have "(max 1 n + length ys) div max 1 n = Suc (length ys div max 1 n)"
    by (simp add: div_add_self1)
  then show ?thesis
    using assms by (simp add: complete_part_def)
qed

lemma complete_part_short: "length xs < max 1 n \<Longrightarrow> complete_part n xs = []"
  by (simp add: complete_part_def)

lemma read_rows_error:
  "length chunk < max 1 n \<Longrightarrow> read_rows to_batch n chunk (map Inr xs @ Inl e # polls) =
     (until_error (batches_of to_batch n (complete_part n (chunk @ xs)) @ [Inl e]), False)"
proof (induction xs arbitrary: chunk)
  case Nil
  then show ?case
    by (simp add: complete_part_short batches_of_def)
next
  case (Cons x xs)
  show ?case
  proof (cases "n \<le> length (chunk @ [x])")
    case True
    then have len: "length (chunk @ [x]) = max 1 n"
      using Cons.prems by auto
    have "batches_of to_batch n (complete_part n ((chunk @ [x]) @ xs)) =
        to_batch (chunk @ [x]) # batches_of to_batch n (complete_part n xs)"
      by (simp only: complete_part_full [OF len] batches_of_full [OF len])
    then show ?thesis
      using True Cons.IH [of "[]"] by (simp add: Let_def split: sum.split)
  next
    case False
    then show ?thesis
      using Cons.IH [of "chunk @ [x]"] by (simp add: Let_def)
  qed
qed

text \<open>
  C35. The rows of a result are delivered in order, none twice and none left out, in batches of the requested size of which only the
  last may be smaller (a size of 0 counts as 1), up to the first batch that cannot be built; the reader goes on past the loop only
  when they were all built.  When the result breaks off with an error, the batches that were full by then are
  delivered, followed by the error.
\<close>

theorem rows_are_delivered:
  "read_rows to_batch n [] (map Inr xs) =
     (until_error (batches_of to_batch n xs), list_all is_ok (batches_of to_batch n xs))
   \<and> concat (chunks_of (max 1 n) xs) = xs
   \<and> read_rows to_batch n [] (map Inr xs @ Inl e # polls) =
     (until_error (batches_of to_batch n (complete_part n xs) @ [Inl e]), False)"
  using read_rows_all [of "[]" n to_batch xs] read_rows_error [of "[]" n to_batch xs e polls]
  by (simp add: concat_chunks_of)

text \<open>Every batch that is delivered was made from at least one row of the result.\<close>

lemma read_rows_batches:
  "Inr b \<in> set (fst (read_rows to_batch n chunk polls)) \<Longrightarrow>
     \<exists>xs. xs \<noteq> [] \<and> set xs \<subseteq> set chunk \<union> {row. Inr row \<in> set polls} \<and> to_batch xs = Inr b"
proof (induction to_batch n chunk polls rule: read_rows.induct)
  case (1 to_batch n chunk)
  then show ?case
    by (auto split: if_splits sum.splits)
next
  case (3 to_batch n chunk row polls)
  show ?case
  proof (cases "n \<le> length (chunk @ [row])")
    case True
    show ?thesis
    proof (cases "to_batch (chunk @ [row])")
      case (Inr batch)
      consider "b = batch" | "Inr b \<in> set (fst (read_rows to_batch n [] polls))"
        using 3(3) True Inr by (auto simp: Let_def split_def)
      then show ?thesis
      proof cases
        case 1
        then show ?thesis
          using Inr by (intro exI [of _ "chunk @ [row]"]) auto
      next
        case 2
        then show ?thesis
          using 3(1) [OF refl True Inr] by fastforce
      qed
    qed (use 3(3) True in \<open>simp add: Let_def\<close>)
  next
    case False
    then show ?thesis
      using 3(2) [OF refl False] 3(3) by (fastforce simp: Let_def)
  qed
qed auto

section \<open>Columns\<close>

text \<open>\<open>rows.iter().map(|r| r.try_get(col_idx)).collect::<Result<_, _>>().map_err(err)\<close>.\<close>

definition try_column ::
    "('e \<Rightarrow> connector_error) \<Rightarrow> ('row \<Rightarrow> nat \<Rightarrow> 'e + 'a) \<Rightarrow> 'row list \<Rightarrow> nat \<Rightarrow> connector_error + 'a list" where
  "try_column err try_get rs col_idx = map_err err (rmapM (\<lambda>r. try_get r col_idx) rs)"

lemma try_column_length: "try_column err f rs i = Inr vals \<Longrightarrow> length vals = length rs"
  by (simp add: try_column_def map_err_eq_Inr rmapM_length)

text \<open>An array, if it is built, has the type and the length.\<close>

definition typed :: "nat \<Rightarrow> connector_error + arrow_array \<Rightarrow> arrow_type \<Rightarrow> bool" where
  "typed n r ty \<longleftrightarrow> (\<forall>a. r = Inr a \<longrightarrow> array_type a = ty \<and> array_len a = n)"

lemma typed_if: "(c \<Longrightarrow> typed n x u) \<Longrightarrow> (\<not> c \<Longrightarrow> typed n y v) \<Longrightarrow> typed n (if c then x else y) (if c then u else v)"
  by simp

lemma typed_column:
  "(\<And>vals. array_type (f vals) = ty \<and> array_len (f vals) = length vals) \<Longrightarrow>
     typed (length rs) (rbind (try_column err g rs i) (\<lambda>vals. Inr (f vals))) ty"
  by (auto simp: typed_def rbind_eq_Inr dest: try_column_length)

section \<open>Quoted identifiers\<close>

abbreviation quote_char :: char where
  "quote_char \<equiv> CHR 0x22"

text \<open>\<open>s.replace('"', "\"\"")\<close> between double quotes.\<close>

definition escape_quotes :: "string \<Rightarrow> string" where
  "escape_quotes s = concat (map (\<lambda>c. if c = quote_char then [c, c] else [c]) s)"

definition quote_identifier :: "string \<Rightarrow> string" where
  "quote_identifier s = quote_char # escape_quotes s @ [quote_char]"

text \<open>
  How SQL reads a quoted identifier, after its opening quote: two quotes stand for one, and a
  single quote ends it.
\<close>

fun lex_quoted :: "string \<Rightarrow> (string \<times> string) option" where
  "lex_quoted [] = None"
| "lex_quoted (c # cs) =
     (if c \<noteq> quote_char then map_option (\<lambda>(s, rest). (c # s, rest)) (lex_quoted cs)
      else case cs of
          d # ds \<Rightarrow>
            if d = quote_char then map_option (\<lambda>(s, rest). (quote_char # s, rest)) (lex_quoted ds)
            else Some ([], cs)
        | [] \<Rightarrow> Some ([], []))"

fun lex_identifier :: "string \<Rightarrow> (string \<times> string) option" where
  "lex_identifier (c # cs) = (if c = quote_char then lex_quoted cs else None)"
| "lex_identifier [] = None"

lemma lex_escaped:
  "(rest = [] \<or> hd rest \<noteq> quote_char) \<Longrightarrow> lex_quoted (escape_quotes s @ quote_char # rest) = Some (s, rest)"
  by (induction s) (auto simp: escape_quotes_def neq_Nil_conv split: list.split)

lemma lex_quote_identifier:
  "(rest = [] \<or> hd rest \<noteq> quote_char) \<Longrightarrow> lex_identifier (quote_identifier s @ rest) = Some (s, rest)"
  by (simp add: quote_identifier_def lex_escaped)

section \<open>Statements that may not write\<close>

text \<open>
  What a reader of an SQL database sends on its connection.  A transaction that is dropped before
  it is committed is rolled back.
\<close>

datatype sql_command = Begin | Execute string | Fetch string | Commit | Rollback

text \<open>
  The statement \<open>guard\<close> makes the connection read-only, until the end of the transaction where
  there is one.  The commands are guarded when every other statement comes under it.
\<close>

fun guarded :: "string \<Rightarrow> bool \<Rightarrow> sql_command list \<Rightarrow> bool" where
  "guarded guard ro [] = True"
| "guarded guard ro (Execute q # cs) = ((q = guard \<or> ro) \<and> guarded guard (ro \<or> q = guard) cs)"
| "guarded guard ro (Fetch q # cs) = (ro \<and> guarded guard ro cs)"
| "guarded guard ro (_ # cs) = guarded guard False cs"

text \<open>
  The database after the commands: \<open>run ro q db\<close> is what the statement \<open>q\<close> makes of it on a
  connection that is read-only or not.
\<close>

fun run_commands :: "string \<Rightarrow> (bool \<Rightarrow> string \<Rightarrow> 'db \<Rightarrow> 'db) \<Rightarrow> bool \<Rightarrow> 'db \<Rightarrow> sql_command list \<Rightarrow> 'db" where
  "run_commands guard run ro db [] = db"
| "run_commands guard run ro db (Execute q # cs) = run_commands guard run (ro \<or> q = guard) (run ro q db) cs"
| "run_commands guard run ro db (Fetch q # cs) = run_commands guard run ro (run ro q db) cs"
| "run_commands guard run ro db (_ # cs) = run_commands guard run False db cs"

text \<open>What the databases document of a read-only connection, and of the statement that makes it one.\<close>

definition read_only_law :: "string \<Rightarrow> (bool \<Rightarrow> string \<Rightarrow> 'db \<Rightarrow> 'db) \<Rightarrow> bool" where
  "read_only_law guard run \<longleftrightarrow> (\<forall>q db. run True q db = db) \<and> (\<forall>db. run False guard db = db)"

lemma guarded_keeps_database:
  "read_only_law guard run \<Longrightarrow> guarded guard ro cs \<Longrightarrow> run_commands guard run ro db cs = db"
proof (induction guard ro cs rule: guarded.induct)
  case (2 guard ro q cs)
  then have "run ro q db = db"
    by (cases ro) (auto simp: read_only_law_def)
  then show ?case
    using 2 by simp
qed (auto simp: read_only_law_def)

text \<open>The contract of a reader that writes nothing.\<close>

locale guarded_reader =
  fixes read_query :: "'sess \<Rightarrow> 's query \<Rightarrow> nat \<Rightarrow> 'b batch_stream \<times> sql_command list"
    and guard :: string
  assumes commands: "guarded guard False (snd (read_query sess view batch_size))"
begin

lemma leaves_database:
  "read_only_law guard run \<Longrightarrow> run_commands guard run False db (snd (read_query sess view batch_size)) = db"
  by (rule guarded_keeps_database [OF _ commands])

end

end
