(* ===== verification/Pgvector.thy ===== *)
theory Pgvector
  imports Row_Reader
begin

text \<open>
  The pgvector types of the PostgreSQL connector, \<open>connectors/postgres/src/pgvector.rs\<close>: the
  decoders of the binary formats of \<open>vector\<close>, \<open>halfvec\<close> and \<open>sparsevec\<close>.  Indexing a slice outside
  its bounds panics; a decoder that panics is \<open>None\<close>.
\<close>

section \<open>Reading big-endian numbers\<close>

definition byte_at :: "string \<Rightarrow> nat \<Rightarrow> nat option" where
  "byte_at bytes i = (if i < length bytes then Some (of_char (bytes ! i)) else None)"

definition read_be_u16 :: "string \<Rightarrow> nat \<Rightarrow> 16 word option" where
  "read_be_u16 bytes off =
     Option.bind (byte_at bytes off) (\<lambda>a.
     Option.bind (byte_at bytes (off + 1)) (\<lambda>b. Some (of_nat (a * 256 + b))))"

definition read_be_u32 :: "string \<Rightarrow> nat \<Rightarrow> 32 word option" where
  "read_be_u32 bytes off =
     Option.bind (byte_at bytes off) (\<lambda>a.
     Option.bind (byte_at bytes (off + 1)) (\<lambda>b.
     Option.bind (byte_at bytes (off + 2)) (\<lambda>c.
     Option.bind (byte_at bytes (off + 3)) (\<lambda>d.
       Some (of_nat (((a * 256 + b) * 256 + c) * 256 + d))))))"

text \<open>\<open>as i32\<close> keeps the bits.\<close>

definition read_be_i32 :: "string \<Rightarrow> nat \<Rightarrow> int option" where
  "read_be_i32 bytes off = map_option sint (read_be_u32 bytes off)"

definition check_len :: "string \<Rightarrow> string \<Rightarrow> nat \<Rightarrow> string + unit" where
  "check_len type_name bytes expected =
     (if length bytes \<noteq> expected then
        Inl (''invalid '' @ type_name @ '' binary value: expected '' @ show_nat expected @ '' bytes, got ''
          @ show_nat (length bytes))
      else Inr ())"

section \<open>Decoders\<close>

definition decode_vector :: "string \<Rightarrow> (string + 32 word list) option" where
  "decode_vector bytes =
     (if length bytes < 4 then Some (Inl (''invalid vector binary value: '' @ show_nat (length bytes) @ '' bytes''))
      else Option.bind (map_option unat (read_be_u16 bytes 0)) (\<lambda>dim.
        case check_len ''vector'' bytes (4 + dim * 4) of
          Inl e \<Rightarrow> Some (Inl e)
        | Inr _ \<Rightarrow> map_option Inr (those (map (\<lambda>i. read_be_u32 bytes (4 + i * 4)) [0..<dim]))))"

text \<open>\<open>widen\<close> is the conversion from half to single precision.\<close>

definition decode_halfvec :: "(16 word \<Rightarrow> 32 word) \<Rightarrow> string \<Rightarrow> (string + 32 word list) option" where
  "decode_halfvec widen bytes =
     (if length bytes < 4 then Some (Inl (''invalid halfvec binary value: '' @ show_nat (length bytes) @ '' bytes''))
      else Option.bind (map_option unat (read_be_u16 bytes 0)) (\<lambda>dim.
        case check_len ''halfvec'' bytes (4 + dim * 2) of
          Inl e \<Rightarrow> Some (Inl e)
        | Inr _ \<Rightarrow>
            map_option Inr (those (map (\<lambda>i. map_option widen (read_be_u16 bytes (4 + i * 2))) [0..<dim]))))"

text \<open>\<open>f32_text\<close> is the text of a single precision number.\<close>

definition decode_sparsevec :: "(32 word \<Rightarrow> string) \<Rightarrow> string \<Rightarrow> (string + string) option" where
  "decode_sparsevec f32_text bytes =
     (if length bytes < 12 then Some (Inl (''invalid sparsevec binary value: '' @ show_nat (length bytes) @ '' bytes''))
      else
        Option.bind (read_be_i32 bytes 0) (\<lambda>dim.
        Option.bind (read_be_i32 bytes 4) (\<lambda>n.
          if n < 0 then Some (Inl ''invalid sparsevec nnz'')
          else
            let nnz = nat n in
            case check_len ''sparsevec'' bytes (12 + nnz * 8) of
              Inl e \<Rightarrow> Some (Inl e)
            | Inr _ \<Rightarrow>
                map_option (\<lambda>elements. Inr (''{'' @ join_with '','' elements @ ''}/'' @ show_int dim))
                  (those (map (\<lambda>i.
                     Option.bind (read_be_i32 bytes (12 + i * 4)) (\<lambda>index.
                     Option.bind (read_be_u32 bytes (12 + nnz * 4 + i * 4)) (\<lambda>v.
                       Some (show_int (index + 1) @ '':'' @ f32_text v)))) [0..<nnz])))))"

section \<open>No panic\<close>

lemma read_be_u16_some: "off + 2 \<le> length bytes \<Longrightarrow> \<exists>w. read_be_u16 bytes off = Some w"
  by (simp add: read_be_u16_def byte_at_def)

lemma read_be_u32_some: "off + 4 \<le> length bytes \<Longrightarrow> \<exists>w. read_be_u32 bytes off = Some w"
  by (simp add: read_be_u32_def byte_at_def)

lemma those_some: "(\<And>x. x \<in> set xs \<Longrightarrow> \<exists>y. f x = Some y) \<Longrightarrow> \<exists>ys. those (map f xs) = Some ys"
proof (induction xs)
  case (Cons x xs)
  then obtain y ys where "f x = Some y" "those (map f xs) = Some ys"
    by (meson list.set_intros)
  then show ?case
    by simp
qed simp

lemma check_len_Inr: "check_len t bytes n = Inr u \<longleftrightarrow> length bytes = n"
  by (simp add: check_len_def)

lemma decode_vector_total: "\<exists>r. decode_vector bytes = Some r"
proof (cases "length bytes < 4")
  case False
  then obtain w where w: "read_be_u16 bytes 0 = Some w"
    using read_be_u16_some [of 0 bytes] by auto
  have "\<exists>ys. those (map (\<lambda>i. read_be_u32 bytes (4 + i * 4)) [0..<unat w]) = Some ys"
    if "length bytes = 4 + unat w * 4"
    using that by (intro those_some read_be_u32_some) auto
  then show ?thesis
    using w False by (auto simp: decode_vector_def check_len_Inr split: sum.split)
qed (simp add: decode_vector_def)

lemma decode_halfvec_total: "\<exists>r. decode_halfvec widen bytes = Some r"
proof (cases "length bytes < 4")
  case False
  then obtain w where w: "read_be_u16 bytes 0 = Some w"
    using read_be_u16_some [of 0 bytes] by auto
  have "\<exists>ys. those (map (\<lambda>i. map_option widen (read_be_u16 bytes (4 + i * 2))) [0..<unat w]) = Some ys"
    if len: "length bytes = 4 + unat w * 2"
  proof (rule those_some)
    fix i
    assume "i \<in> set [0..<unat w]"
    then show "\<exists>y. map_option widen (read_be_u16 bytes (4 + i * 2)) = Some y"
      using read_be_u16_some [of "4 + i * 2" bytes] len by auto
  qed
  then show ?thesis
    using w False by (auto simp: decode_halfvec_def check_len_Inr split: sum.split)
qed (simp add: decode_halfvec_def)

lemma decode_sparsevec_total: "\<exists>r. decode_sparsevec f32_text bytes = Some r"
proof (cases "length bytes < 12")
  case False
  then obtain dim n where reads: "read_be_i32 bytes 0 = Some dim" "read_be_i32 bytes 4 = Some n"
    using read_be_u32_some [of 0 bytes] read_be_u32_some [of 4 bytes] by (auto simp: read_be_i32_def)
  define nnz where "nnz = nat n"
  let ?element = "\<lambda>i. Option.bind (read_be_i32 bytes (12 + i * 4)) (\<lambda>index.
      Option.bind (read_be_u32 bytes (12 + nnz * 4 + i * 4)) (\<lambda>v. Some (show_int (index + 1) @ '':'' @ f32_text v)))"
  have "\<exists>ys. those (map ?element [0..<nnz]) = Some ys" if len: "length bytes = 12 + nnz * 8"
  proof (rule those_some)
    fix i
    assume "i \<in> set [0..<nnz]"
    then obtain u v where "read_be_u32 bytes (12 + i * 4) = Some u" "read_be_u32 bytes (12 + nnz * 4 + i * 4) = Some v"
      using read_be_u32_some [of "12 + i * 4" bytes] read_be_u32_some [of "12 + nnz * 4 + i * 4" bytes] len by auto
    then show "\<exists>y. ?element i = Some y"
      by (simp add: read_be_i32_def)
  qed
  then show ?thesis
    using reads False
    by (auto simp: decode_sparsevec_def check_len_Inr Let_def nnz_def [symmetric] split: sum.split)
qed (simp add: decode_sparsevec_def)

section \<open>Round trip\<close>

text \<open>The binary format of \<open>vector\<close>: the dimension, two bytes that are not used, and the numbers.\<close>

definition be_u16 :: "16 word \<Rightarrow> string" where
  "be_u16 w = [char_of (unat w div 256), char_of (unat w)]"

definition be_u32 :: "32 word \<Rightarrow> string" where
  "be_u32 w = [char_of (unat w div 16777216), char_of (unat w div 65536), char_of (unat w div 256), char_of (unat w)]"

definition encode_vector :: "char \<times> char \<Rightarrow> 32 word list \<Rightarrow> string" where
  "encode_vector unused xs = be_u16 (of_nat (length xs)) @ [fst unused, snd unused] @ concat (map be_u32 xs)"

lemma read_be_u16_encoded: "read_be_u16 (be_u16 w @ rest) 0 = Some w"
proof -
  have "unat w div 256 mod 256 = unat w div 256"
    using unsigned_less [of w, where 'a = nat] by (intro mod_less) (simp add: less_mult_imp_div_less)
  then have "unat w div 256 mod 256 * 256 + unat w mod 256 = unat w"
    by simp
  moreover have "read_be_u16 (be_u16 w @ rest) 0 = Some (of_nat (unat w div 256 mod 256 * 256 + unat w mod 256))"
    by (simp add: read_be_u16_def byte_at_def be_u16_def del: of_nat_add of_nat_mult)
  ultimately show ?thesis
    by (simp del: of_nat_add of_nat_mult)
qed

lemma read_be_u32_encoded: "length pre = off \<Longrightarrow> read_be_u32 (pre @ be_u32 w @ rest) off = Some w"
proof -
  assume off: "length pre = off"
  have "unat w div 16777216 mod 256 = unat w div 16777216"
    using unsigned_less [of w, where 'a = nat] by (intro mod_less) (simp add: less_mult_imp_div_less)
  moreover have "unat w div 16777216 = unat w div 65536 div 256" "unat w div 65536 = unat w div 256 div 256"
    by (simp_all add: div_mult2_eq [symmetric])
  ultimately have "((unat w div 16777216 mod 256 * 256 + unat w div 65536 mod 256) * 256 + unat w div 256 mod 256) * 256
      + unat w mod 256 = unat w"
    by (simp only: div_mult_mod_eq)
  moreover have "read_be_u32 (pre @ be_u32 w @ rest) off = Some (of_nat
      (((unat w div 16777216 mod 256 * 256 + unat w div 65536 mod 256) * 256 + unat w div 256 mod 256) * 256
      + unat w mod 256))"
    using off by (simp add: read_be_u32_def byte_at_def be_u32_def nth_append del: of_nat_add of_nat_mult)
  ultimately show ?thesis
    by (simp only: of_nat_unat) simp
qed

lemma length_be_u32s: "length (concat (map be_u32 xs)) = length xs * 4"
  by (induction xs) (simp_all add: be_u32_def)

lemma read_vector_element:
  assumes "i < length xs"
  shows "read_be_u32 (encode_vector unused xs) (4 + i * 4) = Some (xs ! i)"
proof -
  have "concat (map be_u32 xs) =
      concat (map be_u32 (take i xs)) @ be_u32 (xs ! i) @ concat (map be_u32 (drop (Suc i) xs))"
    using arg_cong [OF id_take_nth_drop [OF assms], of "\<lambda>xs. concat (map be_u32 xs)"] by simp
  then have "encode_vector unused xs =
      (be_u16 (of_nat (length xs)) @ [fst unused, snd unused] @ concat (map be_u32 (take i xs)))
      @ be_u32 (xs ! i) @ concat (map be_u32 (drop (Suc i) xs))"
    by (simp add: encode_vector_def)
  then show ?thesis
    by (simp only:) (rule read_be_u32_encoded, use assms in \<open>simp add: be_u16_def length_be_u32s\<close>)
qed

lemma those_map_pointwise: "(\<And>x. x \<in> set xs \<Longrightarrow> f x = Some (g x)) \<Longrightarrow> those (map f xs) = Some (map g xs)"
  by (induction xs) simp_all

lemma decode_encode_vector:
  assumes "length xs < 2 ^ 16"
  shows "decode_vector (encode_vector unused xs) = Some (Inr xs)"
proof -
  have dim: "unat (of_nat (length xs) :: 16 word) = length xs"
    using assms by (simp add: unsigned_of_nat take_bit_nat_eq_self)
  have len: "length (encode_vector unused xs) = 4 + length xs * 4"
    by (simp add: encode_vector_def be_u16_def length_be_u32s)
  have elements: "those (map (\<lambda>i. read_be_u32 (encode_vector unused xs) (4 + i * 4)) [0..<length xs]) = Some xs"
    by (subst those_map_pointwise [where g = "\<lambda>i. xs ! i"]) (simp_all add: read_vector_element map_nth)
  have "read_be_u16 (encode_vector unused xs) 0 = Some (of_nat (length xs))"
    by (simp add: encode_vector_def read_be_u16_encoded)
  then show ?thesis
    using len elements by (simp add: decode_vector_def check_len_def dim)
qed

text \<open>
  C34. The decoders of pgvector never index outside a value, whatever bytes it has: each gives a
  result or an error.  A vector that PostgreSQL encodes decodes to its numbers, bit by bit.
\<close>

theorem pgvector_decoding:
  "decode_vector bytes \<noteq> None \<and> decode_halfvec widen bytes \<noteq> None \<and> decode_sparsevec f32_text bytes \<noteq> None
   \<and> (length xs < 2 ^ 16 \<longrightarrow> decode_vector (encode_vector unused xs) = Some (Inr xs))"
  using decode_vector_total [of bytes] decode_halfvec_total [of widen bytes] decode_sparsevec_total [of f32_text bytes]
  by (auto simp: decode_encode_vector)

theorem pgvector_decoding_witness:
  "decode_vector (encode_vector (CHR 0x00, CHR 0x00) [1, 2]) = Some (Inr [1, 2])"
  using pgvector_decoding [of "[]" ucast "\<lambda>_. []" "[1, 2]" "(CHR 0x00, CHR 0x00)"] by simp

end
