(* ===== verification/Postgres_Connector.thy ===== *)
theory Postgres_Connector
  imports Pgvector
begin

text \<open>
  The PostgreSQL connector, \<open>connectors/postgres/src/connector.rs\<close>.  sqlx and the values it decodes
  are the record \<open>pg_ops\<close>; what the connection answers is the record \<open>pg_session\<close>.
\<close>

section \<open>Errors\<close>

text \<open>An error of sqlx: one of the database, with its code if it has one, or another one.\<close>

datatype sqlx_error = DatabaseError "string option" string | OtherSqlxError string

fun sqlx_error_text :: "sqlx_error \<Rightarrow> string" where
  "sqlx_error_text (DatabaseError code t) = t"
| "sqlx_error_text (OtherSqlxError t) = t"

fun pg_map_sqlx_error :: "sqlx_error \<Rightarrow> connector_error" where
  "pg_map_sqlx_error (DatabaseError code t) =
     (if code = Some ''25006'' then InvalidRequest ''data source is read-only'' else SQLError t)"
| "pg_map_sqlx_error (OtherSqlxError t) = SQLError t"

section \<open>Types\<close>

text \<open>What follows the last dot, without the quotes around it.\<close>

definition trim_quotes :: "string \<Rightarrow> string" where
  "trim_quotes s = rev (dropWhile (\<lambda>c. c = quote_char) (rev (dropWhile (\<lambda>c. c = quote_char) s)))"

definition unqualified_type_name :: "string \<Rightarrow> string" where
  "unqualified_type_name pg_type = trim_quotes (last (split_at CHR ''.'' pg_type))"

definition pg_type_to_arrow :: "string \<Rightarrow> arrow_type" where
  "pg_type_to_arrow pg_type =
     (let t = unqualified_type_name pg_type in
      if t = ''BOOL'' then ABoolean
      else if t \<in> set [''INT2'', ''SMALLINT'', ''SMALLSERIAL''] then AInt16
      else if t \<in> set [''INT4'', ''INT'', ''INTEGER'', ''SERIAL''] then AInt32
      else if t \<in> set [''INT8'', ''BIGINT'', ''BIGSERIAL''] then AInt64
      else if t \<in> set [''FLOAT4'', ''REAL''] then AFloat32
      else if t \<in> set [''FLOAT8'', ''DOUBLE PRECISION''] then AFloat64
      else if t = ''BYTEA'' then ABinary
      else if t = ''TIMESTAMP'' then ATimestamp Microsecond None
      else if t = ''TIMESTAMPTZ'' then ATimestamp Microsecond (Some ''UTC'')
      else if t = ''DATE'' then ADate32
      else if t = ''TIME'' then ATime64 Microsecond
      else if t = ''NUMERIC'' then AUtf8
      else if t \<in> set [''UUID'', ''JSON'', ''JSONB''] then AUtf8
      else if t \<in> set [''vector'', ''halfvec''] then AFloat32List
      else if t = ''sparsevec'' then AUtf8
      else AUtf8)"

section \<open>Arrays\<close>

record pg_raw =
  raw_is_null :: bool
  raw_is_binary :: bool
  raw_type_name :: string
  raw_as_bytes :: "string + string"

text \<open>A time of day: the seconds since midnight and the nanoseconds.\<close>

type_synonym naive_time = "32 word \<times> 32 word"

text \<open>
  \<open>po_columns\<close> gives the names and the type names of the columns; the next ones are \<open>try_get\<close> at its
  types; the last ones are the conversions of chrono, uuid, serde_json, bigdecimal and half.
\<close>

record ('row, 'ndt, 'dt, 'date, 'uuid, 'dec) pg_ops =
  po_columns :: "'row \<Rightarrow> (string \<times> string) list"
  po_bool :: "'row \<Rightarrow> nat \<Rightarrow> sqlx_error + bool option"
  po_i16 :: "'row \<Rightarrow> nat \<Rightarrow> sqlx_error + 16 word option"
  po_i32 :: "'row \<Rightarrow> nat \<Rightarrow> sqlx_error + 32 word option"
  po_i64 :: "'row \<Rightarrow> nat \<Rightarrow> sqlx_error + 64 word option"
  po_f32 :: "'row \<Rightarrow> nat \<Rightarrow> sqlx_error + 32 word option"
  po_f64 :: "'row \<Rightarrow> nat \<Rightarrow> sqlx_error + 64 word option"
  po_bytes :: "'row \<Rightarrow> nat \<Rightarrow> sqlx_error + string option"
  po_naive_datetime :: "'row \<Rightarrow> nat \<Rightarrow> sqlx_error + 'ndt option"
  po_datetime :: "'row \<Rightarrow> nat \<Rightarrow> sqlx_error + 'dt option"
  po_date :: "'row \<Rightarrow> nat \<Rightarrow> sqlx_error + 'date option"
  po_time :: "'row \<Rightarrow> nat \<Rightarrow> sqlx_error + naive_time option"
  po_uuid :: "'row \<Rightarrow> nat \<Rightarrow> sqlx_error + 'uuid option"
  po_json :: "'row \<Rightarrow> nat \<Rightarrow> sqlx_error + json option"
  po_decimal :: "'row \<Rightarrow> nat \<Rightarrow> sqlx_error + 'dec option"
  po_string :: "'row \<Rightarrow> nat \<Rightarrow> sqlx_error + string option"
  po_raw :: "'row \<Rightarrow> nat \<Rightarrow> sqlx_error + pg_raw"
  po_and_utc :: "'ndt \<Rightarrow> 'dt"
  po_timestamp_micros :: "'dt \<Rightarrow> 64 word"
  po_days_since_epoch :: "'date \<Rightarrow> int"
  po_uuid_text :: "'uuid \<Rightarrow> string"
  po_json_text :: "json \<Rightarrow> string"
  po_decimal_text :: "'dec \<Rightarrow> string"
  po_f16_to_f32 :: "16 word \<Rightarrow> 32 word"
  po_f32_text :: "32 word \<Rightarrow> string"

definition timestamp_to_micros :: "('row, 'ndt, 'dt, 'date, 'uuid, 'dec) pg_ops \<Rightarrow> 'ndt \<Rightarrow> 64 word" where
  "timestamp_to_micros ops dt = po_timestamp_micros ops (po_and_utc ops dt)"

definition timestamptz_to_micros :: "('row, 'ndt, 'dt, 'date, 'uuid, 'dec) pg_ops \<Rightarrow> 'dt \<Rightarrow> 64 word" where
  "timestamptz_to_micros ops dt = po_timestamp_micros ops dt"

definition date_to_days :: "('row, 'ndt, 'dt, 'date, 'uuid, 'dec) pg_ops \<Rightarrow> 'date \<Rightarrow> 32 word" where
  "date_to_days ops d = word_of_int (po_days_since_epoch ops d)"

definition time_to_micros :: "naive_time \<Rightarrow> 64 word" where
  "time_to_micros t = of_nat (unat (fst t)) * 1000000 + of_nat (unat (snd t) div 1000)"

definition raw_binary_values ::
    "('row, 'ndt, 'dt, 'date, 'uuid, 'dec) pg_ops \<Rightarrow> 'row list \<Rightarrow> nat \<Rightarrow> connector_error + string option list" where
  "raw_binary_values ops rs col_idx =
     rmapM (\<lambda>r.
       rbind (map_err pg_map_sqlx_error (po_raw ops r col_idx)) (\<lambda>value.
       if raw_is_null value then Inr None
       else if \<not> raw_is_binary value then
         Inl (SQLError (''unexpected text format for column '' @ show_nat col_idx @ '' of type '' @ raw_type_name value))
       else map_err SQLError (rbind (raw_as_bytes value) (\<lambda>bytes. Inr (Some bytes))))) rs"

text \<open>The decoders do not panic (\<open>decode_vector_total\<close> and its like), so the last case does not arise.\<close>

definition decoded :: "(string + 'a) option \<Rightarrow> connector_error + 'a" where
  "decoded r = (case r of Some x \<Rightarrow> map_err SQLError x | None \<Rightarrow> Inl (SQLError []))"

definition decode_values ::
    "(string \<Rightarrow> (string + 'a) option) \<Rightarrow> string option list \<Rightarrow> connector_error + 'a option list" where
  "decode_values decode =
     rmapM (\<lambda>value. case value of
         None \<Rightarrow> Inr None
       | Some bytes \<Rightarrow> rbind (decoded (decode bytes)) (\<lambda>v. Inr (Some v)))"

definition build_list_array ::
    "('row, 'ndt, 'dt, 'date, 'uuid, 'dec) pg_ops \<Rightarrow> 'row list \<Rightarrow> nat \<Rightarrow> (string \<Rightarrow> (string + 32 word list) option) \<Rightarrow>
     connector_error + arrow_array" where
  "build_list_array ops rs col_idx decode =
     rbind (raw_binary_values ops rs col_idx) (\<lambda>values.
     rbind (decode_values decode values) (\<lambda>vals. Inr (Float32ListArray vals)))"

definition build_sparsevec_array ::
    "('row, 'ndt, 'dt, 'date, 'uuid, 'dec) pg_ops \<Rightarrow> 'row list \<Rightarrow> nat \<Rightarrow> connector_error + arrow_array" where
  "build_sparsevec_array ops rs col_idx =
     rbind (raw_binary_values ops rs col_idx) (\<lambda>values.
     rbind (decode_values (decode_sparsevec (po_f32_text ops)) values) (\<lambda>strs. Inr (StringArray strs)))"

definition pg_build_array ::
    "('row, 'ndt, 'dt, 'date, 'uuid, 'dec) pg_ops \<Rightarrow> string \<Rightarrow> 'row list \<Rightarrow> nat \<Rightarrow> connector_error + arrow_array" where
  "pg_build_array ops pg_type rs col_idx =
     (let t = unqualified_type_name pg_type in
      if t = ''BOOL'' then
        rbind (try_column pg_map_sqlx_error (po_bool ops) rs col_idx) (\<lambda>vals. Inr (BooleanArray vals))
      else if t \<in> set [''INT2'', ''SMALLINT'', ''SMALLSERIAL''] then
        rbind (try_column pg_map_sqlx_error (po_i16 ops) rs col_idx) (\<lambda>vals. Inr (Int16Array vals))
      else if t \<in> set [''INT4'', ''INT'', ''INTEGER'', ''SERIAL''] then
        rbind (try_column pg_map_sqlx_error (po_i32 ops) rs col_idx) (\<lambda>vals. Inr (Int32Array vals))
      else if t \<in> set [''INT8'', ''BIGINT'', ''BIGSERIAL''] then
        rbind (try_column pg_map_sqlx_error (po_i64 ops) rs col_idx) (\<lambda>vals. Inr (Int64Array vals))
      else if t \<in> set [''FLOAT4'', ''REAL''] then
        rbind (try_column pg_map_sqlx_error (po_f32 ops) rs col_idx) (\<lambda>vals. Inr (Float32Array vals))
      else if t \<in> set [''FLOAT8'', ''DOUBLE PRECISION''] then
        rbind (try_column pg_map_sqlx_error (po_f64 ops) rs col_idx) (\<lambda>vals. Inr (Float64Array vals))
      else if t = ''BYTEA'' then
        rbind (try_column pg_map_sqlx_error (po_bytes ops) rs col_idx) (\<lambda>vals. Inr (BinaryArray vals))
      else if t = ''TIMESTAMP'' then
        rbind (try_column pg_map_sqlx_error (po_naive_datetime ops) rs col_idx) (\<lambda>vals.
        Inr (TimestampArray Microsecond None (map (map_option (timestamp_to_micros ops)) vals)))
      else if t = ''TIMESTAMPTZ'' then
        rbind (try_column pg_map_sqlx_error (po_datetime ops) rs col_idx) (\<lambda>vals.
        Inr (TimestampArray Microsecond (Some ''UTC'') (map (map_option (timestamptz_to_micros ops)) vals)))
      else if t = ''DATE'' then
        rbind (try_column pg_map_sqlx_error (po_date ops) rs col_idx) (\<lambda>vals.
        Inr (Date32Array (map (map_option (date_to_days ops)) vals)))
      else if t = ''TIME'' then
        rbind (try_column pg_map_sqlx_error (po_time ops) rs col_idx) (\<lambda>vals.
        Inr (Time64Array Microsecond (map (map_option time_to_micros) vals)))
      else if t = ''UUID'' then
        rbind (try_column pg_map_sqlx_error (po_uuid ops) rs col_idx) (\<lambda>vals.
        Inr (StringArray (map (map_option (po_uuid_text ops)) vals)))
      else if t \<in> set [''JSON'', ''JSONB''] then
        rbind (try_column pg_map_sqlx_error (po_json ops) rs col_idx) (\<lambda>vals.
        Inr (StringArray (map (map_option (po_json_text ops)) vals)))
      else if t = ''NUMERIC'' then
        rbind (try_column pg_map_sqlx_error (po_decimal ops) rs col_idx) (\<lambda>vals.
        Inr (StringArray (map (map_option (po_decimal_text ops)) vals)))
      else if t = ''vector'' then build_list_array ops rs col_idx decode_vector
      else if t = ''halfvec'' then build_list_array ops rs col_idx (decode_halfvec (po_f16_to_f32 ops))
      else if t = ''sparsevec'' then build_sparsevec_array ops rs col_idx
      else rbind (try_column pg_map_sqlx_error (po_string ops) rs col_idx) (\<lambda>vals. Inr (StringArray vals)))"

text \<open>The readers call it with at least one row.\<close>

definition pg_rows_to_batch ::
    "'a arrow_ops \<Rightarrow> ('row, 'ndt, 'dt, 'date, 'uuid, 'dec) pg_ops \<Rightarrow> arrow_schema \<Rightarrow> 'row list \<Rightarrow>
     connector_error + record_batch" where
  "pg_rows_to_batch aops ops schema rs =
     (let columns = po_columns ops (hd rs) in
      rbind (rmapM (\<lambda>col_idx. pg_build_array ops (snd (columns ! col_idx)) rs col_idx) [0..<length columns]) (\<lambda>arrays.
      try_new aops schema arrays))"

section \<open>The reader\<close>

text \<open>
  What the pool answers to the calls of a reader: \<open>prepare\<close> gives the columns of a statement,
  \<open>query_as\<close> the table rows of a listing for the query and what is bound to it.
\<close>

record 'row pg_session =
  ps_acquire :: "sqlx_error + unit"
  ps_begin :: "sqlx_error + unit"
  ps_execute :: "string \<Rightarrow> sqlx_error + unit"
  ps_fetch :: "string \<Rightarrow> (sqlx_error + 'row) list"
  ps_commit :: "sqlx_error + unit"
  ps_prepare :: "string \<Rightarrow> sqlx_error + (string \<times> string) list"
  ps_query_as :: "string \<Rightarrow> string list \<Rightarrow> sqlx_error + (string \<times> string \<times> string \<times> string) list"

definition pg_fields :: "(string \<times> string) list \<Rightarrow> arrow_schema" where
  "pg_fields columns = map (\<lambda>(name, ty). \<lparr>af_name = name, af_type = pg_type_to_arrow ty\<rparr>) columns"

definition pg_schema :: "'row pg_session \<Rightarrow> string \<Rightarrow> connector_error + arrow_schema query" where
  "pg_schema ps q =
     rbind (map_err pg_map_sqlx_error (ps_prepare ps q)) (\<lambda>columns.
     Inr \<lparr>q_query = q, q_schema = pg_fields columns\<rparr>)"

definition SET_READ_ONLY :: string where
  "SET_READ_ONLY = ''SET TRANSACTION READ ONLY''"

text \<open>The stream, and the commands it sends when it is read to its end.\<close>

definition pg_read_tabular ::
    "'a arrow_ops \<Rightarrow> ('row, 'ndt, 'dt, 'date, 'uuid, 'dec) pg_ops \<Rightarrow> 'row pg_session \<Rightarrow> arrow_schema query \<Rightarrow> nat \<Rightarrow>
     record_batch batch_stream \<times> sql_command list" where
  "pg_read_tabular aops ops ps view batch_size =
     (case ps_acquire ps of
        Inl e \<Rightarrow> ([Inl (ConnectionError (sqlx_error_text e))], [])
      | Inr _ \<Rightarrow>
     (case ps_begin ps of
        Inl e \<Rightarrow> ([Inl (pg_map_sqlx_error e)], [Begin])
      | Inr _ \<Rightarrow>
     (case ps_execute ps SET_READ_ONLY of
        Inl e \<Rightarrow> ([Inl (pg_map_sqlx_error e)], [Begin, Execute SET_READ_ONLY, Rollback])
      | Inr _ \<Rightarrow>
          (let (bs, ended) = read_rows (pg_rows_to_batch aops ops (q_schema view)) batch_size []
                 (map (map_err pg_map_sqlx_error) (ps_fetch ps (q_query view)));
               sent = [Begin, Execute SET_READ_ONLY, Fetch (q_query view)] in
           if \<not> ended then (bs, sent @ [Rollback])
           else (case ps_commit ps of
               Inl e \<Rightarrow> (bs @ [Inl (pg_map_sqlx_error e)], sent @ [Commit])
             | Inr _ \<Rightarrow> (bs, sent @ [Commit]))))))"

definition pg_check_connection :: "'row pg_session \<Rightarrow> connector_error + unit" where
  "pg_check_connection ps =
     map_err (\<lambda>_. ConnectionError ''PostgreSQL connection check failed'') (ps_execute ps ''SELECT 1'')"

section \<open>Listing tables\<close>

definition tables_select :: string where
  "tables_select = ''SELECT table_catalog, table_schema, table_name, table_type FROM information_schema.tables ''
     @ ''WHERE table_schema NOT IN ('' @ quoted ''information_schema'' @ '', '' @ quoted ''pg_catalog'' @ '') ''"

definition pg_table_rows ::
    "'row pg_session \<Rightarrow> string option \<Rightarrow> connector_error + (string \<times> string \<times> string \<times> string) list" where
  "pg_table_rows ps table_name_filter =
     map_err pg_map_sqlx_error
       (case table_name_filter of
          Some pattern \<Rightarrow>
            ps_query_as ps (tables_select @ ''AND table_name LIKE $1 ORDER BY table_schema, table_name'') [pattern]
        | None \<Rightarrow> ps_query_as ps (tables_select @ ''ORDER BY table_schema, table_name'') [])"

definition pg_table_query :: "string \<Rightarrow> string \<Rightarrow> string" where
  "pg_table_query schema_name table_name =
     ''SELECT * FROM '' @ quote_identifier schema_name @ ''.'' @ quote_identifier table_name @ '' LIMIT 0''"

definition pg_list_tables ::
    "'row pg_session \<Rightarrow> string option \<Rightarrow> bool \<Rightarrow> connector_error + arrow_schema table_info list" where
  "pg_list_tables ps table_name_filter include_schema =
     rbind (pg_table_rows ps table_name_filter) (\<lambda>trs.
     rmapM (\<lambda>(catalog, schema_name, table_name, table_type).
       rbind (if include_schema
              then rbind (map_err pg_map_sqlx_error (ps_prepare ps (pg_table_query schema_name table_name)))
                     (\<lambda>columns. Inr (pg_fields columns))
              else Inr []) (\<lambda>table_schema.
       Inr \<lparr>ti_catalog = catalog, ti_schema_name = schema_name, ti_table_name = table_name,
            ti_table_type = table_type, ti_table_schema = table_schema\<rparr>)) trs)"

section \<open>The connector\<close>

record ('pool, 'opt) pg_api =
  pa_options :: "string \<Rightarrow> string + 'opt"
  pa_ssl_root_cert :: "'opt \<Rightarrow> string \<Rightarrow> 'opt"
  pa_connect :: "64 word \<Rightarrow> 'opt \<Rightarrow> string + 'pool"

definition pg_build_pool ::
    "('pool, 'opt) pg_api \<Rightarrow> connector_config \<Rightarrow> string hmap \<Rightarrow> connector_error + 'pool" where
  "pg_build_pool api config credentials =
     rbind (required_uri credentials) (\<lambda>url.
     rbind (map_err (\<lambda>e. ConnectionError (''invalid PostgreSQL URL: '' @ e)) (pa_options api url)) (\<lambda>options.
     let options' = (case hget credentials ''CA_CERT'' of
         Some ca_cert \<Rightarrow> pa_ssl_root_cert api options ca_cert
       | None \<Rightarrow> options) in
     map_err (\<lambda>e. ConnectionError (''unable to connect to PostgreSQL: '' @ e))
       (pa_connect api (cc_connection_timeout config) options')))"

definition pg_connector ::
    "('pool, 'opt) pg_api \<Rightarrow> connector_config \<Rightarrow> (string \<Rightarrow> 'pool option) \<Rightarrow> ('pool \<Rightarrow> ('s, 'b) data_reader) \<Rightarrow>
     ('s, 'b) flight_connector" where
  "pg_connector api config held wrap =
     \<lparr>fc_provider = ''postgres'', fc_description = ''PostgreSQL connector'', fc_supported_formats = [Tabular],
      fc_get_reader = (\<lambda>connection resolver.
        rbind (client_for held (pg_build_pool api config) connection resolver) (\<lambda>pool. Inr (wrap pool)))\<rparr>"

interpretation pg: client_connector "pg_connector api config held wrap" held "\<lambda>_. pg_build_pool api config" "\<lambda>_. wrap"
  for api config held wrap
  by unfold_locales (simp add: pg_connector_def)

section \<open>Reading writes nothing\<close>

interpretation pg_read: guarded_reader "pg_read_tabular aops ops" SET_READ_ONLY for aops ops
  by unfold_locales (auto simp: pg_read_tabular_def Let_def split: sum.split prod.split)

text \<open>
  C32. Reading from PostgreSQL leaves the database as it is, whatever the query and however the read ends,
  provided that a statement changes nothing in a transaction that was made read-only and that the statement which makes it so changes nothing.
\<close>

theorem pg_read_leaves_database:
  assumes "read_only_law SET_READ_ONLY run"
  shows "run_commands SET_READ_ONLY run False db (snd (pg_read_tabular aops ops ps view batch_size)) = db"
  by (rule pg_read.leaves_database [OF assms])

section \<open>Columns have the declared types\<close>

lemma decode_values_length: "decode_values decode values = Inr vals \<Longrightarrow> length vals = length values"
  unfolding decode_values_def by (rule rmapM_length)

lemma raw_binary_values_length: "raw_binary_values ops rs i = Inr vals \<Longrightarrow> length vals = length rs"
  unfolding raw_binary_values_def by (rule rmapM_length)

lemmas column_lengths = try_column_length decode_values_length raw_binary_values_length

lemma typed_vectors:
  "typed (length rs) (build_list_array ops rs i decode) AFloat32List"
  "typed (length rs) (build_sparsevec_array ops rs i) AUtf8"
  by (auto simp: typed_def build_list_array_def build_sparsevec_array_def rbind_eq_Inr dest!: column_lengths)

text \<open>The match on the type name that declares a column and the one that builds it agree.\<close>

lemma pg_build_array_typed: "typed (length rs) (pg_build_array ops pg_type rs i) (pg_type_to_arrow pg_type)"
proof -
  define t where "t = unqualified_type_name pg_type"
  have texts: "typed (length rs)
      (if t = ''UUID'' then rbind (try_column pg_map_sqlx_error (po_uuid ops) rs i) (\<lambda>vals. Inr (StringArray (map (map_option (po_uuid_text ops)) vals)))
       else if t \<in> set [''JSON'', ''JSONB''] then rbind (try_column pg_map_sqlx_error (po_json ops) rs i) (\<lambda>vals. Inr (StringArray (map (map_option (po_json_text ops)) vals)))
       else if t = ''NUMERIC'' then rbind (try_column pg_map_sqlx_error (po_decimal ops) rs i) (\<lambda>vals. Inr (StringArray (map (map_option (po_decimal_text ops)) vals)))
       else if t = ''vector'' then build_list_array ops rs i decode_vector
       else if t = ''halfvec'' then build_list_array ops rs i (decode_halfvec (po_f16_to_f32 ops))
       else if t = ''sparsevec'' then build_sparsevec_array ops rs i
       else rbind (try_column pg_map_sqlx_error (po_string ops) rs i) (\<lambda>vals. Inr (StringArray vals)))
      (if t = ''NUMERIC'' then AUtf8 else if t \<in> set [''UUID'', ''JSON'', ''JSONB''] then AUtf8
       else if t \<in> set [''vector'', ''halfvec''] then AFloat32List else if t = ''sparsevec'' then AUtf8 else AUtf8)"
    by (cases "t \<in> {''UUID'', ''JSON'', ''JSONB'', ''NUMERIC''}"; cases "t \<in> {''vector'', ''halfvec'', ''sparsevec''}")
      (auto simp: typed_column typed_vectors)
  show ?thesis
    unfolding pg_build_array_def pg_type_to_arrow_def Let_def t_def [symmetric]
    by (intro typed_if texts typed_column) simp_all
qed

lemma pg_build_array_type:
  assumes "pg_build_array ops pg_type rs i = Inr a"
  shows "array_type a = pg_type_to_arrow pg_type \<and> array_len a = length rs"
  using pg_build_array_typed [of rs ops pg_type i] assms by (simp add: typed_def)

lemma pg_columns_fit:
  assumes "rmapM (\<lambda>i. pg_build_array ops (snd (columns ! i)) rs i) [0..<length columns] = Inr arrays"
  shows "columns_fit (pg_fields columns) arrays (length rs)"
proof -
  from assms have built: "map (\<lambda>i. pg_build_array ops (snd (columns ! i)) rs i) [0..<length columns] = map Inr arrays"
    by (simp add: rmapM_eq_Inr)
  have len: "length arrays = length columns"
    using arg_cong [OF built, of length] by simp
  have at: "pg_build_array ops (snd (columns ! i)) rs i = Inr (arrays ! i)" if "i < length columns" for i
    using arg_cong [OF built, of "\<lambda>xs. xs ! i"] that len by simp
  note typed = pg_build_array_type [OF at]
  show ?thesis
    using len typed
    by (auto simp: columns_fit_def pg_fields_def list_eq_iff_nth_eq list_all_length split_def)
qed

text \<open>
  C33. Every batch that is read from PostgreSQL has the schema that preparing the query gave: each column of
  the type that is declared for it, with one entry per row.  No batch is refused for its columns.
\<close>

theorem pg_batches_have_schema:
  assumes schema: "pg_schema ps q = Inr view" "ps_prepare ps q = Inr columns"
    and rs: "rs \<noteq> []" "po_columns ops (hd rs) = columns" "columns \<noteq> []"
    and lib: "batch_law aops"
  shows "case pg_rows_to_batch aops ops (q_schema view) rs of
      Inr batch \<Rightarrow> rb_schema batch = q_schema view \<and> columns_fit (q_schema view) (rb_columns batch) (length rs)
    | Inl e \<Rightarrow> \<exists>i < length columns. pg_build_array ops (snd (columns ! i)) rs i = Inl e"
proof -
  have view: "q_schema view = pg_fields columns"
    using schema by (auto simp: pg_schema_def)
  show ?thesis
  proof (cases "rmapM (\<lambda>i. pg_build_array ops (snd (columns ! i)) rs i) [0..<length columns]")
    case (Inl e)
    then obtain i where "i \<in> set [0..<length columns]" "pg_build_array ops (snd (columns ! i)) rs i = Inl e"
      unfolding rmapM_eq_Inl by (metis in_set_conv_decomp)
    then show ?thesis
      using Inl rs(2) by (auto simp: pg_rows_to_batch_def)
  next
    case (Inr arrays)
    then have "columns_fit (pg_fields columns) arrays (length rs)"
      by (rule pg_columns_fit)
    moreover from this have "ao_try_new aops (pg_fields columns) arrays = None"
      using lib rs(3) by (auto simp: batch_law_def pg_fields_def)
    ultimately show ?thesis
      using Inr rs(2) view by (simp add: pg_rows_to_batch_def try_new_def)
  qed
qed

text \<open>The rows that arrive are delivered, and the transaction is committed after the last batch.\<close>

lemma pg_read_delivers:
  assumes "ps_acquire ps = Inr ()" "ps_begin ps = Inr ()" "ps_execute ps SET_READ_ONLY = Inr ()" "ps_commit ps = Inr ()"
    and "ps_fetch ps (q_query view) = map Inr rs"
  shows "pg_read_tabular aops ops ps view batch_size =
    (let bs = batches_of (pg_rows_to_batch aops ops (q_schema view)) batch_size rs in
     (until_error bs, [Begin, Execute SET_READ_ONLY, Fetch (q_query view), if list_all is_ok bs then Commit else Rollback]))"
  using assms read_rows_all [of "[]" batch_size "pg_rows_to_batch aops ops (q_schema view)" rs]
  by (simp add: pg_read_tabular_def Let_def comp_def)

text \<open>A session with one row of one column, and a database that counts the statements that write.\<close>

definition sample_pg_ops :: "(unit, unit, unit, unit, unit, unit) pg_ops" where
  "sample_pg_ops =
     \<lparr>po_columns = (\<lambda>_. [(''a'', ''INT4'')]), po_bool = (\<lambda>_ _. Inr None), po_i16 = (\<lambda>_ _. Inr None),
      po_i32 = (\<lambda>_ _. Inr (Some 7)), po_i64 = (\<lambda>_ _. Inr None), po_f32 = (\<lambda>_ _. Inr None),
      po_f64 = (\<lambda>_ _. Inr None), po_bytes = (\<lambda>_ _. Inr None), po_naive_datetime = (\<lambda>_ _. Inr None),
      po_datetime = (\<lambda>_ _. Inr None), po_date = (\<lambda>_ _. Inr None), po_time = (\<lambda>_ _. Inr None),
      po_uuid = (\<lambda>_ _. Inr None), po_json = (\<lambda>_ _. Inr None), po_decimal = (\<lambda>_ _. Inr None),
      po_string = (\<lambda>_ _. Inr None), po_raw = (\<lambda>_ _. Inl (OtherSqlxError [])), po_and_utc = id,
      po_timestamp_micros = (\<lambda>_. 0), po_days_since_epoch = (\<lambda>_. 0), po_uuid_text = (\<lambda>_. []),
      po_json_text = (\<lambda>_. []), po_decimal_text = (\<lambda>_. []), po_f16_to_f32 = ucast, po_f32_text = (\<lambda>_. [])\<rparr>"

definition sample_session :: "unit pg_session" where
  "sample_session =
     \<lparr>ps_acquire = Inr (), ps_begin = Inr (), ps_execute = (\<lambda>_. Inr ()), ps_fetch = (\<lambda>_. [Inr ()]),
      ps_commit = Inr (), ps_prepare = (\<lambda>_. Inr [(''a'', ''INT4'')]), ps_query_as = (\<lambda>_ _. Inr [])\<rparr>"

definition count_writes :: "bool \<Rightarrow> string \<Rightarrow> nat \<Rightarrow> nat" where
  "count_writes ro q n = (if ro \<or> q = SET_READ_ONLY then n else Suc n)"

definition sample_pg_view :: "arrow_schema query" where
  "sample_pg_view = \<lparr>q_query = ''q'', q_schema = [\<lparr>af_name = ''a'', af_type = AInt32\<rparr>]\<rparr>"

theorem pg_read_leaves_database_witness:
  "run_commands SET_READ_ONLY count_writes False 0
     (snd (pg_read_tabular plain_arrow_ops sample_pg_ops sample_session sample_pg_view 1)) = 0"
proof (rule pg_read_leaves_database)
  show "read_only_law SET_READ_ONLY count_writes"
    by (simp add: read_only_law_def count_writes_def)
qed

theorem pg_batches_have_schema_witness:
  "case pg_rows_to_batch plain_arrow_ops sample_pg_ops (q_schema sample_pg_view) [()] of
     Inr batch \<Rightarrow> rb_schema batch = q_schema sample_pg_view
       \<and> columns_fit (q_schema sample_pg_view) (rb_columns batch) (length [()])
   | Inl e \<Rightarrow> \<exists>i < length [(''a'', ''INT4'')]. pg_build_array sample_pg_ops (snd ([(''a'', ''INT4'')] ! i)) [()] i = Inl e"
proof (rule pg_batches_have_schema [OF _ _ _ _ _ plain_batch_law])
  have "pg_type_to_arrow ''INT4'' = AInt32"
    by (simp add: pg_type_to_arrow_def unqualified_type_name_def trim_quotes_def)
  then show "pg_schema sample_session ''q'' = Inr sample_pg_view"
    by (simp add: pg_schema_def sample_session_def sample_pg_view_def pg_fields_def)
qed (simp_all add: sample_session_def sample_pg_ops_def)

section \<open>Names of tables do not escape from their quotes\<close>

lemma pg_table_query_lexes:
  "\<exists>rest. pg_table_query schema_name table_name = ''SELECT * FROM '' @ rest
     \<and> (\<exists>rest'. lex_identifier rest = Some (schema_name, ''.'' @ rest')
          \<and> lex_identifier rest' = Some (table_name, '' LIMIT 0''))"
  by (auto simp: pg_table_query_def lex_quote_identifier)

end
