(* ===== verification/Sqlite_Connector.thy ===== *)
theory Sqlite_Connector
  imports Row_Reader
begin

text \<open>
  The SQLite connector, \<open>connectors/sqlite/src/connector.rs\<close>.  The values that sqlx decodes are the
  record \<open>sqlite_ops\<close>, what the connection answers is the record \<open>sqlite_session\<close>; an error of sqlx is
  its text.
\<close>

section \<open>Arrays\<close>

definition sqlite_type_to_arrow :: "string \<Rightarrow> arrow_type" where
  "sqlite_type_to_arrow sqlite_type =
     (if sqlite_type = ''BOOLEAN'' then ABoolean
      else if sqlite_type = ''INTEGER'' then AInt64
      else if sqlite_type = ''REAL'' then AFloat64
      else if sqlite_type = ''BLOB'' then ABinary
      else AUtf8)"

record 'row sqlite_ops =
  so_columns :: "'row \<Rightarrow> (string \<times> string) list"
  so_bool :: "'row \<Rightarrow> nat \<Rightarrow> string + bool option"
  so_i64 :: "'row \<Rightarrow> nat \<Rightarrow> string + 64 word option"
  so_f64 :: "'row \<Rightarrow> nat \<Rightarrow> string + 64 word option"
  so_bytes :: "'row \<Rightarrow> nat \<Rightarrow> string + string option"
  so_string :: "'row \<Rightarrow> nat \<Rightarrow> string + string option"

definition sqlite_build_array ::
    "'row sqlite_ops \<Rightarrow> string \<Rightarrow> 'row list \<Rightarrow> nat \<Rightarrow> connector_error + arrow_array" where
  "sqlite_build_array ops sqlite_type rs col_idx =
     (if sqlite_type = ''BOOLEAN'' then
        rbind (try_column SQLError (so_bool ops) rs col_idx) (\<lambda>vals. Inr (BooleanArray vals))
      else if sqlite_type = ''INTEGER'' then
        rbind (try_column SQLError (so_i64 ops) rs col_idx) (\<lambda>vals. Inr (Int64Array vals))
      else if sqlite_type = ''REAL'' then
        rbind (try_column SQLError (so_f64 ops) rs col_idx) (\<lambda>vals. Inr (Float64Array vals))
      else if sqlite_type = ''BLOB'' then
        rbind (try_column SQLError (so_bytes ops) rs col_idx) (\<lambda>vals. Inr (BinaryArray vals))
      else rbind (try_column SQLError (so_string ops) rs col_idx) (\<lambda>vals. Inr (StringArray vals)))"

text \<open>The reader calls it with at least one row.\<close>

definition sqlite_rows_to_batch ::
    "'a arrow_ops \<Rightarrow> 'row sqlite_ops \<Rightarrow> arrow_schema \<Rightarrow> 'row list \<Rightarrow> connector_error + record_batch" where
  "sqlite_rows_to_batch aops ops schema rs =
     (let columns = so_columns ops (hd rs) in
      rbind (rmapM (\<lambda>col_idx. sqlite_build_array ops (snd (columns ! col_idx)) rs col_idx) [0..<length columns])
        (\<lambda>arrays. try_new aops schema arrays))"

section \<open>The reader\<close>

record 'row sqlite_session =
  ss_acquire :: "string + unit"
  ss_execute :: "string \<Rightarrow> string + unit"
  ss_fetch :: "string \<Rightarrow> (string + 'row) list"
  ss_prepare :: "string \<Rightarrow> string + (string \<times> string) list"
  ss_query_as :: "string \<Rightarrow> string list \<Rightarrow> string + (string \<times> string) list"

definition sqlite_fields :: "(string \<times> string) list \<Rightarrow> arrow_schema" where
  "sqlite_fields columns = map (\<lambda>(name, ty). \<lparr>af_name = name, af_type = sqlite_type_to_arrow ty\<rparr>) columns"

definition sqlite_schema :: "'row sqlite_session \<Rightarrow> string \<Rightarrow> connector_error + arrow_schema query" where
  "sqlite_schema ss q =
     rbind (map_err SQLError (ss_prepare ss q)) (\<lambda>columns.
     Inr \<lparr>q_query = q, q_schema = sqlite_fields columns\<rparr>)"

definition QUERY_ONLY :: string where
  "QUERY_ONLY = ''PRAGMA query_only = ON''"

definition sqlite_read_tabular ::
    "'a arrow_ops \<Rightarrow> 'row sqlite_ops \<Rightarrow> 'row sqlite_session \<Rightarrow> arrow_schema query \<Rightarrow> nat \<Rightarrow>
     record_batch batch_stream \<times> sql_command list" where
  "sqlite_read_tabular aops ops ss view batch_size =
     (case ss_acquire ss of
        Inl e \<Rightarrow> ([Inl (ConnectionError e)], [])
      | Inr _ \<Rightarrow>
     (case ss_execute ss QUERY_ONLY of
        Inl e \<Rightarrow> ([Inl (SQLError e)], [Execute QUERY_ONLY])
      | Inr _ \<Rightarrow>
          (fst (read_rows (sqlite_rows_to_batch aops ops (q_schema view)) batch_size []
                 (map (map_err SQLError) (ss_fetch ss (q_query view)))),
           [Execute QUERY_ONLY, Fetch (q_query view)])))"

definition sqlite_check_connection :: "'row sqlite_session \<Rightarrow> connector_error + unit" where
  "sqlite_check_connection ss =
     map_err (\<lambda>e. ConnectionError (''SQLite connection check failed: '' @ e)) (ss_execute ss ''SELECT 1'')"

section \<open>Listing tables\<close>

definition sqlite_select :: string where
  "sqlite_select = ''SELECT name, type FROM sqlite_master WHERE type IN ('' @ quoted ''table'' @ '', '' @ quoted ''view''
     @ '') AND name NOT LIKE '' @ quoted ''sqlite_%'' @ '' ''"

definition sqlite_table_rows ::
    "'row sqlite_session \<Rightarrow> string option \<Rightarrow> connector_error + (string \<times> string) list" where
  "sqlite_table_rows ss table_name_filter =
     map_err SQLError
       (case table_name_filter of
          Some pattern \<Rightarrow> ss_query_as ss (sqlite_select @ ''AND name LIKE ?1 ORDER BY name'') [pattern]
        | None \<Rightarrow> ss_query_as ss (sqlite_select @ ''ORDER BY name'') [])"

definition sqlite_table_query :: "string \<Rightarrow> string" where
  "sqlite_table_query table_name = ''SELECT * FROM '' @ quote_identifier table_name @ '' LIMIT 0''"

text \<open>The types are \<open>table\<close> and \<open>view\<close>: of \<open>to_uppercase\<close> the ASCII letters are enough.\<close>

definition ascii_upper :: "char \<Rightarrow> char" where
  "ascii_upper c = (if 97 \<le> (of_char c :: nat) \<and> (of_char c :: nat) \<le> 122 then char_of ((of_char c :: nat) - 32) else c)"

definition sqlite_list_tables ::
    "'row sqlite_session \<Rightarrow> string option \<Rightarrow> bool \<Rightarrow> connector_error + arrow_schema table_info list" where
  "sqlite_list_tables ss table_name_filter include_schema =
     rbind (sqlite_table_rows ss table_name_filter) (\<lambda>trs.
     rmapM (\<lambda>(table_name, table_type).
       rbind (if include_schema
              then rbind (map_err SQLError (ss_prepare ss (sqlite_table_query table_name)))
                     (\<lambda>columns. Inr (sqlite_fields columns))
              else Inr []) (\<lambda>table_schema.
       Inr \<lparr>ti_catalog = [], ti_schema_name = [], ti_table_name = table_name,
            ti_table_type = map ascii_upper table_type, ti_table_schema = table_schema\<rparr>)) trs)"

section \<open>The connector\<close>

text \<open>\<open>connect\<close> is the pool of sqlx for a timeout and a URL.\<close>

definition sqlite_build_pool ::
    "(64 word \<Rightarrow> string \<Rightarrow> string + 'pool) \<Rightarrow> connector_config \<Rightarrow> string hmap \<Rightarrow> connector_error + 'pool" where
  "sqlite_build_pool connect config credentials =
     rbind (required_uri credentials) (\<lambda>url.
     map_err (\<lambda>e. ConnectionError (''unable to connect to SQLite: '' @ e)) (connect (cc_connection_timeout config) url))"

definition sqlite_connector ::
    "(64 word \<Rightarrow> string \<Rightarrow> string + 'pool) \<Rightarrow> connector_config \<Rightarrow> (string \<Rightarrow> 'pool option) \<Rightarrow>
     ('pool \<Rightarrow> ('s, 'b) data_reader) \<Rightarrow> ('s, 'b) flight_connector" where
  "sqlite_connector connect config held wrap =
     \<lparr>fc_provider = ''sqlite'', fc_description = ''SQLite connector'', fc_supported_formats = [Tabular],
      fc_get_reader = (\<lambda>connection resolver.
        rbind (client_for held (sqlite_build_pool connect config) connection resolver) (\<lambda>pool. Inr (wrap pool)))\<rparr>"

interpretation sqlite: client_connector "sqlite_connector connect config held wrap" held
  "\<lambda>_. sqlite_build_pool connect config" "\<lambda>_. wrap" for connect config held wrap
  by unfold_locales (simp add: sqlite_connector_def)

section \<open>Reading\<close>

text \<open>
  Every query comes after the pragma, on the same connection.  The law of \<open>leaves_database\<close> says
  that a query does not write under the pragma; it excludes texts that switch it off.
\<close>

interpretation sqlite_read: guarded_reader "sqlite_read_tabular aops ops" QUERY_ONLY for aops ops
  by unfold_locales (auto simp: sqlite_read_tabular_def split: sum.split)

lemma sqlite_read_delivers:
  assumes "ss_acquire ss = Inr ()" "ss_execute ss QUERY_ONLY = Inr ()" "ss_fetch ss (q_query view) = map Inr rs"
  shows "fst (sqlite_read_tabular aops ops ss view batch_size) =
    until_error (batches_of (sqlite_rows_to_batch aops ops (q_schema view)) batch_size rs)"
  using assms read_rows_all [of "[]" batch_size "sqlite_rows_to_batch aops ops (q_schema view)" rs]
  by (simp add: sqlite_read_tabular_def comp_def)

lemma sqlite_build_array_typed:
  "typed (length rs) (sqlite_build_array ops sqlite_type rs i) (sqlite_type_to_arrow sqlite_type)"
  unfolding sqlite_build_array_def sqlite_type_to_arrow_def
  by (intro typed_if typed_column) simp_all

lemma sqlite_table_query_lexes:
  "\<exists>rest. sqlite_table_query table_name = ''SELECT * FROM '' @ rest
     \<and> lex_identifier rest = Some (table_name, '' LIMIT 0'')"
  by (simp add: sqlite_table_query_def lex_quote_identifier)

end
