(* ===== verification/Neo4j_Connector.thy ===== *)
theory Neo4j_Connector
  imports Row_Reader
begin

text \<open>
  The Neo4j connector, \<open>connectors/neo4j/src\<close>.  The values of the driver are the datatype \<open>bolt\<close>,
  with the temporal ones opaque (\<open>'o\<close>); what the driver and chrono make of them is the record
  \<open>neo_ops\<close>.  Bolt maps are lists of entries.
\<close>

section \<open>Values\<close>

datatype 'o bolt =
    BNull
  | BBoolean bool
  | BInteger "64 word"
  | BFloat "64 word"
  | BString string
  | BList "'o bolt list"
  | BMap "(string \<times> 'o bolt) list"
  | BNode "'o bolt_node"
  | BRelation "64 word" "64 word" "64 word" string "(string \<times> 'o bolt) list"
  | BUnboundedRelation "'o bolt_rel"
  | BPath "'o bolt_node list" "'o bolt_rel list"
  | BPoint2D "64 word" "64 word" "64 word"
  | BPoint3D "64 word" "64 word" "64 word" "64 word"
  | BDuration 'o
  | BDate 'o
  | BTime 'o
  | BLocalTime 'o
  | BDateTime 'o
  | BDateTimeZoneId 'o
  | BLocalDateTime 'o
  | BBytes string
and 'o bolt_node = BoltNode "64 word" "'o bolt list" "(string \<times> 'o bolt) list"
and 'o bolt_rel = BoltRel "64 word" string "(string \<times> 'o bolt) list"

fun bolt_type_to_arrow :: "'o bolt \<Rightarrow> arrow_type" where
  "bolt_type_to_arrow (BBoolean b) = ABoolean"
| "bolt_type_to_arrow (BInteger i) = AInt64"
| "bolt_type_to_arrow (BFloat f) = AFloat64"
| "bolt_type_to_arrow (BString s) = AUtf8"
| "bolt_type_to_arrow (BBytes b) = ABinary"
| "bolt_type_to_arrow (BDate d) = ADate32"
| "bolt_type_to_arrow (BDateTime d) = ATimestamp Millisecond (Some ''UTC'')"
| "bolt_type_to_arrow (BDateTimeZoneId d) = ATimestamp Millisecond (Some ''UTC'')"
| "bolt_type_to_arrow (BLocalDateTime d) = ATimestamp Millisecond None"
| "bolt_type_to_arrow _ = AUtf8"

text \<open>
  \<open>no_date\<close>, \<open>no_datetime\<close> and \<open>no_naive_datetime\<close> are \<open>try_into\<close> to the types of chrono, a date being
  its number of days since 1970-01-01; the \<open>get\<close> functions are \<open>row.get::<T>(key).ok()\<close>.
\<close>

record ('o, 'dt, 'ndt, 'row) neo_ops =
  no_debug :: "'o \<Rightarrow> string"
  no_bytes_debug :: "string \<Rightarrow> string"
  no_display :: "'o bolt \<Rightarrow> string"
  no_json_text :: "json \<Rightarrow> string"
  no_date :: "'o \<Rightarrow> int option"
  no_date_text :: "int \<Rightarrow> string"
  no_datetime :: "'o \<Rightarrow> 'dt option"
  no_default_datetime :: 'dt
  no_rfc3339 :: "'dt \<Rightarrow> string"
  no_timestamp_millis :: "'dt \<Rightarrow> 64 word"
  no_naive_datetime :: "'o \<Rightarrow> 'ndt option"
  no_default_naive_datetime :: 'ndt
  no_naive_datetime_text :: "'ndt \<Rightarrow> string"
  no_and_utc :: "'ndt \<Rightarrow> 'dt"
  no_row_json :: "'row \<Rightarrow> string + json"
  no_get_bolt :: "'row \<Rightarrow> string \<Rightarrow> 'o bolt option"
  no_get_bool :: "'row \<Rightarrow> string \<Rightarrow> bool option option"
  no_get_i64 :: "'row \<Rightarrow> string \<Rightarrow> 64 word option option"
  no_get_f64 :: "'row \<Rightarrow> string \<Rightarrow> 64 word option option"
  no_get_date :: "'row \<Rightarrow> string \<Rightarrow> int option"
  no_get_datetime :: "'row \<Rightarrow> string \<Rightarrow> 'dt option"
  no_get_bytes :: "'row \<Rightarrow> string \<Rightarrow> string option"
  no_get_string :: "'row \<Rightarrow> string \<Rightarrow> string option option"

text \<open>\<open>json!\<close> of an \<open>i64\<close>, and of an \<open>f64\<close>, which is \<open>null\<close> unless it is finite.\<close>

definition json_i64 :: "64 word \<Rightarrow> json" where
  "json_i64 w = json_of_i64 (sint w)"

definition json_f64 :: "64 word \<Rightarrow> json" where
  "json_f64 w = (if unat w div 2 ^ 52 mod 2048 = 2047 then JNull else JNumber (Float w))"

fun bolt_value_to_json :: "('o, 'dt, 'ndt, 'row) neo_ops \<Rightarrow> 'o bolt \<Rightarrow> json"
  and node_to_json :: "('o, 'dt, 'ndt, 'row) neo_ops \<Rightarrow> 'o bolt_node \<Rightarrow> json"
  and rel_to_json :: "('o, 'dt, 'ndt, 'row) neo_ops \<Rightarrow> 'o bolt_rel \<Rightarrow> json"
  and bolt_list_to_json :: "('o, 'dt, 'ndt, 'row) neo_ops \<Rightarrow> 'o bolt list \<Rightarrow> json list"
  and bolt_entries_to_json :: "('o, 'dt, 'ndt, 'row) neo_ops \<Rightarrow> (string \<times> 'o bolt) list \<Rightarrow> (string \<times> json) list"
  and nodes_to_json :: "('o, 'dt, 'ndt, 'row) neo_ops \<Rightarrow> 'o bolt_node list \<Rightarrow> json list"
  and rels_to_json :: "('o, 'dt, 'ndt, 'row) neo_ops \<Rightarrow> 'o bolt_rel list \<Rightarrow> json list" where
  "bolt_value_to_json ops BNull = JNull"
| "bolt_value_to_json ops (BBoolean b) = JBool b"
| "bolt_value_to_json ops (BInteger i) = json_i64 i"
| "bolt_value_to_json ops (BFloat f) = json_f64 f"
| "bolt_value_to_json ops (BString s) = JString s"
| "bolt_value_to_json ops (BList vs) = JArray (bolt_list_to_json ops vs)"
| "bolt_value_to_json ops (BMap m) = JObject (bolt_entries_to_json ops m)"
| "bolt_value_to_json ops (BNode n) = node_to_json ops n"
| "bolt_value_to_json ops (BRelation i start_node end_node typ props) =
     JObject [(''id'', json_i64 i), (''start_node_id'', json_i64 start_node), (''end_node_id'', json_i64 end_node),
       (''typ'', JString typ), (''properties'', JObject (bolt_entries_to_json ops props))]"
| "bolt_value_to_json ops (BUnboundedRelation r) = rel_to_json ops r"
| "bolt_value_to_json ops (BPath ns rs) =
     JObject [(''nodes'', JArray (nodes_to_json ops ns)), (''relationships'', JArray (rels_to_json ops rs))]"
| "bolt_value_to_json ops (BPoint2D srid x y) =
     JObject [(''srid'', json_i64 srid), (''x'', json_f64 x), (''y'', json_f64 y)]"
| "bolt_value_to_json ops (BPoint3D srid x y z) =
     JObject [(''srid'', json_i64 srid), (''x'', json_f64 x), (''y'', json_f64 y), (''z'', json_f64 z)]"
| "bolt_value_to_json ops (BDuration d) = JString (no_debug ops d)"
| "bolt_value_to_json ops (BDate d) = JString (no_date_text ops (with_default (no_date ops d) 0))"
| "bolt_value_to_json ops (BTime t) = JString (no_debug ops t)"
| "bolt_value_to_json ops (BLocalTime t) = JString (no_debug ops t)"
| "bolt_value_to_json ops (BDateTime d) =
     JString (no_rfc3339 ops (with_default (no_datetime ops d) (no_default_datetime ops)))"
| "bolt_value_to_json ops (BDateTimeZoneId d) = JString (no_debug ops d)"
| "bolt_value_to_json ops (BLocalDateTime d) =
     JString (no_naive_datetime_text ops (with_default (no_naive_datetime ops d) (no_default_naive_datetime ops)))"
| "bolt_value_to_json ops (BBytes b) = JString (no_bytes_debug ops b)"
| "node_to_json ops (BoltNode i labels props) =
     JObject [(''id'', json_i64 i), (''labels'', JArray (map (\<lambda>l. JString (no_display ops l)) labels)),
       (''properties'', JObject (bolt_entries_to_json ops props))]"
| "rel_to_json ops (BoltRel i typ props) =
     JObject [(''id'', json_i64 i), (''typ'', JString typ), (''properties'', JObject (bolt_entries_to_json ops props))]"
| "bolt_list_to_json ops [] = []"
| "bolt_list_to_json ops (v # vs) = bolt_value_to_json ops v # bolt_list_to_json ops vs"
| "bolt_entries_to_json ops [] = []"
| "bolt_entries_to_json ops ((k, v) # m) = (k, bolt_value_to_json ops v) # bolt_entries_to_json ops m"
| "nodes_to_json ops [] = []"
| "nodes_to_json ops (n # ns) = node_to_json ops n # nodes_to_json ops ns"
| "rels_to_json ops [] = []"
| "rels_to_json ops (r # rs) = rel_to_json ops r # rels_to_json ops rs"

section \<open>Columns\<close>

definition extract_as_string :: "('o, 'dt, 'ndt, 'row) neo_ops \<Rightarrow> 'row \<Rightarrow> string \<Rightarrow> string option" where
  "extract_as_string ops row key =
     (case no_get_string ops row key of
        Some (Some s) \<Rightarrow> Some s
      | _ \<Rightarrow>
          (case no_get_bolt ops row key of
             None \<Rightarrow> None
           | Some BNull \<Rightarrow> None
           | Some other \<Rightarrow> Some (no_json_text ops (bolt_value_to_json ops other))))"

definition timestamp_entry :: "('o, 'dt, 'ndt, 'row) neo_ops \<Rightarrow> 'row \<Rightarrow> string \<Rightarrow> 64 word option" where
  "timestamp_entry ops row key =
     Option.bind (no_get_bolt ops row key) (\<lambda>bt. case bt of
         BDateTime d \<Rightarrow> map_option (no_timestamp_millis ops) (no_datetime ops d)
       | BDateTimeZoneId _ \<Rightarrow> map_option (no_timestamp_millis ops) (no_get_datetime ops row key)
       | BLocalDateTime d \<Rightarrow>
           map_option (\<lambda>n. no_timestamp_millis ops (no_and_utc ops n)) (no_naive_datetime ops d)
       | _ \<Rightarrow> None)"

definition flatten_option :: "'a option option \<Rightarrow> 'a option" where
  "flatten_option x = Option.bind x id"

fun build_column_array :: "('o, 'dt, 'ndt, 'row) neo_ops \<Rightarrow> string \<Rightarrow> arrow_type \<Rightarrow> 'row list \<Rightarrow> arrow_array" where
  "build_column_array ops key ABoolean rs = BooleanArray (map (\<lambda>r. flatten_option (no_get_bool ops r key)) rs)"
| "build_column_array ops key AInt64 rs = Int64Array (map (\<lambda>r. flatten_option (no_get_i64 ops r key)) rs)"
| "build_column_array ops key AFloat64 rs = Float64Array (map (\<lambda>r. flatten_option (no_get_f64 ops r key)) rs)"
| "build_column_array ops key ADate32 rs =
     Date32Array (map (\<lambda>r. map_option word_of_int (no_get_date ops r key)) rs)"
| "build_column_array ops key (ATimestamp Millisecond tz) rs =
     TimestampArray Millisecond tz (map (\<lambda>r. timestamp_entry ops r key) rs)"
| "build_column_array ops key ABinary rs = BinaryArray (map (\<lambda>r. no_get_bytes ops r key) rs)"
| "build_column_array ops key _ rs = StringArray (map (\<lambda>r. extract_as_string ops r key) rs)"

definition neo4j_rows_to_record_batch ::
    "'a arrow_ops \<Rightarrow> ('o, 'dt, 'ndt, 'row) neo_ops \<Rightarrow> arrow_schema \<Rightarrow> 'row list \<Rightarrow> connector_error + record_batch" where
  "neo4j_rows_to_record_batch aops ops schema rs =
     try_new aops schema (map (\<lambda>f. build_column_array ops (af_name f) (af_type f) rs) schema)"

section \<open>The reader\<close>

text \<open>
  The words that are looked for are ASCII, and no other letter becomes one of theirs in lower
  case, so lowering the ASCII letters is enough.
\<close>

definition map_neo4j_error :: "string \<Rightarrow> connector_error" where
  "map_neo4j_error e =
     (let msg = to_ascii_lowercase e in
      if list_ex (\<lambda>w. sublist w msg) [''permission'', ''not allowed'', ''read only'', ''write operations are not allowed'']
      then InvalidRequest ''Data source is read-only'' else SQLError e)"

text \<open>What executing a query gives: an error, or the polls of its result.\<close>

type_synonym 'row graph = "string \<Rightarrow> string + (string + 'row) list"

definition neo4j_fields :: "('o, 'dt, 'ndt, 'row) neo_ops \<Rightarrow> 'row \<Rightarrow> json hmap \<Rightarrow> arrow_schema" where
  "neo4j_fields ops row obj =
     map (\<lambda>(key, _). \<lparr>af_name = key, af_type = (case no_get_bolt ops row key of Some bt \<Rightarrow> bolt_type_to_arrow bt | None \<Rightarrow> AUtf8)\<rparr>)
       obj"

text \<open>The statements that are executed are returned with the result.\<close>

definition neo4j_schema ::
    "('o, 'dt, 'ndt, 'row) neo_ops \<Rightarrow> 'row graph \<Rightarrow> string \<Rightarrow>
     (connector_error + arrow_schema query) \<times> sql_command list" where
  "neo4j_schema ops g q =
     (rbind (map_err map_neo4j_error (g q)) (\<lambda>polls.
        case polls of
          [] \<Rightarrow> Inr \<lparr>q_query = q, q_schema = []\<rparr>
        | Inl e # _ \<Rightarrow> Inl (map_neo4j_error e)
        | Inr row # _ \<Rightarrow>
            rbind (map_err (\<lambda>e. SQLError (''Failed to deserialize row: '' @ e)) (no_row_json ops row)) (\<lambda>json_row.
            rbind (ok_or (SQLError ''Expected row to be a JSON object'') (as_object json_row)) (\<lambda>obj.
            Inr \<lparr>q_query = q, q_schema = neo4j_fields ops row obj\<rparr>))),
      [Fetch q])"

definition neo4j_read_tabular ::
    "'a arrow_ops \<Rightarrow> ('o, 'dt, 'ndt, 'row) neo_ops \<Rightarrow> 'row graph \<Rightarrow> arrow_schema query \<Rightarrow> nat \<Rightarrow>
     record_batch batch_stream \<times> sql_command list" where
  "neo4j_read_tabular aops ops g view batch_size =
     (case g (q_query view) of
        Inl e \<Rightarrow> [Inl (map_neo4j_error e)]
      | Inr polls \<Rightarrow>
          fst (read_rows (neo4j_rows_to_record_batch aops ops (q_schema view)) batch_size []
            (map (map_err map_neo4j_error) polls)),
      [Fetch (q_query view)])"

definition neo4j_check_connection :: "'row graph \<Rightarrow> connector_error + unit" where
  "neo4j_check_connection g =
     rbind (map_err map_neo4j_error (g ''RETURN 1'')) (\<lambda>polls.
     case polls of Inl e # _ \<Rightarrow> Inl (map_neo4j_error e) | _ \<Rightarrow> Inr ())"

section \<open>The connector\<close>

record neo_config =
  nc_uri :: string
  nc_user :: string
  nc_password :: string
  nc_db :: string

text \<open>
  The temporary file and what is written to it, the builder of the driver (with the file of the
  certificate, if there is one), and connecting, which may exceed the timeout.
\<close>

record ('file, 'cfg, 'g) neo_api =
  na_tempfile :: "string + 'file"
  na_write :: "'file \<Rightarrow> string \<Rightarrow> string + unit"
  na_build :: "neo_config \<Rightarrow> 'file option \<Rightarrow> string + 'cfg"
  na_connect :: "64 word \<Rightarrow> 'cfg \<Rightarrow> (string + 'g) option"

definition neo_ca_file :: "('file, 'cfg, 'g) neo_api \<Rightarrow> string hmap \<Rightarrow> connector_error + 'file option" where
  "neo_ca_file api credentials =
     (case hget credentials ''CA_CERT'' of
        None \<Rightarrow> Inr None
      | Some pem \<Rightarrow>
          rbind (map_err (\<lambda>e. IOError (''Failed to create temporary Neo4j CA certificate: '' @ e)) (na_tempfile api)) (\<lambda>f.
          rbind (map_err (\<lambda>e. IOError (''Failed to write temporary Neo4j CA certificate: '' @ e)) (na_write api f pem)) (\<lambda>_.
          Inr (Some f))))"

definition build_graph ::
    "('file, 'cfg, 'g) neo_api \<Rightarrow> connector_config \<Rightarrow> string hmap \<Rightarrow> connector_error + 'g" where
  "build_graph api config credentials =
     rbind (required_uri credentials) (\<lambda>uri.
     rbind (ok_or (ConnectionError (quoted ''PASSWORD'' @ '' credential is required'')) (hget credentials ''PASSWORD'')) (\<lambda>password.
     rbind (neo_ca_file api credentials) (\<lambda>ca_cert.
     rbind (map_err (\<lambda>e. ConnectionError (''Invalid Neo4j config: '' @ e))
              (na_build api \<lparr>nc_uri = uri, nc_user = with_default (hget credentials ''USERNAME'') ''neo4j'',
                 nc_password = password, nc_db = with_default (hget credentials ''DATABASE'') ''neo4j''\<rparr> ca_cert)) (\<lambda>cfg.
     rbind (ok_or (ConnectionError ''Connection timeout'') (na_connect api (cc_connection_timeout config) cfg)) (\<lambda>r.
     map_err (\<lambda>e. ConnectionError (''Failed to connect to Neo4j: '' @ e)) r)))))"

definition neo4j_connector ::
    "('file, 'cfg, 'g) neo_api \<Rightarrow> connector_config \<Rightarrow> (string \<Rightarrow> 'g option) \<Rightarrow> ('g \<Rightarrow> ('s, 'b) data_reader) \<Rightarrow>
     ('s, 'b) flight_connector" where
  "neo4j_connector api config held wrap =
     \<lparr>fc_provider = ''neo4j'', fc_description = ''Neo4j graph database connector'', fc_supported_formats = [Tabular],
      fc_get_reader = (\<lambda>connection resolver.
        rbind (client_for held (build_graph api config) connection resolver) (\<lambda>g. Inr (wrap g)))\<rparr>"

interpretation neo4j: client_connector "neo4j_connector api config held wrap" held "\<lambda>_. build_graph api config" "\<lambda>_. wrap"
  for api config held wrap
  by unfold_locales (simp add: neo4j_connector_def)

section \<open>Batches\<close>

text \<open>The types that a row of the graph can declare.\<close>

definition neo_type :: "arrow_type \<Rightarrow> bool" where
  "neo_type ty \<longleftrightarrow> ty \<in> {ABoolean, AInt64, AFloat64, ADate32, ABinary, AUtf8,
     ATimestamp Millisecond None, ATimestamp Millisecond (Some ''UTC'')}"

lemma bolt_type_neo_type: "neo_type (bolt_type_to_arrow b)"
  by (cases b) (simp_all add: neo_type_def)

lemma neo_utf8: "neo_type AUtf8"
  by (simp add: neo_type_def)

lemma build_column_array_typed:
  "neo_type ty \<Longrightarrow> array_type (build_column_array ops key ty rs) = ty
     \<and> array_len (build_column_array ops key ty rs) = length rs"
  by (auto simp: neo_type_def)

lemma neo4j_schema_types:
  "neo4j_schema ops g q = (Inr view, cmds) \<Longrightarrow> list_all (\<lambda>f. neo_type (af_type f)) (q_schema view)"
proof -
  assume schema: "neo4j_schema ops g q = (Inr view, cmds)"
  have fields: "list_all (\<lambda>f. neo_type (af_type f)) (neo4j_fields ops row obj)" for row obj
    by (auto simp: neo4j_fields_def list_all_iff bolt_type_neo_type neo_utf8 split: option.split)
  obtain polls where "g q = Inr polls"
    using schema by (auto simp: neo4j_schema_def result_simps)
  then show ?thesis
    using schema fields
    by (cases polls) (auto simp: neo4j_schema_def result_simps split: sum.splits)
qed

text \<open>No row makes a batch fail: a value that is not of the type of its column is a null.\<close>

lemma neo4j_batches_total:
  assumes "neo4j_schema ops g q = (Inr view, cmds)" "q_schema view \<noteq> []" "batch_law aops"
  shows "\<exists>batch. neo4j_rows_to_record_batch aops ops (q_schema view) rs = Inr batch
    \<and> rb_schema batch = q_schema view \<and> columns_fit (q_schema view) (rb_columns batch) (length rs)"
proof -
  let ?arrays = "map (\<lambda>f. build_column_array ops (af_name f) (af_type f) rs) (q_schema view)"
  have "columns_fit (q_schema view) ?arrays (length rs)"
    using neo4j_schema_types [OF assms(1)]
    by (auto simp: columns_fit_def list_all_iff build_column_array_typed)
  moreover from this have "ao_try_new aops (q_schema view) ?arrays = None"
    using assms(2,3) unfolding batch_law_def by blast
  ultimately show ?thesis
    by (simp add: neo4j_rows_to_record_batch_def try_new_def)
qed

section \<open>Queries are executed as they are\<close>

text \<open>
  Unlike the SQL connectors, no statement makes the connection read-only first, and the schema of
  a query is found by executing it: a query that writes does so when its schema is asked for, and
  again when it is read.
\<close>

lemma neo4j_query_unguarded:
  "snd (neo4j_schema ops g q) = [Fetch q]"
  "snd (neo4j_read_tabular aops ops g view n) = [Fetch (q_query view)]"
  "\<not> guarded guard False [Fetch q]"
  by (simp_all add: neo4j_schema_def neo4j_read_tabular_def)

text \<open>A value that does not have the type of the first row's is dropped without an error.\<close>

lemma neo4j_mixed_column_is_null:
  assumes "no_get_i64 ops row key = None"
  shows "build_column_array ops key AInt64 [row] = Int64Array [None]"
  using assms by (simp add: flatten_option_def)

end
