(* ===== verification/Connector_Registry.thy ===== *)
theory Connector_Registry
  imports S3_Connector Uri_Connector Milvus_Connector Elasticsearch_Connector Postgres_Connector Sqlite_Connector
    Neo4j_Connector
begin

text \<open>
  The registry of the flight service, \<open>build_connectors_registry\<close> of \<open>services/flight/src/main.rs\<close>,
  built with all the connectors compiled in.  A connector comes with its client library, what its
  cache of clients holds, and the trait object made of its reader.
\<close>

definition postgres_config :: "connectors_config \<Rightarrow> connector_config" where
  "postgres_config cs = merge_config (cs_default cs) (cs_postgres cs)"

definition sqlite_config :: "connectors_config \<Rightarrow> connector_config" where
  "sqlite_config cs = merge_config (cs_default cs) (cs_sqlite cs)"

definition elasticsearch_config :: "connectors_config \<Rightarrow> connector_config" where
  "elasticsearch_config cs = merge_config (cs_default cs) (cs_elasticsearch cs)"

definition neo4j_config :: "connectors_config \<Rightarrow> connector_config" where
  "neo4j_config cs = merge_config (cs_default cs) (cs_neo4j cs)"

definition milvus_config :: "connectors_config \<Rightarrow> connector_config" where
  "milvus_config cs = merge_config (cs_default cs) (cs_milvus cs)"

definition s3_config :: "connectors_config \<Rightarrow> connector_config" where
  "s3_config cs = merge_config (cs_default cs) (cs_s3 cs)"

definition uri_config :: "connectors_config \<Rightarrow> connector_config" where
  "uri_config cs = merge_config (cs_default cs) (cs_uri cs)"

text \<open>The connectors as the service makes them of their configurations.\<close>

record ('s, 'b) connector_makers =
  mk_postgres :: "connector_config \<Rightarrow> ('s, 'b) flight_connector"
  mk_sqlite :: "connector_config \<Rightarrow> ('s, 'b) flight_connector"
  mk_s3 :: "connector_config \<Rightarrow> ('s, 'b) flight_connector"
  mk_milvus :: "connector_config \<Rightarrow> ('s, 'b) flight_connector"
  mk_elasticsearch :: "connector_config \<Rightarrow> ('s, 'b) flight_connector"
  mk_neo4j :: "connector_config \<Rightarrow> ('s, 'b) flight_connector"
  mk_uri :: "connector_config \<Rightarrow> ('s, 'b) flight_connector"

definition register_enabled ::
    "(connector_config \<Rightarrow> ('s, 'b) flight_connector) \<Rightarrow> connector_config \<Rightarrow> ('s, 'b) connectors_registry \<Rightarrow>
     ('s, 'b) connectors_registry" where
  "register_enabled mk config reg = (if cc_enabled config then with_connector (mk config) reg else reg)"

definition build_connectors_registry ::
    "('s, 'b) connector_makers \<Rightarrow> connectors_config \<Rightarrow> ('s, 'b) connectors_registry" where
  "build_connectors_registry mk cs =
     register_enabled (mk_uri mk) (uri_config cs)
     (register_enabled (mk_neo4j mk) (neo4j_config cs)
     (register_enabled (mk_elasticsearch mk) (elasticsearch_config cs)
     (register_enabled (mk_milvus mk) (milvus_config cs)
     (register_enabled (mk_s3 mk) (s3_config cs)
     (register_enabled (mk_sqlite mk) (sqlite_config cs)
     (register_enabled (mk_postgres mk) (postgres_config cs) []))))))"

text \<open>The connectors of this repository.\<close>

definition own_makers ::
    "('pgp, 'opt) pg_api \<times> (string \<Rightarrow> 'pgp option) \<times> ('pgp \<Rightarrow> ('s, 'b) data_reader) \<Rightarrow>
     (64 word \<Rightarrow> string \<Rightarrow> string + 'slp) \<times> (string \<Rightarrow> 'slp option) \<times> ('slp \<Rightarrow> ('s, 'b) data_reader) \<Rightarrow>
     ('op, 'tr) s3_api \<times> (string \<Rightarrow> 'op option) \<times> ('op s3_reader \<Rightarrow> ('s, 'b) data_reader) \<Rightarrow>
     ('h, 'cert) http_api \<Rightarrow>
     (string \<Rightarrow> 'h milvus_client option) \<times> ('h milvus_client \<Rightarrow> ('s, 'b) data_reader) \<Rightarrow>
     (string \<Rightarrow> 'h es_client option) \<times> ('h es_reader \<Rightarrow> ('s, 'b) data_reader) \<Rightarrow>
     ('file, 'cfg, 'g) neo_api \<times> (string \<Rightarrow> 'g option) \<times> ('g \<Rightarrow> ('s, 'b) data_reader) \<Rightarrow>
     'u url_ops \<times> (string \<Rightarrow> ('u, 'h) uri_client option) \<times> (('u, 'h) uri_client \<Rightarrow> ('s, 'b) data_reader) \<Rightarrow>
     ('s, 'b) connector_makers" where
  "own_makers pgx slx s3x http mvx esx nex urx =
     \<lparr>mk_postgres = (\<lambda>config. pg_connector (fst pgx) config (fst (snd pgx)) (snd (snd pgx))),
      mk_sqlite = (\<lambda>config. sqlite_connector (fst slx) config (fst (snd slx)) (snd (snd slx))),
      mk_s3 = (\<lambda>config. s3_connector (fst s3x) config (fst (snd s3x)) (snd (snd s3x))),
      mk_milvus = (\<lambda>config. milvus_connector http config (fst mvx) (snd mvx)),
      mk_elasticsearch = (\<lambda>config. es_connector http config (fst esx) (snd esx)),
      mk_neo4j = (\<lambda>config. neo4j_connector (fst nex) config (fst (snd nex)) (snd (snd nex))),
      mk_uri = (\<lambda>config. uri_connector (fst urx) http config (fst (snd urx)) (snd (snd urx)))\<rparr>"

section \<open>The registry\<close>

definition provider_configs :: "connectors_config \<Rightarrow> (string \<times> connector_config) list" where
  "provider_configs cs =
     [(''postgres'', postgres_config cs), (''sqlite'', sqlite_config cs), (''s3'', s3_config cs),
      (''milvus'', milvus_config cs), (''elasticsearch'', elasticsearch_config cs), (''neo4j'', neo4j_config cs),
      (''uri'', uri_config cs)]"

text \<open>The keys are the providers of the connectors, and every connector resolves for its own connection.\<close>

definition sound_registry :: "('s, 'b) connectors_registry \<Rightarrow> bool" where
  "sound_registry reg \<longleftrightarrow> distinct (map fst reg) \<and> list_all (\<lambda>(p, conn). fc_provider conn = p \<and> resolves_own conn) reg"

lemma register_enabled_sound:
  assumes "sound_registry reg" "resolves_own (mk config)"
  shows "sound_registry (register_enabled mk config reg)"
proof -
  have "set (hinsert k v m) \<subseteq> insert (k, v) (set m)" for k v and m :: "('a, 'b) connectors_registry"
    by (induction m) auto
  then show ?thesis
    using assms
    by (fastforce simp: sound_registry_def register_enabled_def with_connector_def list_all_iff distinct_update)
qed

lemma register_enabled_get:
  "hget (register_enabled mk config reg) p =
     (if cc_enabled config \<and> p = fc_provider (mk config) then Some (mk config) else hget reg p)"
  by (simp add: register_enabled_def with_connector_def)

lemma own_resolve:
  "resolves_own (pg_connector pga config pgh pgw)" "resolves_own (sqlite_connector sla config slh slw)"
  "resolves_own (s3_connector s3a config s3h s3w)" "resolves_own (milvus_connector http config mvh mvw)"
  "resolves_own (es_connector http config esh esw)" "resolves_own (neo4j_connector nea config neh new)"
  "resolves_own (uri_connector uo http config urh urw)"
  by (rule pg.own_credentials sqlite.own_credentials s3.own_credentials milvus.own_credentials es.own_credentials
      neo4j.own_credentials uri.own_credentials)+

lemma own_providers:
  "fc_provider (pg_connector pga config pgh pgw) = ''postgres''" "fc_provider (sqlite_connector sla config slh slw) = ''sqlite''"
  "fc_provider (s3_connector s3a config s3h s3w) = ''s3''" "fc_provider (milvus_connector http config mvh mvw) = ''milvus''"
  "fc_provider (es_connector http config esh esw) = ''elasticsearch''" "fc_provider (neo4j_connector nea config neh new) = ''neo4j''"
  "fc_provider (uri_connector uo http config urh urw) = ''uri''"
  by (simp_all add: pg_connector_def sqlite_connector_def s3_connector_def milvus_connector_def es_connector_def
      neo4j_connector_def uri_connector_def)


end
