(* ===== verification/Controller_Client.thy ===== *)
theory Controller_Client
  imports Rest_Api
begin

text \<open>
  The REST client of the controller, \<open>dc-controller/internal/controller/restclient.go\<close>.  A request
  has its body as a JSON value, and the server is a function on a state.  A nil slice and an empty
  one are the same list: every slice without \<open>omitempty\<close> is made with \<open>make\<close>.
\<close>

section \<open>Errors and payloads\<close>

datatype go_error = ErrConflict | ErrServiceUnavailable | ErrNotFound | OtherGoError string

fun go_error_text :: "go_error \<Rightarrow> string" where
  "go_error_text ErrConflict = ''resource already exists''"
| "go_error_text ErrServiceUnavailable = ''rest service unavailable''"
| "go_error_text ErrNotFound = ''resource not found''"
| "go_error_text (OtherGoError s) = s"

record go_enum_value =
  gev_value :: string
  gev_label :: string

record go_field =
  gf_name :: string
  gf_label :: string
  gf_description :: "string option"
  gf_required :: bool
  gf_type :: string
  gf_enum_values :: "go_enum_value list"
  gf_default_value :: "string option"
  gf_sensitive :: bool
  gf_multiple :: bool

record go_connection_type =
  gct_name :: string
  gct_label :: "string option"
  gct_provider :: string
  gct_description :: "string option"
  gct_credentials_fields :: "go_field list"
  gct_tags :: "string list"

record go_connection =
  gc_name :: string
  gc_data_connection_type_id :: string
  gc_format :: string
  gc_credentials_ref :: "string option"
  gc_properties :: "string hmap"

record go_flight_registration =
  gfr_name :: string
  gfr_namespace :: string
  gfr_external_url :: string
  gfr_internal_url :: string
  gfr_ready :: bool

text \<open>\<open>json.Marshal\<close>: the members in the order of the struct, those with \<open>omitempty\<close> only if they hold something.\<close>

definition marshal_enum_value :: "go_enum_value \<Rightarrow> json" where
  "marshal_enum_value ev = JObject [(''value'', JString (gev_value ev)), (''label'', JString (gev_label ev))]"

definition marshal_field :: "go_field \<Rightarrow> json" where
  "marshal_field f = JObject
     ([(''name'', JString (gf_name f)), (''label'', JString (gf_label f))]
      @ skip_none ''description'' JString (gf_description f)
      @ [(''required'', JBool (gf_required f)), (''type'', JString (gf_type f))]
      @ skip_empty ''enum_values'' (enc_list marshal_enum_value) (gf_enum_values f)
      @ skip_none ''default_value'' JString (gf_default_value f)
      @ [(''sensitive'', JBool (gf_sensitive f)), (''multiple'', JBool (gf_multiple f))])"

definition marshal_connection_type :: "go_connection_type \<Rightarrow> json" where
  "marshal_connection_type t = JObject
     ([(''name'', JString (gct_name t))]
      @ skip_none ''label'' JString (gct_label t)
      @ [(''provider'', JString (gct_provider t))]
      @ skip_none ''description'' JString (gct_description t)
      @ [(''credentials_fields'', enc_list marshal_field (gct_credentials_fields t))]
      @ skip_empty ''tags'' (enc_list JString) (gct_tags t))"

definition marshal_connection :: "go_connection \<Rightarrow> json" where
  "marshal_connection c = JObject
     [(''name'', JString (gc_name c)),
      (''data_connection_type_id'', JString (gc_data_connection_type_id c)),
      (''format'', JString (gc_format c)),
      (''credentials_ref'',
        (case gc_credentials_ref c of None \<Rightarrow> JNull | Some secret \<Rightarrow> JObject [(''secret'', JString secret)])),
      (''properties'', enc_map JString (gc_properties c))]"

definition marshal_flight_registration :: "go_flight_registration \<Rightarrow> json" where
  "marshal_flight_registration fs = JObject
     [(''name'', JString (gfr_name fs)), (''namespace'', JString (gfr_namespace fs)),
      (''external_url'', JString (gfr_external_url fs)), (''internal_url'', JString (gfr_internal_url fs)),
      (''status'', JObject [(''ready'', JBool (gfr_ready fs))])]"

section \<open>The client\<close>

record go_request =
  gr_method :: string
  gr_url :: string
  gr_headers :: headers
  gr_body :: "json option"

record go_response =
  gp_status :: nat
  gp_body :: string

record go_resource_metadata =
  grm_id :: string
  grm_tenant_id :: string
  grm_created_at :: string
  grm_updated_at :: string

record go_connection_type_resource =
  gtr_metadata :: go_resource_metadata
  gtr_resource :: go_connection_type

text \<open>What \<open>os.ReadFile\<close> says of the token file.\<close>

datatype token_file = NoTokenFile | TokenFileError string | TokenFile string

text \<open>
  The resolver of the URL, the token file, what \<open>http.NewRequest\<close> objects to a URL, the items that
  \<open>json.Unmarshal\<close> finds in a listing, and the server, which may not answer.
\<close>

record 's go_client =
  gcl_resolve_url :: "string option"
  gcl_token_file :: token_file
  gcl_new_request :: "string \<Rightarrow> string option"
  gcl_unmarshal_types :: "string \<Rightarrow> string + go_connection_type_resource list"
  gcl_server :: "go_request \<Rightarrow> 's \<Rightarrow> go_response option \<times> 's"

definition MAX_RESPONSE_BODY_BYTES :: nat where
  "MAX_RESPONSE_BODY_BYTES = 2 ^ 20"

text \<open>\<open>io.ReadAll(io.LimitReader(...))\<close>.\<close>

definition read_limited :: "string \<Rightarrow> string" where
  "read_limited body = take MAX_RESPONSE_BODY_BYTES body"

lemma read_limited_code [code]:
  "read_limited [] = []"
  "read_limited (x # xs) = take MAX_RESPONSE_BODY_BYTES (x # xs)"
  by (simp_all add: read_limited_def)

definition rest_data_url :: "string \<Rightarrow> string \<Rightarrow> string" where
  "rest_data_url base_url resource =
     rev (dropWhile (\<lambda>c. c = CHR ''/'') (rev base_url)) @ ''/api/v1alpha1/data/'' @ resource"

definition read_token :: "'s go_client \<Rightarrow> string + string" where
  "read_token c =
     (case gcl_token_file c of
        NoTokenFile \<Rightarrow> Inr []
      | TokenFileError e \<Rightarrow> Inl e
      | TokenFile contents \<Rightarrow> Inr (trim contents))"

definition set_headers :: "'s go_client \<Rightarrow> string \<Rightarrow> headers" where
  "set_headers c tenant_id =
     [(''content-type'', ''application/json''), (X_TENANT_ID, tenant_id)]
     @ (case read_token c of
          Inr token \<Rightarrow> if token \<noteq> [] then [(''authorization'', ''Bearer '' @ token)] else []
        | Inl _ \<Rightarrow> [])"

text \<open>What the calls have in common, up to the answer.\<close>

definition go_do ::
    "'s go_client \<Rightarrow> string \<Rightarrow> string \<Rightarrow> string \<Rightarrow> json option \<Rightarrow> 's \<Rightarrow> (go_error + go_response) \<times> 's" where
  "go_do c meth resource tenant_id body s =
     (case gcl_resolve_url c of
        None \<Rightarrow> (Inl ErrServiceUnavailable, s)
      | Some url \<Rightarrow>
          (case gcl_new_request c (rest_data_url url resource) of
             Some e \<Rightarrow> (Inl (OtherGoError (''creating request: '' @ e)), s)
           | None \<Rightarrow>
               (case gcl_server c \<lparr>gr_method = meth, gr_url = rest_data_url url resource,
                       gr_headers = set_headers c tenant_id, gr_body = body\<rparr> s of
                  (None, s') \<Rightarrow> (Inl ErrServiceUnavailable, s')
                | (Some resp, s') \<Rightarrow> (Inr resp, s'))))"

definition unexpected_status :: "go_response \<Rightarrow> go_error" where
  "unexpected_status resp =
     OtherGoError (''unexpected status '' @ show_nat (gp_status resp) @ '': '' @ read_limited (gp_body resp))"

definition created_answer :: "go_response \<Rightarrow> go_error + unit" where
  "created_answer resp =
     (if gp_status resp = 201 then Inr ()
      else if gp_status resp = 409 then Inl ErrConflict
      else if 500 \<le> gp_status resp then Inl ErrServiceUnavailable
      else Inl (unexpected_status resp))"

definition CreateConnectionType ::
    "'s go_client \<Rightarrow> string \<Rightarrow> go_connection_type \<Rightarrow> 's \<Rightarrow> (go_error + unit) \<times> 's" where
  "CreateConnectionType c tenant_id ct s =
     (let (r, s') = go_do c ''POST'' ''connection-types'' tenant_id (Some (marshal_connection_type ct)) s in
      (rbind r created_answer, s'))"

definition CreateConnection ::
    "'s go_client \<Rightarrow> string \<Rightarrow> go_connection \<Rightarrow> 's \<Rightarrow> (go_error + unit) \<times> 's" where
  "CreateConnection c tenant_id conn s =
     (let (r, s') = go_do c ''POST'' ''connections'' tenant_id (Some (marshal_connection conn)) s in
      (rbind r created_answer, s'))"

definition registered_answer :: "go_response \<Rightarrow> go_error + unit" where
  "registered_answer resp =
     (if gp_status resp = 201 then Inr ()
      else if gp_status resp = 409 then Inl ErrConflict
      else if 500 \<le> gp_status resp then Inl ErrServiceUnavailable
      else if gp_status resp = 400 \<and> sublist ''connectors_already_exists'' (read_limited (gp_body resp))
      then Inl ErrConflict
      else Inl (unexpected_status resp))"

definition RegisterFlightService ::
    "'s go_client \<Rightarrow> string \<Rightarrow> go_flight_registration \<Rightarrow> 's \<Rightarrow> (go_error + unit) \<times> 's" where
  "RegisterFlightService c tenant_id fs s =
     (let (r, s') = go_do c ''POST'' ''flights'' tenant_id (Some (marshal_flight_registration fs)) s in
      (rbind r registered_answer, s'))"

definition listed_answer :: "'s go_client \<Rightarrow> go_response \<Rightarrow> go_error + go_connection_type_resource list" where
  "listed_answer c resp =
     (if 500 \<le> gp_status resp then Inl ErrServiceUnavailable
      else if gp_status resp \<noteq> 200 then Inl (unexpected_status resp)
      else map_err (\<lambda>e. OtherGoError (''decoding connection types: '' @ e))
        (gcl_unmarshal_types c (read_limited (gp_body resp))))"

definition ListConnectionTypes :: "'s go_client \<Rightarrow> string \<Rightarrow> 's \<Rightarrow> (go_error + go_connection_type_resource list) \<times> 's" where
  "ListConnectionTypes c tenant_id s =
     (let (r, s') = go_do c ''GET'' ''connection-types'' tenant_id None s in
      (rbind r (listed_answer c), s'))"

text \<open>The namespaces of the \<open>DataConnectService\<close> resources, if they can be listed.\<close>

definition rest_service_url :: "string list option \<Rightarrow> string option" where
  "rest_service_url namespaces =
     (case namespaces of
        Some (ns # _) \<Rightarrow> Some (''https://dch-rest-service.'' @ ns @ ''.svc.cluster.local:8443'')
      | _ \<Rightarrow> None)"

section \<open>The REST service reads what the controller writes\<close>

text \<open>The resources of the REST service that the payloads stand for.\<close>

definition rust_enum_value :: "go_enum_value \<Rightarrow> enum_value" where
  "rust_enum_value ev = \<lparr>ev_value = gev_value ev, ev_label = gev_label ev\<rparr>"

definition rust_field :: "go_field \<Rightarrow> field" where
  "rust_field f =
     \<lparr>f_name = gf_name f, f_label = gf_label f, f_description = gf_description f, f_required = gf_required f,
      f_d_type = gf_type f,
      f_enum_values = (if gf_enum_values f = [] then None else Some (map rust_enum_value (gf_enum_values f))),
      f_default_value = gf_default_value f, f_sensitive = gf_sensitive f, f_multiple = gf_multiple f\<rparr>"

definition rust_connection_type :: "go_connection_type \<Rightarrow> data_connection_type" where
  "rust_connection_type t =
     \<lparr>dct_name = gct_name t, dct_label = gct_label t, dct_provider = gct_provider t,
      dct_description = gct_description t, dct_credentials_fields = map rust_field (gct_credentials_fields t),
      dct_tags = (if gct_tags t = [] then None else Some (gct_tags t))\<rparr>"

lemma marshal_enum_value_rust: "marshal_enum_value ev = enum_value_to_value (rust_enum_value ev)"
  by (simp add: marshal_enum_value_def enum_value_to_value_def rust_enum_value_def)

lemma skip_empty_none: "skip_empty k (enc_list e) xs = skip_none k (enc_list e) (if xs = [] then None else Some xs)"
  by (simp add: skip_empty_def skip_none_def)

lemma enc_list_map: "enc_list e (map f xs) = enc_list (\<lambda>x. e (f x)) xs"
  by (simp add: enc_list_def comp_def)

lemma marshal_field_rust: "marshal_field f = field_to_value (rust_field f)"
  by (simp add: marshal_field_def field_to_value_def rust_field_def skip_empty_none skip_none_def enc_list_map
      marshal_enum_value_rust [abs_def])

lemma marshal_connection_type_rust: "marshal_connection_type t = data_connection_type_to_value (rust_connection_type t)"
  by (simp add: marshal_connection_type_def data_connection_type_to_value_def rust_connection_type_def skip_empty_none
      enc_list_map marshal_field_rust [abs_def])

definition rust_connection :: "go_connection \<Rightarrow> data_format \<Rightarrow> string \<Rightarrow> data_connection" where
  "rust_connection c fm secret =
     \<lparr>dc_name = gc_name c, dc_data_connection_type_id = gc_data_connection_type_id c, dc_format = fm,
      dc_credentials_ref = \<lparr>cr_secret = secret\<rparr>, dc_properties = gc_properties c\<rparr>"

definition rust_flight_service :: "go_flight_registration \<Rightarrow> flight_service" where
  "rust_flight_service fs =
     \<lparr>fs_name = gfr_name fs, fs_namespace = gfr_namespace fs, fs_external_url = gfr_external_url fs,
      fs_internal_url = gfr_internal_url fs, fs_supported_connectors = [], fs_connector_capabilities = [],
      fs_status = \<lparr>fss_ready = gfr_ready fs\<rparr>\<rparr>"

lemma marshal_connection_rust:
  assumes "data_format_from_string (gc_format c) = Inr fm" "gc_credentials_ref c = Some secret"
  shows "marshal_connection c = data_connection_to_value (rust_connection c fm secret)"
  using assms
  by (auto simp: marshal_connection_def data_connection_to_value_def rust_connection_def credentials_ref_to_value_def
      data_format_from_string_def data_format_to_value_def split: if_splits)

lemma marshal_flight_registration_rust:
  "marshal_flight_registration fs = flight_service_to_value (rust_flight_service fs)"
  by (simp add: marshal_flight_registration_def flight_service_to_value_def rust_flight_service_def
      flight_service_status_to_value_def skip_empty_def)

text \<open>
  C39. What the controller writes, the REST service reads: a connection type, a connection with a secret and
  a known format, and a flight service arrive at its endpoints with exactly the values they were sent with,
  and the connection is not taken for one with inline credentials.
\<close>

theorem controller_payloads_accepted:
  "data_connection_type_from_value (marshal_connection_type t) = Some (rust_connection_type t)
   \<and> (data_format_from_string (gc_format c) = Inr fm \<longrightarrow> gc_credentials_ref c = Some secret \<longrightarrow>
      create_connection_request_from_value (marshal_connection c)
        = Some (DataConnectionWithSecretRef (rust_connection c fm secret)))
   \<and> flight_service_from_value (marshal_flight_registration fs) = Some (rust_flight_service fs)"
  by (simp add: marshal_connection_type_rust marshal_connection_rust marshal_flight_registration_rust
      create_connection_request_from_value_def data_connection_type_codec.dec_enc data_connection_codec.dec_enc
      flight_service_codec.dec_enc)

theorem controller_payloads_accepted_witness:
  "create_connection_request_from_value
     (marshal_connection \<lparr>gc_name = ''sales'', gc_data_connection_type_id = ''7'', gc_format = ''tabular'',
        gc_credentials_ref = Some ''creds'', gc_properties = []\<rparr>)
   = Some (DataConnectionWithSecretRef
       \<lparr>dc_name = ''sales'', dc_data_connection_type_id = ''7'', dc_format = Tabular,
        dc_credentials_ref = \<lparr>cr_secret = ''creds''\<rparr>, dc_properties = []\<rparr>)"
  using controller_payloads_accepted [of undefined
      "\<lparr>gc_name = ''sales'', gc_data_connection_type_id = ''7'', gc_format = ''tabular'',
        gc_credentials_ref = Some ''creds'', gc_properties = []\<rparr>" Tabular "''creds''" undefined]
  by (simp add: data_format_from_string_def rust_connection_def)

end
