(* ===== verification/Controller_Migration.thy ===== *)
theory Controller_Migration
  imports Controller_Client Rest_Properties
begin

text \<open>
  The controllers that feed the REST service from the cluster: the watchers of connection-type
  ConfigMaps and connection Secrets (\<open>configmap_watcher_controller.go\<close>,
  \<open>secret_watcher_controller.go\<close>, \<open>migration_watcher.go\<close>) and the controllers of
  \<open>InitDataConnectionType\<close> and \<open>InitDataConnection\<close> resources.  The API of the cluster is the
  record \<open>kube_client\<close>, on the state that the REST calls also work on; reads leave the state as it is.
  Logging is left out.
\<close>

section \<open>The API of the cluster\<close>

datatype kube_reason = KNotFound | KConflict | KAlreadyExists | KForbidden | KNoMatch | KOther

record kube_error =
  ke_reason :: kube_reason
  ke_text :: string

text \<open>A Secret or a ConfigMap; what a map does not hold reads as the empty string.\<close>

record k8s_object =
  ob_name :: string
  ob_namespace :: string
  ob_labels :: "string hmap"
  ob_annotations :: "string hmap"
  ob_data :: "string hmap"

definition map_value :: "string hmap \<Rightarrow> string \<Rightarrow> string" where
  "map_value m k = (case hget m k of None \<Rightarrow> [] | Some v \<Rightarrow> v)"

record service_ref =
  sr_name :: string
  sr_namespace :: string
  sr_deleting :: bool

record k8s_condition =
  kd_type :: string
  kd_status :: bool
  kd_observed_generation :: int
  kd_reason :: string
  kd_message :: string

record spec_enum_value =
  se_value :: string
  se_label :: string

record credentials_field =
  cf_name :: string
  cf_label :: string
  cf_description :: "string option"
  cf_required :: bool
  cf_type :: string
  cf_enum_values :: "spec_enum_value list"
  cf_default_value :: "string option"
  cf_sensitive :: bool
  cf_multiple :: bool

record init_type_spec =
  is_name :: string
  is_label :: "string option"
  is_provider :: string
  is_description :: "string option"
  is_credentials_fields :: "credentials_field list"
  is_tags :: "string list"

record init_connection_type =
  it_name :: string
  it_namespace :: string
  it_generation :: int
  it_spec :: init_type_spec
  it_phase :: string
  it_conditions :: "k8s_condition list"

text \<open>
  An object is read by namespace and name, and patched from its old to its new form.
  \<open>meta.SetStatusCondition\<close>, which works on the list in place, is the last member.
\<close>

record 's kube_client =
  kc_get_secret :: "'s \<Rightarrow> string \<Rightarrow> string \<Rightarrow> kube_error + k8s_object"
  kc_patch_secret :: "'s \<Rightarrow> k8s_object \<Rightarrow> k8s_object \<Rightarrow> (kube_error + unit) \<times> 's"
  kc_get_configmap :: "'s \<Rightarrow> string \<Rightarrow> string \<Rightarrow> kube_error + k8s_object"
  kc_patch_configmap :: "'s \<Rightarrow> k8s_object \<Rightarrow> k8s_object \<Rightarrow> (kube_error + unit) \<times> 's"
  kc_get_init_type :: "'s \<Rightarrow> string \<Rightarrow> string \<Rightarrow> kube_error + init_connection_type"
  kc_update_init_type_status :: "'s \<Rightarrow> init_connection_type \<Rightarrow> (kube_error + unit) \<times> 's"
  kc_list_services :: "'s \<Rightarrow> kube_error + service_ref list"
  kc_set_condition :: "k8s_condition list \<Rightarrow> k8s_condition \<Rightarrow> k8s_condition list"

text \<open>\<open>ctrl.Result\<close>, with the delay in seconds; an error is its text.\<close>

record ctrl_result =
  requeue :: bool
  requeue_after :: nat

type_synonym 's reconciled = "(string + ctrl_result) \<times> 's"

definition settled :: ctrl_result where
  "settled = \<lparr>requeue = False, requeue_after = 0\<rparr>"

definition retry_after :: "nat \<Rightarrow> ctrl_result" where
  "retry_after n = \<lparr>requeue = False, requeue_after = n\<rparr>"

definition REQUEUE_ON_MIGRATION_SERVICE_UNAVAILABLE :: nat where
  "REQUEUE_ON_MIGRATION_SERVICE_UNAVAILABLE = 30"

definition REQUEUE_ON_SERVICE_UNAVAILABLE :: nat where
  "REQUEUE_ON_SERVICE_UNAVAILABLE = 15"

definition ANNOTATION_DISPLAY_NAME :: string where
  "ANNOTATION_DISPLAY_NAME = ''openshift.io/display-name''"

definition ANNOTATION_DESCRIPTION :: string where
  "ANNOTATION_DESCRIPTION = ''openshift.io/description''"

definition ANNOTATION_DCH_SYNCED :: string where
  "ANNOTATION_DCH_SYNCED = ''dataconnecthub.opendatahub.io/synced''"

definition ANNOTATION_CONNECTION_TYPE_REF :: string where
  "ANNOTATION_CONNECTION_TYPE_REF = ''opendatahub.io/connection-type-ref''"

definition builtin_provider_aliases :: "string hmap" where
  "builtin_provider_aliases = [(''uri-v1'', ''uri'')]"

definition get_failed :: "kube_error \<Rightarrow> string + ctrl_result" where
  "get_failed e = (if ke_reason e = KNotFound then Inr settled else Inl (ke_text e))"

definition data_connect_service_deleting :: "('s, 'z) kube_client_scheme \<Rightarrow> 's \<Rightarrow> kube_error + bool" where
  "data_connect_service_deleting kc s =
     (case kc_list_services kc s of
        Inl e \<Rightarrow> if ke_reason e = KNotFound then Inr False else Inl e
      | Inr refs \<Rightarrow> Inr (list_ex sr_deleting refs))"

definition is_synced :: "k8s_object \<Rightarrow> bool" where
  "is_synced ob \<longleftrightarrow> map_value (ob_annotations ob) ANNOTATION_DCH_SYNCED = ''true''"

definition with_synced :: "k8s_object \<Rightarrow> k8s_object" where
  "with_synced ob = ob\<lparr>ob_annotations := hinsert ANNOTATION_DCH_SYNCED ''true'' (ob_annotations ob)\<rparr>"

definition patched :: "(kube_error + unit) \<times> 's \<Rightarrow> 's reconciled" where
  "patched out = (case out of (Inl e, s) \<Rightarrow> (Inl (ke_text e), s) | (Inr _, s) \<Rightarrow> (Inr settled, s))"

section \<open>The Secret watcher\<close>

datatype resolve_error = RestFailed go_error | TypeNotFound string

definition find_type_id :: "(go_connection_type \<Rightarrow> bool) \<Rightarrow> go_connection_type_resource list \<Rightarrow> string option" where
  "find_type_id p types = map_option (\<lambda>t. grm_id (gtr_metadata t)) (find (\<lambda>t. p (gtr_resource t)) types)"

definition resolve_type_ref :: "go_connection_type_resource list \<Rightarrow> string \<Rightarrow> resolve_error + string" where
  "resolve_type_ref types type_ref =
     (case find_type_id (\<lambda>t. gct_name t = type_ref) types of
        Some i \<Rightarrow> Inr i
      | None \<Rightarrow>
          (case hget builtin_provider_aliases type_ref of
             None \<Rightarrow> Inl (TypeNotFound type_ref)
           | Some alias \<Rightarrow> ok_or (TypeNotFound type_ref) (find_type_id (\<lambda>t. gct_provider t = alias) types)))"

definition resolveConnectionTypeID ::
    "'s go_client \<Rightarrow> string \<Rightarrow> string \<Rightarrow> 's \<Rightarrow> (resolve_error + string) \<times> 's" where
  "resolveConnectionTypeID c ns type_ref s =
     (let (r, s') = ListConnectionTypes c ns s in
      (rbind (map_err RestFailed r) (\<lambda>types. resolve_type_ref types type_ref), s'))"

text \<open>What a failed resolution leads to: try again later, or give up.\<close>

fun resolve_failed :: "resolve_error \<Rightarrow> ctrl_result" where
  "resolve_failed (RestFailed ErrServiceUnavailable) = retry_after REQUEUE_ON_MIGRATION_SERVICE_UNAVAILABLE"
| "resolve_failed (RestFailed ErrNotFound) = retry_after REQUEUE_ON_MIGRATION_SERVICE_UNAVAILABLE"
| "resolve_failed (TypeNotFound _) = retry_after REQUEUE_ON_MIGRATION_SERVICE_UNAVAILABLE"
| "resolve_failed _ = settled"

definition migrated_connection :: "k8s_object \<Rightarrow> string \<Rightarrow> go_connection" where
  "migrated_connection secret type_id =
     (let display_name = map_value (ob_annotations secret) ANNOTATION_DISPLAY_NAME in
      \<lparr>gc_name = (if display_name = [] then ob_name secret else display_name),
       gc_data_connection_type_id = type_id, gc_format = ''tabular'',
       gc_credentials_ref = Some (ob_name secret), gc_properties = []\<rparr>)"

definition secret_mark_synced :: "('s, 'z) kube_client_scheme \<Rightarrow> k8s_object \<Rightarrow> 's \<Rightarrow> 's reconciled" where
  "secret_mark_synced kc secret s = patched (kc_patch_secret kc s secret (with_synced secret))"

definition secret_migrate ::
    "('s, 'z) kube_client_scheme \<Rightarrow> 's go_client \<Rightarrow> k8s_object \<Rightarrow> string \<Rightarrow> 's \<Rightarrow> 's reconciled" where
  "secret_migrate kc c secret type_id s =
     (case CreateConnection c (ob_namespace secret) (migrated_connection secret type_id) s of
        (Inr _, s') \<Rightarrow> secret_mark_synced kc secret s'
      | (Inl ErrConflict, s') \<Rightarrow> secret_mark_synced kc secret s'
      | (Inl ErrServiceUnavailable, s') \<Rightarrow> (Inr (retry_after REQUEUE_ON_MIGRATION_SERVICE_UNAVAILABLE), s')
      | (Inl _, s') \<Rightarrow> (Inr settled, s'))"

definition secret_reconcile ::
    "('s, 'z) kube_client_scheme \<Rightarrow> 's go_client \<Rightarrow> string \<Rightarrow> string \<Rightarrow> 's \<Rightarrow> 's reconciled" where
  "secret_reconcile kc c ns name s =
     (case kc_get_secret kc s ns name of
        Inl e \<Rightarrow> (get_failed e, s)
      | Inr secret \<Rightarrow>
          (case data_connect_service_deleting kc s of
             Inl e \<Rightarrow> (Inl (ke_text e), s)
           | Inr deleting \<Rightarrow>
               let type_ref = map_value (ob_annotations secret) ANNOTATION_CONNECTION_TYPE_REF in
               if deleting \<or> is_synced secret \<or> type_ref = [] then (Inr settled, s)
               else
                 (case resolveConnectionTypeID c (ob_namespace secret) type_ref s of
                    (Inl e, s') \<Rightarrow> (Inr (resolve_failed e), s')
                  | (Inr type_id, s') \<Rightarrow> secret_migrate kc c secret type_id s')))"

section \<open>The ConfigMap watcher\<close>

record odh_dropdown_item =
  oi_label :: string
  oi_value :: string

record odh_field =
  of_type :: string
  of_name :: string
  of_description :: string
  of_env_var :: string
  of_required :: bool
  of_helper_text :: string
  of_variant :: string
  of_items :: "odh_dropdown_item list"

definition dropdown_values :: "odh_dropdown_item list \<Rightarrow> go_enum_value list" where
  "dropdown_values its =
     map (\<lambda>item. \<lparr>gev_value = oi_value item, gev_label = (if oi_label item = [] then oi_value item else oi_label item)\<rparr>)
       (filter (\<lambda>item. oi_value item \<noteq> []) its)"

definition odhFieldToField :: "odh_field \<Rightarrow> go_field" where
  "odhFieldToField f =
     (let desc = (if of_description f = [] then of_helper_text f else of_description f);
          enum_values = (if of_type f = ''dropdown'' then dropdown_values (of_items f) else [])
      in \<lparr>gf_name = of_env_var f, gf_label = of_name f,
          gf_description = (if desc = [] then None else Some desc), gf_required = of_required f,
          gf_type = (if enum_values = [] then ''string'' else ''enum''), gf_enum_values = enum_values,
          gf_default_value = None, gf_sensitive = (of_type f = ''hidden'' \<or> of_type f = ''file''),
          gf_multiple = (enum_values \<noteq> [] \<and> of_variant f = ''multi'')\<rparr>)"

definition carries_value :: "odh_field \<Rightarrow> bool" where
  "carries_value f \<longleftrightarrow> of_type f \<noteq> ''section'' \<and> of_env_var f \<noteq> []"

text \<open>The parser of the field list is a parameter.\<close>

definition configMapToConnectionType ::
    "(string \<Rightarrow> string + odh_field list) \<Rightarrow> k8s_object \<Rightarrow> string \<Rightarrow> string + go_connection_type" where
  "configMapToConnectionType unmarshal cm fields_json =
     rbind (unmarshal fields_json) (\<lambda>odh_fields.
     Inr \<lparr>gct_name = ob_name cm, gct_label = None, gct_provider = ob_name cm,
          gct_description = hget (ob_annotations cm) ANNOTATION_DESCRIPTION,
          gct_credentials_fields = map odhFieldToField (filter carries_value odh_fields), gct_tags = []\<rparr>)"

definition configmap_mark_synced :: "('s, 'z) kube_client_scheme \<Rightarrow> k8s_object \<Rightarrow> 's \<Rightarrow> 's reconciled" where
  "configmap_mark_synced kc cm s = patched (kc_patch_configmap kc s cm (with_synced cm))"

definition configmap_promote ::
    "('s, 'z) kube_client_scheme \<Rightarrow> 's go_client \<Rightarrow> k8s_object \<Rightarrow> go_connection_type \<Rightarrow> 's \<Rightarrow> 's reconciled" where
  "configmap_promote kc c cm ct s =
     (case CreateConnectionType c (ob_namespace cm) ct s of
        (Inr _, s') \<Rightarrow> configmap_mark_synced kc cm s'
      | (Inl ErrConflict, s') \<Rightarrow> if is_synced cm then (Inr settled, s') else configmap_mark_synced kc cm s'
      | (Inl ErrServiceUnavailable, s') \<Rightarrow> (Inr (retry_after REQUEUE_ON_MIGRATION_SERVICE_UNAVAILABLE), s')
      | (Inl _, s') \<Rightarrow> (Inr settled, s'))"

definition configmap_reconcile ::
    "('s, 'z) kube_client_scheme \<Rightarrow> 's go_client \<Rightarrow> (string \<Rightarrow> string + odh_field list) \<Rightarrow> string \<Rightarrow> string \<Rightarrow> 's \<Rightarrow> 's reconciled" where
  "configmap_reconcile kc c unmarshal ns name s =
     (case kc_get_configmap kc s ns name of
        Inl e \<Rightarrow> (get_failed e, s)
      | Inr cm \<Rightarrow>
          (case data_connect_service_deleting kc s of
             Inl e \<Rightarrow> (Inl (ke_text e), s)
           | Inr deleting \<Rightarrow>
               if deleting then (Inr settled, s)
               else if contains_key builtin_provider_aliases (ob_name cm) then
                 (if is_synced cm then (Inr settled, s) else configmap_mark_synced kc cm s)
               else
                 (case hget (ob_data cm) ''fields'' of
                    None \<Rightarrow> (Inr settled, s)
                  | Some fields_json \<Rightarrow>
                      (case configMapToConnectionType unmarshal cm fields_json of
                         Inl _ \<Rightarrow> (Inr settled, s)
                       | Inr ct \<Rightarrow> configmap_promote kc c cm ct s))))"

section \<open>Initial connection types and connections\<close>

definition init_type_set_status ::
    "('s, 'z) kube_client_scheme \<Rightarrow> init_connection_type \<Rightarrow> string \<Rightarrow> bool \<Rightarrow> string \<Rightarrow> string \<Rightarrow> 's \<Rightarrow> 's" where
  "init_type_set_status kc cr phase status reason message s =
     snd (kc_update_init_type_status kc s (cr\<lparr>it_phase := phase, it_conditions := kc_set_condition kc (it_conditions cr)
       \<lparr>kd_type = ''Synced'', kd_status = status, kd_observed_generation = it_generation cr, kd_reason = reason,
        kd_message = message\<rparr>\<rparr>))"

definition specToConnectionType :: "init_type_spec \<Rightarrow> go_connection_type" where
  "specToConnectionType spec =
     \<lparr>gct_name = is_name spec, gct_label = is_label spec, gct_provider = is_provider spec,
      gct_description = is_description spec,
      gct_credentials_fields = map (\<lambda>cf.
        \<lparr>gf_name = cf_name cf, gf_label = cf_label cf, gf_description = cf_description cf,
         gf_required = cf_required cf, gf_type = cf_type cf,
         gf_enum_values = map (\<lambda>ev. \<lparr>gev_value = se_value ev, gev_label = se_label ev\<rparr>) (cf_enum_values cf),
         gf_default_value = cf_default_value cf, gf_sensitive = cf_sensitive cf, gf_multiple = cf_multiple cf\<rparr>)
        (is_credentials_fields spec),
      gct_tags = is_tags spec\<rparr>"

definition init_type_reconcile ::
    "('s, 'z) kube_client_scheme \<Rightarrow> 's go_client \<Rightarrow> string \<Rightarrow> string \<Rightarrow> 's \<Rightarrow> 's reconciled" where
  "init_type_reconcile kc c ns name s =
     (case kc_get_init_type kc s ns name of
        Inl e \<Rightarrow> (get_failed e, s)
      | Inr cr \<Rightarrow>
          if it_phase cr = ''Completed'' \<or> it_phase cr = ''AlreadyExists'' then (Inr settled, s)
          else
            (case CreateConnectionType c (it_namespace cr) (specToConnectionType (it_spec cr)) s of
               (Inr _, s') \<Rightarrow>
                 (Inr settled, init_type_set_status kc cr ''Completed'' True ''Created''
                    ''Connection type registered in the REST service'' s')
             | (Inl ErrConflict, s') \<Rightarrow>
                 (Inr settled, init_type_set_status kc cr ''AlreadyExists'' True ''AlreadyExists''
                    ''Connection type already exists in the REST service'' s')
             | (Inl ErrServiceUnavailable, s') \<Rightarrow>
                 (Inr (retry_after REQUEUE_ON_SERVICE_UNAVAILABLE),
                  init_type_set_status kc cr ''Pending'' False ''ServiceUnavailable'' ''REST service is not reachable'' s')
             | (Inl e, s') \<Rightarrow>
                 (Inr settled, init_type_set_status kc cr ''Error'' False ''SyncFailed'' (go_error_text e) s')))"

text \<open>The controller of \<open>InitDataConnection\<close> only logs.\<close>

definition init_connection_reconcile ::
    "('s \<Rightarrow> string \<Rightarrow> string \<Rightarrow> kube_error + 'cr) \<Rightarrow> string \<Rightarrow> string \<Rightarrow> 's \<Rightarrow> 's reconciled" where
  "init_connection_reconcile get_cr ns name s =
     (case get_cr s ns name of Inl e \<Rightarrow> (get_failed e, s) | Inr _ \<Rightarrow> (Inr settled, s))"

section \<open>From a Secret to a connection\<close>

text \<open>
  The calls of the client reach the REST service: a request is lost or refused on its way without
  effect, or served by the routes with the tenant, method, path and body it was sent with; the answer may be
  lost.  The proxy in front of the service may add headers and refuses with neither 200, 201 nor 409.
\<close>

definition reaches_rest :: "'c api_service go_client \<Rightarrow> bool" where
  "reaches_rest c \<longleftrightarrow>
     (\<forall>base meth resource hs body svc r svc'.
        gcl_resolve_url c = Some base \<longrightarrow>
        gcl_server c \<lparr>gr_method = meth, gr_url = rest_data_url base resource, gr_headers = hs, gr_body = body\<rparr> svc
          = (r, svc') \<longrightarrow>
        svc' = svc \<and> (\<forall>a. r = Some a \<longrightarrow> gp_status a \<notin> {200, 201, 409})
        \<or> (\<exists>w call resp.
             hc_method call = meth \<and> hc_segments call = [''api'', ''v1alpha1'', ''data'', resource]
             \<and> hget (hc_headers call) X_TENANT_ID = hget hs X_TENANT_ID
             \<and> (\<forall>v. body = Some v \<longrightarrow> hc_json call = Inr v)
             \<and> api_routes w call svc = Some (resp, svc') \<and> (\<forall>a. r = Some a \<longrightarrow> gp_status a = http_status resp)))"

text \<open>The Secrets of the cluster are not kept in the metadata store.\<close>

definition database_apart :: "('c api_service, 'z) kube_client_scheme \<Rightarrow> bool" where
  "database_apart kc \<longleftrightarrow>
     (\<forall>svc st. kc_get_secret kc (svc\<lparr>as_meta_store := st\<rparr>) = kc_get_secret kc svc)
     \<and> (\<forall>svc old new. as_meta_store (snd (kc_patch_secret kc svc old new)) = as_meta_store svc)"

definition synced_at :: "('s, 'z) kube_client_scheme \<Rightarrow> 's \<Rightarrow> string \<Rightarrow> string \<Rightarrow> bool" where
  "synced_at kc s ns name = (case kc_get_secret kc s ns name of Inl _ \<Rightarrow> False | Inr secret \<Rightarrow> is_synced secret)"

lemma hget_tenant [simp]: "hget (set_headers c t) X_TENANT_ID = Some t"
  by (simp add: set_headers_def X_TENANT_ID_def)

lemma validated_tenant:
  "hget hs X_TENANT_ID = Some t \<Longrightarrow> validate_headers hs = Inr ctx \<Longrightarrow> ctx_tenant_id ctx = t"
  by (auto simp: validate_headers_def header_to_str_def split: if_splits)

lemma refused_headers: "validate_headers hs = Inl resp \<Longrightarrow> http_status resp = 400"
  by (auto simp: validate_headers_def bad_request_def json_response_def split: option.splits if_splits)

lemma list_types_route:
  assumes "api_routes w call svc = Some (resp, svc')" "hc_method call = ''GET''"
    and "hc_segments call = [''api'', ''v1alpha1'', ''data'', ''connection-types'']"
  shows "svc' = svc"
  using assms
  by (auto simp: api_routes_def data_routes_def type_routes_def list_connection_types_def respond_def returns_def
      store_read_def slift_def sbind_def answer_def split: sum.splits option.splits prod.splits)

lemma store_error_status:
  "http_status (error_response (from_meta_store_error e)) = unat (snd (meta_store_error_code e))"
  by (cases e) (simp_all add: error_response_def json_response_def response_status_code_def from_meta_store_error_def
      rest_error_def)

lemma create_connection_route:
  assumes "api_routes w call svc = Some (resp, svc')" "hc_method call = ''POST''"
    and "hc_segments call = [''api'', ''v1alpha1'', ''data'', ''connections'']"
    and "hget (hc_headers call) X_TENANT_ID = Some t" "hc_json call = Inr (data_connection_to_value dc)"
  obtains (refused) "svc' = svc" "http_status resp = 400"
    | (served) r st where "create_data_connection (rw_env w 0) (as_meta_store svc) t dc = (r, st)"
        "svc' = svc\<lparr>as_meta_store := st\<rparr>"
        "http_status resp = (case r of Inr _ \<Rightarrow> 201 | Inl e \<Rightarrow> unat (snd (meta_store_error_code e)))"
proof (cases "validate_headers (hc_headers call)")
  case (Inl refusal)
  then have "svc' = svc" "resp = refusal"
    using assms(1,3) by (simp_all add: api_routes_def)
  then show ?thesis using refused refused_headers [OF Inl] by simp
next
  case (Inr ctx)
  obtain r st where made: "create_data_connection (rw_env w 0) (as_meta_store svc) t dc = (r, st)"
    by fastforce
  have "ctx_tenant_id ctx = t"
    using validated_tenant [OF assms(4) Inr] .
  then have "(resp, svc') = respond (create_connection w ctx (DataConnectionWithSecretRef dc) svc)"
    using assms(1-3,5) Inr
    by (simp add: api_routes_def data_routes_def connection_routes_def with_body_def returns_def
        create_connection_request_from_value_def data_connection_codec.dec_enc)
  with made \<open>ctx_tenant_id ctx = t\<close> show ?thesis
    by (intro served [of r st])
      (auto simp: create_connection_def sbind_def store_call_def smap_err_def on_store_def respond_def answer_def
        slift_def map_err_def store_error_status json_response_def split: sum.splits)
qed

text \<open>What a call of \<open>CreateConnection\<close> or \<open>ListConnectionTypes\<close> does to the service.\<close>

lemma go_do_eq:
  assumes "go_do c meth resource t body svc = (r, svc')" "reaches_rest c"
  shows "svc' = svc \<and> (\<forall>a. r = Inr a \<longrightarrow> gp_status a \<notin> {200, 201, 409}) \<and> r \<noteq> Inl ErrConflict
    \<or> (\<exists>w call resp. hc_method call = meth \<and> hc_segments call = [''api'', ''v1alpha1'', ''data'', resource]
        \<and> hget (hc_headers call) X_TENANT_ID = Some t \<and> (\<forall>v. body = Some v \<longrightarrow> hc_json call = Inr v)
        \<and> api_routes w call svc = Some (resp, svc')
        \<and> (\<forall>a. r = Inr a \<longrightarrow> gp_status a = http_status resp) \<and> r \<noteq> Inl ErrConflict)"
proof (cases "gcl_resolve_url c")
  case None
  then show ?thesis using assms(1) by (auto simp: go_do_def)
next
  case (Some base)
  let ?req = "\<lparr>gr_method = meth, gr_url = rest_data_url base resource, gr_headers = set_headers c t, gr_body = body\<rparr>"
  obtain a s2 where sent: "gcl_server c ?req svc = (a, s2)" by fastforce
  show ?thesis
  proof (cases "gcl_new_request c (rest_data_url base resource)")
    case None
    then have "svc' = s2" "r = (case a of None \<Rightarrow> Inl ErrServiceUnavailable | Some resp \<Rightarrow> Inr resp)"
      using assms(1) Some sent by (auto simp: go_do_def split: option.splits)
    then show ?thesis
      using assms(2) [unfolded reaches_rest_def, rule_format, OF Some sent]
      by (auto split: option.splits)
  qed (use assms(1) Some in \<open>auto simp: go_do_def\<close>)
qed

lemma ListConnectionTypes_keeps: "ListConnectionTypes c t svc = (r, svc') \<Longrightarrow> reaches_rest c \<Longrightarrow> svc' = svc"
  by (auto simp: ListConnectionTypes_def split: prod.splits dest!: go_do_eq intro: list_types_route)

lemma created_answer_cases:
  "created_answer a = Inr () \<longleftrightarrow> gp_status a = 201"
  "created_answer a = Inl ErrConflict \<longleftrightarrow> gp_status a = 409"
  by (simp_all add: created_answer_def unexpected_status_def)

lemma status_409: "unat (snd (meta_store_error_code e)) = 409 \<longleftrightarrow> (\<exists>m. e = Conflict m)"
  "unat (snd (meta_store_error_code e)) \<noteq> 201"
  by (cases e; simp)+

lemma conflict_leaves_store:
  assumes "create_data_connection en st t dc = (Inl (Conflict m), st')"
  shows "st' = st"
  using assms unfolding create_data_connection_def
  by (auto elim!: transaction_cases)

text \<open>What became of a connection that the client asked for.\<close>

definition stored_or_refused ::
    "pg_meta_store \<Rightarrow> pg_meta_store \<Rightarrow> string \<Rightarrow> data_connection \<Rightarrow> (go_error + unit) \<Rightarrow> bool" where
  "stored_or_refused st st' t dc ans \<longleftrightarrow>
     (\<exists>en. (ans = Inr () \<and> create_data_connection en st t dc = (Inr (new_data_connection_resource en t dc), st'))
       \<or> (\<exists>m. ans = Inl ErrConflict \<and> create_data_connection en st t dc = (Inl (Conflict m), st') \<and> st' = st))"

lemma create_data_connection_result:
  "create_data_connection en st t dc = (Inr x, st') \<Longrightarrow> x = new_data_connection_resource en t dc"
  unfolding create_data_connection_def transaction_eq_Inr by (auto simp: result_simps Let_def)

lemma CreateConnection_stores:
  assumes call: "CreateConnection c t conn svc = (r, svc')" and rest: "reaches_rest c"
    and conn: "gc_format conn = ''tabular''" "gc_credentials_ref conn = Some secret"
  obtains st where "svc' = svc\<lparr>as_meta_store := st\<rparr>"
    "r = Inr () \<or> r = Inl ErrConflict \<longrightarrow>
       stored_or_refused (as_meta_store svc) st t (rust_connection conn Tabular secret) r"
proof -
  let ?dc = "rust_connection conn Tabular secret"
  have body: "marshal_connection conn = data_connection_to_value ?dc"
    using conn by (intro marshal_connection_rust) (simp_all add: data_format_from_string_def)
  obtain q where sent: "go_do c ''POST'' ''connections'' t (Some (marshal_connection conn)) svc = (q, svc')"
      and r: "r = rbind q created_answer"
    using call by (auto simp: CreateConnection_def split: prod.splits)
  from go_do_eq [OF sent rest] show ?thesis
  proof (elim disjE exE conjE)
    assume "svc' = svc" "\<forall>a. q = Inr a \<longrightarrow> gp_status a \<notin> {200, 201, 409}" "q \<noteq> Inl ErrConflict"
    then have "svc' = svc\<lparr>as_meta_store := as_meta_store svc\<rparr>" "r \<noteq> Inr () \<and> r \<noteq> Inl ErrConflict"
      by (cases q; simp add: r created_answer_cases)+
    then show ?thesis by (intro that [of "as_meta_store svc"]) simp_all
  next
    fix w call resp
    assume "hc_method call = ''POST''" "hc_segments call = [''api'', ''v1alpha1'', ''data'', ''connections'']"
      and "hget (hc_headers call) X_TENANT_ID = Some t" "api_routes w call svc = Some (resp, svc')"
      and "\<forall>v. Some (marshal_connection conn) = Some v \<longrightarrow> hc_json call = Inr v"
      and status: "\<forall>a. q = Inr a \<longrightarrow> gp_status a = http_status resp" "q \<noteq> Inl ErrConflict"
    then have routed: "api_routes w call svc = Some (resp, svc')" "hc_method call = ''POST''"
      "hc_segments call = [''api'', ''v1alpha1'', ''data'', ''connections'']"
      "hget (hc_headers call) X_TENANT_ID = Some t" "hc_json call = Inr (data_connection_to_value ?dc)"
      by (simp_all add: body)
    have answers: "r = Inr () \<Longrightarrow> http_status resp = 201" "r = Inl ErrConflict \<Longrightarrow> http_status resp = 409"
      using status by (cases q; simp add: r created_answer_cases)+
    from routed show ?thesis
    proof (cases rule: create_connection_route)
      case refused
      then show ?thesis using answers by (intro that [of "as_meta_store svc"]) auto
    next
      case (served x st)
      show ?thesis
        using served answers conflict_leaves_store [of "rw_env w 0" "as_meta_store svc" t ?dc _ st]
          create_data_connection_result [of "rw_env w 0" "as_meta_store svc" t ?dc _ st]
        by (intro that [of st]) (auto simp: stored_or_refused_def status_409 split: sum.splits)
    qed
  qed
qed

lemma patched_store: "patched out = (r, s) \<Longrightarrow> s = snd out"
  by (auto simp: patched_def split: prod.splits sum.splits)

lemma synced_at_store: "database_apart kc \<Longrightarrow> synced_at kc (svc\<lparr>as_meta_store := st\<rparr>) ns name = synced_at kc svc ns name"
  by (simp add: database_apart_def synced_at_def)

lemma secret_migrate_synced:
  assumes "secret_migrate kc c secret type_id svc = (r, svc')" "reaches_rest c" "database_apart kc"
    and "\<not> synced_at kc svc ns name" "synced_at kc svc' ns name"
  shows "\<exists>ans. stored_or_refused (as_meta_store svc) (as_meta_store svc') (ob_namespace secret)
    (rust_connection (migrated_connection secret type_id) Tabular (ob_name secret)) ans"
proof -
  obtain ans s1 where made: "CreateConnection c (ob_namespace secret) (migrated_connection secret type_id) svc = (ans, s1)"
    by fastforce
  have conn: "gc_format (migrated_connection secret type_id) = ''tabular''"
    "gc_credentials_ref (migrated_connection secret type_id) = Some (ob_name secret)"
    by (simp_all add: migrated_connection_def Let_def)
  from made assms(2) conn obtain st where st: "s1 = svc\<lparr>as_meta_store := st\<rparr>"
    "ans = Inr () \<or> ans = Inl ErrConflict \<longrightarrow> stored_or_refused (as_meta_store svc) st (ob_namespace secret)
       (rust_connection (migrated_connection secret type_id) Tabular (ob_name secret)) ans"
    by (rule CreateConnection_stores)
  have "\<not> synced_at kc s1 ns name"
    using assms(3,4) st(1) by (simp add: synced_at_store)
  then have "(ans = Inr () \<or> ans = Inl ErrConflict) \<and> secret_mark_synced kc secret s1 = (r, svc')"
    using assms(1,5) made by (auto simp: secret_migrate_def split: sum.splits go_error.splits)
  moreover then have "as_meta_store svc' = as_meta_store s1"
    using assms(3) by (auto simp: secret_mark_synced_def database_apart_def dest: patched_store)
  ultimately show ?thesis using st by auto
qed

text \<open>
  C38. A Secret is marked as synced only when it has been dealt with: if a pass of the watcher leaves a Secret with
  the mark that it did not have, then the metadata store was asked to create a connection for the tenant of the
  Secret's namespace that takes its credentials from this very Secret.  Either that connection is the one
  change to the store, or the store refused it as a conflict and is as it was.
\<close>

theorem synced_secret_was_migrated:
  assumes "reaches_rest c" "database_apart kc"
    and "kc_get_secret kc svc ns name = Inr secret" "\<not> is_synced secret"
    and "secret_reconcile kc c ns name svc = (r, svc')" "synced_at kc svc' ns name"
  shows "\<exists>type_id ans. stored_or_refused (as_meta_store svc) (as_meta_store svc') (ob_namespace secret)
    (rust_connection (migrated_connection secret type_id) Tabular (ob_name secret)) ans"
proof -
  let ?ref = "map_value (ob_annotations secret) ANNOTATION_CONNECTION_TYPE_REF"
  have before: "\<not> synced_at kc svc ns name"
    using assms(3,4) by (simp add: synced_at_def)
  obtain q s1 where resolved: "resolveConnectionTypeID c (ob_namespace secret) ?ref svc = (q, s1)"
    by fastforce
  then have "s1 = svc"
    using assms(1) by (auto simp: resolveConnectionTypeID_def split: prod.splits dest: ListConnectionTypes_keeps)
  with resolved before assms(3-6) obtain type_id where "secret_migrate kc c secret type_id svc = (r, svc')"
    by (auto simp: secret_reconcile_def Let_def split: sum.splits if_splits)
  from secret_migrate_synced [OF this assms(1,2) before assms(6)] show ?thesis by blast
qed

text \<open>A cluster held in memory, and a REST service on the other side of the wire.\<close>

type_synonym memory_rest = "(string \<times> string \<Rightarrow> k8s_secret option) api_service"

definition memory_kube_client :: "memory_rest kube_client" where
  "memory_kube_client =
     \<lparr>kc_get_secret = (\<lambda>svc ns name. case as_secret_store svc (ns, name) of
          None \<Rightarrow> Inl \<lparr>ke_reason = KNotFound, ke_text = ''not found''\<rparr>
        | Some k \<Rightarrow> Inr \<lparr>ob_name = name, ob_namespace = ns, ob_labels = unwrap_or_default (ks_labels k),
            ob_annotations = unwrap_or_default (ks_annotations k), ob_data = unwrap_or_default (ks_data k)\<rparr>),
      kc_patch_secret = (\<lambda>svc old new. (Inr (), svc\<lparr>as_secret_store := (as_secret_store svc)
          ((ob_namespace new, ob_name new) := map_option (\<lambda>k. k\<lparr>ks_annotations := Some (ob_annotations new)\<rparr>)
             (as_secret_store svc (ob_namespace new, ob_name new)))\<rparr>)),
      kc_get_configmap = (\<lambda>_ _ _. Inl \<lparr>ke_reason = KNotFound, ke_text = ''not found''\<rparr>),
      kc_patch_configmap = (\<lambda>svc _ _. (Inr (), svc)),
      kc_get_init_type = (\<lambda>_ _ _. Inl \<lparr>ke_reason = KNotFound, ke_text = ''not found''\<rparr>),
      kc_update_init_type_status = (\<lambda>svc _. (Inr (), svc)),
      kc_list_services = (\<lambda>_. Inr []),
      kc_set_condition = (\<lambda>cs c. filter (\<lambda>d. kd_type d \<noteq> kd_type c) cs @ [c])\<rparr>"

definition wired_server :: "go_request \<Rightarrow> memory_rest \<Rightarrow> go_response option \<times> memory_rest" where
  "wired_server req svc =
     (case api_routes (sample_world\<lparr>rw_env := (\<lambda>_. calm\<lparr>new_uuid := ''u2''\<rparr>)\<rparr>)
         \<lparr>hc_method = gr_method req, hc_segments = [''api'', ''v1alpha1'', ''data'', drop 20 (gr_url req)],
          hc_query = [], hc_headers = gr_headers req,
          hc_json = (case gr_body req of None \<Rightarrow> Inl [] | Some v \<Rightarrow> Inr v)\<rparr> svc of
        None \<Rightarrow> (None, svc)
      | Some (resp, svc') \<Rightarrow> (Some \<lparr>gp_status = http_status resp, gp_body = []\<rparr>, svc'))"

definition wired_client :: "memory_rest go_client" where
  "wired_client =
     \<lparr>gcl_resolve_url = Some ''b'', gcl_token_file = TokenFile ''token'', gcl_new_request = (\<lambda>_. None),
      gcl_unmarshal_types = (\<lambda>_. Inr
        [\<lparr>gtr_metadata = \<lparr>grm_id = ''t1'', grm_tenant_id = ''acme'', grm_created_at = [], grm_updated_at = []\<rparr>,
          gtr_resource = \<lparr>gct_name = ''pg'', gct_label = None, gct_provider = ''postgres'', gct_description = None,
            gct_credentials_fields = [], gct_tags = []\<rparr>\<rparr>]),
      gcl_server = wired_server\<rparr>"

definition cluster_with_secret :: "string \<Rightarrow> memory_rest" where
  "cluster_with_secret display_name = sample_rest\<lparr>as_secret_store := (\<lambda>_. None)((''acme'', ''db'') \<mapsto>
     \<lparr>ks_name = Some ''db'', ks_namespace = Some ''acme'', ks_labels = None,
      ks_annotations = Some [(''opendatahub.io/connection-type-ref'', ''pg''), (''openshift.io/display-name'', display_name)],
      ks_data = None, ks_string_data = None\<rparr>)\<rparr>"

lemma wired_client_reaches_rest: "reaches_rest wired_client"
proof (unfold reaches_rest_def, intro allI impI)
  fix base meth resource hs body and svc :: memory_rest and r svc'
  let ?w = "sample_world\<lparr>rw_env := (\<lambda>_. calm\<lparr>new_uuid := ''u2''\<rparr>)\<rparr>"
  let ?call = "\<lparr>hc_method = meth, hc_segments = [''api'', ''v1alpha1'', ''data'', resource], hc_query = [],
    hc_headers = hs, hc_json = (case body of None \<Rightarrow> Inl [] | Some v \<Rightarrow> Inr v)\<rparr>"
  assume "gcl_resolve_url wired_client = Some base"
    and "gcl_server wired_client \<lparr>gr_method = meth, gr_url = rest_data_url base resource, gr_headers = hs, gr_body = body\<rparr>
        svc = (r, svc')"
  then have "(case api_routes ?w ?call svc of None \<Rightarrow> (None, svc)
      | Some (resp, svc') \<Rightarrow> (Some \<lparr>gp_status = http_status resp, gp_body = []\<rparr>, svc')) = (r, svc')"
    by (auto simp: wired_client_def wired_server_def rest_data_url_def)
  then have "api_routes ?w ?call svc = None \<and> svc' = svc \<and> r = None
      \<or> (\<exists>resp. api_routes ?w ?call svc = Some (resp, svc') \<and> r = Some \<lparr>gp_status = http_status resp, gp_body = []\<rparr>)"
    by (auto split: option.splits prod.splits)
  then show "svc' = svc \<and> (\<forall>a. r = Some a \<longrightarrow> gp_status a \<notin> {200, 201, 409}) \<or> (\<exists>w call resp. hc_method call = meth \<and> hc_segments call = [''api'', ''v1alpha1'', ''data'', resource]
       \<and> hget (hc_headers call) X_TENANT_ID = hget hs X_TENANT_ID \<and> (\<forall>v. body = Some v \<longrightarrow> hc_json call = Inr v)
       \<and> api_routes w call svc = Some (resp, svc') \<and> (\<forall>a. r = Some a \<longrightarrow> gp_status a = http_status resp))"
  proof (elim disjE exE conjE)
    fix resp
    assume "api_routes ?w ?call svc = Some (resp, svc')" "r = Some \<lparr>gp_status = http_status resp, gp_body = []\<rparr>"
    then show ?thesis
      by (intro disjI2 exI [of _ ?w] exI [of _ ?call] exI [of _ resp]) simp
  qed simp
qed

lemma memory_database_apart: "database_apart memory_kube_client"
  by (simp add: database_apart_def memory_kube_client_def)

lemma migration_of_sample:
  "case secret_reconcile memory_kube_client wired_client ''acme'' ''db'' (cluster_with_secret []) of
     (r, svc') \<Rightarrow> synced_at memory_kube_client svc' ''acme'' ''db''
       \<and> length (data_connections (as_meta_store svc')) = 2"
  by code_simp

theorem synced_secret_was_migrated_witness:
  "\<exists>r svc' secret type_id ans.
     secret_reconcile memory_kube_client wired_client ''acme'' ''db'' (cluster_with_secret []) = (r, svc')
     \<and> kc_get_secret memory_kube_client (cluster_with_secret []) ''acme'' ''db'' = Inr secret
     \<and> length (data_connections (as_meta_store svc')) = 2
     \<and> stored_or_refused (as_meta_store (cluster_with_secret [])) (as_meta_store svc') (ob_namespace secret)
         (rust_connection (migrated_connection secret type_id) Tabular (ob_name secret)) ans"
proof -
  obtain r svc' where run: "secret_reconcile memory_kube_client wired_client ''acme'' ''db'' (cluster_with_secret []) = (r, svc')"
    by fastforce
  with migration_of_sample have after: "synced_at memory_kube_client svc' ''acme'' ''db''"
    "length (data_connections (as_meta_store svc')) = 2"
    by simp_all
  obtain secret where secret: "kc_get_secret memory_kube_client (cluster_with_secret []) ''acme'' ''db'' = Inr secret"
    "\<not> is_synced secret"
    by (auto simp: memory_kube_client_def cluster_with_secret_def unwrap_or_default_def is_synced_def map_value_def
        ANNOTATION_DCH_SYNCED_def)
  from synced_secret_was_migrated [OF wired_client_reaches_rest memory_database_apart secret run after(1)] run secret after
  show ?thesis by blast
qed

text \<open>
  The name of a connection decides: a Secret whose display name is that of a connection with other credentials is
  marked as synced, although no connection takes its credentials from it.
\<close>

lemma same_display_name_is_lost:
  "case secret_reconcile memory_kube_client wired_client ''acme'' ''db'' (cluster_with_secret ''sales'') of
     (r, svc') \<Rightarrow> synced_at memory_kube_client svc' ''acme'' ''db''
       \<and> map (\<lambda>d. map_option (\<lambda>c. cr_secret (dc_credentials_ref (dcr_resource c))) (data_connection_resource_from_value d))
           (data_connections (as_meta_store svc')) = [Some ''s'']"
  by code_simp

section \<open>Promoted connection types\<close>

text \<open>
  C40. A connection type that the watcher makes of a ConfigMap is one the REST service accepts, and its form is that
  of the ConfigMap: the fields are those that carry a value, in their order, and each has a name; a field is
  sensitive exactly if the form masks it or takes a file; a field is an enumeration exactly if it has
  values, all of them named, and only then may more than one be chosen.
\<close>

theorem promoted_type_is_faithful:
  assumes "configMapToConnectionType unmarshal cm fields_json = Inr ct"
  shows "validate_type (rust_connection_type ct) = Inr ()
    \<and> (\<exists>fs. unmarshal fields_json = Inr fs
        \<and> map (\<lambda>f. (gf_name f, gf_sensitive f)) (gct_credentials_fields ct)
          = map (\<lambda>f. (of_env_var f, of_type f \<in> {''hidden'', ''file''})) (filter carries_value fs))
    \<and> list_all (\<lambda>f. gf_name f \<noteq> [] \<and> (gf_type f = ''enum'' \<longleftrightarrow> gf_enum_values f \<noteq> [])
        \<and> (gf_multiple f \<longrightarrow> gf_type f = ''enum'')
        \<and> list_all (\<lambda>ev. gev_value ev \<noteq> [] \<and> gev_label ev \<noteq> []) (gf_enum_values f)) (gct_credentials_fields ct)"
proof -
  from assms obtain fs where fs: "unmarshal fields_json = Inr fs"
    and ct: "gct_label ct = None" "gct_tags ct = []"
      "gct_credentials_fields ct = map odhFieldToField (filter carries_value fs)"
    by (auto simp: configMapToConnectionType_def result_simps)
  have "validate_type (rust_connection_type ct) = Inr ()"
    using ct by (simp add: rust_connection_type_def validate_type_def validate_label_def validate_tags_def)
  moreover have "gf_name (odhFieldToField f) = of_env_var f"
    "gf_sensitive (odhFieldToField f) = (of_type f \<in> {''hidden'', ''file''})" for f
    by (simp_all add: odhFieldToField_def Let_def)
  moreover have "gf_type (odhFieldToField f) = ''enum'' \<longleftrightarrow> gf_enum_values (odhFieldToField f) \<noteq> []"
    "gf_multiple (odhFieldToField f) \<longrightarrow> gf_type (odhFieldToField f) = ''enum''"
    "list_all (\<lambda>ev. gev_value ev \<noteq> [] \<and> gev_label ev \<noteq> []) (gf_enum_values (odhFieldToField f))" for f
    by (auto simp: odhFieldToField_def Let_def dropdown_values_def list_all_iff split: if_splits)
  ultimately show ?thesis
    using fs ct(3) by (simp add: list_all_iff carries_value_def)
qed

definition sample_odh_fields :: "odh_field list" where
  "sample_odh_fields =
     [\<lparr>of_type = ''section'', of_name = ''Login'', of_description = [], of_env_var = [], of_required = False,
       of_helper_text = [], of_variant = [], of_items = []\<rparr>,
      \<lparr>of_type = ''hidden'', of_name = ''Key'', of_description = [], of_env_var = ''KEY'', of_required = True,
       of_helper_text = ''the key'', of_variant = [], of_items = []\<rparr>,
      \<lparr>of_type = ''dropdown'', of_name = ''Zone'', of_description = [], of_env_var = ''ZONE'', of_required = False,
       of_helper_text = [], of_variant = ''multi'', of_items = [\<lparr>oi_label = [], oi_value = ''a''\<rparr>, \<lparr>oi_label = ''none'', oi_value = []\<rparr>]\<rparr>]"

theorem promoted_type_is_faithful_witness:
  "\<exists>ct. configMapToConnectionType (\<lambda>_. Inr sample_odh_fields)
       \<lparr>ob_name = ''s3'', ob_namespace = ''acme'', ob_labels = [], ob_annotations = [], ob_data = []\<rparr> [] = Inr ct
     \<and> map (\<lambda>f. (gf_name f, gf_sensitive f)) (gct_credentials_fields ct) = [(''KEY'', True), (''ZONE'', False)]
     \<and> validate_type (rust_connection_type ct) = Inr ()"
proof -
  let ?cm = "\<lparr>ob_name = ''s3'', ob_namespace = ''acme'', ob_labels = [], ob_annotations = [], ob_data = []\<rparr>"
  obtain ct where ct: "configMapToConnectionType (\<lambda>_. Inr sample_odh_fields) ?cm [] = Inr ct"
    by (simp add: configMapToConnectionType_def)
  from promoted_type_is_faithful [OF ct] ct show ?thesis
    by (auto simp: sample_odh_fields_def carries_value_def)
qed

end
