(* ===== verification/Spec2Isabelle.thy ===== *)
theory Spec2Isabelle
  imports Flight_Metrics Rest_Properties Meta_Serial Connector_Registry Controller_Migration
begin

text \<open>
  Data Connect Hub keeps descriptions of data connections for many tenants and lets its clients read
  the data behind them.  A REST service manages connections, connection types and flight services in
  a PostgreSQL database (the metadata store) and leaves credentials in Kubernetes secrets.  A flight
  service looks a connection up in the same database, takes its credentials from the secret, picks
  the connector of its provider, and streams what the connector reads as Arrow batches.  Both check
  each caller with token reviews and subject access reviews of Kubernetes.  The REST service asks
  the flight services for the state of a connection and writes the verdict to the database.  A
  controller deploys the services and feeds the REST service with resources of the cluster.

  \<^bold>\<open>Conventions.\<close>  A \<open>Result\<close> is a sum with the error on the left (\<open>Inl\<close>); a panic, or a
  loop that does not return, is \<open>None\<close>.  Strings are lists of UTF-8 bytes.  A \<open>HashMap\<close> and
  a JSON object are association lists (\<open>hget\<close>, \<open>hinsert\<close>, \<open>hremove\<close>).  Machine integers
  are words wherever they can wrap.  A stream is the list of what polling it gives.  State is passed
  explicitly: an operation returns its result and the new state; requests and commands that
  leave the program are threaded or returned as lists, so that a theorem can speak about them.  Code
  from outside the repository is a parameter (a record of functions), and what the program relies on
  is a named hypothesis on it, which a witness shows to hold for a concrete instance.

  \<^bold>\<open>Foundations.\<close>
  \<^item> \<open>Prelude\<close>: results, hash maps, lists, the collections of simplification rules.
  \<^item> \<open>Rust_Strings\<close>: the string functions of the Rust standard library.
  \<^item> \<open>Json\<close>: \<open>serde_json::Value\<close>, the JSONB operators, decoders and encoders; the locale
    \<open>json_codec\<close> is the contract of a pair of them (decoding what was encoded gives it back).
  \<^item> \<open>Api_Types\<close> (\<open>libs/commons/src/api\<close>): every resource as a record, its serde codec,
    its validation, the errors with their texts.  Every codec interprets \<open>json_codec\<close>.

  \<^bold>\<open>Metadata store\<close> (\<open>libs/pg-meta-store\<close>).
  \<^item> \<open>Sql\<close>: the three tables, the unique indexes, the statements; a transaction that fails
    changes nothing.  \<open>Meta_Store\<close>: one definition for each method of \<open>PgMetaStore\<close>.
  \<^item> \<open>Meta_Invariant\<close>, \<open>Meta_Properties\<close>: the invariant of the store, an abstract step
    relation that the operations refine, the reachable stores; referential integrity, tenant
    isolation, atomicity of errors, what an update keeps, what a read after a write gives.
    The locale \<open>resource_doc\<close> is what the documents of the three tables share.
  \<^item> \<open>Meta_Locks\<close>, \<open>Meta_Changes\<close>, \<open>Meta_Serial\<close>: the statements of a transaction with
    their row locks as the steps of a session, and any interleaving of sessions.  Each has the effect
    of a serial run in the order of the ends, keeps integrity, is finite and never deadlocks.

  \<^bold>\<open>Kubernetes\<close> (\<open>libs/kube-utils\<close>).
  \<^item> \<open>Kube_Auth\<close>: reviews with their caches.  An access is granted, and an identity given, only
    when a review said so, under the hypothesis that the keys do not collide; the locale
    \<open>review_cache\<close> states this once.
  \<^item> \<open>Secrets\<close>: the secret store over the API of the cluster.

  \<^bold>\<open>Flight service\<close> (\<open>services/flight\<close>).
  \<^item> \<open>Grpc\<close>: statuses and metadata.  \<open>Flight_Service\<close>: handlers, actions, authentication
    layer, lookup of connectors; a tenant only reaches its own connections, and the connector gets
    the credentials of the secret the connection names.
  \<^item> \<open>Flight_Metrics\<close>: the entry points with counters and gauges; every call is accounted.

  \<^bold>\<open>REST service\<close> (\<open>services/rest\<close>).
  \<^item> \<open>Flight_Client\<close>: the client of the flight services.  \<open>Rest_Errors\<close>: errors, responses,
    identity, validation of headers.  \<open>Status_Audit\<close>: the service state and the two audits.
  \<^item> \<open>Rest_Api\<close>, \<open>Rest_Properties\<close>: every endpoint and the routes.  Any request keeps the
    invariant and touches only the namespace of its tenant; inline credentials are stored as a whole
    or not at all; exports are authorised.  The locale \<open>request_relation\<close> carries a relation on
    states through all endpoints and is interpreted for both statements.

  \<^bold>\<open>Connectors\<close> (\<open>connectors\<close>, \<open>libs/format-readers\<close>, \<open>arrow_convert.rs\<close>).
  \<^item> \<open>Arrow_Convert\<close>: columns from JSON.  \<open>Paging\<close>: chunks, pages, and that a paged read is
    a slice of the whole.  \<open>Format_Readers\<close>: detection, decoding, JSON documents, Parquet ranges.
    \<open>Sql_Like\<close>: the pattern matcher against a reference definition.
  \<^item> \<open>Connector_Base\<close>: configuration and the cache of clients; the locale \<open>client_connector\<close>
    is the contract of a connector and every connector interprets it.  \<open>Http_Client\<close>: HTTP.
  \<^item> \<open>Row_Reader\<close>: rows into batches, quoting, and the locale \<open>guarded_reader\<close>: a reader that
    first makes its session read-only leaves the database as it was.
  \<^item> \<open>S3_Connector\<close>, \<open>Uri_Connector\<close>, \<open>Milvus_Connector\<close>,
    \<open>Elasticsearch_Connector\<close>, \<open>Pgvector\<close> with \<open>Postgres_Connector\<close>,
    \<open>Sqlite_Connector\<close>, \<open>Neo4j_Connector\<close>: each connector as a whole; complete listings and
    reads, batches that have the announced schema, confinement of requests, closing of resources.
  \<^item> \<open>Connector_Registry\<close>: the registry that \<open>main.rs\<close> builds; each name gives the
    connector made for it.

  \<^bold>\<open>Controller\<close> (\<open>dc-controller/internal/controller\<close>).
  \<^item> \<open>Controller_Client\<close> (\<open>restclient.go\<close>): the payloads with their JSON and the calls of the REST
    service.  The service reads exactly what the client writes.
  \<^item> \<open>Controller_Migration\<close> (\<open>secret_watcher_controller.go\<close>, \<open>configmap_watcher_controller.go\<close>,
    \<open>migration_watcher.go\<close>, \<open>initdataconnectiontype_controller.go\<close>,
    \<open>initdataconnection_controller.go\<close>): one reconcile function per controller, over the API of the cluster
    and the client.  Put together with the REST service, a Secret is marked as synced only when a connection with
    its credentials was stored for its namespace or refused as a conflict; the connection type made of a ConfigMap
    is accepted by the service and keeps the secrecy of its fields.  The hypotheses \<open>reaches_rest\<close> and
    \<open>database_apart\<close> say that calls arrive as they were sent or not at all, and that Secrets are not kept in
    the metadata store.

  \<^bold>\<open>Loops.\<close>  Loops that are not structurally recursive are \<open>partial_function (option)\<close> and
  need no fuel: \<open>like_loop\<close>, \<open>decode_chunk\<close>, \<open>row_slices\<close>, \<open>query_pages\<close>,
  \<open>pit_loop\<close>.  For each the result is proved to be \<open>Some\<close> under the stated conditions on the
  server or the decoder, so no statement about a result holds for want of one.

  \<^bold>\<open>Not modelled.\<close>
  \<^item> Libraries: sqlx, PostgreSQL beyond the statements used, opendal, reqwest, the Neo4j driver, Arrow,
    Parquet, tonic, kube.  They are parameters, since their code is not in the repository.
  \<^item> Time: expiry of cache entries, time-outs, the wait between audits.
  \<^item> Start-up: command line, configuration files, TLS, connection pools, servers and their shutdown, the
    export of metrics and traces.  This is I/O around the modelled state.
  \<^item> The controller of \<open>DataConnectService\<close> (\<open>dataconnectservice_controller.go\<close>,
    \<open>resources.go\<close>, \<open>utils.go\<close>, \<open>internal/tls\<close>): it renders manifests with kustomize, edits
    and applies them, which depends on that library and on the manifest files; its reconcile function and the
    status it writes could be modelled over the same interface to the cluster and are not yet.  Of the REST client, the transport that reloads the service CA is left out; of each controller, its registration with the manager.
  \<^item> The Python client (\<open>sdk/python\<close>), which builds requests for HTTP and Arrow Flight libraries and maps
    their errors.
  \<^item> Deployment manifests, container builds and end-to-end tests, which are no part of the program.
\<close>

end
